(* ===== verification/Exam_Prelude.thy ===== *)
theory Exam_Prelude
  imports Main "HOL-Library.Multiset" "HOL-Library.AList"
begin

text \<open>
  Shared vocabulary of the exam-session development: the decimal printing of
  numbers that the sources use in template strings (\<open>`${n}`\<close>) and their parsing
  back (\<open>parseInt\<close>), the element swap of the shuffle loop, and the lemma
  collections the component theories use.
\<close>

named_theorems exam_simps "evaluation rules of the exam-session model"

type_synonym subject = string


subsection \<open>Decimal digits (JS template strings and parseInt)\<close>

definition digit_char :: "nat \<Rightarrow> char" where
  "digit_char d = char_of (48 + d)"

definition is_digit :: "char \<Rightarrow> bool" where
  "is_digit c \<longleftrightarrow> (48::nat) \<le> of_char c \<and> of_char c \<le> (57::nat)"

definition digit_val :: "char \<Rightarrow> nat" where
  "digit_val c = of_char c - 48"

text \<open>\<open>String(n)\<close> for a non-negative integer \<open>n\<close>.\<close>

fun nat_str :: "nat \<Rightarrow> string" where
  "nat_str n = (if n < 10 then [digit_char n] else nat_str (n div 10) @ [digit_char (n mod 10)])"

declare nat_str.simps [simp del]

text \<open>\<open>parseInt\<close> of a string of decimal digits.\<close>

definition digits_val :: "string \<Rightarrow> nat" where
  "digits_val s = foldl (\<lambda>acc c. 10 * acc + digit_val c) 0 s"

text \<open>\<open>Array.prototype.join(sep)\<close> on strings.\<close>

fun join_with :: "string \<Rightarrow> string list \<Rightarrow> string" where
  "join_with sep [] = []"
| "join_with sep [s] = s"
| "join_with sep (s # ss) = s @ sep @ join_with sep ss"

text \<open>\<open>[a[i], a[j]] = [a[j], a[i]]\<close>: the right-hand side is read before either write.\<close>

definition list_swap :: "nat \<Rightarrow> nat \<Rightarrow> 'a list \<Rightarrow> 'a list" where
  "list_swap i j xs = xs[i := xs ! j, j := xs ! i]"

text \<open>Positions in a list of groups read as positions in their concatenation.\<close>

definition flat_index :: "'a list list \<Rightarrow> nat \<Rightarrow> nat \<Rightarrow> nat" where
  "flat_index xss s q = sum_list (map length (take s xss)) + q"

text \<open>The distinct elements of a list in the order of their first occurrence.\<close>

definition first_occ :: "'a list \<Rightarrow> 'a list" where
  "first_occ xs = rev (remdups (rev xs))"

text \<open>\<open>s.split(c)\<close> for a one-character separator: the pieces between the
  separators, an empty string giving one empty piece.\<close>

fun split_on :: "char \<Rightarrow> string \<Rightarrow> string list" where
  "split_on c [] = [[]]"
| "split_on c (x # xs) = (if x = c then [] # split_on c xs
                          else (case split_on c xs of w # ws \<Rightarrow> (x # w) # ws | [] \<Rightarrow> [[x]]))"

subsection \<open>Lemmas on digits\<close>

lemma digit_char_simps [simp]:
  "digit_char 0 = CHR ''0''" "digit_char (Suc 0) = CHR ''1''" "digit_char 2 = CHR ''2''"
  "digit_char 3 = CHR ''3''" "digit_char 4 = CHR ''4''" "digit_char 5 = CHR ''5''"
  "digit_char 6 = CHR ''6''" "digit_char 7 = CHR ''7''" "digit_char 8 = CHR ''8''"
  "digit_char 9 = CHR ''9''"
  by (unfold digit_char_def; code_simp)+

lemma digit_val_digit_char [simp]: "d < 10 \<Longrightarrow> digit_val (digit_char d) = d"
  by (simp add: digit_val_def digit_char_def)

lemma is_digit_digit_char [simp]: "d < 10 \<Longrightarrow> is_digit (digit_char d)"
  by (simp add: is_digit_def digit_char_def)

lemma digits_val_snoc [simp]: "digits_val (s @ [c]) = 10 * digits_val s + digit_val c"
  by (simp add: digits_val_def)

lemma digits_val_nat_str [exam_simps]: "digits_val (nat_str n) = n"
proof (induction n rule: nat_str.induct)
  case (1 n)
  show ?case
  proof (cases "n < 10")
    case True
    then show ?thesis by (simp add: nat_str.simps [of n] digits_val_def)
  next
    case False
    then have "digits_val (nat_str (n div 10)) = n div 10" using "1.IH" by simp
    with False show ?thesis by (simp add: nat_str.simps [of n])
  qed
qed

lemma nat_str_digits: "\<forall>c \<in> set (nat_str n). is_digit c"
proof (induction n rule: nat_str.induct)
  case (1 n)
  then show ?case by (subst nat_str.simps) auto
qed

lemma nat_str_nonempty [simp]: "nat_str n \<noteq> []"
  by (subst nat_str.simps) simp

lemma nat_str_inj: "nat_str m = nat_str n \<Longrightarrow> m = n"
  by (metis digits_val_nat_str)

lemma nat_str_small [exam_simps]: "n < 10 \<Longrightarrow> nat_str n = [digit_char n]"
  by (simp add: nat_str.simps)

subsection \<open>Lemmas on the swap\<close>

lemma length_list_swap [simp]: "length (list_swap i j xs) = length xs"
  by (simp add: list_swap_def)

lemma mset_list_swap [simp]:
  "i < length xs \<Longrightarrow> j < length xs \<Longrightarrow> mset (list_swap i j xs) = mset xs"
  using mset_swap [of j xs i] by (simp add: list_swap_def)

text \<open>A property of every entry survives the update of an association list
  (the object spread \<open>{...prev, [k]: v}\<close> of the sources).\<close>

lemma list_all_update [intro]: "list_all P al \<Longrightarrow> P (k, v) \<Longrightarrow> list_all P (AList.update k v al)"
  by (induction al) auto

subsection \<open>Lemmas on lists of groups\<close>

lemma nth_concat_flat:
  "s < length xss \<Longrightarrow> q < length (xss ! s) \<Longrightarrow> concat xss ! flat_index xss s q = xss ! s ! q"
proof (induction xss arbitrary: s)
  case Nil then show ?case by simp
next
  case (Cons xs xss)
  show ?case
  proof (cases s)
    case 0 then show ?thesis using Cons.prems by (simp add: flat_index_def nth_append)
  next
    case (Suc s')
    then have "concat xss ! flat_index xss s' q = xss ! s' ! q" using Cons by simp
    moreover have "flat_index (xs # xss) s q = length xs + flat_index xss s' q"
      using Suc by (simp add: flat_index_def)
    ultimately show ?thesis using Suc by (simp add: nth_append)
  qed
qed

lemma flat_index_next_group:
  "Suc s < length xss \<Longrightarrow> flat_index xss (Suc s) 0 = flat_index xss s (length (xss ! s))"
  by (simp add: flat_index_def take_Suc_conv_app_nth)

lemma flat_index_lt:
  "s < length xss \<Longrightarrow> q < length (xss ! s) \<Longrightarrow> flat_index xss s q < length (concat xss)"
proof (induction xss arbitrary: s)
  case Nil then show ?case by simp
next
  case (Cons xs xss)
  then show ?case by (cases s) (auto simp: flat_index_def)
qed

lemma length_concat_split:
  "s < length xss \<Longrightarrow> length (concat xss) =
     sum_list (map length (take s xss)) + length (xss ! s) + sum_list (map length (drop (Suc s) xss))"
proof -
  assume s: "s < length xss"
  have "xss = take s xss @ xss ! s # drop (Suc s) xss" using s by (rule id_take_nth_drop)
  then have "length (concat xss) = length (concat (take s xss @ xss ! s # drop (Suc s) xss))" by simp
  then show ?thesis by (simp add: length_concat)
qed

lemma first_occ_snoc:
  "first_occ (xs @ [x]) = first_occ xs @ (if x \<in> set xs then [] else [x])"
  by (simp add: first_occ_def)

lemma distinct_first_occ [simp]: "distinct (first_occ xs)"
  by (simp add: first_occ_def)

lemma set_first_occ [simp]: "set (first_occ xs) = set xs"
  by (simp add: first_occ_def)

lemma map_of_map_keys:
  "map_of (map (\<lambda>k. (k, F k)) ks) k = (if k \<in> set ks then Some (F k) else None)"
  by (induction ks) auto

lemma nat_int_minus_one [simp]: "nat (int n - 1) = n - 1"
  by (cases n) auto

lemma split_on_no_sep: "c \<notin> set a \<Longrightarrow> split_on c a = [a]"
  by (induction a) auto

lemma split_on_append: "c \<notin> set a \<Longrightarrow> split_on c (a @ c # b) = a # split_on c b"
  by (induction a) auto

end
