(* ===== verification/Pagination.thy ===== *)
theory Pagination
  imports Complex_Main Exam_Prelude
begin

text \<open>
  The Pagination Tracker: \<open>src/components/utils/pagination.js\<close> (the helpers
  \<open>computePrevEnabled\<close>, \<open>computeNextEnabled\<close>, \<open>clampPage\<close>) and the page-count
  formula of \<open>src/components/screens/PastStudy.tsx\<close>, line 87
  (\<open>Math.max(1, Math.ceil(Number(totalCount || 0) / 10))\<close>).
  JavaScript numbers are modelled by \<open>js_number\<close>: a finite value is a rational
  (\<open>Math.floor\<close> is \<open>floor\<close>), the non-finite values are their own constructors,
  which is all that \<open>Number.isFinite\<close> and the comparisons of \<open>clampPage\<close> need.
\<close>

datatype js_number = Finite rat | NaN | Infinity | NegInfinity

text \<open>\<open>Number.isFinite\<close>.\<close>

fun is_finite :: "js_number \<Rightarrow> bool" where
  "is_finite (Finite _) = True"
| "is_finite _ = False"

text \<open>\<open>x < c\<close> for a numeric literal \<open>c\<close>: false on NaN, as in JavaScript.\<close>

fun js_less_than :: "js_number \<Rightarrow> rat \<Rightarrow> bool" where
  "js_less_than (Finite x) c = (x < c)"
| "js_less_than NaN c = False"
| "js_less_than Infinity c = False"
| "js_less_than NegInfinity c = True"

text \<open>The page size of the question bank (\<open>PastStudy.tsx\<close>, lines 87 to 92).\<close>

definition page_size :: nat where
  "page_size = 10"

definition compute_prev_enabled :: "int \<Rightarrow> bool" where
  "compute_prev_enabled page \<longleftrightarrow> page > 1"

definition compute_next_enabled :: "int \<Rightarrow> int \<Rightarrow> bool" where
  "compute_next_enabled page total_pages \<longleftrightarrow> page < total_pages"

text \<open>\<open>clampPage\<close> (lines 9 to 13): the result is a JavaScript number, the
  page count itself when the count is the smaller, so a fractional count gives a
  fractional page.\<close>

definition clamp_page :: "js_number \<Rightarrow> js_number \<Rightarrow> rat" where
  "clamp_page target total_pages =
     (if \<not> is_finite target \<or> js_less_than target 1 then 1
      else if \<not> is_finite total_pages \<or> js_less_than total_pages 1 then 1
      else (case (target, total_pages) of
              (Finite t, Finite tp) \<Rightarrow> max 1 (min tp (of_int (floor t)))
            | _ \<Rightarrow> 1))"

text \<open>
  \<open>Math.max(1, Math.ceil(Number(totalCount || 0) / 10))\<close> for an integer count
  (a falsy count is 0, which gives the same result as the count 0 itself).
\<close>

definition total_pages_of :: "int \<Rightarrow> int" where
  "total_pages_of total_count = max 1 (ceiling (of_int total_count / (10::rat)))"

subsection \<open>Lemmas\<close>

lemma clamp_page_finite [exam_simps]:
  "1 \<le> t \<Longrightarrow> 1 \<le> tp \<Longrightarrow> clamp_page (Finite t) (Finite tp) = max 1 (min tp (of_int (floor t)))"
  by (simp add: clamp_page_def)

lemma clamp_page_ge_1: "1 \<le> clamp_page t tp"
  by (auto simp: clamp_page_def split: js_number.splits)

lemma total_pages_of_div:
  "total_pages_of n = max 1 ((n + 9) div 10)"
proof -
  have "ceiling (of_int n / (of_int 10::rat)) = - (- n div 10)"
    by (rule ceiling_divide_eq_div)
  moreover have "- (- n div 10) = (n + 9) div (10::int)"
    by presburger
  ultimately show ?thesis by (simp add: total_pages_of_def)
qed

subsection \<open>Properties\<close>

text \<open>
  C14. \<open>clampPage\<close> always returns a number in \<open>[1, totalPages]\<close> when the
  page count is a finite number of at least 1, whatever the requested target
  (NaN, infinities, fractions and out-of-range values included); the result
  is a whole page number unless it is the page count itself, so a fractional
  count (\<open>clampPage(7, 2.5) = 2.5\<close>) gives a fractional page.
\<close>

theorem clamp_page_in_range:
  assumes "1 \<le> x"
  shows "1 \<le> clamp_page t (Finite x) \<and> clamp_page t (Finite x) \<le> x
    \<and> ((\<exists>k. clamp_page t (Finite x) = of_int k) \<or> clamp_page t (Finite x) = x)"
proof (cases t)
  case (Finite r)
  have "1 \<le> r \<Longrightarrow> (1::rat) \<le> of_int (floor r)" by (simp add: le_floor_iff)
  then show ?thesis using assms Finite
    by (auto simp: clamp_page_def max_def min_def intro: exI [of _ 1] exI [of _ "floor r"])
qed (use assms in \<open>auto simp: clamp_page_def intro: exI [of _ 1]\<close>)

theorem clamp_page_in_range_witness:
  "(1::rat) \<le> 5 / 2 \<and> clamp_page NaN (Finite (5 / 2)) = 1 \<and> clamp_page (Finite 7) (Finite (5 / 2)) = 5 / 2
   \<and> clamp_page (Finite 7) (Finite (5 / 2)) \<le> 5 / 2"
  using clamp_page_in_range [of "5 / 2" NaN] clamp_page_in_range [of "5 / 2" "Finite 7"]
  by (simp add: clamp_page_def)

text \<open>
  The page count derived from a question total is \<open>max(1, ceil(total/10))\<close>:
  a total of 0 (or less) gives one page, and for a positive total the pages
  hold all questions and the last page is not empty.
\<close>

theorem total_pages_of_bounds:
  "(n \<le> 0 \<longrightarrow> total_pages_of n = 1) \<and>
   (0 < n \<longrightarrow> 10 * (total_pages_of n - 1) < n \<and> n \<le> 10 * total_pages_of n)"
  unfolding total_pages_of_div by presburger

theorem total_pages_of_bounds_witness:
  "total_pages_of 0 = 1 \<and> total_pages_of 25 = 3 \<and> 10 * (total_pages_of 25 - 1) < 25"
  using total_pages_of_bounds [of 25] total_pages_of_bounds [of 0]
  by (simp add: total_pages_of_div)

text \<open>
  C15. On a valid page (\<open>1 \<le> p \<le> totalPages\<close>) the enabling helpers agree with
  the clamp: Next is enabled exactly when clamping \<open>p + 1\<close> moves the page, Prev
  exactly when clamping \<open>p - 1\<close> does, and a valid page is its own clamp.
\<close>

theorem pager_enabled_iff_clamp_moves:
  assumes "1 \<le> p" and "p \<le> tp"
  shows "clamp_page (Finite (of_int p)) (Finite (of_int tp)) = of_int p
    \<and> (compute_next_enabled p tp \<longleftrightarrow> clamp_page (Finite (of_int (p + 1))) (Finite (of_int tp)) \<noteq> of_int p)
    \<and> (compute_prev_enabled p \<longleftrightarrow> clamp_page (Finite (of_int (p - 1))) (Finite (of_int tp)) \<noteq> of_int p)"
  using assms
  by (auto simp: clamp_page_def compute_next_enabled_def compute_prev_enabled_def)

theorem pager_enabled_iff_clamp_moves_witness:
  "clamp_page (Finite 2) (Finite 3) = 2 \<and> compute_next_enabled 2 3 \<and> compute_prev_enabled 2
   \<and> \<not> compute_next_enabled 3 3"
  using pager_enabled_iff_clamp_moves [of 2 3] pager_enabled_iff_clamp_moves [of 3 3]
  by (simp add: clamp_page_def compute_next_enabled_def compute_prev_enabled_def)

end
