(* ===== verification/Js_Values.thy ===== *)
theory Js_Values
  imports Pagination
begin

text \<open>
  The JavaScript values that cross the network boundary (the JSON of the
  question-bank service) and the operators the sources apply to them: truthiness
  and \<open>||\<close>, nullishness and \<open>??\<close>, optional property access \<open>q?.f\<close>,
  \<open>String(v)\<close>, \<open>Number(v)\<close>, \<open>Object.values\<close> and \<open>Array.prototype.slice\<close>.
  Numbers are integers here (the service sends integer counts); \<open>Number\<close> of a
  string is modelled for the empty string and strings of decimal digits, any other
  string giving NaN (JavaScript also accepts signs, fractions, exponents, hex and
  surrounding blanks).
\<close>

datatype jsval =
    JUndefined
  | JNull
  | JBool bool
  | JNum int
  | JStr string
  | JArr "jsval list"
  | JObj "(string \<times> jsval) list"

fun truthy :: "jsval \<Rightarrow> bool" where
  "truthy JUndefined = False"
| "truthy JNull = False"
| "truthy (JBool b) = b"
| "truthy (JNum n) = (n \<noteq> 0)"
| "truthy (JStr s) = (s \<noteq> [])"
| "truthy (JArr _) = True"
| "truthy (JObj _) = True"

fun nullish :: "jsval \<Rightarrow> bool" where
  "nullish JUndefined = True"
| "nullish JNull = True"
| "nullish _ = False"

text \<open>\<open>a || b\<close> and \<open>a ?? b\<close>.\<close>

definition js_or :: "jsval \<Rightarrow> jsval \<Rightarrow> jsval" where
  "js_or a b = (if truthy a then a else b)"

definition js_coalesce :: "jsval \<Rightarrow> jsval \<Rightarrow> jsval" where
  "js_coalesce a b = (if nullish a then b else a)"

text \<open>\<open>v?.f\<close>: the own property \<open>f\<close> of an object, \<open>undefined\<close> otherwise.\<close>

fun get_field :: "jsval \<Rightarrow> string \<Rightarrow> jsval" where
  "get_field (JObj kvs) f = (case map_of kvs f of Some v \<Rightarrow> v | None \<Rightarrow> JUndefined)"
| "get_field _ f = JUndefined"

definition int_str :: "int \<Rightarrow> string" where
  "int_str n = (if n < 0 then CHR ''-'' # nat_str (nat (- n)) else nat_str (nat n))"

text \<open>\<open>String(v)\<close>; an array prints its elements joined by commas, with \<open>null\<close> and
  \<open>undefined\<close> elements printed empty.\<close>

fun js_to_string :: "jsval \<Rightarrow> string" where
  "js_to_string JUndefined = ''undefined''"
| "js_to_string JNull = ''null''"
| "js_to_string (JBool b) = (if b then ''true'' else ''false'')"
| "js_to_string (JNum n) = int_str n"
| "js_to_string (JStr s) = s"
| "js_to_string (JArr vs) =
     join_with '','' (map (\<lambda>v. if nullish v then [] else js_to_string v) vs)"
| "js_to_string (JObj _) = ''[object Object]''"

text \<open>
  \<open>Object.entries\<close> and \<open>Object.values\<close> of an object given by its entries in
  insertion order: the array-index keys (canonical decimal strings)
  come first in ascending numeric order, then the other keys in insertion order.
\<close>

definition is_index_key :: "string \<Rightarrow> bool" where
  "is_index_key k \<longleftrightarrow> k \<noteq> [] \<and> (\<forall>c \<in> set k. is_digit c) \<and> (k = ''0'' \<or> hd k \<noteq> CHR ''0'')
     \<and> digits_val k < 2 ^ 32 - 1"

definition object_entries :: "(string \<times> 'a) list \<Rightarrow> (string \<times> 'a) list" where
  "object_entries kvs =
     sort_key (\<lambda>kv. digits_val (fst kv)) (filter (\<lambda>kv. is_index_key (fst kv)) kvs)
     @ filter (\<lambda>kv. \<not> is_index_key (fst kv)) kvs"

definition object_values :: "(string \<times> jsval) list \<Rightarrow> jsval list" where
  "object_values kvs = map snd (object_entries kvs)"

text \<open>\<open>Object.keys\<close>, in the same order.\<close>

definition object_keys :: "(string \<times> 'a) list \<Rightarrow> string list" where
  "object_keys kvs = map fst (object_entries kvs)"

text \<open>\<open>Number(s)\<close> on a string, within the fragment described above.\<close>

definition str_to_number :: "string \<Rightarrow> js_number" where
  "str_to_number s =
     (if s = [] then Finite 0
      else if \<forall>c \<in> set s. is_digit c then Finite (of_nat (digits_val s)) else NaN)"

fun js_to_number :: "jsval \<Rightarrow> js_number" where
  "js_to_number JUndefined = NaN"
| "js_to_number JNull = Finite 0"
| "js_to_number (JBool b) = Finite (if b then 1 else 0)"
| "js_to_number (JNum n) = Finite (of_int n)"
| "js_to_number (JStr s) = str_to_number s"
| "js_to_number (JArr vs) = str_to_number (js_to_string (JArr vs))"
| "js_to_number (JObj _) = NaN"

text \<open>\<open>Array.prototype.slice(start, end)\<close> with JavaScript's treatment of negative
  and out-of-range bounds.\<close>

definition js_index :: "int \<Rightarrow> int \<Rightarrow> nat" where
  "js_index len i = nat (if i < 0 then max 0 (len + i) else min i len)"

definition js_slice :: "'a list \<Rightarrow> int \<Rightarrow> int \<Rightarrow> 'a list" where
  "js_slice xs s e =
     (let len = int (length xs); a = js_index len s; b = js_index len e
      in take (b - a) (drop a xs))"

text \<open>\<open>a > b\<close> of a number and an integer (false on NaN).\<close>

text \<open>A screen parameter that carries a \<open>JSON.stringify\<close>d payload, as
  \<open>params.x ? JSON.parse(String(params.x)) : []\<close> inside \<open>try\<close> reads it: absent
  (or empty), not parseable (the \<open>catch\<close> branch), or the payload.\<close>

datatype 'a json_param = ParamAbsent | ParamMalformed | ParamJson 'a

definition parse_list_param :: "'a list json_param \<Rightarrow> 'a list" where
  "parse_list_param p = (case p of ParamJson xs \<Rightarrow> xs | _ \<Rightarrow> [])"

text \<open>A navigation of \<open>expo-router\<close>: \<open>router.back()\<close>, or \<open>router.push\<close> of a
  pathname with its parameters. A parameter is a string, or the
  \<open>JSON.stringify\<close> of a value, which the target screen reads back with
  \<open>JSON.parse\<close> (the round trip is taken as the identity); a parameter whose value
  is \<open>undefined\<close> is dropped from the URL, so it is absent from the list.\<close>

datatype route_param = PStr string | PJson jsval

datatype route = GoBack | Push string "(string \<times> route_param) list"

text \<open>The members an object literal inherits from \<open>Object.prototype\<close>: reading
  \<open>obj[k]\<close> for one of these names gives a function (or the prototype), not
  \<open>undefined\<close>.\<close>

definition proto_keys :: "string list" where
  "proto_keys = [''constructor'', ''__proto__'', ''toString'', ''toLocaleString'', ''valueOf'',
     ''hasOwnProperty'', ''isPrototypeOf'', ''propertyIsEnumerable'', ''__defineGetter__'',
     ''__defineSetter__'', ''__lookupGetter__'', ''__lookupSetter__'']"

fun js_greater :: "js_number \<Rightarrow> int \<Rightarrow> bool" where
  "js_greater (Finite x) n = (x > of_int n)"
| "js_greater NaN n = False"
| "js_greater Infinity n = True"
| "js_greater NegInfinity n = False"

subsection \<open>Lemmas\<close>

lemma js_or_simps [simp]:
  "truthy a \<Longrightarrow> js_or a b = a"
  "\<not> truthy a \<Longrightarrow> js_or a b = b"
  by (simp_all add: js_or_def)

lemma js_coalesce_simps [simp]:
  "nullish a \<Longrightarrow> js_coalesce a b = b"
  "\<not> nullish a \<Longrightarrow> js_coalesce a b = a"
  by (simp_all add: js_coalesce_def)

lemma js_slice_nonneg [exam_simps]:
  "0 \<le> s \<Longrightarrow> s \<le> e \<Longrightarrow> js_slice xs s e = take (nat e - nat s) (drop (nat s) xs)"
proof -
  assume a: "0 \<le> s" "s \<le> e"
  show ?thesis
  proof (cases "e \<le> int (length xs)")
    case True
    with a show ?thesis by (simp add: js_slice_def js_index_def Let_def)
  next
    case False
    then have "length (drop (nat (min s (int (length xs)))) xs) \<le> nat e - nat (min s (int (length xs)))"
      by auto
    with a False show ?thesis
      by (cases "s \<le> int (length xs)") (auto simp: js_slice_def js_index_def min_def)
  qed
qed

lemma length_js_slice_le: "0 \<le> s \<Longrightarrow> 0 \<le> k \<Longrightarrow> length (js_slice xs s (s + k)) \<le> nat k"
  by (simp add: js_slice_nonneg)

lemma set_js_slice: "set (js_slice xs s e) \<subseteq> set xs"
  by (auto simp: js_slice_def Let_def dest: in_set_takeD in_set_dropD)

lemma mset_object_entries: "mset (object_entries kvs) = mset kvs"
  by (simp add: object_entries_def)

lemma object_keys_perm: "mset (object_keys kvs) = mset (map fst kvs)"
  by (simp add: object_keys_def mset_object_entries)

lemma set_object_keys [simp]: "set (object_keys kvs) = set (map fst kvs)"
  using object_keys_perm by (metis set_mset_mset)

lemma distinct_object_keys: "distinct (map fst kvs) \<Longrightarrow> distinct (object_keys kvs)"
  using object_keys_perm by (metis distinct_count_atmost_1 set_mset_mset)

end
