(* ===== verification/Questions.thy ===== *)
theory Questions
  imports Js_Values
begin

text \<open>
  The Question Source Adapter. A question (\<open>type Question\<close> of
  \<open>src/components/screens/PastStudy.tsx\<close> and
  \<open>src/components/data/sampleQuestions.ts\<close>) keeps its text fields as the
  JavaScript values the adapter stored, since \<open>q?.answer || q?.correct\<close> does not
  convert a number to a string while the options are passed through \<open>String\<close>.
  \<open>normalize_question\<close> is the \<open>qData.map\<close> callback (lines 69 to 84),
  \<open>sample_questions\<close> the fixed local bank, \<open>load_page\<close> the body of the
  loading effect (lines 61 to 107): the network answer is \<open>Some r\<close>, a rejected
  request \<open>None\<close> (the \<open>catch\<close> branch).
\<close>

record question =
  q_instruction :: jsval
  q_question :: jsval
  q_options :: "string list"
  q_answer :: jsval
  q_correction :: jsval

subsection \<open>Normalisation of upstream records\<close>

text \<open>\<open>q?.options ?? q?.choices ?? []\<close>, then an array is kept, an object gives its
  values and anything else the empty list.\<close>

definition raw_options :: "jsval \<Rightarrow> jsval list" where
  "raw_options q =
     (case js_coalesce (js_coalesce (get_field q ''options'') (get_field q ''choices'')) (JArr []) of
        JArr vs \<Rightarrow> vs
      | JObj kvs \<Rightarrow> object_values kvs
      | _ \<Rightarrow> [])"

definition normalize_question :: "jsval \<Rightarrow> question" where
  "normalize_question q =
     \<lparr>q_instruction = js_or (js_or (get_field q ''instruction'') (get_field q ''question_instruction'')) JUndefined,
      q_question = js_or (js_or (get_field q ''question'') (get_field q ''text'')) JUndefined,
      q_options = map js_to_string (raw_options q),
      q_answer = js_or (js_or (get_field q ''answer'') (get_field q ''correct'')) JUndefined,
      q_correction = js_or (js_or (get_field q ''correction'') (get_field q ''explanation'')) JUndefined\<rparr>"

subsection \<open>The local sample bank\<close>

text \<open>Characters outside ASCII are written as their UTF-8 bytes.\<close>

definition apos :: string where "apos = [CHR 0x27]"
definition em_dash :: string where "em_dash = [CHR 0xE2, CHR 0x80, CHR 0x94]"
definition minus_sign :: string where "minus_sign = [CHR 0xE2, CHR 0x88, CHR 0x92]"
definition right_arrow :: string where "right_arrow = [CHR 0xE2, CHR 0x86, CHR 0x92]"
definition sup_two :: string where "sup_two = [CHR 0xC2, CHR 0xB2]"

definition sample_q ::
  "string option \<Rightarrow> string \<Rightarrow> string list \<Rightarrow> string \<Rightarrow> string \<Rightarrow> question" where
  "sample_q ins qu opts ans corr =
     \<lparr>q_instruction = (case ins of None \<Rightarrow> JUndefined | Some s \<Rightarrow> JStr s),
      q_question = JStr qu, q_options = opts, q_answer = JStr ans, q_correction = JStr corr\<rparr>"

definition sample_base :: "question list" where
  "sample_base =
    [sample_q (Some ''Choose the option that best completes the gap(s)... [Read More]'')
       (''You'' @ apos @ ''d rather not attend the meeting '' @ em_dash @ em_dash)
       [''would you'', ''wouldn'' @ apos @ ''t you'', ''did you'', ''didn'' @ apos @ ''t you'']
       (''wouldn'' @ apos @ ''t you'')
       (''The correct tag for a negative preference uses '' @ apos @ ''wouldn'' @ apos @ ''t you'' @ apos @ ''.''),
     sample_q None
       (apos @ ''To have a chip on one'' @ apos @ ''s shoulder'' @ apos @ '' suggests that someone'')
       [''is carrying a heavy load'', ''has an injury'', ''is resentful about something'',
        ''is feeling triumphant'']
       ''is resentful about something''
       ''The idiom means bearing a grudge or resentment.'']"

definition sample_banks :: "question list" where
  "sample_banks =
    [sample_q None ''Which organelle is responsible for energy production in cells?''
       [''Golgi apparatus'', ''Mitochondria'', ''Nucleus'', ''Ribosome''] ''Mitochondria''
       ''Mitochondria carry out cellular respiration producing ATP.'',
     sample_q None (''Simplify: 2x + 3x '' @ minus_sign @ '' x'')
       [''4x'', ''3x'', ''2x'', ''5x''] ''4x''
       (''2x + 3x '' @ minus_sign @ '' x = (2 + 3 '' @ minus_sign @ '' 1)x = 4x.''),
     sample_q None ''Which is a chemical property of matter?''
       [''Density'', ''Boiling point'', ''Reactivity'', ''Color''] ''Reactivity''
       ''Reactivity describes how a substance interacts chemically.'',
     sample_q None (''The past participle of '' @ apos @ ''go'' @ apos @ '' is'')
       [''went'', ''gone'', ''go'', ''going''] ''gone''
       (''Go '' @ right_arrow @ '' went '' @ right_arrow @ '' gone.''),
     sample_q None (''Nigeria'' @ apos @ ''s capital city is'')
       [''Lagos'', ''Abuja'', ''Ibadan'', ''Kano''] ''Abuja''
       ''Abuja became the capital in 1991.'',
     sample_q None ''Which law states that current is directly proportional to voltage?''
       [''Boyle'' @ apos @ ''s law'', ''Ohm'' @ apos @ ''s law'', ''Newton'' @ apos @ ''s first law'',
        ''Hooke'' @ apos @ ''s law''] (''Ohm'' @ apos @ ''s law'')
       ''V = IR.'',
     sample_q (Some ''Read the sentence and choose the correct synonym.'')
       (''Select the synonym of '' @ apos @ ''benevolent'' @ apos)
       [''kind'', ''hostile'', ''stingy'', ''rude''] ''kind''
       ''Benevolent means kind or charitable.'',
     sample_q None (''Which gas is most abundant in Earth'' @ apos @ ''s atmosphere?'')
       [''Oxygen'', ''Nitrogen'', ''Carbon dioxide'', ''Argon''] ''Nitrogen''
       ''Nitrogen is about 78% of the atmosphere.'',
     sample_q None (''Find the value: 7'' @ sup_two @ '' '' @ minus_sign @ '' 5'' @ sup_two)
       [''24'', ''12'', ''49'', ''25''] ''24''
       (''49 '' @ minus_sign @ '' 25 = 24.''),
     sample_q None ''Which layer of the plant is responsible for photosynthesis?''
       [''Xylem'', ''Phloem'', ''Mesophyll'', ''Epidermis''] ''Mesophyll''
       ''Chloroplasts are abundant in mesophyll cells.'']"

definition sample_all :: "question list" where
  "sample_all = sample_base @ sample_banks"

text \<open>One iteration of the loop of \<open>sampleQuestions()\<close>.\<close>

definition sample_item :: "nat \<Rightarrow> question" where
  "sample_item i =
     (let b = sample_all ! (i mod length sample_all)
      in b\<lparr>q_question := (if truthy (q_question b)
                            then JStr (js_to_string (q_question b) @ '' ('' @ nat_str (i + 1) @ '')'')
                            else JUndefined)\<rparr>)"

definition sample_questions :: "question list" where
  "sample_questions = map sample_item [0..<50]"

subsection \<open>Loading one page\<close>

text \<open>
  The response shape of the question-bank service (\<open>src/services\<close> is not part of
  the repository): \<open>{data: {questions: [...], pagination: {total}}}\<close>.
\<close>

definition service_page :: "jsval list \<Rightarrow> int \<Rightarrow> jsval" where
  "service_page xs t =
     JObj [(''data'', JObj [(''questions'', JArr xs), (''pagination'', JObj [(''total'', JNum t)])])]"

text \<open>\<open>Math.max(1, Math.ceil(n / 10))\<close> on a JavaScript number.\<close>

fun js_page_count :: "js_number \<Rightarrow> js_number" where
  "js_page_count (Finite x) = Finite (of_int (max 1 (ceiling (x / 10))))"
| "js_page_count NaN = NaN"
| "js_page_count Infinity = Infinity"
| "js_page_count NegInfinity = Finite 1"

definition page_start :: "int \<Rightarrow> int" where
  "page_start page = (page - 1) * 10"

definition load_page :: "int \<Rightarrow> jsval option \<Rightarrow> question list \<times> js_number" where
  "load_page page res =
     (case res of
        None \<Rightarrow>
          (let samples = sample_questions;
               pg = total_pages_of (int (length samples));
               start = page_start page
           in (js_slice samples start (start + 10), Finite (of_int pg)))
      | Some r \<Rightarrow>
          (let data = get_field r ''data'';
               qData = js_or (get_field data ''questions'') (JArr []);
               normalized = (case qData of JArr xs \<Rightarrow> map normalize_question xs | _ \<Rightarrow> []);
               totalCount = js_coalesce (get_field (get_field data ''pagination'') ''total'')
                              (JNum (int (length normalized)));
               n = js_to_number (js_or totalCount (JNum 0));
               pg = js_page_count n;
               start = page_start page;
               shouldSlice = (length normalized > 10 \<or> js_greater n (int (length normalized)));
               pageItems = (if shouldSlice then js_slice normalized start (start + 10) else normalized);
               fallbackItems = js_slice sample_questions start (start + 10)
           in (if pageItems \<noteq> [] then pageItems else fallbackItems, pg)))"

subsection \<open>Lemmas\<close>

lemma length_sample_all: "length sample_all = 12"
  by (simp add: sample_all_def sample_base_def sample_banks_def)

lemma sample_all_answer_in_options:
  "\<forall>q \<in> set sample_all. \<exists>a. q_answer q = JStr a \<and> a \<in> set (q_options q)"
  by (simp add: sample_all_def sample_base_def sample_banks_def sample_q_def)

lemma length_sample_questions [simp]: "length sample_questions = 50"
  by (simp add: sample_questions_def)

lemma sample_item_fields:
  "q_answer (sample_item i) = q_answer (sample_all ! (i mod 12))
   \<and> q_options (sample_item i) = q_options (sample_all ! (i mod 12))"
  by (simp add: sample_item_def length_sample_all Let_def)

lemma length_js_slice_10: "length (js_slice xs s (s + 10)) \<le> 10"
  by (auto simp: js_slice_def js_index_def Let_def)

lemma page_start_ge_10: "2 \<le> page \<Longrightarrow> 10 \<le> page_start page"
  by (simp add: page_start_def)

lemma load_page_None [exam_simps]:
  "load_page page None = (js_slice sample_questions (page_start page) (page_start page + 10), Finite 5)"
  by (simp add: load_page_def total_pages_of_div Let_def)

lemma length_load_page_le: "length (fst (load_page page res)) \<le> 10"
proof (cases res)
  case None
  then show ?thesis using length_js_slice_10 by (simp add: load_page_None)
next
  case (Some r)
  then show ?thesis
    using length_js_slice_10 by (auto simp: load_page_def Let_def not_less)
qed

lemma sample_page_slice:
  assumes "k < 5" shows
  "js_slice sample_questions (int (10 * k)) (int (10 * k) + 10) = map sample_item [10 * k..<10 * k + 10]"
proof -
  have "nat (int (10 * k)) = 10 * k" "nat (int (10 * k) + 10) = 10 * k + 10" by simp_all
  moreover have "10 * k + 10 \<le> 50" using assms by simp
  ultimately show ?thesis by (simp add: js_slice_nonneg sample_questions_def take_map drop_map take_upt)
qed

lemma sample_page_1: "js_slice sample_questions 0 10 = map sample_item [0..<10]"
  using sample_page_slice [of 0] by simp

lemma sample_page_2: "js_slice sample_questions 10 20 = map sample_item [10..<20]"
  using sample_page_slice [of 1] by simp

subsection \<open>Properties\<close>

text \<open>
  Every question of the local sample bank has a string answer that is one of
  its options, so the fallback data satisfies the invariant the scoring relies on.
\<close>

theorem sample_questions_answer_in_options:
  "length sample_questions = 50 \<and>
   (\<forall>q \<in> set sample_questions. \<exists>a. q_answer q = JStr a \<and> a \<in> set (q_options q))"
proof -
  have "\<exists>a. q_answer q = JStr a \<and> a \<in> set (q_options q)" if "q \<in> set sample_questions" for q
  proof -
    from that obtain i where q: "q = sample_item i" by (auto simp: sample_questions_def)
    have "sample_all ! (i mod 12) \<in> set sample_all" using length_sample_all by simp
    then show ?thesis using sample_all_answer_in_options sample_item_fields q by metis
  qed
  then show ?thesis by simp
qed

theorem sample_questions_answer_in_options_witness:
  "length sample_questions = 50 \<and> sample_questions ! 7 \<in> set sample_questions
   \<and> (\<exists>a. q_answer (sample_questions ! 7) = JStr a \<and> a \<in> set (q_options (sample_questions ! 7)))"
proof -
  have m: "sample_questions ! 7 \<in> set sample_questions" by (simp add: nth_mem)
  then show ?thesis using sample_questions_answer_in_options by simp
qed

text \<open>
  A loaded page never holds more than ten questions, whatever the service
  answers (including a failed request and out-of-range pages).
\<close>

theorem load_page_at_most_10: "length (fst (load_page page res)) \<le> 10"
  by (rule length_load_page_le)

text \<open>
  C16. When the request fails, the page is the slice of the fixed sample bank at
  the same offset and the page count is 5; the first five pages are full, and any
  later page is empty, so the fallback does not keep the screen filled beyond page 5.
\<close>

theorem load_page_failure_fallback:
  "load_page page None = (js_slice sample_questions (page_start page) (page_start page + 10), Finite 5)
   \<and> (1 \<le> page \<and> page \<le> 5 \<longrightarrow> length (fst (load_page page None)) = 10)
   \<and> (5 < page \<longrightarrow> fst (load_page page None) = [])"
  by (auto simp: load_page_None js_slice_nonneg page_start_def)

theorem load_page_failure_fallback_witness:
  "load_page 3 None = (js_slice sample_questions 20 30, Finite 5)
   \<and> (1 \<le> (3::int) \<and> (3::int) \<le> 5) \<and> length (fst (load_page 3 None)) = 10
   \<and> (5 < (6::int)) \<and> fst (load_page 6 None) = []"
  using load_page_failure_fallback [of 3] load_page_failure_fallback [of 6]
  by (simp add: page_start_def js_slice_nonneg)

text \<open>
  C17. With a service that pages its answer (at most ten questions and a
  \<open>pagination.total\<close> above that number), page 1 shows the service's questions, but
  on every page from 2 on the adapter re-slices the already-paged list at offset
  \<open>(page - 1) * 10\<close>, finds it empty and shows the sample bank instead.
\<close>

theorem load_page_server_pages:
  assumes "length xs \<le> 10" and "int (length xs) < t"
  shows "(xs \<noteq> [] \<longrightarrow> fst (load_page 1 (Some (service_page xs t))) = map normalize_question xs)
    \<and> (2 \<le> page \<longrightarrow> fst (load_page page (Some (service_page xs t)))
                          = js_slice sample_questions (page_start page) (page_start page + 10))"
proof -
  have t: "0 < t" using assms(2) by simp
  have n: "js_to_number (js_or (JNum t) (JNum 0)) = Finite (of_int t)" using t by simp
  have g: "js_greater (Finite (of_int t)) (int (length xs))" using assms(2) by simp
  have first: "xs \<noteq> [] \<Longrightarrow> fst (load_page 1 (Some (service_page xs t))) = map normalize_question xs"
    using assms(1) n g
    by (simp add: service_page_def load_page_def Let_def page_start_def js_slice_nonneg)
  have later: "fst (load_page page (Some (service_page xs t)))
                 = js_slice sample_questions (page_start page) (page_start page + 10)"
    if p: "2 \<le> page"
  proof -
    have "js_slice (map normalize_question xs) (page_start page) (page_start page + 10) = []"
      using assms(1) page_start_ge_10 [OF p] by (simp add: js_slice_nonneg)
    then show ?thesis using n g by (simp add: service_page_def load_page_def Let_def)
  qed
  from first later show ?thesis by blast
qed

theorem load_page_server_pages_witness:
  "length [JObj []] \<le> 10 \<and> int (length [JObj []]) < 25 \<and> (2::int) \<le> 2
   \<and> fst (load_page 1 (Some (service_page [JObj []] 25))) = [normalize_question (JObj [])]
   \<and> fst (load_page 2 (Some (service_page [JObj []] 25))) = js_slice sample_questions 10 20"
  using load_page_server_pages [of "[JObj []]" 25 2] by (simp add: page_start_def)

end
