(* ===== verification/Shuffle.thy ===== *)
theory Shuffle
  imports Questions "HOL-Library.Stream"
begin

text \<open>
  The Shuffle Engine of \<open>src/components/screens/PastStudy.tsx\<close>: \<open>shuffleArray\<close>
  (lines 115 to 122, Fisher-Yates) and the memoised \<open>displayedQuestions\<close>
  (lines 138 to 157). \<open>Math.random()\<close> is a stream of draws, consumed in the
  order the calls happen; a draw is a rational in \<open>[0, 1)\<close> and the products
  \<open>Math.random() * (i + 1)\<close> are computed exactly (floating-point rounding of the
  product is not modelled).
\<close>

type_synonym draws = "rat stream"

definition valid_draws :: "draws \<Rightarrow> bool" where
  "valid_draws rs \<longleftrightarrow> (\<forall>r \<in> sset rs. 0 \<le> r \<and> r < 1)"

text \<open>\<open>Math.floor(Math.random() * (i + 1))\<close>.\<close>

definition rand_index :: "rat \<Rightarrow> nat \<Rightarrow> nat" where
  "rand_index r i = nat (floor (r * of_nat (Suc i)))"

text \<open>The loop \<open>for (let i = n - 1; i > 0; i--)\<close>, from the index \<open>i\<close> down to 1.\<close>

fun fy_loop :: "nat \<Rightarrow> 'a list \<Rightarrow> draws \<Rightarrow> 'a list \<times> draws" where
  "fy_loop 0 xs rs = (xs, rs)"
| "fy_loop (Suc i) xs rs =
     (let j = rand_index (shd rs) (Suc i) in fy_loop i (list_swap (Suc i) j xs) (stl rs))"

definition shuffle_array :: "'a list \<Rightarrow> draws \<Rightarrow> 'a list \<times> draws" where
  "shuffle_array xs rs = fy_loop (length xs - 1) xs rs"

text \<open>\<open>processed.map(q => ({...q, options: shuffleArray(q.options)}))\<close>: the
  callbacks run left to right, each drawing from the same generator.\<close>

fun shuffle_options :: "question list \<Rightarrow> draws \<Rightarrow> question list \<times> draws" where
  "shuffle_options [] rs = ([], rs)"
| "shuffle_options (q # qs) rs =
     (let (os, rs1) = shuffle_array (q_options q) rs;
          (qs', rs2) = shuffle_options qs rs1
      in (q\<lparr>q_options := os\<rparr> # qs', rs2))"

text \<open>Two questions that differ at most in the order of their options.\<close>

definition same_but_options :: "question \<Rightarrow> question \<Rightarrow> bool" where
  "same_but_options q q' \<longleftrightarrow>
     q' = q\<lparr>q_options := q_options q'\<rparr> \<and> mset (q_options q') = mset (q_options q)"

definition displayed_questions ::
  "question list \<Rightarrow> bool \<Rightarrow> bool \<Rightarrow> draws \<Rightarrow> question list \<times> draws" where
  "displayed_questions orig shuf shuf_opts rs =
     (if orig = [] then ([], rs)
      else (let (p1, rs1) = (if shuf then shuffle_array orig rs else (orig, rs))
            in if shuf_opts then shuffle_options p1 rs1 else (p1, rs1)))"

subsection \<open>Lemmas\<close>

lemma valid_draws_stl [intro]: "valid_draws rs \<Longrightarrow> valid_draws (stl rs)"
  by (simp add: valid_draws_def stl_sset)

lemma valid_draws_shd: "valid_draws rs \<Longrightarrow> 0 \<le> shd rs \<and> shd rs < 1"
  by (simp add: valid_draws_def shd_sset)

lemma valid_draws_SCons [simp]:
  "valid_draws (r ## rs) \<longleftrightarrow> 0 \<le> r \<and> r < 1 \<and> valid_draws rs"
  by (auto simp: valid_draws_def)

lemma valid_draws_sconst [simp]: "0 \<le> r \<Longrightarrow> r < 1 \<Longrightarrow> valid_draws (sconst r)"
  by (simp add: valid_draws_def)

lemma rand_index_le: "0 \<le> r \<Longrightarrow> r < 1 \<Longrightarrow> rand_index r i \<le> i"
proof -
  assume r: "0 \<le> r" "r < 1"
  have "r * of_nat (Suc i) < of_nat (Suc i)" using r by simp
  then have "floor (r * of_nat (Suc i)) < int (Suc i)"
    by (simp add: floor_less_iff)
  then show ?thesis by (simp add: rand_index_def)
qed

lemma rand_index_exact: "j \<le> i \<Longrightarrow> rand_index (of_nat j / of_nat (Suc i)) i = j"
  by (simp add: rand_index_def)

lemma fy_loop_mset:
  "Suc i \<le> length xs \<Longrightarrow> valid_draws rs \<Longrightarrow> mset (fst (fy_loop i xs rs)) = mset xs"
proof (induction i xs rs rule: fy_loop.induct)
  case (1 xs rs)
  then show ?case by simp
next
  case (2 i xs rs)
  let ?j = "rand_index (shd rs) (Suc i)"
  have "?j \<le> Suc i" using valid_draws_shd [OF "2.prems"(2)] by (simp add: rand_index_le)
  then have m: "mset (list_swap (Suc i) ?j xs) = mset xs" using "2.prems"(1) by simp
  have "mset (fst (fy_loop i (list_swap (Suc i) ?j xs) (stl rs))) = mset (list_swap (Suc i) ?j xs)"
    using "2.IH" [OF refl] "2.prems" by auto
  with m show ?case by (simp add: Let_def)
qed

lemma length_fy_loop [simp]: "length (fst (fy_loop i xs rs)) = length xs"
  by (induction i xs rs rule: fy_loop.induct) (simp_all add: Let_def)

lemma mset_shuffle_array [exam_simps]:
  "valid_draws rs \<Longrightarrow> mset (fst (shuffle_array xs rs)) = mset xs"
proof (cases xs)
  case Nil
  then show ?thesis by (simp add: shuffle_array_def)
next
  case (Cons x ys)
  assume "valid_draws rs"
  with Cons show ?thesis by (simp add: shuffle_array_def fy_loop_mset)
qed

lemma fy_loop_valid_draws: "valid_draws rs \<Longrightarrow> valid_draws (snd (fy_loop i xs rs))"
  by (induction i xs rs rule: fy_loop.induct) (auto simp: Let_def)

lemma shuffle_array_valid_draws: "valid_draws rs \<Longrightarrow> valid_draws (snd (shuffle_array xs rs))"
  by (simp add: shuffle_array_def fy_loop_valid_draws)

lemma length_shuffle_array [simp]: "length (fst (shuffle_array xs rs)) = length xs"
  by (simp add: shuffle_array_def)

lemma length_shuffle_options [simp]: "length (fst (shuffle_options qs rs)) = length qs"
proof (induction qs arbitrary: rs)
  case Nil
  then show ?case by simp
next
  case (Cons q qs)
  obtain os rs1 where sa: "shuffle_array (q_options q) rs = (os, rs1)" by fastforce
  obtain qs' rs2 where so: "shuffle_options qs rs1 = (qs', rs2)" by fastforce
  have "length qs' = length qs" using Cons.IH [of rs1] so by simp
  with sa so show ?case by simp
qed

lemma length_displayed_questions [simp]:
  "length (fst (displayed_questions orig sh so rs)) = length orig"
proof -
  obtain p1 rs1 where p1: "(if sh then shuffle_array orig rs else (orig, rs)) = (p1, rs1)" by fastforce
  have "length p1 = length orig"
  proof (cases sh)
    case True
    then have "shuffle_array orig rs = (p1, rs1)" using p1 by simp
    then show ?thesis by (metis fst_conv length_shuffle_array)
  next
    case False
    then show ?thesis using p1 by simp
  qed
  then show ?thesis using p1 length_shuffle_options [of p1 rs1] by (simp add: displayed_questions_def)
qed

lemma list_swap_append:
  "i < length as \<Longrightarrow> j < length as \<Longrightarrow> list_swap i j (as @ bs) = list_swap i j as @ bs"
  by (simp add: list_swap_def list_update_append nth_append)

lemma fy_loop_append:
  "Suc i \<le> length as \<Longrightarrow> valid_draws rs \<Longrightarrow>
   fst (fy_loop i (as @ bs) rs) = fst (fy_loop i as rs) @ bs"
proof (induction i as rs rule: fy_loop.induct)
  case (1 xs rs)
  then show ?case by simp
next
  case (2 i xs rs)
  let ?j = "rand_index (shd rs) (Suc i)"
  have "?j \<le> Suc i" using valid_draws_shd [OF "2.prems"(2)] by (simp add: rand_index_le)
  then have "list_swap (Suc i) ?j (xs @ bs) = list_swap (Suc i) ?j xs @ bs"
    using "2.prems"(1) by (simp add: list_swap_append)
  then show ?case using "2.IH" [OF refl, of] "2.prems" by (auto simp: Let_def)
qed

lemma fy_loop_surj:
  "length xs = Suc i \<Longrightarrow> mset ys = mset xs \<Longrightarrow>
   \<exists>rs. valid_draws rs \<and> fst (fy_loop i xs rs) = ys"
proof (induction i arbitrary: xs ys)
  case 0
  then obtain x where "xs = [x]" by (cases xs) auto
  moreover from 0 have "length ys = 1" by (metis mset_eq_length One_nat_def)
  ultimately have "ys = xs" using 0 by (cases ys) auto
  then show ?case by (intro exI [of _ "sconst 0"]) simp
next
  case (Suc i)
  let ?y = "ys ! Suc i"
  have ly: "length ys = Suc (Suc i)" using Suc.prems by (metis size_mset)
  then have "?y \<in> set ys" by simp
  then have "?y \<in> set xs" using Suc.prems(2) by (metis set_mset_mset)
  then obtain j where j: "j < length xs" "xs ! j = ?y" by (auto simp: in_set_conv_nth)
  let ?xs' = "list_swap (Suc i) j xs"
  have jle: "j \<le> Suc i" using j Suc.prems(1) by simp
  have lxs': "length ?xs' = Suc (Suc i)" using Suc.prems(1) by simp
  have last': "?xs' ! Suc i = ?y" using j Suc.prems(1) by (auto simp: list_swap_def nth_list_update)
  have split_xs': "?xs' = butlast ?xs' @ [?y]"
    using lxs' last' by (metis append_butlast_last_id last_conv_nth length_greater_0_conv zero_less_Suc diff_Suc_1)
  have split_ys: "ys = butlast ys @ [?y]"
    using ly by (metis append_butlast_last_id last_conv_nth length_greater_0_conv zero_less_Suc diff_Suc_1)
  have "mset ?xs' = mset xs" using j Suc.prems(1) jle by simp
  then have "mset (butlast ?xs' @ [?y]) = mset (butlast ys @ [?y])"
    using Suc.prems(2) split_xs' split_ys by metis
  then have mb: "mset (butlast ys) = mset (butlast ?xs')" by simp
  have lb: "length (butlast ?xs') = Suc i" using lxs' by simp
  obtain rs where rs: "valid_draws rs" "fst (fy_loop i (butlast ?xs') rs) = butlast ys"
    using Suc.IH [OF lb mb] by blast
  let ?r = "of_nat j / of_nat (Suc (Suc i)) :: rat"
  have r: "0 \<le> ?r" "?r < 1" using jle by simp_all
  have ri: "rand_index ?r (Suc i) = j" by (rule rand_index_exact [OF jle])
  have "fst (fy_loop (Suc i) xs (?r ## rs)) = fst (fy_loop i ?xs' rs)"
    by (simp only: fy_loop.simps Let_def stream.sel ri)
  also have "\<dots> = fst (fy_loop i (butlast ?xs' @ [?y]) rs)" using split_xs' by simp
  also have "\<dots> = butlast ys @ [?y]" using fy_loop_append [of i "butlast ?xs'" rs "[?y]"] lb rs by simp
  also have "\<dots> = ys" using split_ys by simp
  finally show ?case using r rs(1) by (intro exI [of _ "?r ## rs"]) simp
qed

lemma shuffle_options_rel:
  "valid_draws rs \<Longrightarrow>
   list_all2 same_but_options qs (fst (shuffle_options qs rs)) \<and> valid_draws (snd (shuffle_options qs rs))"
proof (induction qs arbitrary: rs)
  case Nil
  then show ?case by simp
next
  case (Cons q qs)
  obtain os rs1 where sa: "shuffle_array (q_options q) rs = (os, rs1)" by fastforce
  have m: "mset os = mset (q_options q)"
    using mset_shuffle_array [OF Cons.prems, of "q_options q"] sa by simp
  have v1: "valid_draws rs1"
    using shuffle_array_valid_draws [OF Cons.prems, of "q_options q"] sa by simp
  obtain qs' rs2 where so: "shuffle_options qs rs1 = (qs', rs2)" by fastforce
  have "list_all2 same_but_options qs qs' \<and> valid_draws rs2" using Cons.IH [OF v1] so by simp
  moreover have "same_but_options q (q\<lparr>q_options := os\<rparr>)" using m by (simp add: same_but_options_def)
  ultimately show ?case using sa so by simp
qed

lemma same_but_options_refl [simp]: "same_but_options q q"
  by (simp add: same_but_options_def)

lemma list_all2_same_but_options_refl: "list_all2 same_but_options qs qs"
  by (simp add: list_all2_refl)

subsection \<open>Properties\<close>

text \<open>
  C8. \<open>shuffleArray\<close> returns a permutation of its input for every sequence of
  \<open>Math.random()\<close> values in \<open>[0, 1)\<close>, and every permutation of the input is
  returned for some such sequence: the Fisher-Yates loop misses no arrangement.
\<close>

theorem shuffle_array_permutations:
  "(\<forall>rs. valid_draws rs \<longrightarrow> mset (fst (shuffle_array xs rs)) = mset xs)
   \<and> (\<forall>ys. mset ys = mset xs \<longrightarrow> (\<exists>rs. valid_draws rs \<and> fst (shuffle_array xs rs) = ys))"
proof (intro conjI allI impI)
  fix rs assume "valid_draws rs"
  then show "mset (fst (shuffle_array xs rs)) = mset xs" by (rule mset_shuffle_array)
next
  fix ys assume m: "mset ys = mset xs"
  show "\<exists>rs. valid_draws rs \<and> fst (shuffle_array xs rs) = ys"
  proof (cases xs)
    case Nil
    with m show ?thesis by (intro exI [of _ "sconst 0"]) (simp add: shuffle_array_def)
  next
    case (Cons x xs')
    then have "length xs = Suc (length xs')" by simp
    from fy_loop_surj [OF this m] Cons show ?thesis by (simp add: shuffle_array_def)
  qed
qed
theorem shuffle_array_permutations_witness:
  "valid_draws (sconst (1/2)) \<and> mset (fst (shuffle_array [1, 2, 3 :: nat] (sconst (1/2)))) = mset [1, 2, 3]
   \<and> mset [3, 2, 1 :: nat] = mset [1, 2, 3]
   \<and> (\<exists>rs. valid_draws rs \<and> fst (shuffle_array [1, 2, 3 :: nat] rs) = [3, 2, 1])"
proof -
  have v: "valid_draws (sconst (1/2))" by simp
  have m: "mset [3, 2, 1 :: nat] = mset [1, 2, 3]" by simp
  show ?thesis using shuffle_array_permutations [of "[1, 2, 3 :: nat]"] v m by blast
qed

text \<open>
  C18. The displayed questions are a permutation of the loaded ones, each with the
  same fields and the same multiset of options (only their order may change), so
  the answer string stays among the options exactly when it was; without either
  shuffle flag the loaded order is shown unchanged.
\<close>

theorem displayed_questions_preserve:
  assumes "valid_draws rs"
  shows "(\<exists>ps. mset ps = mset orig \<and> list_all2 same_but_options ps (fst (displayed_questions orig shuf so rs)))
    \<and> (\<not> so \<longrightarrow> mset (fst (displayed_questions orig shuf so rs)) = mset orig)
    \<and> (\<not> shuf \<and> \<not> so \<longrightarrow> fst (displayed_questions orig shuf so rs) = orig)"
proof -
  obtain p1 rs1 where p1: "(if shuf then shuffle_array orig rs else (orig, rs)) = (p1, rs1)"
    by fastforce
  have mp1: "mset p1 = mset orig"
    using p1 mset_shuffle_array [OF assms, of orig] by (auto split: if_splits)
  have v1: "valid_draws rs1"
    using p1 shuffle_array_valid_draws [OF assms, of orig] assms by (auto split: if_splits)
  have res: "fst (displayed_questions orig shuf so rs) =
               (if orig = [] then [] else if so then fst (shuffle_options p1 rs1) else p1)"
    using p1 by (simp add: displayed_questions_def)
  have "list_all2 same_but_options p1 (fst (displayed_questions orig shuf so rs))"
    using res shuffle_options_rel [OF v1, of p1] mp1 list_all2_same_but_options_refl
    by (cases "orig = []") auto
  with mp1 have A: "\<exists>ps. mset ps = mset orig \<and> list_all2 same_but_options ps (fst (displayed_questions orig shuf so rs))"
    by blast
  have B: "\<not> so \<longrightarrow> mset (fst (displayed_questions orig shuf so rs)) = mset orig"
    using res mp1 by auto
  have C: "\<not> shuf \<and> \<not> so \<longrightarrow> fst (displayed_questions orig shuf so rs) = orig"
    using res p1 by auto
  from A B C show ?thesis by blast
qed

theorem displayed_questions_preserve_witness:
  "valid_draws (sconst (1/2))
   \<and> fst (displayed_questions sample_base False False (sconst (1/2))) = sample_base
   \<and> mset (fst (displayed_questions sample_base True False (sconst (1/2)))) = mset sample_base"
proof -
  have v: "valid_draws (sconst (1/2))" by simp
  show ?thesis using displayed_questions_preserve [OF v, of sample_base] v by blast
qed

end
