(* ===== verification/Navigation.thy ===== *)
theory Navigation
  imports Exam_Prelude
begin

text \<open>
  The Session Navigator's handlers in \<open>src/components/screens/PastStudy.tsx\<close>:
  \<open>handleNext\<close> (lines 208 to 247), \<open>handlePrev\<close> (lines 249 to 272) and the
  disabled states of the pager buttons (lines 463 to 499), composed with the
  parent's callbacks in \<open>src/app/mode/past-study.tsx\<close> (\<open>onSubjectChange\<close> sets
  the subject and page 1, lines 211 to 214; \<open>onChangePage\<close> sets the page, line
  216) and with the effect on \<open>currentIdx\<close> (lines 54 to 59) that resets the
  question index when the subject changes. The handlers read the values of the
  render they were created in; those are the \<open>nav_view\<close>.
  Page counts are integers here (a service total that is a number).
\<close>

record nav_pos =
  subject_idx :: nat
  page :: int
  qidx :: int

record nav_view =
  exam_mode :: bool
  n_subjects :: nat
  sel_count :: int
  n_displayed :: nat
  total_pages :: int

text \<open>\<open>onSubjectChange(i)\<close> followed by \<open>setCurrentQuestionIndex(0)\<close> and the
  reset effect on the subject index.\<close>

definition change_subject :: "nat \<Rightarrow> nav_pos \<Rightarrow> nav_pos" where
  "change_subject i p = p\<lparr>subject_idx := i, page := 1, qidx := 0\<rparr>"

text \<open>\<open>(page - 1) * 10 + currentQuestionIndex\<close>: the absolute question ordinal.\<close>

definition ordinal :: "nav_pos \<Rightarrow> int" where
  "ordinal p = (page p - 1) * 10 + qidx p"

definition has_next_subject :: "nav_view \<Rightarrow> nav_pos \<Rightarrow> bool" where
  "has_next_subject v p \<longleftrightarrow> int (subject_idx p) < int (n_subjects v) - 1"

definition exam_next :: "nav_view \<Rightarrow> nav_pos \<Rightarrow> nav_pos" where
  "exam_next v p =
     (if ordinal p + 1 \<ge> sel_count v then
        (if has_next_subject v p then change_subject (Suc (subject_idx p)) p else p)
      else if qidx p < int (n_displayed v) - 1 then p\<lparr>qidx := qidx p + 1\<rparr>
      else if page p < total_pages v then p\<lparr>page := page p + 1, qidx := 0\<rparr>
      else if has_next_subject v p then change_subject (Suc (subject_idx p)) p
      else p)"

definition exam_prev :: "nav_pos \<Rightarrow> nav_pos" where
  "exam_prev p =
     (if qidx p > 0 then p\<lparr>qidx := qidx p - 1\<rparr>
      else if page p > 1 then p\<lparr>page := page p - 1, qidx := 9\<rparr>
      else if subject_idx p > 0 then change_subject (subject_idx p - 1) p
      else p)"

definition study_next :: "nav_view \<Rightarrow> nav_pos \<Rightarrow> nav_pos" where
  "study_next v p = p\<lparr>page := min (total_pages v) (page p + 1)\<rparr>"

definition study_prev :: "nav_pos \<Rightarrow> nav_pos" where
  "study_prev p = p\<lparr>page := max 1 (page p - 1)\<rparr>"

definition handle_next :: "nav_view \<Rightarrow> nav_pos \<Rightarrow> nav_pos" where
  "handle_next v p = (if exam_mode v then exam_next v p else study_next v p)"

definition handle_prev :: "nav_view \<Rightarrow> nav_pos \<Rightarrow> nav_pos" where
  "handle_prev v p = (if exam_mode v then exam_prev p else study_prev p)"

definition prev_disabled :: "nav_view \<Rightarrow> nav_pos \<Rightarrow> bool" where
  "prev_disabled v p \<longleftrightarrow>
     (if exam_mode v then qidx p = 0 \<and> page p \<le> 1 \<and> subject_idx p = 0 else page p \<le> 1)"

definition next_disabled :: "nav_view \<Rightarrow> nav_pos \<Rightarrow> bool" where
  "next_disabled v p \<longleftrightarrow>
     (if exam_mode v
      then ordinal p + 1 \<ge> sel_count v \<and> int (subject_idx p) \<ge> int (n_subjects v) - 1
      else page p \<ge> total_pages v)"

text \<open>A run of Next presses against one render's view (the pages all loaded).\<close>

fun next_times :: "nat \<Rightarrow> nav_view \<Rightarrow> nav_pos \<Rightarrow> nav_pos" where
  "next_times 0 v p = p"
| "next_times (Suc k) v p = next_times k v (handle_next v p)"

fun prev_times :: "nat \<Rightarrow> nav_view \<Rightarrow> nav_pos \<Rightarrow> nav_pos" where
  "prev_times 0 v p = p"
| "prev_times (Suc k) v p = prev_times k v (handle_prev v p)"

text \<open>The positions the screen can be in: a subject of the list, a page from 1,
  and a question index of a page of at most ten questions.\<close>

definition pos_ok :: "nav_view \<Rightarrow> nav_pos \<Rightarrow> bool" where
  "pos_ok v p \<longleftrightarrow> subject_idx p < n_subjects v \<and> 1 \<le> page p \<and> 0 \<le> qidx p \<and> qidx p \<le> 9"

subsection \<open>Lemmas\<close>

lemma neq_by_field: "f q \<noteq> f p \<Longrightarrow> q \<noteq> p"
  by auto

lemma handle_next_pos_ok:
  "pos_ok v p \<Longrightarrow> 1 \<le> total_pages v \<Longrightarrow> n_displayed v \<le> 10 \<Longrightarrow> pos_ok v (handle_next v p)"
  by (auto simp: pos_ok_def handle_next_def exam_next_def study_next_def change_subject_def
                  has_next_subject_def)

lemma handle_prev_pos_ok: "pos_ok v p \<Longrightarrow> pos_ok v (handle_prev v p)"
  by (auto simp: pos_ok_def handle_prev_def exam_prev_def study_prev_def change_subject_def)

lemma next_times_snoc: "next_times (Suc k) v p = handle_next v (next_times k v p)"
  by (induction k arbitrary: p) simp_all

lemma prev_disabled_fixed:
  "prev_disabled v p \<Longrightarrow> 1 \<le> page p \<Longrightarrow> handle_prev v p = p"
  by (auto simp: prev_disabled_def handle_prev_def exam_prev_def study_prev_def)

lemma next_disabled_fixed:
  "next_disabled v p \<Longrightarrow> (\<not> exam_mode v \<longrightarrow> page p \<le> total_pages v) \<Longrightarrow> handle_next v p = p"
  by (auto simp: next_disabled_def handle_next_def exam_next_def study_next_def has_next_subject_def)

lemma last_of_page_bound: "k mod 10 = (9::nat) \<Longrightarrow> Suc k < N \<Longrightarrow> 10 * (k div 10 + 1) < N"
proof -
  assume a: "k mod 10 = 9" "Suc k < N"
  obtain d where d: "d = k div 10" by simp
  have "k = d * 10 + 9" using a(1) d div_mult_mod_eq [of k 10] by simp
  then show ?thesis using a(2) d by simp
qed

lemma page_lt_total: "10 * (x + 1) < n \<Longrightarrow> n \<le> 10 * t \<Longrightarrow> x + 1 < (t::int)"
  by presburger

lemma next_times_progress:
  assumes "exam_mode v" "n_displayed v = 10" "sel_count v = int N" "int N \<le> 10 * total_pages v"
  shows "k < N \<Longrightarrow> next_times k v \<lparr>subject_idx = s, page = 1, qidx = 0\<rparr>
            = \<lparr>subject_idx = s, page = int (k div 10) + 1, qidx = int (k mod 10)\<rparr>"
proof (induction k)
  case 0
  then show ?case by simp
next
  case (Suc k)
  then have IH: "next_times k v \<lparr>subject_idx = s, page = 1, qidx = 0\<rparr>
            = \<lparr>subject_idx = s, page = int (k div 10) + 1, qidx = int (k mod 10)\<rparr>" by simp
  have lt: "Suc k < N" using Suc.prems .
  have e: "int (k div 10) * 10 + int (k mod 10) = int k"
    using div_mult_mod_eq [of k 10] by (metis of_nat_add of_nat_mult of_nat_numeral)
  then have o: "\<not> int N \<le> int (k div 10) * 10 + int (k mod 10) + 1" using lt by linarith
  show ?case
  proof (cases "k mod 10 < 9")
    case True
    then have "Suc k div 10 = k div 10" "Suc k mod 10 = Suc (k mod 10)"
      by (simp_all add: div_Suc mod_Suc)
    with True lt assms o show ?thesis
      by (simp del: next_times.simps add: next_times_snoc IH handle_next_def exam_next_def ordinal_def)
  next
    case False
    then have m9: "k mod 10 = 9" by simp
    then have "Suc k div 10 = Suc (k div 10)" "Suc k mod 10 = 0"
      by (simp_all add: div_Suc mod_Suc)
    moreover have "int (k div 10) + 1 < total_pages v"
    proof -
      have "10 * (k div 10 + 1) < N" using last_of_page_bound [OF m9 lt] .
      then have "int (10 * (k div 10 + 1)) < int N" by (simp only: of_nat_less_iff)
      then have "10 * (int (k div 10) + 1) < int N" by simp
      then show ?thesis using assms(4) by (rule page_lt_total)
    qed
    ultimately show ?thesis using m9 lt assms o
      by (simp del: next_times.simps add: next_times_snoc IH handle_next_def exam_next_def ordinal_def)
  qed
qed

subsection \<open>Properties\<close>

text \<open>
  Where the Prev button is disabled (exam mode: the first question of the first
  subject; study mode: page 1), pressing Prev any number of times changes neither
  the subject, nor the page, nor the question index.
\<close>

theorem prev_at_start_idempotent:
  assumes "prev_disabled v p" and "1 \<le> page p"
  shows "prev_times k v p = p"
  using assms by (induction k) (simp_all add: prev_disabled_fixed)

theorem prev_at_start_idempotent_witness:
  "prev_disabled \<lparr>exam_mode = True, n_subjects = 2, sel_count = 10, n_displayed = 10, total_pages = 1\<rparr>
                 \<lparr>subject_idx = 0, page = 1, qidx = 0\<rparr>
   \<and> prev_times 5 \<lparr>exam_mode = True, n_subjects = 2, sel_count = 10, n_displayed = 10, total_pages = 1\<rparr>
                 \<lparr>subject_idx = 0, page = 1, qidx = 0\<rparr> = \<lparr>subject_idx = 0, page = 1, qidx = 0\<rparr>"
proof -
  have d: "prev_disabled \<lparr>exam_mode = True, n_subjects = 2, sel_count = 10, n_displayed = 10, total_pages = 1\<rparr>
                 \<lparr>subject_idx = 0, page = 1, qidx = 0\<rparr>" by (simp add: prev_disabled_def)
  show ?thesis using prev_at_start_idempotent [OF d, of 5] d by simp
qed

text \<open>
  A disabled Next button guards a no-op: in exam mode on the last counted
  question of the last subject, and in study mode on the last page, Next changes
  nothing however often it is pressed.
\<close>

theorem next_disabled_noop:
  assumes "next_disabled v p" and "\<not> exam_mode v \<longrightarrow> page p \<le> total_pages v"
  shows "next_times k v p = p"
  using assms by (induction k) (simp_all add: next_disabled_fixed)

theorem next_disabled_noop_witness:
  "next_disabled \<lparr>exam_mode = True, n_subjects = 1, sel_count = 3, n_displayed = 10, total_pages = 1\<rparr>
                 \<lparr>subject_idx = 0, page = 1, qidx = 2\<rparr>
   \<and> next_times 4 \<lparr>exam_mode = True, n_subjects = 1, sel_count = 3, n_displayed = 10, total_pages = 1\<rparr>
                 \<lparr>subject_idx = 0, page = 1, qidx = 2\<rparr> = \<lparr>subject_idx = 0, page = 1, qidx = 2\<rparr>"
proof -
  have d: "next_disabled \<lparr>exam_mode = True, n_subjects = 1, sel_count = 3, n_displayed = 10, total_pages = 1\<rparr>
                 \<lparr>subject_idx = 0, page = 1, qidx = 2\<rparr>" by (simp add: next_disabled_def ordinal_def)
  show ?thesis using next_disabled_noop [OF d, of 4] d by simp
qed

text \<open>
  C20. The converse fails. In exam mode, Next is enabled and yet does nothing
  exactly on the last displayed question of the last page of the last subject
  while the configured count is not reached, which happens whenever a subject's
  configured count exceeds the questions the service has (for instance 40
  configured, 35 available on 4 pages).
\<close>

theorem next_enabled_but_stuck:
  assumes "exam_mode v"
  shows "(\<not> next_disabled v p \<and> handle_next v p = p)
     \<longleftrightarrow> ordinal p + 1 < sel_count v \<and> int (n_displayed v) - 1 \<le> qidx p \<and> total_pages v \<le> page p
         \<and> int (n_subjects v) - 1 \<le> int (subject_idx p)"
proof -
  have moves: "change_subject (Suc (subject_idx p)) p \<noteq> p"
    by (rule neq_by_field [where f = subject_idx]) (simp add: change_subject_def)
  have m2: "p\<lparr>qidx := qidx p + 1\<rparr> \<noteq> p" by (rule neq_by_field [where f = qidx]) simp
  have m3: "p\<lparr>page := page p + 1, qidx := 0\<rparr> \<noteq> p" by (rule neq_by_field [where f = page]) simp
  show ?thesis using assms moves m2 m3
    by (auto simp: next_disabled_def handle_next_def exam_next_def has_next_subject_def)
qed

theorem next_enabled_but_stuck_witness:
  "\<not> next_disabled \<lparr>exam_mode = True, n_subjects = 1, sel_count = 40, n_displayed = 5, total_pages = 4\<rparr>
                    \<lparr>subject_idx = 0, page = 4, qidx = 4\<rparr>
   \<and> handle_next \<lparr>exam_mode = True, n_subjects = 1, sel_count = 40, n_displayed = 5, total_pages = 4\<rparr>
                 \<lparr>subject_idx = 0, page = 4, qidx = 4\<rparr> = \<lparr>subject_idx = 0, page = 4, qidx = 4\<rparr>"
  using next_enabled_but_stuck [of "\<lparr>exam_mode = True, n_subjects = 1, sel_count = 40, n_displayed = 5, total_pages = 4\<rparr>"
      "\<lparr>subject_idx = 0, page = 4, qidx = 4\<rparr>"]
  by (simp add: ordinal_def)

text \<open>
  C21. With full pages of ten questions and enough pages for the configured count
  \<open>N\<close>, pressing Next \<open>N - 1\<close> times from question 1 of a subject reaches the
  absolute ordinal \<open>N - 1\<close> in the same subject, and Next is then disabled
  exactly when this is the last subject.
\<close>

theorem exam_count_reached:
  assumes "exam_mode v" "n_displayed v = 10" "sel_count v = int N" "0 < N"
      and "int N \<le> 10 * total_pages v"
  shows "ordinal (next_times (N - 1) v \<lparr>subject_idx = s, page = 1, qidx = 0\<rparr>) = int N - 1
    \<and> subject_idx (next_times (N - 1) v \<lparr>subject_idx = s, page = 1, qidx = 0\<rparr>) = s
    \<and> (next_disabled v (next_times (N - 1) v \<lparr>subject_idx = s, page = 1, qidx = 0\<rparr>)
         \<longleftrightarrow> int s \<ge> int (n_subjects v) - 1)"
proof -
  have "N - 1 < N" using assms(4) by simp
  from next_times_progress [OF assms(1,2,3,5) this]
  have p: "next_times (N - 1) v \<lparr>subject_idx = s, page = 1, qidx = 0\<rparr>
     = \<lparr>subject_idx = s, page = int ((N - 1) div 10) + 1, qidx = int ((N - 1) mod 10)\<rparr>" .
  have o: "(int ((N - 1) div 10) + 1 - 1) * 10 + int ((N - 1) mod 10) = int N - 1"
    using assms(4) by (simp add: of_nat_div of_nat_mod)
  show ?thesis using p o assms(1,3) by (simp add: ordinal_def next_disabled_def)
qed

theorem exam_count_reached_witness:
  "exam_mode \<lparr>exam_mode = True, n_subjects = 1, sel_count = 25, n_displayed = 10, total_pages = 3\<rparr>
   \<and> ordinal (next_times 24 \<lparr>exam_mode = True, n_subjects = 1, sel_count = 25, n_displayed = 10, total_pages = 3\<rparr>
                 \<lparr>subject_idx = 0, page = 1, qidx = 0\<rparr>) = 24
   \<and> next_disabled \<lparr>exam_mode = True, n_subjects = 1, sel_count = 25, n_displayed = 10, total_pages = 3\<rparr>
        (next_times 24 \<lparr>exam_mode = True, n_subjects = 1, sel_count = 25, n_displayed = 10, total_pages = 3\<rparr>
                 \<lparr>subject_idx = 0, page = 1, qidx = 0\<rparr>)"
  using exam_count_reached [of "\<lparr>exam_mode = True, n_subjects = 1, sel_count = 25, n_displayed = 10, total_pages = 3\<rparr>" 25 0]
  by simp

text \<open>
  C23. Within a subject of full pages, Prev undoes Next (also across a page
  boundary, where Prev lands on index 9 of the previous page); when Next moves to
  the next subject, Prev does not come back but lands on the first question of
  the subject that was left.
\<close>

theorem exam_next_prev_roundtrip:
  assumes "exam_mode v" "n_displayed v = 10" "0 \<le> qidx p" "qidx p \<le> 9" "1 \<le> page p"
  shows "(ordinal p + 1 < sel_count v \<and> (qidx p < 9 \<or> page p < total_pages v)
            \<longrightarrow> exam_prev (exam_next v p) = p)
    \<and> (ordinal p + 1 \<ge> sel_count v \<and> has_next_subject v p
            \<longrightarrow> exam_prev (exam_next v p) = p\<lparr>page := 1, qidx := 0\<rparr>)"
  using assms by (auto simp: exam_next_def exam_prev_def change_subject_def)
theorem exam_next_prev_roundtrip_witness:
  "exam_prev (exam_next \<lparr>exam_mode = True, n_subjects = 2, sel_count = 20, n_displayed = 10, total_pages = 2\<rparr>
                         \<lparr>subject_idx = 0, page = 1, qidx = 9\<rparr>) = \<lparr>subject_idx = 0, page = 1, qidx = 9\<rparr>
   \<and> exam_prev (exam_next \<lparr>exam_mode = True, n_subjects = 2, sel_count = 20, n_displayed = 10, total_pages = 2\<rparr>
                         \<lparr>subject_idx = 0, page = 2, qidx = 9\<rparr>) = \<lparr>subject_idx = 0, page = 1, qidx = 0\<rparr>"
  using exam_next_prev_roundtrip [of "\<lparr>exam_mode = True, n_subjects = 2, sel_count = 20, n_displayed = 10, total_pages = 2\<rparr>"
                                    "\<lparr>subject_idx = 0, page = 1, qidx = 9\<rparr>"]
        exam_next_prev_roundtrip [of "\<lparr>exam_mode = True, n_subjects = 2, sel_count = 20, n_displayed = 10, total_pages = 2\<rparr>"
                                    "\<lparr>subject_idx = 0, page = 2, qidx = 9\<rparr>"]
  by (simp add: ordinal_def has_next_subject_def)

end
