(* ===== verification/Scoring.thy ===== *)
theory Scoring
  imports Questions
begin

text \<open>
  The Scoring and Results Compiler: \<open>handleSubmit\<close> of
  \<open>src/app/mode/past-study.tsx\<close> (lines 99 to 131: per-subject results and the
  corrections data) and the summary of \<open>src/app/mode/exam-results.tsx\<close>
  (lines 27 to 37: totals, overall percentage and \<open>getGrade\<close>). The session's
  recorded answers are the parent's \<open>userAnswers\<close> object, keyed by the global
  index string \<open>"<subject>-<n>"\<close>; the questions seen are its \<open>examQuestions\<close>.
  \<open>Math.round(x)\<close> is \<open>floor(x + 1/2)\<close> on the exact rational quotient (the
  floating-point rounding of \<open>score / count * 100\<close> is not modelled).
\<close>

text \<open>\<open>type SubjectOption\<close> of \<open>src/components/screens/PastOptions.tsx\<close>.\<close>

record subject_option =
  so_subject :: string
  so_year :: string
  so_topic :: string
  so_count :: int
  so_shuffle :: bool
  so_shuffle_options :: bool

text \<open>An element of \<open>allQuestions\<close> / \<open>examQuestions\<close>.\<close>

record exam_entry =
  ee_subject :: string
  ee_question :: question
  ee_global :: string

type_synonym answers = "string \<rightharpoonup> string"

text \<open>\<open>if (userAnswer && userAnswer === q.question.answer) score++\<close>.\<close>

definition answer_scores :: "string option \<Rightarrow> question \<Rightarrow> bool" where
  "answer_scores ua q \<longleftrightarrow> (case ua of None \<Rightarrow> False | Some a \<Rightarrow> a \<noteq> [] \<and> JStr a = q_answer q)"

definition subject_score :: "answers \<Rightarrow> exam_entry list \<Rightarrow> string \<Rightarrow> nat" where
  "subject_score ans qs subj =
     length (filter (\<lambda>e. answer_scores (ans (ee_global e)) (ee_question e))
                    (filter (\<lambda>e. ee_subject e = subj) qs))"

definition js_round :: "rat \<Rightarrow> int" where
  "js_round x = floor (x + 1 / 2)"

definition percentage :: "nat \<Rightarrow> int \<Rightarrow> int" where
  "percentage score cnt = (if cnt > 0 then js_round (of_nat score / of_int cnt * 100) else 0)"

record subject_result =
  sr_subject :: string
  sr_score :: nat
  sr_total :: int
  sr_percentage :: int

definition subject_result_of :: "answers \<Rightarrow> exam_entry list \<Rightarrow> subject_option \<Rightarrow> subject_result" where
  "subject_result_of ans qs opt =
     (let sc = subject_score ans qs (so_subject opt)
      in \<lparr>sr_subject = so_subject opt, sr_score = sc, sr_total = so_count opt,
          sr_percentage = percentage sc (so_count opt)\<rparr>)"

definition subject_results :: "subject_option list \<Rightarrow> exam_entry list \<Rightarrow> answers \<Rightarrow> subject_result list" where
  "subject_results opts qs ans = map (subject_result_of ans qs) opts"

record correction_entry =
  ce_subject :: string
  ce_question :: jsval
  ce_options :: "string list"
  ce_correct :: jsval
  ce_user :: "string option"
  ce_instruction :: jsval
  ce_correction :: jsval

definition questions_data :: "exam_entry list \<Rightarrow> answers \<Rightarrow> correction_entry list" where
  "questions_data qs ans =
     map (\<lambda>e. \<lparr>ce_subject = ee_subject e,
               ce_question = js_or (q_question (ee_question e)) (JStr ''''),
               ce_options = q_options (ee_question e),
               ce_correct = js_or (q_answer (ee_question e)) (JStr ''''),
               ce_user = ans (ee_global e),
               ce_instruction = q_instruction (ee_question e),
               ce_correction = q_correction (ee_question e)\<rparr>) qs"

subsection \<open>The results screen\<close>

definition total_score :: "subject_result list \<Rightarrow> nat" where
  "total_score rs = sum_list (map sr_score rs)"

definition total_questions :: "subject_result list \<Rightarrow> int" where
  "total_questions rs = sum_list (map sr_total rs)"

definition overall_percentage :: "subject_result list \<Rightarrow> int" where
  "overall_percentage rs = percentage (total_score rs) (total_questions rs)"

datatype grade = GradeA | GradeB | GradeC | GradeD | GradeF

definition get_grade :: "int \<Rightarrow> grade \<times> string" where
  "get_grade p =
     (if p \<ge> 80 then (GradeA, ''#2E7D32'')
      else if p \<ge> 70 then (GradeB, ''#388E3C'')
      else if p \<ge> 60 then (GradeC, ''#FFA000'')
      else if p \<ge> 50 then (GradeD, ''#F57C00'')
      else (GradeF, ''#D32F2F''))"

fun grade_rank :: "grade \<Rightarrow> nat" where
  "grade_rank GradeF = 0"
| "grade_rank GradeD = 1"
| "grade_rank GradeC = 2"
| "grade_rank GradeB = 3"
| "grade_rank GradeA = 4"

subsection \<open>Lemmas\<close>

lemma js_round_mono: "x \<le> y \<Longrightarrow> js_round x \<le> js_round y"
  by (simp add: js_round_def floor_mono)

lemma js_round_of_int [simp]: "js_round (of_int n) = n"
  unfolding js_round_def by (rule floor_unique) simp_all

lemma js_round_numeral [simp]: "js_round (numeral n) = numeral n"
  using js_round_of_int [of "numeral n"] by simp

lemma js_round_zero [simp]: "js_round 0 = 0"
  using js_round_of_int [of 0] by simp

lemma subject_score_le: "subject_score ans qs subj \<le> length (filter (\<lambda>e. ee_subject e = subj) qs)"
  unfolding subject_score_def by (rule length_filter_le)

lemma subject_score_all:
  "\<forall>e \<in> set qs. ee_subject e = subj \<longrightarrow> answer_scores (ans (ee_global e)) (ee_question e) \<Longrightarrow>
   subject_score ans qs subj = length (filter (\<lambda>e. ee_subject e = subj) qs)"
  unfolding subject_score_def by (induction qs) auto

lemma answer_scores_JNum [simp]: "\<not> answer_scores ua (q\<lparr>q_answer := JNum n\<rparr>)"
  by (simp add: answer_scores_def split: option.splits)

lemma percentage_range:
  assumes "0 < cnt" and "int sc \<le> cnt"
  shows "0 \<le> percentage sc cnt \<and> percentage sc cnt \<le> 100
    \<and> (int sc = cnt \<longrightarrow> percentage sc cnt = 100) \<and> (sc = 0 \<longrightarrow> percentage sc cnt = 0)"
proof -
  have q0: "0 \<le> of_nat sc / of_int cnt * (100::rat)" using assms(1) by simp
  have "of_nat sc \<le> (of_int cnt :: rat)" using assms(2) by (metis of_int_le_iff of_int_of_nat_eq)
  then have q1: "of_nat sc / of_int cnt * (100::rat) \<le> 100"
    using assms(1) by (simp add: pos_divide_le_eq)
  have "js_round 0 \<le> js_round (of_nat sc / of_int cnt * 100)" using q0 by (rule js_round_mono)
  moreover have "js_round (of_nat sc / of_int cnt * 100) \<le> js_round 100" using q1 by (rule js_round_mono)
  moreover have "int sc = cnt \<longrightarrow> of_nat sc / of_int cnt * (100::rat) = 100"
    using assms(1) by auto
  ultimately show ?thesis using assms(1) by (auto simp: percentage_def)
qed

subsection \<open>Properties\<close>

text \<open>
  When a subject's score does not exceed its configured count, its percentage
  lies in \<open>[0, 100]\<close>; a full score gives 100 and no score gives 0.
\<close>

theorem percentage_bounds:
  assumes "0 < cnt" and "int sc \<le> cnt"
  shows "0 \<le> percentage sc cnt \<and> percentage sc cnt \<le> 100
    \<and> (int sc = cnt \<longrightarrow> percentage sc cnt = 100) \<and> (sc = 0 \<longrightarrow> percentage sc cnt = 0)"
  using percentage_range [OF assms] .

theorem percentage_bounds_witness:
  "0 < (10::int) \<and> int 7 \<le> (10::int) \<and> 0 \<le> percentage 7 10 \<and> percentage 7 10 \<le> 100"
  using percentage_bounds [of 10 7] by simp

text \<open>
  The percentage is not bounded by itself: it divides by the configured count,
  so a score above the count (possible when more answers are matched than the
  subject was configured for) is reported above 100 percent.
\<close>

theorem percentage_exceeds_100: "percentage 10 5 = 200"
  by (simp add: percentage_def js_round_def) code_simp

text \<open>
  C24. If every seen question of a subject is answered with its (non-empty string)
  answer under its global index and the configured count equals the number of
  seen questions, the subject scores its count and 100 percent: with one subject
  of ten questions all answered correctly the result is 10 of 10, 100 percent.
\<close>

theorem all_correct_full_marks:
  assumes "\<forall>e \<in> set qs. ee_subject e = so_subject opt \<longrightarrow> answer_scores (ans (ee_global e)) (ee_question e)"
      and "so_count opt = int (length (filter (\<lambda>e. ee_subject e = so_subject opt) qs))"
      and "0 < so_count opt"
  shows "sr_score (subject_result_of ans qs opt) = length (filter (\<lambda>e. ee_subject e = so_subject opt) qs)
    \<and> sr_total (subject_result_of ans qs opt) = so_count opt
    \<and> sr_percentage (subject_result_of ans qs opt) = 100"
proof -
  have sc: "subject_score ans qs (so_subject opt) = length (filter (\<lambda>e. ee_subject e = so_subject opt) qs)"
    using subject_score_all [OF assms(1)] .
  have "percentage (subject_score ans qs (so_subject opt)) (so_count opt) = 100"
    using percentage_range [OF assms(3), of "length (filter (\<lambda>e. ee_subject e = so_subject opt) qs)"] sc assms(2)
    by simp
  with sc show ?thesis by (simp add: subject_result_of_def Let_def)
qed

definition biology_entries :: "exam_entry list" where
  "biology_entries =
     map (\<lambda>i. \<lparr>ee_subject = ''Biology'', ee_question = sample_q None ''Q'' [''a'', ''b''] ''a'' ''c'',
               ee_global = ''Biology-'' @ nat_str i\<rparr>) [0..<10]"

definition biology_option :: subject_option where
  "biology_option = \<lparr>so_subject = ''Biology'', so_year = ''2024'', so_topic = ''All Topic'',
                      so_count = 10, so_shuffle = False, so_shuffle_options = False\<rparr>"

theorem all_correct_full_marks_witness:
  "sr_score (subject_result_of (\<lambda>_. Some ''a'') biology_entries biology_option) = 10
   \<and> sr_total (subject_result_of (\<lambda>_. Some ''a'') biology_entries biology_option) = 10
   \<and> sr_percentage (subject_result_of (\<lambda>_. Some ''a'') biology_entries biology_option) = 100"
proof -
  have h1: "\<forall>e \<in> set biology_entries. ee_subject e = so_subject biology_option
              \<longrightarrow> answer_scores ((\<lambda>_. Some ''a'') (ee_global e)) (ee_question e)"
    by (auto simp: biology_entries_def biology_option_def answer_scores_def sample_q_def)
  have l: "length (filter (\<lambda>e. ee_subject e = so_subject biology_option) biology_entries) = 10"
    by (simp add: biology_entries_def biology_option_def)
  have h2: "so_count biology_option = int (length (filter (\<lambda>e. ee_subject e = so_subject biology_option) biology_entries))"
    using l by (simp add: biology_option_def)
  have h3: "0 < so_count biology_option" by (simp add: biology_option_def)
  show ?thesis using all_correct_full_marks [OF h1 h2 h3] l h2 by simp
qed

text \<open>
  C25. The totals of the results screen are the sums of the per-subject scores and
  configured counts, and the overall percentage stays in \<open>[0, 100]\<close> when every
  subject's score is within its count.
\<close>

theorem overall_percentage_bounded:
  assumes "\<forall>r \<in> set rs. int (sr_score r) \<le> sr_total r" and "0 < total_questions rs"
  shows "0 \<le> overall_percentage rs \<and> overall_percentage rs \<le> 100"
proof -
  have "int (total_score rs) \<le> total_questions rs"
    using assms(1) unfolding total_score_def total_questions_def
    by (induction rs) (auto simp: add_mono)
  then show ?thesis using percentage_range [OF assms(2)] by (simp add: overall_percentage_def)
qed

theorem overall_percentage_bounded_witness:
  "0 \<le> overall_percentage [\<lparr>sr_subject = ''A'', sr_score = 3, sr_total = 4, sr_percentage = 75\<rparr>,
                              \<lparr>sr_subject = ''B'', sr_score = 1, sr_total = 6, sr_percentage = 17\<rparr>]
   \<and> overall_percentage [\<lparr>sr_subject = ''A'', sr_score = 3, sr_total = 4, sr_percentage = 75\<rparr>,
                         \<lparr>sr_subject = ''B'', sr_score = 1, sr_total = 6, sr_percentage = 17\<rparr>] = 40"
proof -
  let ?rs = "[\<lparr>sr_subject = ''A'', sr_score = 3, sr_total = 4, sr_percentage = 75\<rparr>,
              \<lparr>sr_subject = ''B'', sr_score = (1::nat), sr_total = 6, sr_percentage = 17\<rparr>]"
  have h1: "\<forall>r \<in> set ?rs. int (sr_score r) \<le> sr_total r" by simp
  have h2: "0 < total_questions ?rs" by (simp add: total_questions_def)
  have b: "0 \<le> overall_percentage ?rs \<and> overall_percentage ?rs \<le> 100"
    by (rule overall_percentage_bounded [OF h1 h2])
  have e: "overall_percentage ?rs = 40"
    by (simp add: overall_percentage_def total_score_def total_questions_def percentage_def js_round_def)
       code_simp
  from b e show ?thesis by simp
qed

text \<open>
  C26. An upstream answer stored as a non-zero number stays a number after
  normalisation while the options are converted to strings, so no selection can
  ever score on that question: with options \<open>[1, 2]\<close> and answer \<open>2\<close>, the
  option \<open>"2"\<close> is displayed but never counted as correct.
\<close>

theorem numeric_answer_never_scores:
  assumes "get_field raw ''answer'' = JNum n" and "n \<noteq> 0"
  shows "\<not> answer_scores ua (normalize_question raw)"
proof -
  have "q_answer (normalize_question raw) = JNum n"
    using assms by (simp add: normalize_question_def)
  then show ?thesis by (simp add: answer_scores_def split: option.splits)
qed

theorem numeric_answer_never_scores_witness:
  "q_options (normalize_question (JObj [(''options'', JArr [JNum 1, JNum 2]), (''answer'', JNum 2)])) = [''1'', ''2'']
   \<and> \<not> answer_scores (Some ''2'') (normalize_question (JObj [(''options'', JArr [JNum 1, JNum 2]), (''answer'', JNum 2)]))"
proof -
  have o: "q_options (normalize_question (JObj [(''options'', JArr [JNum 1, JNum 2]), (''answer'', JNum 2)])) = [''1'', ''2'']"
    by (simp add: normalize_question_def raw_options_def int_str_def nat_str.simps)
  have "get_field (JObj [(''options'', JArr [JNum 1, JNum 2]), (''answer'', JNum 2)]) ''answer'' = JNum 2" by simp
  with o show ?thesis using numeric_answer_never_scores [of _ 2 "Some ''2''"] by simp
qed

end
