(* ===== verification/Timer.thy ===== *)
theory Timer
  imports Exam_Prelude
begin

text \<open>
  The exam Timer of \<open>src/app/mode/past-study.tsx\<close>: the parsing of the duration
  string (lines 39 to 62) with its regular expressions \<open>/(\d+)\s*hour/\<close>,
  \<open>/(\d+)\s*hr/\<close> and \<open>/(\d+)\s*mins/\<close>, the one-second countdown (lines 65 to
  80) and \<open>formatTime\<close> (lines 88 to 97). The durations offered are the
  \<open>TIME_OPTIONS\<close> of \<open>src/app/mode/exam-instructions.tsx\<close> (lines 25 to 33) and
  its default \<open>"30m"\<close> (line 39). \<open>\s\<close> is ASCII white space here.
\<close>

subsection \<open>Strings and regular expressions\<close>

definition is_space :: "char \<Rightarrow> bool" where
  "is_space c \<longleftrightarrow> c \<in> {CHR '' '', CHR 0x09, CHR 0x0A, CHR 0x0B, CHR 0x0C, CHR 0x0D}"

fun starts_with :: "string \<Rightarrow> string \<Rightarrow> bool" where
  "starts_with [] s = True"
| "starts_with (k # ks) [] = False"
| "starts_with (k # ks) (c # cs) = (k = c \<and> starts_with ks cs)"

text \<open>\<open>s.trim()\<close>, on the ASCII blanks.\<close>

definition js_trim :: "string \<Rightarrow> string" where
  "js_trim s = rev (dropWhile is_space (rev (dropWhile is_space s)))"

text \<open>\<open>s.includes(kw)\<close>.\<close>

fun str_includes :: "string \<Rightarrow> string \<Rightarrow> bool" where
  "str_includes kw [] = (kw = [])"
| "str_includes kw (c # cs) = (starts_with kw (c # cs) \<or> str_includes kw cs)"

text \<open>\<open>/(\d+)\s*kw/\<close> tried at the start of \<open>s\<close>: the greedy digit run, blanks,
  then the keyword; the captured group read by \<open>parseInt\<close>. Backtracking into the
  digit run cannot help, since the keyword and the blanks start with no digit.\<close>

definition match_at :: "string \<Rightarrow> string \<Rightarrow> nat option" where
  "match_at kw s =
     (let ds = takeWhile is_digit s;
          rest = dropWhile is_space (drop (length ds) s)
      in if ds \<noteq> [] \<and> starts_with kw rest then Some (digits_val ds) else None)"

text \<open>\<open>s.match(re)\<close>: the leftmost position where the expression matches.\<close>

fun find_match :: "string \<Rightarrow> string \<Rightarrow> nat option" where
  "find_match kw [] = None"
| "find_match kw (c # cs) =
     (case match_at kw (c # cs) of Some n \<Rightarrow> Some n | None \<Rightarrow> find_match kw cs)"

definition match_value :: "string \<Rightarrow> string \<Rightarrow> nat" where
  "match_value kw s = (case find_match kw s of Some n \<Rightarrow> n | None \<Rightarrow> 0)"

subsection \<open>The duration\<close>

definition parse_duration :: "string \<Rightarrow> nat" where
  "parse_duration d =
     (if str_includes ''hour'' d then match_value ''hour'' d * 3600 + match_value ''mins'' d * 60
      else if str_includes ''hr'' d then match_value ''hr'' d * 3600 + match_value ''mins'' d * 60
      else match_value ''mins'' d * 60)"

text \<open>The effect that initialises \<open>timeRemaining\<close>; \<open>None\<close> is \<open>null\<close>.\<close>

definition timer_init :: "bool \<Rightarrow> string \<Rightarrow> string \<Rightarrow> int option" where
  "timer_init exam timer_enabled duration =
     (if exam \<and> timer_enabled = ''true'' \<and> duration \<noteq> [] then Some (int (parse_duration duration))
      else None)"

definition time_options :: "string list" where
  "time_options =
     map (\<lambda>i. nat_str ((i + 1) * 5) @ '' mins'') [0..<11]
     @ [''1 hour'', ''1 hr 15 mins'', ''1 hr 20 mins'', ''1 hr 30 mins'', ''1 hr 45 mins'', ''2 hours'']"

definition default_time :: string where
  "default_time = ''30m''"

subsection \<open>The countdown\<close>

text \<open>
  One second of the countdown effect. An interval runs only while
  \<open>timeRemaining\<close> is a positive number; its updater either submits (and
  clears the interval) or decrements. The second component says whether
  \<open>handleSubmit\<close> was called.
\<close>

definition tick :: "int option \<Rightarrow> int option \<times> bool" where
  "tick t =
     (case t of
        None \<Rightarrow> (None, False)
      | Some n \<Rightarrow> if n > 0 then (if n \<le> 1 then (Some 0, True) else (Some (n - 1), False))
                 else (Some n, False))"

text \<open>\<open>k\<close> seconds: the final value and the number of submissions.\<close>

fun run_ticks :: "nat \<Rightarrow> int option \<Rightarrow> int option \<times> nat" where
  "run_ticks 0 t = (t, 0)"
| "run_ticks (Suc k) t =
     (let (t', fired) = tick t; (t'', n) = run_ticks k t' in (t'', (if fired then 1 else 0) + n))"

subsection \<open>Formatting\<close>

text \<open>\<open>x.toString().padStart(2, '0')\<close>.\<close>

definition pad2 :: "string \<Rightarrow> string" where
  "pad2 s = replicate (2 - length s) (CHR ''0'') @ s"

definition format_time :: "nat \<Rightarrow> string" where
  "format_time s =
     (let hrs = s div 3600; mins = (s mod 3600) div 60; secs = s mod 60
      in if hrs > 0 then nat_str hrs @ '':'' @ pad2 (nat_str mins) @ '':'' @ pad2 (nat_str secs)
         else nat_str mins @ '':'' @ pad2 (nat_str secs))"

text \<open>Reading a clock string back: the fields between colons.\<close>

definition clock_seconds :: "string \<Rightarrow> nat" where
  "clock_seconds s =
     (case map digits_val (split_on CHR '':'' s) of
        [h, m, x] \<Rightarrow> 3600 * h + 60 * m + x
      | [m, x] \<Rightarrow> 60 * m + x
      | _ \<Rightarrow> 0)"

subsection \<open>Lemmas\<close>

lemma tick_pos: "1 < n \<Longrightarrow> tick (Some n) = (Some (n - 1), False)"
  by (simp add: tick_def)

lemma tick_one: "tick (Some 1) = (Some 0, True)"
  by (simp add: tick_def)

lemma tick_nonpos: "n \<le> 0 \<Longrightarrow> tick (Some n) = (Some n, False)"
  by (simp add: tick_def)

lemma run_ticks_stopped: "n \<le> 0 \<Longrightarrow> run_ticks k (Some n) = (Some n, 0)"
  by (induction k) (simp_all add: tick_nonpos)

lemma run_ticks_countdown:
  "0 < n \<Longrightarrow> run_ticks k (Some n) =
     (if int k < n then (Some (n - int k), 0) else (Some 0, 1))"
proof (induction k arbitrary: n)
  case 0
  then show ?case by simp
next
  case (Suc k)
  show ?case
  proof (cases "n = 1")
    case True
    then show ?thesis using run_ticks_stopped [of 0 k] by (simp add: tick_one)
  next
    case False
    then have "1 < n" using Suc.prems by simp
    then show ?thesis using Suc.IH [of "n - 1"] by (simp add: tick_pos)
  qed
qed

lemma digits_no_colon: "\<forall>c \<in> set s. is_digit c \<Longrightarrow> CHR '':'' \<notin> set s"
  by (auto simp: is_digit_def)

lemma nat_str_no_colon: "CHR '':'' \<notin> set (nat_str n)"
  using nat_str_digits digits_no_colon by blast

lemma pad2_no_colon: "CHR '':'' \<notin> set (pad2 (nat_str n))"
  using nat_str_no_colon by (auto simp: pad2_def)

lemma digits_val_zeros: "digits_val (replicate k (CHR ''0'') @ s) = digits_val s"
proof -
  have "foldl (\<lambda>acc c. 10 * acc + digit_val c) 0 (replicate k (CHR ''0'')) = 0"
    by (induction k) (simp_all add: digit_val_def)
  then show ?thesis by (simp add: digits_val_def)
qed

lemma digits_val_pad2 [simp]: "digits_val (pad2 s) = digits_val s"
  by (simp add: pad2_def digits_val_zeros)

lemma hms_decomp: "3600 * (s div 3600) + 60 * (s mod 3600 div 60) + s mod 60 = (s::nat)"
proof -
  have a: "s mod 3600 mod 60 = s mod 60" by (simp add: mod_mod_cancel)
  have b: "60 * (s mod 3600 div 60) + s mod 3600 mod 60 = s mod 3600" by simp
  have c: "3600 * (s div 3600) + s mod 3600 = s" by simp
  from a b c show ?thesis by linarith
qed

subsection \<open>Properties\<close>

text \<open>
  Every duration offered by the exam instructions screen parses to the
  intended number of seconds: 5 to 55 minutes, 1 hour, 1 h 15, 1 h 20, 1 h 30,
  1 h 45 and 2 hours.
\<close>

theorem time_options_parse:
  "map parse_duration time_options =
     [300, 600, 900, 1200, 1500, 1800, 2100, 2400, 2700, 3000, 3300, 3600, 4500, 4800, 5400, 6300, 7200]"
  by code_simp

text \<open>
  The default duration \<open>"30m"\<close>, used when the timer is switched on without
  picking a duration, matches none of the patterns: the timer starts at 0 seconds,
  never counts down and never submits the exam.
\<close>

theorem default_duration_disables_timer:
  "parse_duration default_time = 0 \<and> timer_init True ''true'' default_time = Some 0
   \<and> (\<forall>k. run_ticks k (timer_init True ''true'' default_time) = (Some 0, 0))"
proof -
  have p: "parse_duration default_time = 0" by code_simp
  then have "timer_init True ''true'' default_time = Some 0" by (simp add: timer_init_def default_time_def)
  with p show ?thesis by (simp add: run_ticks_stopped)
qed

text \<open>
  C28. A countdown started at \<open>n > 0\<close> seconds shows \<open>n - k\<close> after \<open>k < n\<close> ticks
  without calling \<open>handleSubmit\<close>, and from the \<open>n\<close>-th tick on it stays at 0
  having called it exactly once; from 1 second, one tick calls it once.
  \<open>handleSubmit\<close> itself only opens the confirmation alert of lines 132 to
  151; the submission happens when the user confirms.
\<close>

theorem countdown_submits_once:
  assumes "0 < n"
  shows "run_ticks k (Some n) = (if int k < n then (Some (n - int k), 0) else (Some 0, 1))"
  using run_ticks_countdown [OF assms] .

theorem countdown_submits_once_witness:
  "run_ticks 1 (Some 1) = (Some 0, 1) \<and> run_ticks 5 (Some 1) = (Some 0, 1)
   \<and> run_ticks 3 (Some 10) = (Some 7, 0)"
  using countdown_submits_once [of 1 1] countdown_submits_once [of 1 5] countdown_submits_once [of 10 3]
  by simp

text \<open>
  C29. \<open>formatTime\<close> loses nothing: reading its \<open>H:MM:SS\<close> or \<open>M:SS\<close> output back
  gives the number of seconds formatted.
\<close>

theorem format_time_roundtrip: "clock_seconds (format_time s) = s"
proof (cases "0 < s div 3600")
  case True
  then have "format_time s = nat_str (s div 3600) @ CHR '':'' # pad2 (nat_str (s mod 3600 div 60)) @ CHR '':'' # pad2 (nat_str (s mod 60))"
    by (simp add: format_time_def)
  then have "split_on CHR '':'' (format_time s) = [nat_str (s div 3600), pad2 (nat_str (s mod 3600 div 60)), pad2 (nat_str (s mod 60))]"
    by (simp add: split_on_append split_on_no_sep nat_str_no_colon pad2_no_colon)
  then show ?thesis by (simp add: clock_seconds_def digits_val_nat_str hms_decomp)
next
  case False
  then have "format_time s = nat_str (s mod 3600 div 60) @ CHR '':'' # pad2 (nat_str (s mod 60))"
    by (simp add: format_time_def)
  then have "split_on CHR '':'' (format_time s) = [nat_str (s mod 3600 div 60), pad2 (nat_str (s mod 60))]"
    by (simp add: split_on_append split_on_no_sep nat_str_no_colon pad2_no_colon)
  moreover have "s < 3600" using False by simp
  ultimately show ?thesis by (simp add: clock_seconds_def digits_val_nat_str)
qed

theorem format_time_examples: "format_time 4500 = ''1:15:00'' \<and> format_time 59 = ''0:59''"
  by (simp add: format_time_def nat_str.simps pad2_def)

end
