(* ===== verification/Session.thy ===== *)
theory Session
  imports Shuffle Navigation Scoring Timer "HOL-Library.AList"
begin

text \<open>
  The exam/study session as the React runtime executes it: the state of
  \<open>PastStudyPage\<close> (\<open>src/app/mode/past-study.tsx\<close>) and of its child
  \<open>PastStudy\<close> (\<open>src/components/screens/PastStudy.tsx\<close>), and one step per user
  event or settled network request. A step applies the handler, then the effects
  whose dependencies changed, in the order React runs them, until no effect fires
  (React flushes pending effects before it handles the next input event, so every
  event starts from a settled state). The effects of \<open>PastStudy\<close> are:
  \<^item> E1 on \<open>currentIdx\<close> (lines 54 to 59): question index back to 0;
  \<^item> E2 on \<open>activeSubject\<close> and \<open>page\<close> (lines 61 to 112): a request starts and the
    previous one is cancelled (its result is dropped);
  \<^item> E3 on \<open>questions.length\<close>, \<open>activeSubject\<close> and \<open>page\<close> (lines 129 to 135): when
    questions are loaded, they become \<open>originalQuestions\<close> and the shuffle seed
    changes, which recomputes \<open>displayedQuestions\<close> (lines 138 to 157);
  \<^item> E4 on \<open>displayedQuestions\<close>, \<open>activeSubject\<close> and \<open>page\<close> (lines 160 to 176):
    in exam mode the subject's entries of \<open>allQuestions\<close> are replaced by the
    displayed page, keyed \<open>"<subject>-<(page-1)*10+idx>"\<close>;
  \<^item> E5 (lines 179 to 183): the parent's \<open>examQuestions\<close> become \<open>allQuestions\<close>;
  \<^item> E6 on \<open>selectedAnswers\<close> and \<open>activeSubject\<close> (lines 186 to 195): the parent's
    \<open>userAnswers\<close> become the selections keyed \<open>"<activeSubject>-<idx>"\<close>.
  The in-page index of \<open>selectedAnswers\<close> is the question index of the page, as
  \<open>selectOption(currentQuestionIndex, opt)\<close> records it (lines 204 to 206, 361).
  Page counts are integers (a service total that is a number); the year and the
  exam name are constant in a session and not part of the request key.
\<close>

record session =
  opts :: "subject_option list"
  exam :: bool
  s_idx :: nat
  s_page :: int
  s_qidx :: int
  s_questions :: "question list"
  s_total :: int
  s_selected :: "(nat \<times> string) list"
  s_original :: "question list"
  s_displayed :: "question list"
  s_all :: "exam_entry list"
  s_answers :: answers
  s_exam_qs :: "exam_entry list"
  s_pages_by :: "string \<rightharpoonup> int"
  s_rng :: draws
  s_fetching :: bool
  s_dep_orig :: "nat \<times> string \<times> int"

datatype sevent =
    EvNext
  | EvPrev
  | EvSelect string
  | EvTab nat
  | EvSheet nat int
  | EvFetched "jsval option"

subsection \<open>Derived values of a render\<close>

definition active_subject :: "session \<Rightarrow> string" where
  "active_subject s = so_subject (opts s ! s_idx s)"

text \<open>\<open>options.find((o) => o.subject === activeSubject)\<close>.\<close>

definition active_opts :: "session \<Rightarrow> subject_option option" where
  "active_opts s = find (\<lambda>x. so_subject x = active_subject s) (opts s)"

definition sel_count_of :: "session \<Rightarrow> int" where
  "sel_count_of s = (case active_opts s of Some x \<Rightarrow> so_count x | None \<Rightarrow> 0)"

definition shuffle_flags :: "session \<Rightarrow> bool \<times> bool" where
  "shuffle_flags s =
     (case active_opts s of Some x \<Rightarrow> (so_shuffle x, so_shuffle_options x) | None \<Rightarrow> (False, False))"

text \<open>\<open>`${subject}-${n}`\<close>.\<close>

definition global_key :: "string \<Rightarrow> int \<Rightarrow> string" where
  "global_key subj n = subj @ ''-'' @ int_str n"

definition page_entries :: "string \<Rightarrow> int \<Rightarrow> question list \<Rightarrow> exam_entry list" where
  "page_entries subj pg qs =
     map (\<lambda>(q, idx). \<lparr>ee_subject = subj, ee_question = q,
                       ee_global = global_key subj ((pg - 1) * 10 + int idx)\<rparr>)
         (zip qs [0..<length qs])"

text \<open>The updater of E4: \<open>prev.filter(q => !q.globalIndex.startsWith(`${subject}-`))\<close>.\<close>

definition replace_subject_entries :: "string \<Rightarrow> int \<Rightarrow> question list \<Rightarrow> exam_entry list \<Rightarrow> exam_entry list" where
  "replace_subject_entries subj pg qs prev =
     filter (\<lambda>e. \<not> starts_with (subj @ ''-'') (ee_global e)) prev @ page_entries subj pg qs"

text \<open>E6: \<open>Object.entries(selectedAnswers)\<close> re-keyed under the active subject.\<close>

definition answers_for :: "string \<Rightarrow> (nat \<times> string) list \<Rightarrow> answers" where
  "answers_for subj sel = map_of (map (\<lambda>(i, a). (global_key subj (int i), a)) sel)"

definition nav_view_of :: "session \<Rightarrow> nav_view" where
  "nav_view_of s =
     \<lparr>exam_mode = exam s, n_subjects = length (opts s), sel_count = sel_count_of s,
      n_displayed = length (s_displayed s), total_pages = s_total s\<rparr>"

definition pos_of :: "session \<Rightarrow> nav_pos" where
  "pos_of s = \<lparr>subject_idx = s_idx s, page = s_page s, qidx = s_qidx s\<rparr>"

definition set_pos :: "nav_pos \<Rightarrow> session \<Rightarrow> session" where
  "set_pos p s = s\<lparr>s_idx := subject_idx p, s_page := page p, s_qidx := qidx p\<rparr>"

subsection \<open>The effects\<close>

text \<open>The memo \<open>displayedQuestions\<close>, recomputed from \<open>originalQuestions\<close>.\<close>

definition recompute_displayed :: "session \<Rightarrow> session" where
  "recompute_displayed s =
     (let (sh, so) = shuffle_flags s;
          (d, rs) = displayed_questions (s_original s) sh so (s_rng s)
      in s\<lparr>s_displayed := d, s_rng := rs\<rparr>)"

text \<open>E3, returning whether \<open>originalQuestions\<close> and the seed were set.\<close>

definition effect_original :: "session \<Rightarrow> session \<times> bool" where
  "effect_original s =
     (let deps = (length (s_questions s), active_subject s, s_page s)
      in if deps = s_dep_orig s then (s, False)
         else if 0 < length (s_questions s)
         then (s\<lparr>s_dep_orig := deps, s_original := s_questions s\<rparr>, True)
         else (s\<lparr>s_dep_orig := deps\<rparr>, False))"

definition effect_all_questions :: "session \<Rightarrow> session" where
  "effect_all_questions s =
     (if exam s \<and> s_displayed s \<noteq> []
      then s\<lparr>s_all := replace_subject_entries (active_subject s) (s_page s) (s_displayed s) (s_all s)\<rparr>
      else s)"

definition effect_notify :: "bool \<Rightarrow> session \<Rightarrow> session" where
  "effect_notify answers_dirty s =
     (let s1 = (if exam s then s\<lparr>s_exam_qs := s_all s\<rparr> else s)
      in if exam s \<and> answers_dirty
         then s1\<lparr>s_answers := answers_for (active_subject s1) (s_selected s1)\<rparr> else s1)"

text \<open>
  The settled result of the renders and commits that follow a handler which took
  the state \<open>old\<close> to \<open>s\<close>: first the render (the memo recomputes when the shuffle
  flags of the subject changed), then E1 to E6, then the render after E3 (the memo
  recomputes from the new \<open>originalQuestions\<close>) and the commits that follow it.
  \<open>sel_dirty\<close> says whether the handler replaced \<open>selectedAnswers\<close>.
\<close>

definition settle :: "session \<Rightarrow> session \<Rightarrow> bool \<Rightarrow> session" where
  "settle old s sel_dirty =
     (let subj_ch = (active_subject s \<noteq> active_subject old);
          page_ch = (s_page s \<noteq> s_page old);
          flags_ch = (shuffle_flags s \<noteq> shuffle_flags old);
          s0 = (if flags_ch then recompute_displayed s else s);
          s1 = (if s_idx s \<noteq> s_idx old then s0\<lparr>s_qidx := 0\<rparr> else s0);
          s2 = (if subj_ch \<or> page_ch then s1\<lparr>s_fetching := True\<rparr> else s1);
          (s3, fired) = effect_original s2;
          s4 = (if fired then recompute_displayed s3 else s3);
          s5 = (if flags_ch \<or> fired \<or> subj_ch \<or> page_ch then effect_all_questions s4 else s4)
      in effect_notify (sel_dirty \<or> subj_ch) s5)"

text \<open>The effect body after \<open>await myQuest.getQuestions(...)\<close> for the request
  still current (\<open>!cancelled\<close>): \<open>setQuestions\<close>, \<open>setTotalPages\<close> and the
  parent's \<open>onPaginationMetaChange\<close>.\<close>

definition js_page_int :: "js_number \<Rightarrow> int" where
  "js_page_int n = (case n of Finite x \<Rightarrow> floor x | _ \<Rightarrow> 1)"

definition apply_fetch :: "jsval option \<Rightarrow> session \<Rightarrow> session" where
  "apply_fetch res s =
     (let (qs, pg) = load_page (s_page s) res; n = js_page_int pg
      in s\<lparr>s_questions := qs, s_total := n, s_fetching := False,
           s_pages_by := (if active_subject s \<noteq> [] then (s_pages_by s)(active_subject s \<mapsto> n)
                          else s_pages_by s)\<rparr>)"

subsection \<open>The step function\<close>

fun session_step :: "session \<Rightarrow> sevent \<Rightarrow> session" where
  "session_step s EvNext = settle s (set_pos (handle_next (nav_view_of s) (pos_of s)) s) False"
| "session_step s EvPrev = settle s (set_pos (handle_prev (nav_view_of s) (pos_of s)) s) False"
| "session_step s (EvSelect a) =
     settle s (s\<lparr>s_selected := AList.update (nat (s_qidx s)) a (s_selected s)\<rparr>) True"
| "session_step s (EvTab i) = settle s (s\<lparr>s_idx := i, s_page := 1\<rparr>) False"
| "session_step s (EvSheet i p) = settle s (s\<lparr>s_idx := i, s_page := p\<rparr>) False"
| "session_step s (EvFetched res) = settle s (apply_fetch res s) False"

text \<open>The settled state after mounting: E2 has started the first request, E3 has
  run on an empty list, E5 and E6 have published empty data.\<close>

definition init_session :: "subject_option list \<Rightarrow> bool \<Rightarrow> draws \<Rightarrow> session" where
  "init_session os ex rs =
     \<lparr>opts = os, exam = ex, s_idx = 0, s_page = 1, s_qidx = 0, s_questions = [], s_total = 1,
      s_selected = [], s_original = [], s_displayed = [], s_all = [], s_answers = Map.empty,
      s_exam_qs = [], s_pages_by = Map.empty, s_rng = rs, s_fetching = True,
      s_dep_orig = (0, so_subject (os ! 0), 1)\<rparr>"

text \<open>
  The events the screen can produce: Next and Prev, a selection among the options
  of the question shown (exam mode), a subject tab, a chip of the page selector
  (pages \<open>1 .. pagesBySubject[s] || 10\<close>, lines 237 to 253 of
  \<open>past-study.tsx\<close>), and the settling of the request in flight.
\<close>

definition sheet_pages :: "session \<Rightarrow> nat \<Rightarrow> int" where
  "sheet_pages s i =
     (case s_pages_by s (so_subject (opts s ! i)) of Some n \<Rightarrow> (if n \<noteq> 0 then n else 10) | None \<Rightarrow> 10)"

inductive enabled :: "session \<Rightarrow> sevent \<Rightarrow> bool" where
  en_next: "enabled s EvNext"
| en_prev: "enabled s EvPrev"
| en_select: "exam s \<Longrightarrow> 0 \<le> s_qidx s \<Longrightarrow> nat (s_qidx s) < length (s_displayed s) \<Longrightarrow>
    a \<in> set (q_options (s_displayed s ! nat (s_qidx s))) \<Longrightarrow> enabled s (EvSelect a)"
| en_tab: "i < length (opts s) \<Longrightarrow> enabled s (EvTab i)"
| en_sheet: "i < length (opts s) \<Longrightarrow> 1 \<le> p \<Longrightarrow> p \<le> sheet_pages s i \<Longrightarrow> enabled s (EvSheet i p)"
| en_fetched: "s_fetching s \<Longrightarrow> enabled s (EvFetched res)"

inductive reachable :: "session \<Rightarrow> bool" where
  start: "os \<noteq> [] \<Longrightarrow> valid_draws rs \<Longrightarrow> reachable (init_session os ex rs)"
| step: "reachable s \<Longrightarrow> enabled s e \<Longrightarrow> reachable (session_step s e)"


subsection \<open>The session invariant\<close>

text \<open>Reading a global key \<open>"<subject>-<n>"\<close> back: the digits after the last
  dash and the text before it.\<close>

definition key_ordinal :: "string \<Rightarrow> int" where
  "key_ordinal g = int (digits_val (rev (takeWhile (\<lambda>c. c \<noteq> CHR ''-'') (rev g))))"

definition key_subject :: "string \<Rightarrow> string" where
  "key_subject g = rev (drop 1 (dropWhile (\<lambda>c. c \<noteq> CHR ''-'') (rev g)))"

definition well_keyed :: "exam_entry \<Rightarrow> bool" where
  "well_keyed e \<longleftrightarrow> ee_global e = global_key (ee_subject e) (key_ordinal (ee_global e))"

text \<open>What every reachable state satisfies.\<close>

definition session_inv :: "session \<Rightarrow> bool" where
  "session_inv s \<longleftrightarrow>
     s_idx s < length (opts s) \<and> 1 \<le> s_page s \<and> 1 \<le> s_total s
   \<and> length (s_questions s) \<le> 10 \<and> length (s_original s) \<le> 10
   \<and> length (s_displayed s) = length (s_original s)
   \<and> 0 \<le> s_qidx s \<and> s_qidx s \<le> 9
   \<and> s_dep_orig s = (length (s_questions s), active_subject s, s_page s)
   \<and> list_all (\<lambda>p. fst p < 10) (s_selected s)
   \<and> list_all well_keyed (s_all s)
   \<and> (exam s \<longrightarrow> s_exam_qs s = s_all s \<and> s_answers s = answers_for (active_subject s) (s_selected s))"

subsection \<open>A concrete session\<close>

text \<open>Two subjects of twenty questions without shuffling, every request failing
  (the fallback sample bank): the first page is loaded, the first question is
  answered, and the second subject is opened; or the page selector moves to page 2.\<close>

definition trace_biology :: subject_option where
  "trace_biology = \<lparr>so_subject = ''Biology'', so_year = ''2024'', so_topic = '''', so_count = 20,
              so_shuffle = False, so_shuffle_options = False\<rparr>"

definition trace_chemistry :: subject_option where
  "trace_chemistry = \<lparr>so_subject = ''Chemistry'', so_year = ''2024'', so_topic = '''', so_count = 20,
              so_shuffle = False, so_shuffle_options = False\<rparr>"

definition trace_start :: session where "trace_start = init_session [trace_biology, trace_chemistry] True (sconst 0)"

definition trace_answer :: string where "trace_answer = ''wouldn'' @ apos @ ''t you''"

definition trace_loaded :: session where "trace_loaded = session_step trace_start (EvFetched None)"
definition trace_answered :: session where "trace_answered = session_step trace_loaded (EvSelect trace_answer)"
definition trace_switched :: session where "trace_switched = session_step trace_answered (EvTab 1)"

definition trace_page2 :: session where "trace_page2 = session_step trace_loaded (EvSheet 0 2)"

subsection \<open>Lemmas\<close>

lemma dash_not_in_nat_str: "CHR ''-'' \<notin> set (nat_str n)"
  using nat_str_digits [of n] by (auto simp: is_digit_def)

lemma global_key_nonneg: "0 \<le> n \<Longrightarrow> global_key subj n = subj @ ''-'' @ nat_str (nat n)"
  by (simp add: global_key_def int_str_def)

lemma key_global_key:
  assumes "0 \<le> n"
  shows "key_ordinal (global_key subj n) = n \<and> key_subject (global_key subj n) = subj"
proof -
  let ?d = "rev (nat_str (nat n))"
  have nd: "\<forall>c \<in> set ?d. c \<noteq> CHR ''-''" using dash_not_in_nat_str by auto
  have r: "rev (global_key subj n) = ?d @ CHR ''-'' # rev subj"
    using assms by (simp add: global_key_nonneg)
  have t: "takeWhile (\<lambda>c. c \<noteq> CHR ''-'') (?d @ CHR ''-'' # rev subj) = ?d"
    using nd by (subst takeWhile_append2) auto
  have d: "dropWhile (\<lambda>c. c \<noteq> CHR ''-'') (?d @ CHR ''-'' # rev subj) = CHR ''-'' # rev subj"
    using nd by (subst dropWhile_append2) auto
  show ?thesis
    using assms by (simp add: key_ordinal_def key_subject_def r t d digits_val_nat_str)
qed

lemma global_key_inj:
  "global_key a m = global_key b n \<Longrightarrow> 0 \<le> m \<Longrightarrow> 0 \<le> n \<Longrightarrow> a = b \<and> m = n"
  by (metis key_global_key)

lemma well_keyed_global_key: "0 \<le> n \<Longrightarrow> well_keyed \<lparr>ee_subject = s, ee_question = q, ee_global = global_key s n\<rparr>"
  by (simp add: well_keyed_def key_global_key)


lemma recompute_displayed_fields [simp]:
  "opts (recompute_displayed s) = opts s" "exam (recompute_displayed s) = exam s"
  "s_idx (recompute_displayed s) = s_idx s" "s_page (recompute_displayed s) = s_page s"
  "s_qidx (recompute_displayed s) = s_qidx s" "s_questions (recompute_displayed s) = s_questions s"
  "s_total (recompute_displayed s) = s_total s" "s_selected (recompute_displayed s) = s_selected s"
  "s_original (recompute_displayed s) = s_original s" "s_all (recompute_displayed s) = s_all s"
  "s_answers (recompute_displayed s) = s_answers s" "s_exam_qs (recompute_displayed s) = s_exam_qs s"
  "s_pages_by (recompute_displayed s) = s_pages_by s" "s_fetching (recompute_displayed s) = s_fetching s"
  "s_dep_orig (recompute_displayed s) = s_dep_orig s"
  "length (s_displayed (recompute_displayed s)) = length (s_original s)"
  by (simp_all add: recompute_displayed_def split_def Let_def)

lemma effect_original_fields [simp]:
  "opts (fst (effect_original s)) = opts s" "exam (fst (effect_original s)) = exam s"
  "s_idx (fst (effect_original s)) = s_idx s" "s_page (fst (effect_original s)) = s_page s"
  "s_qidx (fst (effect_original s)) = s_qidx s" "s_questions (fst (effect_original s)) = s_questions s"
  "s_total (fst (effect_original s)) = s_total s" "s_selected (fst (effect_original s)) = s_selected s"
  "s_all (fst (effect_original s)) = s_all s" "s_displayed (fst (effect_original s)) = s_displayed s"
  "s_answers (fst (effect_original s)) = s_answers s" "s_exam_qs (fst (effect_original s)) = s_exam_qs s"
  "s_pages_by (fst (effect_original s)) = s_pages_by s" "s_fetching (fst (effect_original s)) = s_fetching s"
  "s_dep_orig (fst (effect_original s)) = (length (s_questions s), active_subject s, s_page s)"
  by (simp_all add: effect_original_def Let_def)

lemma effect_original_original:
  "s_original (fst (effect_original s)) = (if snd (effect_original s) then s_questions s else s_original s)"
  by (simp add: effect_original_def Let_def)

lemma effect_original_unchanged:
  "s_dep_orig s = (length (s_questions s), active_subject s, s_page s) \<Longrightarrow> effect_original s = (s, False)"
  by (simp add: effect_original_def)

lemma active_subject_cong:
  "opts t = opts s \<Longrightarrow> s_idx t = s_idx s \<Longrightarrow> active_subject t = active_subject s"
  by (simp add: active_subject_def)

lemma shuffle_flags_cong:
  "opts t = opts s \<Longrightarrow> s_idx t = s_idx s \<Longrightarrow> shuffle_flags t = shuffle_flags s"
  by (simp add: shuffle_flags_def active_opts_def active_subject_def)

lemma effect_all_questions_fields [simp]:
  "opts (effect_all_questions s) = opts s" "exam (effect_all_questions s) = exam s"
  "s_idx (effect_all_questions s) = s_idx s" "s_page (effect_all_questions s) = s_page s"
  "s_qidx (effect_all_questions s) = s_qidx s" "s_questions (effect_all_questions s) = s_questions s"
  "s_total (effect_all_questions s) = s_total s" "s_selected (effect_all_questions s) = s_selected s"
  "s_original (effect_all_questions s) = s_original s" "s_displayed (effect_all_questions s) = s_displayed s"
  "s_answers (effect_all_questions s) = s_answers s" "s_exam_qs (effect_all_questions s) = s_exam_qs s"
  "s_pages_by (effect_all_questions s) = s_pages_by s" "s_fetching (effect_all_questions s) = s_fetching s"
  "s_dep_orig (effect_all_questions s) = s_dep_orig s"
  by (simp_all add: effect_all_questions_def)

lemma page_entries_well_keyed: "1 \<le> pg \<Longrightarrow> list_all well_keyed (page_entries subj pg qs)"
  by (auto simp: page_entries_def list_all_iff set_zip well_keyed_def key_global_key)

lemma effect_all_questions_well_keyed:
  "list_all well_keyed (s_all s) \<Longrightarrow> 1 \<le> s_page s \<Longrightarrow> list_all well_keyed (s_all (effect_all_questions s))"
  using page_entries_well_keyed [of "s_page s" "active_subject s" "s_displayed s"]
  by (auto simp: effect_all_questions_def replace_subject_entries_def list_all_iff)

lemma effect_notify_fields [simp]:
  "opts (effect_notify d s) = opts s" "exam (effect_notify d s) = exam s"
  "s_idx (effect_notify d s) = s_idx s" "s_page (effect_notify d s) = s_page s"
  "s_qidx (effect_notify d s) = s_qidx s" "s_questions (effect_notify d s) = s_questions s"
  "s_total (effect_notify d s) = s_total s" "s_selected (effect_notify d s) = s_selected s"
  "s_original (effect_notify d s) = s_original s" "s_displayed (effect_notify d s) = s_displayed s"
  "s_all (effect_notify d s) = s_all s"
  "s_pages_by (effect_notify d s) = s_pages_by s" "s_fetching (effect_notify d s) = s_fetching s"
  "s_dep_orig (effect_notify d s) = s_dep_orig s"
  "exam s \<Longrightarrow> s_exam_qs (effect_notify d s) = s_all s"
  by (simp_all add: effect_notify_def Let_def)

lemma effect_notify_answers:
  "s_answers (effect_notify d s) =
     (if exam s \<and> d then answers_for (active_subject s) (s_selected s) else s_answers s)"
  by (simp add: effect_notify_def Let_def active_subject_def)

lemma active_subject_effects [simp]:
  "active_subject (recompute_displayed s) = active_subject s"
  "active_subject (fst (effect_original s)) = active_subject s"
  "active_subject (effect_all_questions s) = active_subject s"
  "active_subject (effect_notify d s) = active_subject s"
  by (simp_all add: active_subject_def)


lemma settle_inv:
  assumes "s_idx s < length (opts s)" "1 \<le> s_page s" "1 \<le> s_total s"
    "length (s_questions s) \<le> 10" "length (s_original s) \<le> 10"
    "length (s_displayed s) = length (s_original s)" "0 \<le> s_qidx s" "s_qidx s \<le> 9"
    "list_all (\<lambda>p. fst p < 10) (s_selected s)" "list_all well_keyed (s_all s)"
    "exam s \<Longrightarrow> \<not> d \<Longrightarrow> active_subject s = active_subject old \<Longrightarrow>
       s_answers s = answers_for (active_subject s) (s_selected s)"
  shows "session_inv (settle old s d)"
proof -
  define fl where "fl = (shuffle_flags s \<noteq> shuffle_flags old)"
  define sc where "sc = (active_subject s \<noteq> active_subject old)"
  define pc where "pc = (s_page s \<noteq> s_page old)"
  define s0 where "s0 = (if fl then recompute_displayed s else s)"
  define s1 where "s1 = (if s_idx s \<noteq> s_idx old then s0\<lparr>s_qidx := 0\<rparr> else s0)"
  define s2 where "s2 = (if sc \<or> pc then s1\<lparr>s_fetching := True\<rparr> else s1)"
  define s3 where "s3 = fst (effect_original s2)"
  define s4 where "s4 = (if snd (effect_original s2) then recompute_displayed s3 else s3)"
  define s5 where "s5 = (if fl \<or> snd (effect_original s2) \<or> sc \<or> pc then effect_all_questions s4 else s4)"
  have st: "settle old s d = effect_notify (d \<or> sc) s5"
    by (simp add: settle_def Let_def split_def fl_def sc_def pc_def s0_def s1_def s2_def s3_def s4_def s5_def)
  have f0: "opts s0 = opts s \<and> exam s0 = exam s \<and> s_idx s0 = s_idx s \<and> s_page s0 = s_page s
      \<and> s_questions s0 = s_questions s \<and> s_total s0 = s_total s \<and> s_selected s0 = s_selected s
      \<and> s_all s0 = s_all s \<and> s_answers s0 = s_answers s \<and> s_original s0 = s_original s
      \<and> s_qidx s0 = s_qidx s \<and> length (s_displayed s0) = length (s_original s)"
    using assms(6) by (simp add: s0_def)
  have f2: "opts s2 = opts s \<and> exam s2 = exam s \<and> s_idx s2 = s_idx s \<and> s_page s2 = s_page s
      \<and> s_questions s2 = s_questions s \<and> s_total s2 = s_total s \<and> s_selected s2 = s_selected s
      \<and> s_all s2 = s_all s \<and> s_answers s2 = s_answers s \<and> s_original s2 = s_original s
      \<and> 0 \<le> s_qidx s2 \<and> s_qidx s2 \<le> 9 \<and> length (s_displayed s2) = length (s_original s)"
    using f0 assms(7,8) by (simp add: s1_def s2_def)
  then have a2: "active_subject s2 = active_subject s"
    by (simp add: active_subject_def)
  have f4: "opts s4 = opts s \<and> exam s4 = exam s \<and> s_idx s4 = s_idx s \<and> s_page s4 = s_page s
      \<and> s_questions s4 = s_questions s \<and> s_total s4 = s_total s \<and> s_selected s4 = s_selected s
      \<and> s_all s4 = s_all s \<and> s_answers s4 = s_answers s
      \<and> 0 \<le> s_qidx s4 \<and> s_qidx s4 \<le> 9 \<and> length (s_original s4) \<le> 10
      \<and> length (s_displayed s4) = length (s_original s4)
      \<and> s_dep_orig s4 = (length (s_questions s), active_subject s, s_page s)"
    using f2 a2 assms(4,5) by (simp add: s3_def s4_def effect_original_original)
  then have a4: "active_subject s4 = active_subject s"
    by (simp add: active_subject_def)
  have f5: "opts s5 = opts s \<and> exam s5 = exam s \<and> s_idx s5 = s_idx s \<and> s_page s5 = s_page s
      \<and> s_questions s5 = s_questions s \<and> s_total s5 = s_total s \<and> s_selected s5 = s_selected s
      \<and> list_all well_keyed (s_all s5) \<and> s_answers s5 = s_answers s
      \<and> 0 \<le> s_qidx s5 \<and> s_qidx s5 \<le> 9 \<and> length (s_original s5) \<le> 10
      \<and> length (s_displayed s5) = length (s_original s5)
      \<and> s_dep_orig s5 = (length (s_questions s), active_subject s, s_page s)"
    using f4 assms(2,10) effect_all_questions_well_keyed [of s4] by (simp add: s5_def)
  then have a5: "active_subject s5 = active_subject s"
    by (simp add: active_subject_def)
  show ?thesis
    using f5 a5 assms(1-4,9,11)
    by (auto simp: st session_inv_def effect_notify_answers sc_def)
qed

lemma js_page_count_ge_1: "1 \<le> js_page_int (js_page_count n)"
  by (cases n) (simp_all add: js_page_int_def)

lemma js_page_int_load_page: "1 \<le> js_page_int (snd (load_page pg res))"
proof (cases res)
  case None
  then show ?thesis by (simp add: load_page_None js_page_int_def)
next
  case (Some r)
  then show ?thesis by (simp add: load_page_def Let_def js_page_count_ge_1)
qed

lemma set_pos_fields [simp]:
  "opts (set_pos p s) = opts s" "exam (set_pos p s) = exam s" "s_idx (set_pos p s) = subject_idx p"
  "s_page (set_pos p s) = page p" "s_qidx (set_pos p s) = qidx p"
  "s_questions (set_pos p s) = s_questions s" "s_total (set_pos p s) = s_total s"
  "s_selected (set_pos p s) = s_selected s" "s_original (set_pos p s) = s_original s"
  "s_displayed (set_pos p s) = s_displayed s" "s_all (set_pos p s) = s_all s"
  "s_answers (set_pos p s) = s_answers s"
  by (simp_all add: set_pos_def)

lemma set_pos_inv:
  assumes "session_inv s" "pos_ok (nav_view_of s) p"
  shows "session_inv (settle s (set_pos p s) False)"
proof (rule settle_inv)
  show "exam (set_pos p s) \<Longrightarrow> \<not> False \<Longrightarrow> active_subject (set_pos p s) = active_subject s \<Longrightarrow>
      s_answers (set_pos p s) = answers_for (active_subject (set_pos p s)) (s_selected (set_pos p s))"
    using assms(1) by (simp add: session_inv_def)
qed (use assms in \<open>simp_all add: session_inv_def pos_ok_def nav_view_of_def\<close>)

lemma reachable_inv: "reachable s \<Longrightarrow> session_inv s"
proof (induction rule: reachable.induct)
  case (start os rs ex)
  then show ?case
    by (simp add: init_session_def session_inv_def active_subject_def answers_for_def)
next
  case (step s e)
  have pos: "pos_ok (nav_view_of s) (pos_of s)"
    using step.IH by (simp add: session_inv_def pos_ok_def nav_view_of_def pos_of_def)
  have nv: "1 \<le> total_pages (nav_view_of s)" "n_displayed (nav_view_of s) \<le> 10"
    using step.IH by (simp_all add: session_inv_def nav_view_of_def)
  show ?case
  proof (cases e)
    case EvNext
    then show ?thesis using set_pos_inv step.IH handle_next_pos_ok [OF pos nv] by simp
  next
    case EvPrev
    then show ?thesis using set_pos_inv step.IH handle_prev_pos_ok [OF pos] by simp
  next
    case (EvSelect a)
    have q: "nat (s_qidx s) < 10" using step.IH by (simp add: session_inv_def nat_less_iff)
    have "list_all (\<lambda>p. fst p < 10) (AList.update (nat (s_qidx s)) a (s_selected s))"
      using step.IH q by (simp add: session_inv_def list_all_update)
    note h = this
    show ?thesis unfolding EvSelect session_step.simps
      by (rule settle_inv) (use step.IH h in \<open>auto simp: session_inv_def\<close>)
  next
    case (EvTab i)
    then have "i < length (opts s)" using step.hyps(2) by (auto elim: enabled.cases)
    note h = this
    show ?thesis unfolding EvTab session_step.simps
      by (rule settle_inv) (use step.IH h in \<open>auto simp: session_inv_def\<close>)
  next
    case (EvSheet i p)
    then have "i < length (opts s)" "1 \<le> p" using step.hyps(2) by (auto elim: enabled.cases)
    note h = this
    show ?thesis unfolding EvSheet session_step.simps
      by (rule settle_inv) (use step.IH h in \<open>auto simp: session_inv_def\<close>)
  next
    case (EvFetched res)
    have "length (fst (load_page (s_page s) res)) \<le> 10" by (rule length_load_page_le)
    note h = this js_page_int_load_page [of "s_page s" res]
    show ?thesis unfolding EvFetched session_step.simps
      by (rule settle_inv) (use step.IH h in \<open>auto simp: session_inv_def apply_fetch_def split_def Let_def\<close>)
  qed
qed


lemma answers_for_SomeD:
  "answers_for subj sel g = Some x \<Longrightarrow> \<exists>i. (i, x) \<in> set sel \<and> g = global_key subj (int i)"
  by (auto simp: answers_for_def dest!: map_of_SomeD)

lemma answers_for_key:
  assumes "answers_for a sel (global_key b n) \<noteq> None" "0 \<le> n" "list_all (\<lambda>p. fst p < 10) sel"
  shows "b = a \<and> n < 10"
proof -
  obtain x where "answers_for a sel (global_key b n) = Some x" using assms(1) by blast
  then obtain i where i: "(i, x) \<in> set sel" "global_key b n = global_key a (int i)"
    using answers_for_SomeD by blast
  then have "b = a \<and> n = int i" using global_key_inj [OF i(2) assms(2)] by simp
  moreover have "i < 10" using i(1) assms(3) by (auto simp: list_all_iff)
  ultimately show ?thesis by simp
qed

lemma settle_frame [simp]:
  "opts (settle old s d) = opts s" "exam (settle old s d) = exam s"
  "s_idx (settle old s d) = s_idx s" "s_page (settle old s d) = s_page s"
  "s_selected (settle old s d) = s_selected s" "s_questions (settle old s d) = s_questions s"
  by (simp_all add: settle_def Let_def split_def)

lemma apply_fetch_frame [simp]:
  "opts (apply_fetch res s) = opts s" "exam (apply_fetch res s) = exam s"
  "s_idx (apply_fetch res s) = s_idx s" "s_page (apply_fetch res s) = s_page s"
  "s_selected (apply_fetch res s) = s_selected s"
  by (simp_all add: apply_fetch_def split_def Let_def)

lemma session_step_frame [simp]:
  "opts (session_step s e) = opts s" "exam (session_step s e) = exam s"
  by (cases e; simp)+

lemma settle_quiet:
  assumes "opts s = opts old" "s_idx s = s_idx old" "s_page s = s_page old"
    "s_dep_orig s = (length (s_questions s), active_subject s, s_page s)"
  shows "s_displayed (settle old s d) = s_displayed s \<and> s_original (settle old s d) = s_original s"
proof -
  have "active_subject s = active_subject old" "shuffle_flags s = shuffle_flags old"
    using assms(1,2) shuffle_flags_cong [OF assms(1,2)] by (simp_all add: active_subject_def)
  then show ?thesis using assms(2,3,4)
    by (simp add: settle_def Let_def effect_original_unchanged)
qed

lemma apply_fetch_fields [simp]:
  "s_questions (apply_fetch res s) = fst (load_page (s_page s) res)"
  "s_displayed (apply_fetch res s) = s_displayed s" "s_original (apply_fetch res s) = s_original s"
  "s_dep_orig (apply_fetch res s) = s_dep_orig s"
  by (simp_all add: apply_fetch_def split_def Let_def)

lemma trace_start_reach: "reachable trace_start"
  unfolding trace_start_def by (rule reachable.start) simp_all

lemmas session_eval = init_session_def settle_def apply_fetch_def load_page_None Let_def
     effect_original_def effect_all_questions_def effect_notify_def recompute_displayed_def
     active_subject_def shuffle_flags_def active_opts_def page_start_def
     displayed_questions_def js_page_int_def set_pos_def pos_of_def nav_view_of_def sel_count_of_def

lemmas trace_eval = trace_start_def session_eval trace_biology_def trace_chemistry_def sample_page_1

lemma trace_loaded_fields:
  "exam trace_loaded \<and> s_qidx trace_loaded = 0 \<and> s_displayed trace_loaded = map sample_item [0..<10]
   \<and> s_questions trace_loaded = map sample_item [0..<10] \<and> s_pages_by trace_loaded ''Biology'' = Some 5
   \<and> opts trace_loaded = [trace_biology, trace_chemistry]"
  by (simp add: trace_loaded_def trace_eval)

lemma trace_answer_option: "trace_answer \<in> set (q_options (sample_item 0))"
  by (simp add: sample_item_fields sample_all_def sample_base_def sample_q_def trace_answer_def)

lemma trace_answer_scores: "answer_scores (Some trace_answer) (sample_item 0)"
  by (simp add: answer_scores_def sample_item_fields sample_all_def sample_base_def sample_q_def trace_answer_def)

lemma trace_loaded_reach: "reachable trace_loaded"
  unfolding trace_loaded_def
  by (rule reachable.step [OF trace_start_reach]) (simp add: en_fetched trace_start_def init_session_def)

lemma trace_switched_reach: "reachable trace_switched"
proof -
  have r2: "reachable trace_answered" unfolding trace_answered_def
    by (rule reachable.step [OF trace_loaded_reach])
       (rule en_select, use trace_loaded_fields trace_answer_option in simp_all)
  show ?thesis unfolding trace_switched_def
    by (rule reachable.step [OF r2]) (rule en_tab, simp add: trace_answered_def trace_loaded_fields)
qed

lemma trace_answered_fields:
  "s_answers trace_answered = [global_key ''Biology'' 0 \<mapsto> trace_answer]
   \<and> s_selected trace_answered = [(0, trace_answer)]"
  by (simp add: trace_answered_def trace_loaded_def trace_eval answers_for_def)

lemma trace_switched_fields:
  "exam trace_switched \<and> active_subject trace_switched = ''Chemistry''
   \<and> s_answers trace_switched = [global_key ''Chemistry'' 0 \<mapsto> trace_answer]
   \<and> s_selected trace_switched = [(0, trace_answer)]"
  by (simp add: trace_switched_def trace_answered_def trace_loaded_def trace_eval answers_for_def)

lemma trace_page2_fields:
  "s_page trace_page2 = 2 \<and> s_questions trace_page2 = map sample_item [0..<10]
   \<and> s_displayed trace_page2 = map sample_item [0..<10]"
  by (simp add: trace_page2_def trace_loaded_def trace_eval)

lemma trace_page2_reach: "reachable trace_page2"
proof -
  have sp: "sheet_pages trace_loaded 0 = 5"
    using trace_loaded_fields by (simp add: sheet_pages_def trace_biology_def)
  show ?thesis unfolding trace_page2_def
    by (rule reachable.step [OF trace_loaded_reach]) (rule en_sheet, simp_all add: sp trace_loaded_fields)
qed


subsection \<open>Properties\<close>

text \<open>
  C1. Every reachable state of the session satisfies the invariant: the subject
  index is in range, the page and the page count are at least 1, at most ten
  questions are loaded and displayed, the question index is within a page, the
  dependencies of E3 are the current ones, every selection is for an in-page index,
  every entry of \<open>allQuestions\<close> carries the key \<open>"<subject>-<n>"\<close> of its own
  subject, and in exam mode the parent's \<open>examQuestions\<close> and \<open>userAnswers\<close> are
  those the effects E5 and E6 compute.
\<close>

theorem session_invariant: "reachable s \<Longrightarrow> session_inv s"
  by (rule reachable_inv)

theorem session_invariant_witness: "session_inv trace_switched"
  by (rule session_invariant [OF trace_switched_reach])

text \<open>
  C2. In exam mode the recorded answers are only ever found under a key of the
  subject currently open and of an ordinal below 10: an answer for a question of
  another subject, or of a page after the first (ordinal 10 or more), is never
  recorded under its key. The witness answers the first Biology question, opens
  Chemistry, and finds the answer moved to \<open>"Chemistry-0"\<close>.
\<close>

theorem answers_only_active_first_page:
  assumes "reachable s" "exam s" "0 \<le> n" "s_answers s (global_key subj n) \<noteq> None"
  shows "subj = active_subject s \<and> n < 10"
proof -
  have "session_inv s" by (rule reachable_inv [OF assms(1)])
  then have "s_answers s = answers_for (active_subject s) (s_selected s)"
    "list_all (\<lambda>p. fst p < 10) (s_selected s)"
    using assms(2) by (simp_all add: session_inv_def)
  then show ?thesis using answers_for_key [of "active_subject s" "s_selected s" subj n] assms(3,4) by simp
qed

theorem answers_only_active_first_page_witness:
  "''Chemistry'' = active_subject trace_switched \<and> (0::int) < 10
   \<and> s_answers trace_answered (global_key ''Biology'' 0) = Some trace_answer
   \<and> s_answers trace_switched (global_key ''Chemistry'' 0) = Some trace_answer
   \<and> s_answers trace_switched (global_key ''Biology'' 0) = None"
proof -
  have h: "s_answers trace_switched (global_key ''Chemistry'' 0) \<noteq> None"
    using trace_switched_fields by simp
  have "''Chemistry'' = active_subject trace_switched \<and> (0::int) < 10"
    using answers_only_active_first_page [OF trace_switched_reach _ _ h] trace_switched_fields by simp
  then show ?thesis using trace_switched_fields trace_answered_fields by (simp add: global_key_def)
qed

text \<open>
  C3. In exam mode a subject other than the open one scores 0 at submission,
  whatever was answered for it: its questions are in \<open>examQuestions\<close> under their
  own keys, and no recorded answer has such a key. The witness answers the first
  Biology question correctly, opens Chemistry, and Biology scores 0.
\<close>

theorem only_active_subject_scores:
  assumes "reachable s" "exam s" "subj \<noteq> active_subject s"
  shows "subject_score (s_answers s) (s_exam_qs s) subj = 0"
proof -
  have inv: "session_inv s" by (rule reachable_inv [OF assms(1)])
  have a: "s_answers s = answers_for (active_subject s) (s_selected s)"
    "list_all (\<lambda>p. fst p < 10) (s_selected s)"
    using inv assms(2) by (simp_all add: session_inv_def)
  have "\<not> answer_scores (s_answers s (ee_global e)) (ee_question e)"
    if "e \<in> set (s_exam_qs s)" "ee_subject e = subj" for e
  proof -
    have "well_keyed e" using inv assms(2) that(1) by (auto simp: session_inv_def list_all_iff)
    then have g: "ee_global e = global_key subj (key_ordinal (ee_global e))"
      using that(2) unfolding well_keyed_def by blast
    have "0 \<le> key_ordinal (ee_global e)" by (simp add: key_ordinal_def)
    then have "s_answers s (global_key subj (key_ordinal (ee_global e))) = None"
      using a assms(3) answers_for_key [of "active_subject s" "s_selected s" subj "key_ordinal (ee_global e)"]
      by (metis not_None_eq)
    then have "s_answers s (ee_global e) = None" by (subst g)
    then show ?thesis by (simp add: answer_scores_def)
  qed
  then show ?thesis unfolding subject_score_def by (auto simp: filter_empty_conv)
qed

theorem only_active_subject_scores_witness:
  "subject_score (s_answers trace_switched) (s_exam_qs trace_switched) ''Biology'' = 0
   \<and> (0, trace_answer) \<in> set (s_selected trace_switched)
   \<and> answer_scores (Some trace_answer) (sample_item 0)"
proof -
  have "subject_score (s_answers trace_switched) (s_exam_qs trace_switched) ''Biology'' = 0"
    using only_active_subject_scores [OF trace_switched_reach] trace_switched_fields by simp
  then show ?thesis using trace_switched_fields trace_answer_scores by simp
qed

text \<open>
  C4. A request that settles with as many questions as the page already had does
  not change the questions displayed in exam mode: E3 does not fire (its
  dependencies are unchanged), so \<open>originalQuestions\<close> keeps the previous page.
  The witness opens page 2 from the page selector: the questions of page 2 are
  loaded, and the questions of page 1 stay on screen.
\<close>

theorem same_length_fetch_keeps_display:
  assumes "reachable s" "length (fst (load_page (s_page s) res)) = length (s_questions s)"
  shows "s_displayed (session_step s (EvFetched res)) = s_displayed s"
proof -
  have "s_dep_orig s = (length (s_questions s), active_subject s, s_page s)"
    using reachable_inv [OF assms(1)] by (simp add: session_inv_def)
  then have "s_dep_orig (apply_fetch res s) =
      (length (s_questions (apply_fetch res s)), active_subject (apply_fetch res s), s_page (apply_fetch res s))"
    using assms(2) by (simp add: active_subject_def)
  then show ?thesis using settle_quiet [of "apply_fetch res s" s] by simp
qed

theorem same_length_fetch_keeps_display_witness:
  "s_displayed (session_step trace_page2 (EvFetched None)) = map sample_item [0..<10]
   \<and> s_questions (session_step trace_page2 (EvFetched None)) = map sample_item [10..<20]"
proof -
  have l: "length (fst (load_page (s_page trace_page2) None)) = length (s_questions trace_page2)"
    using trace_page2_fields by (simp add: load_page_None page_start_def sample_page_2)
  have "s_displayed (session_step trace_page2 (EvFetched None)) = s_displayed trace_page2"
    by (rule same_length_fetch_keeps_display [OF trace_page2_reach l])
  then show ?thesis using trace_page2_fields by (simp add: load_page_None page_start_def sample_page_2)
qed

end
