(* ===== verification/Corrections.thy ===== *)
theory Corrections
  imports Scoring "HOL-Library.Word"
begin

text \<open>
  The corrections review of \<open>src/app/mode/exam-corrections.tsx\<close>: the payload of
  \<open>questionsData\<close> (the corrections dataset that \<open>handleSubmit\<close> of
  \<open>past-study.tsx\<close> builds, passed on unchanged by the results screen), its
  grouping by subject (\<open>questionsBySubject\<close>, lines 30 to 40), the position
  \<open>(currentSubjectIndex, currentQuestionIndex)\<close> with \<open>handleNext\<close>,
  \<open>handlePrev\<close> and the subject tabs (lines 42 to 75), and what each render shows
  (lines 77 to 380). The grouping object is an object literal: a subject named
  like a member of \<open>Object.prototype\<close> finds that member instead of
  \<open>undefined\<close>, and \<open>push\<close> on it throws.
\<close>

datatype corr_error = TypeError_push_not_function

text \<open>\<open>grouped[q.subject].push(q)\<close>, creating the group first when absent; the
  groups are kept in insertion order.\<close>

fun group_push :: "string \<Rightarrow> 'a \<Rightarrow> (string \<times> 'a list) list \<Rightarrow> (string \<times> 'a list) list" where
  "group_push k x [] = [(k, [x])]"
| "group_push k x ((k', xs) # g) = (if k = k' then (k', xs @ [x]) # g else (k', xs) # group_push k x g)"

definition group_by_subject ::
  "correction_entry list \<Rightarrow> corr_error + (string \<times> correction_entry list) list" where
  "group_by_subject qs =
     (if \<exists>q \<in> set qs. ce_subject q \<in> set proto_keys then Inl TypeError_push_not_function
      else Inr (foldl (\<lambda>g q. group_push (ce_subject q) q g) [] qs))"

record corr_pos =
  c_subj :: int
  c_q :: int

text \<open>\<open>subjects[i]\<close>, \<open>undefined\<close> out of range.\<close>

definition subject_at :: "string list \<Rightarrow> int \<Rightarrow> string option" where
  "subject_at ss i = (if 0 \<le> i \<and> nat i < length ss then Some (ss ! nat i) else None)"

text \<open>\<open>questionsBySubject[currentSubject] || []\<close>; an \<open>undefined\<close> key reads the
  property \<open>"undefined"\<close>.\<close>

definition group_of :: "(string \<times> 'a list) list \<Rightarrow> string option \<Rightarrow> 'a list" where
  "group_of g k = (case map_of g (case k of Some s \<Rightarrow> s | None \<Rightarrow> ''undefined'') of
                     Some xs \<Rightarrow> xs | None \<Rightarrow> [])"

definition current_questions :: "(string \<times> 'a list) list \<Rightarrow> corr_pos \<Rightarrow> 'a list" where
  "current_questions g p = group_of g (subject_at (object_keys g) (c_subj p))"

definition corr_next :: "(string \<times> 'a list) list \<Rightarrow> corr_pos \<Rightarrow> corr_pos" where
  "corr_next g p =
     (if c_q p < int (length (current_questions g p)) - 1 then p\<lparr>c_q := c_q p + 1\<rparr>
      else if c_subj p < int (length (object_keys g)) - 1 then \<lparr>c_subj = c_subj p + 1, c_q = 0\<rparr>
      else p)"

definition corr_prev :: "(string \<times> 'a list) list \<Rightarrow> corr_pos \<Rightarrow> corr_pos" where
  "corr_prev g p =
     (if c_q p > 0 then p\<lparr>c_q := c_q p - 1\<rparr>
      else if c_subj p > 0 then
        \<lparr>c_subj = c_subj p - 1,
         c_q = int (length (group_of g (subject_at (object_keys g) (c_subj p - 1)))) - 1\<rparr>
      else p)"

definition corr_tab :: "int \<Rightarrow> corr_pos" where
  "corr_tab i = \<lparr>c_subj = i, c_q = 0\<rparr>"

definition is_first_question :: "corr_pos \<Rightarrow> bool" where
  "is_first_question p \<longleftrightarrow> c_subj p = 0 \<and> c_q p = 0"

definition is_last_question :: "(string \<times> 'a list) list \<Rightarrow> corr_pos \<Rightarrow> bool" where
  "is_last_question g p \<longleftrightarrow>
     c_subj p = int (length (object_keys g)) - 1 \<and> c_q p = int (length (current_questions g p)) - 1"

subsection \<open>What a render shows\<close>

text \<open>\<open>String.fromCharCode(65 + index)\<close>: one UTF-16 code unit, so the code is
  taken modulo \<open>2^16\<close>.\<close>

definition option_label :: "nat \<Rightarrow> 16 word" where
  "option_label i = word_of_nat (65 + i)"

text \<open>\<open>userAnswer === correctAnswer\<close>: the answer is a string or \<open>undefined\<close>, the
  correct answer any value of the payload.\<close>

definition user_val :: "string option \<Rightarrow> jsval" where
  "user_val u = (case u of Some a \<Rightarrow> JStr a | None \<Rightarrow> JUndefined)"

definition strict_eq :: "jsval \<Rightarrow> jsval \<Rightarrow> bool" where
  "strict_eq a b \<longleftrightarrow> a = b \<and> (case a of JArr _ \<Rightarrow> False | JObj _ \<Rightarrow> False | _ \<Rightarrow> True)"

datatype opt_mark = MarkCorrect | MarkWrong | MarkPlain

text \<open>The highlight of an option row: \<open>isCorrectOption\<close>, else \<open>isWrongSelection\<close>.\<close>

definition option_mark :: "correction_entry \<Rightarrow> string \<Rightarrow> opt_mark" where
  "option_mark q opt =
     (if strict_eq (JStr opt) (ce_correct q) then MarkCorrect
      else if strict_eq (JStr opt) (user_val (ce_user q)) then MarkWrong
      else MarkPlain)"

record corr_card =
  cc_subtitle :: "int \<times> nat"
  cc_tabs :: "(string \<times> nat \<times> bool) list"
  cc_instruction :: "jsval option"
  cc_correct :: bool
  cc_question :: jsval
  cc_options :: "(16 word \<times> string \<times> opt_mark) list"
  cc_summary :: "(string \<times> jsval) option"
  cc_explanation :: "jsval option"
  cc_prev_disabled :: bool
  cc_finish :: bool

datatype corr_view =
    ViewNoQuestions
  | ViewNoSubjectQuestions "(string \<times> nat \<times> bool) list" "string option"
  | ViewQuestion corr_card

text \<open>The subject tabs: name, the badge count (shown when positive) and whether
  the tab is the current one.\<close>

definition corr_tabs :: "(string \<times> 'a list) list \<Rightarrow> corr_pos \<Rightarrow> (string \<times> nat \<times> bool) list" where
  "corr_tabs g p =
     map (\<lambda>(s, i). (s, length (group_of g (Some s)), int i = c_subj p))
         (zip (object_keys g) [0..<length (object_keys g)])"

definition shown :: "jsval \<Rightarrow> jsval option" where
  "shown v = (if truthy v then Some v else None)"

definition corr_card_of ::
  "(string \<times> correction_entry list) list \<Rightarrow> corr_pos \<Rightarrow> correction_entry \<Rightarrow> corr_card" where
  "corr_card_of g p q =
     (let n = length (current_questions g p);
          ok = strict_eq (user_val (ce_user q)) (ce_correct q)
      in \<lparr>cc_subtitle = (c_q p + 1, n), cc_tabs = corr_tabs g p,
          cc_instruction = shown (ce_instruction q), cc_correct = ok, cc_question = ce_question q,
          cc_options = map (\<lambda>(opt, i). (option_label i, opt, option_mark q opt))
                           (zip (ce_options q) [0..<length (ce_options q)]),
          cc_summary = (if ok then None
                        else Some (case ce_user q of Some a \<Rightarrow> if a \<noteq> [] then a else ''Not answered''
                                   | None \<Rightarrow> ''Not answered'', ce_correct q)),
          cc_explanation = shown (ce_correction q),
          cc_prev_disabled = is_first_question p, cc_finish = is_last_question g p\<rparr>)"

text \<open>\<open>currentQuestions[currentQuestionIndex]\<close>.\<close>

definition current_question :: "(string \<times> 'a list) list \<Rightarrow> corr_pos \<Rightarrow> 'a option" where
  "current_question g p =
     (let qs = current_questions g p
      in if 0 \<le> c_q p \<and> nat (c_q p) < length qs then Some (qs ! nat (c_q p)) else None)"

definition corr_render :: "correction_entry list \<Rightarrow> corr_pos \<Rightarrow> corr_error + corr_view" where
  "corr_render qs p =
     (case group_by_subject qs of
        Inl e \<Rightarrow> Inl e
      | Inr g \<Rightarrow>
          Inr (if qs = [] then ViewNoQuestions
               else case current_question g p of
                      None \<Rightarrow> ViewNoSubjectQuestions (corr_tabs g p) (subject_at (object_keys g) (c_subj p))
                    | Some q \<Rightarrow> ViewQuestion (corr_card_of g p q)))"

subsection \<open>The review order\<close>

text \<open>The groups in the order of the tabs, and the questions in the order the
  review walks them; the position of the screen as a position in that order.\<close>

definition corr_groups :: "(string \<times> 'a list) list \<Rightarrow> 'a list list" where
  "corr_groups g = map (\<lambda>k. group_of g (Some k)) (object_keys g)"

definition corr_order :: "(string \<times> 'a list) list \<Rightarrow> 'a list" where
  "corr_order g = concat (corr_groups g)"

definition corr_valid :: "(string \<times> 'a list) list \<Rightarrow> corr_pos \<Rightarrow> bool" where
  "corr_valid g p \<longleftrightarrow> 0 \<le> c_subj p \<and> nat (c_subj p) < length (object_keys g)
     \<and> 0 \<le> c_q p \<and> nat (c_q p) < length (current_questions g p)"

definition flat_of :: "(string \<times> 'a list) list \<Rightarrow> corr_pos \<Rightarrow> nat" where
  "flat_of g p = flat_index (corr_groups g) (nat (c_subj p)) (nat (c_q p))"

text \<open>The positions the screen reaches from its initial state: Next is offered
  until the last question (then Finish), Prev is disabled at the first question,
  and the tabs are the subjects.\<close>

inductive corr_reach :: "(string \<times> 'a list) list \<Rightarrow> corr_pos \<Rightarrow> bool" for g where
  corr_start: "corr_reach g \<lparr>c_subj = 0, c_q = 0\<rparr>"
| corr_step_next: "corr_reach g p \<Longrightarrow> \<not> is_last_question g p \<Longrightarrow> corr_reach g (corr_next g p)"
| corr_step_prev: "corr_reach g p \<Longrightarrow> \<not> is_first_question p \<Longrightarrow> corr_reach g (corr_prev g p)"
| corr_step_tab: "corr_reach g p \<Longrightarrow> i < length (object_keys g) \<Longrightarrow> corr_reach g (corr_tab (int i))"

fun corr_next_times :: "nat \<Rightarrow> (string \<times> 'a list) list \<Rightarrow> corr_pos \<Rightarrow> corr_pos" where
  "corr_next_times 0 g p = p"
| "corr_next_times (Suc k) g p = corr_next g (corr_next_times k g p)"

text \<open>Reference grouping: for each subject in the order of first appearance, its
  questions in payload order.\<close>

definition subject_groups :: "correction_entry list \<Rightarrow> (string \<times> correction_entry list) list" where
  "subject_groups qs = map (\<lambda>k. (k, filter (\<lambda>q. ce_subject q = k) qs)) (first_occ (map ce_subject qs))"

subsection \<open>A concrete payload\<close>

definition sample_entry :: "string \<Rightarrow> string \<Rightarrow> string \<Rightarrow> string option \<Rightarrow> correction_entry" where
  "sample_entry subj qu ans usr =
     \<lparr>ce_subject = subj, ce_question = JStr qu, ce_options = [''a'', ''b''], ce_correct = JStr ans,
      ce_user = usr, ce_instruction = JUndefined, ce_correction = JUndefined\<rparr>"

definition corr_sample :: "correction_entry list" where
  "corr_sample = [sample_entry ''Biology'' ''Q1'' ''a'' (Some ''a''),
                  sample_entry ''Chemistry'' ''Q2'' ''a'' (Some ''b''),
                  sample_entry ''Biology'' ''Q3'' ''b'' None]"

subsection \<open>Lemmas\<close>

lemma group_push_map:
  "distinct ks \<Longrightarrow> group_push k x (map (\<lambda>k'. (k', F k')) ks) =
     (if k \<in> set ks then map (\<lambda>k'. (k', if k' = k then F k' @ [x] else F k')) ks
      else map (\<lambda>k'. (k', F k')) ks @ [(k, [x])])"
  by (induction ks) auto

lemma foldl_group_push:
  "foldl (\<lambda>g q. group_push (f q) q g) [] qs = map (\<lambda>k. (k, filter (\<lambda>q. f q = k) qs)) (first_occ (map f qs))"
proof (induction qs rule: rev_induct)
  case Nil then show ?case by (simp add: first_occ_def)
next
  case (snoc x xs)
  have "filter (\<lambda>q. f q = f x) xs = []" if "f x \<notin> f ` set xs"
    using that by (auto simp: filter_empty_conv image_iff)
  then show ?case using snoc
    by (auto simp: group_push_map first_occ_snoc intro!: map_cong)
qed

lemma group_by_subject_Inr:
  "\<not> (\<exists>q \<in> set qs. ce_subject q \<in> set proto_keys) \<Longrightarrow>
   group_by_subject qs = Inr (map (\<lambda>k. (k, filter (\<lambda>q. ce_subject q = k) qs)) (first_occ (map ce_subject qs)))"
  by (simp add: group_by_subject_def foldl_group_push)

lemma current_questions_nth:
  "0 \<le> c_subj p \<Longrightarrow> nat (c_subj p) < length (object_keys g) \<Longrightarrow>
   current_questions g p = corr_groups g ! nat (c_subj p)"
  by (simp add: current_questions_def subject_at_def corr_groups_def)

lemma length_corr_groups [simp]: "length (corr_groups g) = length (object_keys g)"
  by (simp add: corr_groups_def)

lemma corr_next_refines:
  assumes v: "corr_valid g p" and ne: "list_all (\<lambda>xs. xs \<noteq> []) (corr_groups g)"
  shows "corr_valid g (corr_next g p) \<and>
         flat_of g (corr_next g p) = min (flat_of g p + 1) (length (corr_order g) - 1)"
proof -
  define xss where "xss = corr_groups g"
  define s where "s = nat (c_subj p)"
  define q where "q = nat (c_q p)"
  have s: "s < length xss" and q: "q < length (xss ! s)"
    and cs: "c_subj p = int s" and cq: "c_q p = int q"
    and cur: "current_questions g p = xss ! s"
    using v current_questions_nth [of p g] by (auto simp: corr_valid_def xss_def s_def q_def)
  have len: "length (corr_order g) = sum_list (map length (take s xss)) + length (xss ! s)
              + sum_list (map length (drop (Suc s) xss))"
    using length_concat_split [OF s] by (simp add: corr_order_def xss_def)
  have fl: "flat_of g p = sum_list (map length (take s xss)) + q"
    by (simp add: flat_of_def flat_index_def xss_def s_def q_def)
  show ?thesis
  proof (cases "Suc q < length (xss ! s)")
    case True
    then have "corr_next g p = p\<lparr>c_q := c_q p + 1\<rparr>" using cur cq by (simp add: corr_next_def)
    moreover have "corr_valid g (p\<lparr>c_q := c_q p + 1\<rparr>)"
      using v True cur cq by (simp add: corr_valid_def current_questions_def nat_add_distrib)
    ultimately show ?thesis using True len fl cq by (simp add: flat_of_def flat_index_def xss_def s_def nat_add_distrib)
  next
    case False
    then have qL: "Suc q = length (xss ! s)" using q by simp
    show ?thesis
    proof (cases "Suc s < length xss")
      case True
      have nxt: "corr_next g p = \<lparr>c_subj = c_subj p + 1, c_q = 0\<rparr>"
        using qL cur cq cs True by (simp add: corr_next_def xss_def)
      have ne1: "xss ! Suc s \<noteq> []" using ne True by (simp add: list_all_length xss_def)
      have "current_questions g \<lparr>c_subj = c_subj p + 1, c_q = 0\<rparr> = xss ! Suc s"
        using current_questions_nth [of "\<lparr>c_subj = c_subj p + 1, c_q = 0\<rparr>" g] True cs
        by (simp add: xss_def nat_add_distrib)
      then have val: "corr_valid g \<lparr>c_subj = c_subj p + 1, c_q = 0\<rparr>"
        using True cs ne1 by (simp add: corr_valid_def xss_def)
      have "flat_of g \<lparr>c_subj = c_subj p + 1, c_q = 0\<rparr> = flat_index xss (Suc s) 0"
        using cs by (simp add: flat_of_def xss_def nat_add_distrib)
      also have "\<dots> = flat_of g p + 1"
        using flat_index_next_group [OF True] qL fl by (simp add: flat_index_def)
      moreover have "0 < sum_list (map length (drop (Suc s) xss))"
        using ne1 Cons_nth_drop_Suc [OF True] by (metis add_gr_0 length_greater_0_conv list.simps(9) sum_list.Cons)
      ultimately show ?thesis using nxt val len fl qL by simp
    next
      case False
      then have last: "Suc s = length xss" using s by simp
      have "corr_next g p = p" using qL cur cq cs last by (simp add: corr_next_def xss_def)
      moreover have "drop (Suc s) xss = []" using last by simp
      ultimately show ?thesis using v len fl qL by simp
    qed
  qed
qed

lemma corr_prev_refines:
  assumes v: "corr_valid g p" and ne: "list_all (\<lambda>xs. xs \<noteq> []) (corr_groups g)"
  shows "corr_valid g (corr_prev g p) \<and> flat_of g (corr_prev g p) = flat_of g p - 1"
proof -
  define xss where "xss = corr_groups g"
  define s where "s = nat (c_subj p)"
  define q where "q = nat (c_q p)"
  have s: "s < length xss" and q: "q < length (xss ! s)"
    and cs: "c_subj p = int s" and cq: "c_q p = int q"
    and cur: "current_questions g p = xss ! s"
    using v current_questions_nth [of p g] by (auto simp: corr_valid_def xss_def s_def q_def)
  have fl: "flat_of g p = sum_list (map length (take s xss)) + q"
    by (simp add: flat_of_def flat_index_def xss_def s_def q_def)
  show ?thesis
  proof (cases "0 < q")
    case True
    then have "corr_prev g p = p\<lparr>c_q := c_q p - 1\<rparr>" using cq by (simp add: corr_prev_def)
    moreover have "corr_valid g (p\<lparr>c_q := c_q p - 1\<rparr>)"
      using v True cur cq q by (simp add: corr_valid_def current_questions_def nat_diff_distrib)
    ultimately show ?thesis using True fl cq
      by (simp add: flat_of_def flat_index_def xss_def s_def nat_diff_distrib)
  next
    case False
    then have q0: "q = 0" by simp
    show ?thesis
    proof (cases s)
      case 0
      then have "corr_prev g p = p" using q0 cq cs by (simp add: corr_prev_def)
      then show ?thesis using v fl q0 0 by simp
    next
      case (Suc s')
      have s': "Suc s' < length xss" using s Suc by simp
      have ne1: "xss ! s' \<noteq> []" using ne s' by (simp add: list_all_length xss_def)
      then have l1: "0 < length (xss ! s')" by simp
      have g1: "group_of g (subject_at (object_keys g) (c_subj p - 1)) = xss ! s'"
        using s' cs Suc by (simp add: subject_at_def xss_def corr_groups_def)
      define p' where "p' = \<lparr>c_subj = c_subj p - 1, c_q = int (length (xss ! s')) - 1\<rparr>"
      have prv: "corr_prev g p = p'" using q0 cq cs Suc g1 by (simp add: corr_prev_def p'_def)
      have "current_questions g p' = xss ! s'"
        using current_questions_nth [of p' g] s' cs Suc by (simp add: p'_def xss_def)
      moreover have "length (xss ! s') - 1 < length (xss ! s')" using ne1 by simp
      ultimately have val: "corr_valid g p'" using s' cs Suc ne1 by (simp add: corr_valid_def p'_def xss_def)
      have "flat_of g p' = flat_index xss s' (length (xss ! s') - 1)"
        using cs Suc ne1 by (simp add: flat_of_def p'_def xss_def nat_diff_distrib)
      also have "\<dots> = flat_index xss (Suc s') 0 - 1"
        using flat_index_next_group [OF s'] l1 by (simp add: flat_index_def del: length_greater_0_conv)
      also have "\<dots> = flat_of g p - 1" using fl q0 Suc by (simp add: flat_index_def)
      finally show ?thesis using prv val by simp
    qed
  qed
qed

lemma current_question_flat:
  "corr_valid g p \<Longrightarrow> current_question g p = Some (corr_order g ! flat_of g p)"
  using nth_concat_flat [of "nat (c_subj p)" "corr_groups g" "nat (c_q p)"] current_questions_nth [of p g]
  by (simp add: corr_valid_def current_question_def corr_order_def flat_of_def Let_def)

lemma subject_groups_keys [simp]: "map fst (subject_groups qs) = first_occ (map ce_subject qs)"
  by (simp add: subject_groups_def comp_def)

lemma group_of_subject_groups:
  "k \<in> set (map ce_subject qs) \<Longrightarrow> group_of (subject_groups qs) (Some k) = filter (\<lambda>q. ce_subject q = k) qs"
  by (simp add: group_of_def subject_groups_def map_of_map_keys)

lemma corr_groups_subject_groups:
  "corr_groups (subject_groups qs) = map (\<lambda>k. filter (\<lambda>q. ce_subject q = k) qs) (object_keys (subject_groups qs))"
  by (auto simp: corr_groups_def group_of_subject_groups)

lemma subject_groups_nonempty: "list_all (\<lambda>xs. xs \<noteq> []) (corr_groups (subject_groups qs))"
  by (auto simp: corr_groups_subject_groups list_all_iff filter_empty_conv)

lemma mset_concat_filter_keys:
  "distinct ks \<Longrightarrow> mset (concat (map (\<lambda>k. filter (\<lambda>q. f q = k) qs) ks)) = mset (filter (\<lambda>q. f q \<in> set ks) qs)"
proof (induction ks)
  case Nil then show ?case by simp
next
  case (Cons k ks)
  then show ?case by (auto simp: multiset_eq_iff)
qed

lemma mset_corr_order: "mset (corr_order (subject_groups qs)) = mset qs"
proof -
  have d: "distinct (object_keys (subject_groups qs))"
    by (rule distinct_object_keys) simp
  have "mset (corr_order (subject_groups qs)) =
        mset (filter (\<lambda>q. ce_subject q \<in> set (object_keys (subject_groups qs))) qs)"
    unfolding corr_order_def corr_groups_subject_groups by (rule mset_concat_filter_keys [OF d])
  also have "\<dots> = mset qs" by (simp add: filter_id_conv)
  finally show ?thesis .
qed

lemma length_corr_order [simp]: "length (corr_order (subject_groups qs)) = length qs"
  using mset_corr_order by (metis size_mset)

lemma corr_valid_start:
  "list_all (\<lambda>xs. xs \<noteq> []) (corr_groups g) \<Longrightarrow> object_keys g \<noteq> [] \<Longrightarrow> corr_valid g \<lparr>c_subj = 0, c_q = 0\<rparr>"
  using current_questions_nth [of "\<lparr>c_subj = 0, c_q = 0\<rparr>" g]
  by (auto simp: corr_valid_def list_all_length)

lemma corr_valid_tab:
  "list_all (\<lambda>xs. xs \<noteq> []) (corr_groups g) \<Longrightarrow> i < length (object_keys g) \<Longrightarrow> corr_valid g (corr_tab (int i))"
  using current_questions_nth [of "corr_tab (int i)" g]
  by (auto simp: corr_valid_def list_all_length corr_tab_def)

lemma corr_reach_valid:
  "corr_reach g p \<Longrightarrow> list_all (\<lambda>xs. xs \<noteq> []) (corr_groups g) \<Longrightarrow> object_keys g \<noteq> [] \<Longrightarrow> corr_valid g p"
  by (induction rule: corr_reach.induct)
     (auto simp: corr_valid_start corr_valid_tab corr_next_refines corr_prev_refines)

lemma flat_of_start [simp]: "flat_of g \<lparr>c_subj = 0, c_q = 0\<rparr> = 0"
  by (simp add: flat_of_def flat_index_def)

lemma corr_next_times_flat:
  assumes "list_all (\<lambda>xs. xs \<noteq> []) (corr_groups g)" "object_keys g \<noteq> []"
  shows "corr_valid g (corr_next_times k g \<lparr>c_subj = 0, c_q = 0\<rparr>)
         \<and> flat_of g (corr_next_times k g \<lparr>c_subj = 0, c_q = 0\<rparr>) = min k (length (corr_order g) - 1)"
proof (induction k)
  case 0 then show ?case using corr_valid_start [OF assms] by simp
next
  case (Suc k) then show ?case using corr_next_refines [OF _ assms(1)] by auto
qed

lemma flat_last_is_last:
  assumes v: "corr_valid g p" and ne: "list_all (\<lambda>xs. xs \<noteq> []) (corr_groups g)"
    and f: "flat_of g p = length (corr_order g) - 1"
  shows "is_last_question g p"
proof -
  define xss where "xss = corr_groups g"
  define s where "s = nat (c_subj p)"
  define q where "q = nat (c_q p)"
  have s: "s < length xss" and q: "q < length (xss ! s)"
    and cs: "c_subj p = int s" and cq: "c_q p = int q"
    and cur: "current_questions g p = xss ! s"
    using v current_questions_nth [of p g] by (auto simp: corr_valid_def xss_def s_def q_def)
  have len: "length (corr_order g) = sum_list (map length (take s xss)) + length (xss ! s)
              + sum_list (map length (drop (Suc s) xss))"
    using length_concat_split [OF s] by (simp add: corr_order_def xss_def)
  have fl: "flat_of g p = sum_list (map length (take s xss)) + q"
    by (simp add: flat_of_def flat_index_def xss_def s_def q_def)
  have d0: "sum_list (map length (drop (Suc s) xss)) = 0" and qL: "Suc q = length (xss ! s)"
    using f len fl q by linarith+
  have "drop (Suc s) xss = []"
  proof (rule ccontr)
    assume "drop (Suc s) xss \<noteq> []"
    then have "Suc s < length xss" by simp
    then have "xss ! Suc s \<noteq> []" using ne by (simp add: list_all_length xss_def)
    moreover have "drop (Suc s) xss = xss ! Suc s # drop (Suc (Suc s)) xss"
      using Cons_nth_drop_Suc [OF \<open>Suc s < length xss\<close>] by simp
    ultimately have "0 < sum_list (map length (drop (Suc s) xss))" by simp
    then show False using d0 by simp
  qed
  then have "Suc s = length xss" using s by simp
  then show ?thesis using cs cq cur qL by (simp add: is_last_question_def xss_def)
qed

lemma subject_groups_keys_nonempty: "qs \<noteq> [] \<Longrightarrow> object_keys (subject_groups qs) \<noteq> []"
  by (metis list.map_disc_iff set_empty set_first_occ set_object_keys subject_groups_keys)

lemma unat_option_label: "unat (option_label i) = (65 + i) mod 65536"
proof -
  have "unat (word_of_nat (65 + i) :: 16 word) = (65 + i) mod 2 ^ LENGTH(16)"
    by (rule unat_of_nat)
  then show ?thesis by (simp add: option_label_def)
qed

subsection \<open>Properties\<close>

text \<open>
  C30. Grouping the corrections by subject is the reference grouping: one group per
  subject in the order the subjects first appear, holding that subject's questions
  in payload order, unless a subject is named like an \<open>Object.prototype\<close> member.
\<close>

theorem corr_grouping_spec:
  "\<not> (\<exists>q \<in> set qs. ce_subject q \<in> set proto_keys) \<Longrightarrow> group_by_subject qs = Inr (subject_groups qs)"
  by (simp add: group_by_subject_Inr subject_groups_def)

theorem corr_grouping_spec_witness:
  "group_by_subject corr_sample =
     Inr [(''Biology'', [sample_entry ''Biology'' ''Q1'' ''a'' (Some ''a''), sample_entry ''Biology'' ''Q3'' ''b'' None]),
          (''Chemistry'', [sample_entry ''Chemistry'' ''Q2'' ''a'' (Some ''b'')])]"
proof -
  have "\<not> (\<exists>q \<in> set corr_sample. ce_subject q \<in> set proto_keys)"
    by (simp add: corr_sample_def sample_entry_def proto_keys_def)
  then have "group_by_subject corr_sample = Inr (subject_groups corr_sample)" by (rule corr_grouping_spec)
  then show ?thesis by (simp add: subject_groups_def corr_sample_def sample_entry_def first_occ_def)
qed

text \<open>
  A payload with a subject named like a member of \<open>Object.prototype\<close> (for
  instance \<open>"constructor"\<close>) makes the grouping throw a \<open>TypeError\<close>: the
  corrections screen cannot be rendered at all.
\<close>

theorem corr_proto_subject_crashes:
  "q \<in> set qs \<Longrightarrow> ce_subject q \<in> set proto_keys \<Longrightarrow> corr_render qs p = Inl TypeError_push_not_function"
  by (auto simp: corr_render_def group_by_subject_def)

theorem corr_proto_subject_crashes_witness:
  "corr_render [sample_entry ''constructor'' ''Q'' ''a'' None] \<lparr>c_subj = 0, c_q = 0\<rparr>
     = Inl TypeError_push_not_function"
proof -
  have "ce_subject (sample_entry ''constructor'' ''Q'' ''a'' None) \<in> set proto_keys"
    by (simp add: sample_entry_def proto_keys_def)
  moreover have "sample_entry ''constructor'' ''Q'' ''a'' None \<in> set [sample_entry ''constructor'' ''Q'' ''a'' None]"
    by simp
  ultimately show ?thesis using corr_proto_subject_crashes by blast
qed

text \<open>
  C5. The review navigation refines a cursor over one list: at every reachable
  position the question shown is the element of the review order at the cursor,
  Next moves the cursor one forward (staying on the last question), and Prev one
  back (staying on the first); in particular Prev after Prev across a subject
  boundary lands on the previous subject's last question.
\<close>

theorem corr_navigation_refines:
  assumes "corr_reach (subject_groups qs) p" "qs \<noteq> []"
  shows "current_question (subject_groups qs) p = Some (corr_order (subject_groups qs) ! flat_of (subject_groups qs) p)
    \<and> flat_of (subject_groups qs) (corr_next (subject_groups qs) p) = min (flat_of (subject_groups qs) p + 1) (length qs - 1)
    \<and> flat_of (subject_groups qs) (corr_prev (subject_groups qs) p) = flat_of (subject_groups qs) p - 1"
proof -
  have v: "corr_valid (subject_groups qs) p"
    using corr_reach_valid [OF assms(1) subject_groups_nonempty subject_groups_keys_nonempty [OF assms(2)]] .
  show ?thesis
    using current_question_flat [OF v] corr_next_refines [OF v subject_groups_nonempty]
          corr_prev_refines [OF v subject_groups_nonempty] by simp
qed

theorem corr_navigation_refines_witness:
  "current_question (subject_groups corr_sample) \<lparr>c_subj = 0, c_q = 0\<rparr> = Some (sample_entry ''Biology'' ''Q1'' ''a'' (Some ''a''))
   \<and> flat_of (subject_groups corr_sample) (corr_next (subject_groups corr_sample) \<lparr>c_subj = 0, c_q = 0\<rparr>) = 1"
proof -
  have "corr_reach (subject_groups corr_sample) \<lparr>c_subj = 0, c_q = 0\<rparr>" by (rule corr_start)
  moreover have "corr_sample \<noteq> []" by (simp add: corr_sample_def)
  ultimately have r: "current_question (subject_groups corr_sample) \<lparr>c_subj = 0, c_q = 0\<rparr>
      = Some (corr_order (subject_groups corr_sample) ! flat_of (subject_groups corr_sample) \<lparr>c_subj = 0, c_q = 0\<rparr>)
    \<and> flat_of (subject_groups corr_sample) (corr_next (subject_groups corr_sample) \<lparr>c_subj = 0, c_q = 0\<rparr>)
      = min (flat_of (subject_groups corr_sample) \<lparr>c_subj = 0, c_q = 0\<rparr> + 1) (length corr_sample - 1)"
    using corr_navigation_refines by blast
  have o: "corr_order (subject_groups corr_sample) ! 0 = sample_entry ''Biology'' ''Q1'' ''a'' (Some ''a'')"
    by (simp add: corr_order_def corr_groups_def subject_groups_def corr_sample_def sample_entry_def first_occ_def
                  object_keys_def object_entries_def is_index_key_def is_digit_def group_of_def)
  show ?thesis using r o by (simp add: corr_sample_def)
qed

text \<open>
  C6. Pressing Next from the first question walks the whole payload: the review
  order is a permutation of the payload (no question is lost or repeated), after
  \<open>k\<close> presses the \<open>k\<close>-th question of that order is shown, and after one press
  fewer than there are questions the screen is on the last question (Finish).
\<close>

theorem corr_review_reaches_every_question:
  assumes "qs \<noteq> []"
  shows "mset (corr_order (subject_groups qs)) = mset qs
    \<and> (\<forall>k < length qs. current_question (subject_groups qs) (corr_next_times k (subject_groups qs) \<lparr>c_subj = 0, c_q = 0\<rparr>)
                       = Some (corr_order (subject_groups qs) ! k))
    \<and> is_last_question (subject_groups qs) (corr_next_times (length qs - 1) (subject_groups qs) \<lparr>c_subj = 0, c_q = 0\<rparr>)"
proof -
  note w = corr_next_times_flat [OF subject_groups_nonempty subject_groups_keys_nonempty [OF assms]]
  have "current_question (subject_groups qs) (corr_next_times k (subject_groups qs) \<lparr>c_subj = 0, c_q = 0\<rparr>)
        = Some (corr_order (subject_groups qs) ! k)" if "k < length qs" for k
  proof -
    have "corr_valid (subject_groups qs) (corr_next_times k (subject_groups qs) \<lparr>c_subj = 0, c_q = 0\<rparr>)"
      "flat_of (subject_groups qs) (corr_next_times k (subject_groups qs) \<lparr>c_subj = 0, c_q = 0\<rparr>) = k"
      using w [of k] that by simp_all
    then show ?thesis using current_question_flat by metis
  qed
  moreover have "is_last_question (subject_groups qs) (corr_next_times (length qs - 1) (subject_groups qs) \<lparr>c_subj = 0, c_q = 0\<rparr>)"
  proof -
    have a: "corr_valid (subject_groups qs) (corr_next_times (length qs - 1) (subject_groups qs) \<lparr>c_subj = 0, c_q = 0\<rparr>)"
      "flat_of (subject_groups qs) (corr_next_times (length qs - 1) (subject_groups qs) \<lparr>c_subj = 0, c_q = 0\<rparr>)
       = length (corr_order (subject_groups qs)) - 1"
      using w [of "length qs - 1"] by simp_all
    show ?thesis by (rule flat_last_is_last [OF a(1) subject_groups_nonempty a(2)])
  qed
  ultimately show ?thesis using mset_corr_order by blast
qed

theorem corr_review_reaches_every_question_witness:
  "mset (corr_order (subject_groups corr_sample)) = mset corr_sample
   \<and> is_last_question (subject_groups corr_sample) (corr_next_times 2 (subject_groups corr_sample) \<lparr>c_subj = 0, c_q = 0\<rparr>)"
proof -
  have "corr_sample \<noteq> []" by (simp add: corr_sample_def)
  note r = corr_review_reaches_every_question [OF this]
  have "length corr_sample - 1 = 2" by (simp add: corr_sample_def)
  then show ?thesis using r by simp
qed

text \<open>
  C32. At every position the review reaches, the screen shows a question card (never
  the "No questions in this subject" state), and the card is the one of the
  question at the cursor.
\<close>

theorem corr_reachable_shows_question:
  assumes "\<not> (\<exists>q \<in> set qs. ce_subject q \<in> set proto_keys)" "qs \<noteq> []" "corr_reach (subject_groups qs) p"
  shows "corr_render qs p = Inr (ViewQuestion (corr_card_of (subject_groups qs) p
                                  (corr_order (subject_groups qs) ! flat_of (subject_groups qs) p)))"
proof -
  have v: "corr_valid (subject_groups qs) p"
    using corr_reach_valid [OF assms(3) subject_groups_nonempty subject_groups_keys_nonempty [OF assms(2)]] .
  show ?thesis using assms(1,2) current_question_flat [OF v]
    by (simp add: corr_render_def group_by_subject_Inr subject_groups_def[symmetric])
qed

theorem corr_reachable_shows_question_witness:
  "\<exists>c. corr_render corr_sample \<lparr>c_subj = 0, c_q = 0\<rparr> = Inr (ViewQuestion c)"
proof -
  have "\<not> (\<exists>q \<in> set corr_sample. ce_subject q \<in> set proto_keys)"
    by (simp add: corr_sample_def sample_entry_def proto_keys_def)
  moreover have "corr_sample \<noteq> []" by (simp add: corr_sample_def)
  moreover have "corr_reach (subject_groups corr_sample) \<lparr>c_subj = 0, c_q = 0\<rparr>" by (rule corr_start)
  ultimately show ?thesis using corr_reachable_shows_question by blast
qed

text \<open>
  The option labels \<open>String.fromCharCode(65 + i)\<close> are the letters A to Z for
  the first 26 options, distinct for indices that differ modulo \<open>2^16\<close>, and wrap
  around after \<open>2^16\<close> options.
\<close>

theorem option_label_wrap:
  "(option_label i = option_label j \<longleftrightarrow> i mod 65536 = j mod 65536)
   \<and> (i < 26 \<longrightarrow> unat (option_label i) = 65 + i)
   \<and> option_label (i + 65536) = option_label i"
proof -
  have "option_label i = option_label j \<longleftrightarrow> i mod 65536 = j mod 65536"
    by (simp add: option_label_def word_of_nat_eq_iff take_bit_eq_mod)
  moreover have "option_label (i + 65536) = option_label i"
    by (simp add: option_label_def word_of_nat_eq_iff take_bit_eq_mod)
  ultimately show ?thesis by (simp add: unat_option_label)
qed

theorem option_label_wrap_witness: "unat (option_label 2) = 67 \<and> option_label 65536 = option_label 0"
  using option_label_wrap [of 2 0] option_label_wrap [of 0 0] by simp

end
