(* ===== verification/Options.thy ===== *)
theory Options
  imports Scoring
begin

text \<open>
  The per-subject configuration screen \<open>PastOptions\<close>
  (\<open>src/components/screens/PastOptions.tsx\<close>) and its page
  (\<open>src/app/mode/past-options.tsx\<close>). The state is the component's state; the
  loading effect and the three background requests (the per-subject totals after
  loading, the refresh when the count menu opens, the total for a changed year)
  are split at their \<open>await\<close>s: the part before runs with the event that starts
  it, the part after is an event of its own, the settling of that request, which
  may come at any later time. A request result is \<open>Some total\<close> for a response
  whose \<open>pagination.total\<close> is a finite number, \<open>None\<close> for a failure; totals are
  integers.
\<close>

datatype sel_field = FieldYear | FieldTopic | FieldCount

record po_state =
  po_subjects :: "string list"
  po_exam :: jsval
  po_years :: "string list"
  po_options :: "subject_option list"
  po_max :: "string \<rightharpoonup> int"
  po_open :: bool
  po_items :: "string list"
  po_field :: "sel_field option"
  po_subject :: "string option"
  po_pending_init :: "string list"
  po_pending_count :: "string list"
  po_pending_year :: "string list"

datatype po_event =
    PoLoaded "jsval list option" "jsval list option"
  | PoInitTotal string "int option"
  | PoOpen sel_field string
  | PoCountTotal string "int option"
  | PoApply string
  | PoYearTotal string "int option"
  | PoToggle string bool
  | PoCancel

definition default_option :: "string \<Rightarrow> string \<Rightarrow> subject_option" where
  "default_option latest sub =
     \<lparr>so_subject = sub, so_year = latest, so_topic = ''All Topic'', so_count = 10,
      so_shuffle = False, so_shuffle_options = False\<rparr>"

definition po_init :: "string list \<Rightarrow> po_state" where
  "po_init subs =
     \<lparr>po_subjects = subs, po_exam = JStr ''JAMB'', po_years = [], po_options = [], po_max = Map.empty,
      po_open = False, po_items = [], po_field = None, po_subject = None,
      po_pending_init = [], po_pending_count = [], po_pending_year = []\<rparr>"

text \<open>\<open>list.includes("JAMB") ? "JAMB" : list[0]\<close>.\<close>

definition choose_exam :: "jsval list \<Rightarrow> jsval" where
  "choose_exam l = (if JStr ''JAMB'' \<in> set l then JStr ''JAMB'' else case l of [] \<Rightarrow> JUndefined | x # _ \<Rightarrow> x)"

text \<open>The loading effect up to \<open>Promise.all\<close>: with the exam list and the year
  list it sets the exam, the years and the default options, and starts one
  request per subject; when either request fails, the \<open>catch\<close> branch sets the
  fixed defaults.\<close>

definition po_loaded :: "jsval list option \<Rightarrow> jsval list option \<Rightarrow> po_state \<Rightarrow> po_state" where
  "po_loaded exams years st =
     (case (exams, years) of
        (Some l, Some ys) \<Rightarrow>
          (let norm = map js_to_string ys;
               latest = (if norm \<noteq> [] then last norm else ''2024'')
           in st\<lparr>po_exam := choose_exam l, po_years := norm,
                 po_options := map (default_option latest) (po_subjects st),
                 po_pending_init := po_subjects st\<rparr>)
      | _ \<Rightarrow> st\<lparr>po_exam := JStr ''JAMB'', po_years := [''2020'', ''2021'', ''2022'', ''2023'', ''2024''],
                 po_options := map (default_option ''2024'') (po_subjects st)\<rparr>)"

text \<open>\<open>{ ...prev, [sub]: total }\<close> and the update of one subject's options.\<close>

definition set_count :: "string \<Rightarrow> (subject_option \<Rightarrow> int) \<Rightarrow> subject_option list \<Rightarrow> subject_option list" where
  "set_count sub f os = map (\<lambda>x. if so_subject x = sub then x\<lparr>so_count := f x\<rparr> else x) os"

definition po_init_total :: "string \<Rightarrow> int option \<Rightarrow> po_state \<Rightarrow> po_state" where
  "po_init_total sub r st =
     (let st' = st\<lparr>po_pending_init := remove1 sub (po_pending_init st)\<rparr>
      in case r of
           Some t \<Rightarrow> if 0 < t then st'\<lparr>po_max := (po_max st)(sub \<mapsto> t),
                                      po_options := set_count sub (\<lambda>_. t) (po_options st)\<rparr> else st'
         | None \<Rightarrow> st')"

text \<open>The loop of \<open>buildItems\<close>: \<open>for (let n = step; n <= capped; n += step)\<close>.\<close>

function count_steps :: "int \<Rightarrow> int \<Rightarrow> string list" where
  "count_steps n capped = (if n \<le> capped then int_str n # count_steps (n + 10) capped else [])"
  by pat_completeness auto
termination by (relation "measure (\<lambda>(n, capped). nat (capped + 10 - n))") auto

declare count_steps.simps [simp del]

definition build_items :: "int \<Rightarrow> string list" where
  "build_items tot =
     (if tot \<le> 10 then [int_str tot]
      else count_steps 10 (tot div 10 * 10) @ (if tot mod 10 \<noteq> 0 then [int_str tot] else []))"

definition default_count_items :: "string list" where
  "default_count_items = [''10'', ''20'', ''30'', ''40'', ''50'', ''60'']"

text \<open>\<open>openSelect(field, subject)\<close> up to its \<open>await\<close>.\<close>

definition po_open_select :: "sel_field \<Rightarrow> string \<Rightarrow> po_state \<Rightarrow> po_state" where
  "po_open_select f sub st =
     (let st1 = st\<lparr>po_field := Some f, po_subject := Some sub, po_open := True\<rparr>
      in case f of
           FieldYear \<Rightarrow> st1\<lparr>po_items := po_years st\<rparr>
         | FieldTopic \<Rightarrow> st1\<lparr>po_items := [''All Topic'']\<rparr>
         | FieldCount \<Rightarrow>
             st1\<lparr>po_items := (case po_max st sub of Some m \<Rightarrow> if 0 < m then build_items m else default_count_items
                                                 | None \<Rightarrow> default_count_items),
                 po_pending_count := po_pending_count st @ [sub]\<rparr>)"

text \<open>The rest of \<open>openSelect\<close> for the count: the refreshed total replaces the
  menu items, whatever menu is open by then.\<close>

definition po_count_total :: "string \<Rightarrow> int option \<Rightarrow> po_state \<Rightarrow> po_state" where
  "po_count_total sub r st =
     (let st' = st\<lparr>po_pending_count := remove1 sub (po_pending_count st)\<rparr>
      in case r of
           Some t \<Rightarrow> if 0 < t then st'\<lparr>po_max := (po_max st)(sub \<mapsto> t), po_items := build_items t\<rparr> else st'
         | None \<Rightarrow> st')"

text \<open>\<open>parseInt(value, 10)\<close> on a string of decimal digits.\<close>

definition parse_count :: "string \<Rightarrow> int" where
  "parse_count v = int (digits_val v)"

definition apply_field :: "sel_field option \<Rightarrow> string \<Rightarrow> subject_option \<Rightarrow> subject_option" where
  "apply_field f v x =
     (case f of Some FieldYear \<Rightarrow> x\<lparr>so_year := v\<rparr>
              | Some FieldTopic \<Rightarrow> x\<lparr>so_topic := v\<rparr>
              | Some FieldCount \<Rightarrow> x\<lparr>so_count := parse_count v\<rparr>
              | None \<Rightarrow> x)"

text \<open>\<open>applySelect(value)\<close> up to its \<open>await\<close>: the option of the menu's subject
  is updated, the menu closes, and a year change starts a request for the new
  year's total.\<close>

definition po_apply :: "string \<Rightarrow> po_state \<Rightarrow> po_state" where
  "po_apply v st =
     st\<lparr>po_options := map (\<lambda>x. if Some (so_subject x) \<noteq> po_subject st then x else apply_field (po_field st) v x)
                         (po_options st),
        po_open := False, po_field := None, po_subject := None,
        po_pending_year := (case (po_field st, po_subject st) of
                              (Some FieldYear, Some s) \<Rightarrow> if s \<noteq> [] then po_pending_year st @ [s] else po_pending_year st
                            | _ \<Rightarrow> po_pending_year st)\<rparr>"

text \<open>The rest of \<open>applySelect\<close>: \<open>Math.min(opt.count || total, total)\<close>.\<close>

definition po_year_total :: "string \<Rightarrow> int option \<Rightarrow> po_state \<Rightarrow> po_state" where
  "po_year_total sub r st =
     (let st' = st\<lparr>po_pending_year := remove1 sub (po_pending_year st)\<rparr>
      in case r of
           Some t \<Rightarrow> if 0 < t then st'\<lparr>po_max := (po_max st)(sub \<mapsto> t),
                       po_options := set_count sub (\<lambda>x. min (if so_count x \<noteq> 0 then so_count x else t) t) (po_options st)\<rparr>
                     else st'
         | None \<Rightarrow> st')"

definition po_toggle :: "string \<Rightarrow> bool \<Rightarrow> po_state \<Rightarrow> po_state" where
  "po_toggle sub question st =
     st\<lparr>po_options := map (\<lambda>x. if so_subject x \<noteq> sub then x
                               else if question then x\<lparr>so_shuffle := \<not> so_shuffle x\<rparr>
                               else x\<lparr>so_shuffle_options := \<not> so_shuffle_options x\<rparr>) (po_options st)\<rparr>"

fun po_step :: "po_state \<Rightarrow> po_event \<Rightarrow> po_state" where
  "po_step st (PoLoaded e y) = po_loaded e y st"
| "po_step st (PoInitTotal s r) = po_init_total s r st"
| "po_step st (PoOpen f s) = po_open_select f s st"
| "po_step st (PoCountTotal s r) = po_count_total s r st"
| "po_step st (PoApply v) = po_apply v st"
| "po_step st (PoYearTotal s r) = po_year_total s r st"
| "po_step st (PoToggle s q) = po_toggle s q st"
| "po_step st PoCancel = st\<lparr>po_open := False\<rparr>"

text \<open>What the screen offers: the loading runs once; a request settles only while
  it is outstanding; a menu opens from a card (a subject of the options); an item
  is applied only from the open menu.\<close>

fun po_enabled :: "po_state \<Rightarrow> po_event \<Rightarrow> bool" where
  "po_enabled st (PoLoaded e y) \<longleftrightarrow> po_options st = [] \<and> po_pending_init st = []"
| "po_enabled st (PoInitTotal s r) \<longleftrightarrow> s \<in> set (po_pending_init st)"
| "po_enabled st (PoOpen f s) \<longleftrightarrow> s \<in> set (map so_subject (po_options st))"
| "po_enabled st (PoCountTotal s r) \<longleftrightarrow> s \<in> set (po_pending_count st)"
| "po_enabled st (PoApply v) \<longleftrightarrow> po_open st \<and> v \<in> set (po_items st)"
| "po_enabled st (PoYearTotal s r) \<longleftrightarrow> s \<in> set (po_pending_year st)"
| "po_enabled st (PoToggle s q) \<longleftrightarrow> s \<in> set (map so_subject (po_options st))"
| "po_enabled st PoCancel \<longleftrightarrow> po_open st"

inductive po_reach :: "string list \<Rightarrow> po_state \<Rightarrow> bool" for subs where
  po_reach_init: "po_reach subs (po_init subs)"
| po_reach_step: "po_reach subs st \<Longrightarrow> po_enabled st e \<Longrightarrow> po_reach subs (po_step st e)"

text \<open>A run of events, each offered in the state it meets.\<close>

fun po_run_ok :: "po_state \<Rightarrow> po_event list \<Rightarrow> bool" where
  "po_run_ok st [] = True"
| "po_run_ok st (e # es) = (po_enabled st e \<and> po_run_ok (po_step st e) es)"

text \<open>\<open>handleStart\<close> of the page: the options go to the exam instructions in exam
  mode and to the study session otherwise.\<close>

datatype start_target = ToExamInstructions | ToPastStudy

definition handle_start :: "string option \<Rightarrow> start_target" where
  "handle_start mode = (if mode = Some ''exam'' then ToExamInstructions else ToPastStudy)"

subsection \<open>Invariant and a concrete run\<close>

text \<open>A non-empty string of decimal digits, on which \<open>parseInt\<close> is a number.\<close>

definition all_digits :: "string \<Rightarrow> bool" where
  "all_digits v \<longleftrightarrow> v \<noteq> [] \<and> (\<forall>c \<in> set v. is_digit c)"

definition po_inv :: "po_state \<Rightarrow> bool" where
  "po_inv st \<longleftrightarrow>
     (po_field st = Some FieldCount \<longrightarrow> list_all (\<lambda>v. all_digits v \<and> 0 < parse_count v) (po_items st))
   \<and> list_all (\<lambda>x. 0 < so_count x) (po_options st)"

text \<open>Open the count menu of Biology, close it, open the year menu; the refresh
  of the count menu settles then and fills the open year menu with counts.\<close>

definition race_run :: "po_event list" where
  "race_run = [PoLoaded (Some [JStr ''JAMB'']) (Some [JStr ''2023'', JStr ''2024'']),
               PoInitTotal ''Biology'' None, PoOpen FieldCount ''Biology'', PoCancel,
               PoOpen FieldYear ''Biology'', PoCountTotal ''Biology'' (Some 35), PoApply ''30'']"

text \<open>The same run up to the opening of the year menu, the refresh of the
  count menu still outstanding.\<close>

definition race_prefix :: "po_event list" where
  "race_prefix = [PoLoaded (Some [JStr ''JAMB'']) (Some [JStr ''2023'', JStr ''2024'']),
                  PoInitTotal ''Biology'' None, PoOpen FieldCount ''Biology'', PoCancel,
                  PoOpen FieldYear ''Biology'']"

subsection \<open>Lemmas\<close>

lemma parse_count_int_str [simp]: "0 \<le> n \<Longrightarrow> parse_count (int_str n) = n"
  by (simp add: parse_count_def int_str_def digits_val_nat_str)

lemma all_digits_int_str: "0 \<le> n \<Longrightarrow> all_digits (int_str n)"
  using nat_str_digits by (simp add: all_digits_def int_str_def)

lemma count_steps_set:
  "v \<in> set (count_steps n c) \<Longrightarrow> \<exists>k. v = int_str k \<and> n \<le> k \<and> k \<le> c"
proof (induction n c rule: count_steps.induct)
  case (1 n c)
  then show ?case by (subst (asm) count_steps.simps) (fastforce split: if_splits)
qed

lemma count_steps_sorted:
  "0 \<le> n \<Longrightarrow> sorted_wrt (<) (map parse_count (count_steps n c))"
proof (induction n c rule: count_steps.induct)
  case (1 n c)
  have "\<forall>v \<in> set (count_steps (n + 10) c). n < parse_count v"
    using count_steps_set [of _ "n + 10" c] 1(2) by fastforce
  then show ?case using 1 by (subst count_steps.simps) auto
qed

lemma length_count_steps:
  "length (count_steps n c) = (if n \<le> c then nat ((c - n) div 10) + 1 else 0)"
proof (induction n c rule: count_steps.induct)
  case (1 n c)
  show ?case
  proof (cases "n + 10 \<le> c")
    case True
    then have "nat ((c - (n + 10)) div 10) + 1 = nat ((c - n) div 10)" by (simp add: nat_diff_distrib)
    then show ?thesis using 1 True by (subst count_steps.simps) simp
  next
    case False
    then show ?thesis using 1 by (subst count_steps.simps) (simp add: count_steps.simps)
  qed
qed

lemma last_count_steps:
  "n \<le> c \<Longrightarrow> (c - n) mod 10 = 0 \<Longrightarrow> count_steps n c \<noteq> [] \<and> last (count_steps n c) = int_str c"
proof (induction n c rule: count_steps.induct)
  case (1 n c)
  show ?case
  proof (cases "n + 10 \<le> c")
    case True
    moreover have "(c - (n + 10)) mod 10 = 0" using 1(3) by presburger
    moreover have "count_steps n c = int_str n # count_steps (n + 10) c"
      using True by (subst count_steps.simps) simp
    ultimately show ?thesis using 1 by simp
  next
    case False
    then have "c = n" using 1(2,3) by presburger
    then show ?thesis using False by (subst count_steps.simps) (simp add: count_steps.simps)
  qed
qed

lemma count_steps_values:
  "v \<in> set (count_steps n c) \<Longrightarrow> 0 \<le> n \<Longrightarrow> all_digits v \<and> n \<le> parse_count v \<and> parse_count v \<le> c"
  using count_steps_set [of v n c] all_digits_int_str by fastforce

lemma build_items_facts:
  assumes "0 < t"
  shows "build_items t \<noteq> []
    \<and> list_all all_digits (build_items t)
    \<and> sorted_wrt (<) (map parse_count (build_items t))
    \<and> (\<forall>v \<in> set (build_items t). 0 < parse_count v \<and> parse_count v \<le> t)
    \<and> parse_count (last (build_items t)) = t
    \<and> length (build_items t) = (if t \<le> 10 then 1 else nat (t div 10) + (if t mod 10 = 0 then 0 else 1))"
proof (cases "t \<le> 10")
  case True
  then show ?thesis using assms all_digits_int_str [of t] by (simp add: build_items_def)
next
  case False
  define c where "c = t div 10 * 10"
  have c: "10 \<le> c" "c \<le> t" "(c - 10) mod 10 = 0" "t mod 10 = 0 \<longleftrightarrow> c = t"
    using False by (simp_all add: c_def) presburger+
  have cs: "count_steps 10 c \<noteq> []" "last (count_steps 10 c) = int_str c"
    using last_count_steps [OF c(1,3)] by simp_all
  have vals: "\<forall>v \<in> set (count_steps 10 c). all_digits v \<and> 10 \<le> parse_count v \<and> parse_count v \<le> c"
    using count_steps_values by simp
  have srt: "sorted_wrt (<) (map parse_count (count_steps 10 c))" by (rule count_steps_sorted) simp
  have len: "length (count_steps 10 c) = nat (t div 10)"
    using c(1) by (simp add: length_count_steps c_def)
  show ?thesis
  proof (cases "t mod 10 = 0")
    case True
    then show ?thesis using False cs vals srt len c assms
      by (auto simp: build_items_def c_def[symmetric] list_all_iff)
  next
    case f: False
    then have "c < t" using c by simp
    then show ?thesis using False f cs vals srt len c assms all_digits_int_str [of t]
      by (auto simp: build_items_def c_def[symmetric] list_all_iff sorted_wrt_append)
  qed
qed

lemma build_items_ok: "0 < m \<Longrightarrow> list_all (\<lambda>v. all_digits v \<and> 0 < parse_count v) (build_items m)"
  using build_items_facts [of m] by (auto simp: list_all_iff)

lemma default_count_items_ok: "list_all (\<lambda>v. all_digits v \<and> 0 < parse_count v) default_count_items"
  by (simp add: default_count_items_def all_digits_def is_digit_def parse_count_def digits_val_def digit_val_def)

lemma set_count_pos:
  "list_all (\<lambda>x. 0 < so_count x) os \<Longrightarrow> (\<And>x. 0 < so_count x \<Longrightarrow> 0 < f x) \<Longrightarrow>
   list_all (\<lambda>x. 0 < so_count x) (set_count sub f os)"
  by (auto simp: set_count_def list_all_iff)

lemma po_step_inv:
  assumes "po_enabled st e" "po_inv st"
  shows "po_inv (po_step st e)"
proof (cases e)
  case (PoLoaded x y)
  with assms show ?thesis
    by (auto simp: po_inv_def po_loaded_def Let_def default_option_def list_all_iff split: option.splits)
next
  case (PoInitTotal s r)
  with assms show ?thesis
    by (auto simp: po_inv_def po_init_total_def Let_def intro!: set_count_pos split: option.splits)
next
  case (PoOpen f s)
  with assms show ?thesis
    by (auto simp: po_inv_def po_open_select_def Let_def build_items_ok default_count_items_ok
             split: sel_field.splits option.splits)
next
  case (PoCountTotal s r)
  with assms show ?thesis
    by (auto simp: po_inv_def po_count_total_def Let_def build_items_ok split: option.splits)
next
  case (PoApply v)
  with assms show ?thesis
    by (auto simp: po_inv_def po_apply_def apply_field_def list_all_iff split: option.splits sel_field.splits)
next
  case (PoYearTotal s r)
  with assms show ?thesis
    by (auto simp: po_inv_def po_year_total_def Let_def intro!: set_count_pos split: option.splits)
next
  case (PoToggle s q)
  with assms show ?thesis by (auto simp: po_inv_def po_toggle_def list_all_iff)
next
  case PoCancel
  with assms show ?thesis by (simp add: po_inv_def)
qed

lemma po_reach_run: "po_reach subs st \<Longrightarrow> po_run_ok st es \<Longrightarrow> po_reach subs (foldl po_step st es)"
  by (induction es arbitrary: st) (auto intro: po_reach_step)

lemma race_run_ok: "po_run_ok (po_init [''Biology'']) race_run"
  by (simp add: race_run_def po_init_def po_loaded_def po_init_total_def po_open_select_def po_count_total_def
                default_option_def choose_exam_def Let_def build_items_def count_steps.simps int_str_def
                nat_str.simps)


subsection \<open>Properties\<close>

text \<open>
  C9. For a positive total the count menu offers non-empty decimal strings whose
  values increase strictly, are positive and at most the total, end with the
  total, and are as many as the loop runs (one per ten questions, plus the total
  when it is not a multiple of ten).
\<close>

theorem build_items_spec:
  assumes "0 < t"
  shows "build_items t \<noteq> []
    \<and> list_all all_digits (build_items t)
    \<and> sorted_wrt (<) (map parse_count (build_items t))
    \<and> (\<forall>v \<in> set (build_items t). 0 < parse_count v \<and> parse_count v \<le> t)
    \<and> parse_count (last (build_items t)) = t
    \<and> length (build_items t) = (if t \<le> 10 then 1 else nat (t div 10) + (if t mod 10 = 0 then 0 else 1))"
  using assms by (rule build_items_facts)

theorem build_items_spec_witness:
  "build_items 35 = [''10'', ''20'', ''30'', ''35''] \<and> parse_count (last (build_items 35)) = 35"
proof -
  have "parse_count (last (build_items 35)) = 35" using build_items_spec [of 35] by simp
  then show ?thesis by (simp add: build_items_def count_steps.simps int_str_def nat_str.simps)
qed


text \<open>
  C7. In every state the options screen reaches, every subject's question count is
  positive (so the percentage of the results always divides by the configured
  count), and while the count menu is the open one, every item it offers is a
  string of decimal digits, so \<open>parseInt\<close> never yields \<open>NaN\<close>.
\<close>

theorem po_counts_positive:
  "po_reach subs st \<Longrightarrow> list_all (\<lambda>x. 0 < so_count x) (po_options st)
     \<and> (po_field st = Some FieldCount \<longrightarrow> list_all all_digits (po_items st))"
proof -
  assume "po_reach subs st"
  then have "po_inv st"
  proof (induction rule: po_reach.induct)
    case po_reach_init
    show ?case by (simp add: po_inv_def po_init_def)
  next
    case (po_reach_step st e)
    show ?case by (rule po_step_inv [OF po_reach_step.hyps(2) po_reach_step.IH])
  qed
  then show ?thesis by (auto simp: po_inv_def list_all_iff)
qed

theorem po_counts_positive_witness:
  "list_all (\<lambda>x. 0 < so_count x) (po_options (foldl po_step (po_init [''Biology'']) race_run))"
  using po_counts_positive [OF po_reach_run [OF po_reach_init race_run_ok]] by simp

lemma race_prefix_state:
  "po_reach [''Biology''] (foldl po_step (po_init [''Biology'']) race_prefix)
   \<and> ''Biology'' \<in> set (po_pending_count (foldl po_step (po_init [''Biology'']) race_prefix))
   \<and> po_field (foldl po_step (po_init [''Biology'']) race_prefix) = Some FieldYear
   \<and> po_open (foldl po_step (po_init [''Biology'']) race_prefix)
   \<and> po_subject (foldl po_step (po_init [''Biology'']) race_prefix) = Some ''Biology''
   \<and> po_options (foldl po_step (po_init [''Biology'']) race_prefix) = [default_option ''2024'' ''Biology'']"
proof -
  have "po_run_ok (po_init [''Biology'']) race_prefix"
    by (simp add: race_prefix_def po_init_def po_loaded_def po_init_total_def po_open_select_def
                  default_option_def choose_exam_def Let_def)
  then have reach: "po_reach [''Biology''] (foldl po_step (po_init [''Biology'']) race_prefix)"
    by (rule po_reach_run [OF po_reach_init])
  have "''Biology'' \<in> set (po_pending_count (foldl po_step (po_init [''Biology'']) race_prefix))
   \<and> po_field (foldl po_step (po_init [''Biology'']) race_prefix) = Some FieldYear
   \<and> po_open (foldl po_step (po_init [''Biology'']) race_prefix)
   \<and> po_subject (foldl po_step (po_init [''Biology'']) race_prefix) = Some ''Biology''
   \<and> po_options (foldl po_step (po_init [''Biology'']) race_prefix) = [default_option ''2024'' ''Biology'']"
    by (simp add: race_prefix_def po_init_def po_loaded_def po_init_total_def po_open_select_def
                  default_option_def choose_exam_def Let_def)
  then show ?thesis using reach by blast
qed

text \<open>
  C33. A late count refresh replaces the items of whatever menu is open. In every
  reachable state where the year menu is open while a count refresh is still
  outstanding (the user opened the count menu, closed it and opened the year
  menu), the refresh may settle with any positive total; the year menu then
  offers the count items, each a string of digits, and choosing one sets the
  year of the menu's subject to that count.
\<close>

theorem year_menu_race:
  assumes "po_reach subs st" "sub \<in> set (po_pending_count st)" "po_field st = Some FieldYear" "0 < t"
  shows "po_reach subs (po_step st (PoCountTotal sub (Some t)))
    \<and> po_field (po_step st (PoCountTotal sub (Some t))) = Some FieldYear
    \<and> po_items (po_step st (PoCountTotal sub (Some t))) = build_items t
    \<and> list_all all_digits (po_items (po_step st (PoCountTotal sub (Some t))))
    \<and> (\<forall>v \<in> set (build_items t).
          map so_year (po_options (po_step (po_step st (PoCountTotal sub (Some t))) (PoApply v)))
          = map (\<lambda>x. if Some (so_subject x) = po_subject st then v else so_year x) (po_options st))"
proof -
  have r: "po_reach subs (po_step st (PoCountTotal sub (Some t)))"
    using assms(1,2) by (intro po_reach_step) simp_all
  show ?thesis using r assms(3,4) build_items_facts [of t]
    by (simp add: po_count_total_def po_apply_def apply_field_def Let_def comp_def)
qed

theorem year_menu_race_witness:
  "map so_year (po_options (po_step (po_step (foldl po_step (po_init [''Biology'']) race_prefix)
       (PoCountTotal ''Biology'' (Some 35))) (PoApply ''30''))) = [''30'']"
proof -
  define P where "P = foldl po_step (po_init [''Biology'']) race_prefix"
  have p: "po_reach [''Biology''] P" "''Biology'' \<in> set (po_pending_count P)" "po_field P = Some FieldYear"
      "po_subject P = Some ''Biology''" "po_options P = [default_option ''2024'' ''Biology'']"
    using race_prefix_state unfolding P_def by simp_all
  have "''30'' \<in> set (build_items 35)"
    by (simp add: build_items_def count_steps.simps int_str_def nat_str.simps)
  then have "map so_year (po_options (po_step (po_step P (PoCountTotal ''Biology'' (Some 35))) (PoApply ''30'')))
      = map (\<lambda>x. if Some (so_subject x) = po_subject P then ''30'' else so_year x) (po_options P)"
    using year_menu_race [OF p(1,2,3), of 35] by simp
  then show ?thesis using p(4,5) by (simp add: P_def default_option_def)
qed

end
