(* ===== verification/Flashcards.thy ===== *)
theory Flashcards
  imports Scoring
begin

text \<open>
  The flashcards feature: the deck data of \<open>src/components/data/flashcardsData.ts\<close>
  (translated literally; characters outside ASCII are written as their UTF-8
  bytes), the subject grid of \<open>src/app/flashcards/index.tsx\<close> with its fixed
  statistics, and the deck screen of \<open>src/app/flashcards/[id].tsx\<close>. The deck
  screen moves between cards only when the slide animation calls back:
  \<open>nextCard\<close> and \<open>prevCard\<close> capture the index of their render and start a
  slide; starting a slide stops the running one, and React Native calls a
  stopped animation's callback at once, so the callbacks run in the order the
  slides were started.
\<close>

record flashcard =
  card_id :: string
  card_front :: string
  card_back :: string
  card_topic :: string

record deck =
  deck_id :: string
  deck_title :: string
  deck_icon :: string
  deck_color :: string
  deck_cards :: "flashcard list"

subsection \<open>The deck data\<close>

definition deck_math :: deck where
  "deck_math = \<lparr>deck_id = ''math'', deck_title = ''Mathematics'', deck_icon = ''function'', deck_color = ''#4CAF50'', deck_cards = [
     \<lparr>card_id = ''m1'', card_front = ''What is the formula for the nth term of an Arithmetic Progression (AP)?'',
      card_back = ''Tn = a + (n-1)d'' @ [CHR 0x0A] @ ''(where a = first term, d = common difference)'', card_topic = ''Algebra''\<rparr>,
     \<lparr>card_id = ''m2'', card_front = ''What is the quadratic formula?'',
      card_back = ''x = [-b '' @ [CHR 0xC2] @ [CHR 0xB1] @ '' '' @ [CHR 0xE2] @ [CHR 0x88] @ [CHR 0x9A] @ ''(b'' @ [CHR 0xC2] @ [CHR 0xB2] @ '' - 4ac)] / 2a'', card_topic = ''Algebra''\<rparr>,
     \<lparr>card_id = ''m3'', card_front = ''What is the derivative of sin(x)?'',
      card_back = ''cos(x)'', card_topic = ''Calculus''\<rparr>,
     \<lparr>card_id = ''m4'', card_front = ''What is the derivative of cos(x)?'',
      card_back = ''-sin(x) (Negative sin x)'', card_topic = ''Calculus''\<rparr>,
     \<lparr>card_id = ''m5'', card_front = ''Simplify x'' @ [CHR 0xE2] @ [CHR 0x81] @ [CHR 0xB0] @ '' (where x '' @ [CHR 0xE2] @ [CHR 0x89] @ [CHR 0xA0] @ '' 0)'',
      card_back = ''1'', card_topic = ''Indices''\<rparr>,
     \<lparr>card_id = ''m6'', card_front = ''What is log(a) + log(b)?'',
      card_back = ''log(ab)'', card_topic = ''Logarithms''\<rparr>,
     \<lparr>card_id = ''m7'', card_front = ''What is the sum of angles in a triangle?'',
      card_back = ''180 degrees'', card_topic = ''Geometry''\<rparr>,
     \<lparr>card_id = ''m8'', card_front = ''In SOHCAHTOA, what does SOH stand for?'',
      card_back = ''Sin '' @ [CHR 0xCE] @ [CHR 0xB8] @ '' = Opposite / Hypotenuse'', card_topic = ''Trigonometry''\<rparr>,
     \<lparr>card_id = ''m9'', card_front = ''How do you calculate the Mean?'',
      card_back = ''Sum of all values / Number of values'', card_topic = ''Statistics''\<rparr>,
     \<lparr>card_id = ''m10'', card_front = ''What is the symbol for Intersection?'',
      card_back = [CHR 0xE2] @ [CHR 0x88] @ [CHR 0xA9] @ '' (e.g., A '' @ [CHR 0xE2] @ [CHR 0x88] @ [CHR 0xA9] @ '' B)'', card_topic = ''Sets''\<rparr>,
     \<lparr>card_id = ''m11'', card_front = ''What is the determinant of a 2x2 matrix [a b; c d]?'',
      card_back = ''ad - bc'', card_topic = ''Matrices''\<rparr>,
     \<lparr>card_id = ''m12'', card_front = ''What is the angle in a semicircle?'',
      card_back = ''90 degrees (Right Angle)'', card_topic = ''Circle Geometry''\<rparr>]\<rparr>"

definition deck_eng :: deck where
  "deck_eng = \<lparr>deck_id = ''eng'', deck_title = ''English'', deck_icon = ''textformat'', deck_color = ''#2196F3'', deck_cards = [
     \<lparr>card_id = ''e1'', card_front = ''Which word has the same vowel sound as '' @ [CHR 0x27] @ ''Key'' @ [CHR 0x27] @ '': (a) Play (b) Quay (c) Eye?'',
      card_back = ''Quay (pronounced '' @ [CHR 0x27] @ ''Key'' @ [CHR 0x27] @ '')'', card_topic = ''Oral English''\<rparr>,
     \<lparr>card_id = ''e2'', card_front = ''Correct the sentence: '' @ [CHR 0x27] @ ''The list of items are on the table.'' @ [CHR 0x27],
      card_back = [CHR 0x27] @ ''The list of items IS on the table.'' @ [CHR 0x27] @ '' (Subject is '' @ [CHR 0x27] @ ''list'' @ [CHR 0x27] @ '', singular)'', card_topic = ''Concord''\<rparr>,
     \<lparr>card_id = ''e3'', card_front = ''What does '' @ [CHR 0x27] @ ''To let the cat out of the bag'' @ [CHR 0x27] @ '' mean?'',
      card_back = ''To reveal a secret'', card_topic = ''Idioms''\<rparr>,
     \<lparr>card_id = ''e4'', card_front = ''Identify the figure of speech: '' @ [CHR 0x27] @ ''The wind whispered through the trees.'' @ [CHR 0x27],
      card_back = ''Personification'', card_topic = ''Fig. of Speech''\<rparr>,
     \<lparr>card_id = ''e5'', card_front = ''What is a synonym for '' @ [CHR 0x27] @ ''Obsolete'' @ [CHR 0x27] @ ''?'',
      card_back = ''Outdated / Old-fashioned'', card_topic = ''Lexis''\<rparr>,
     \<lparr>card_id = ''e6'', card_front = ''Identify the silent letter in '' @ [CHR 0x27] @ ''Psalm'' @ [CHR 0x27] @ ''.'',
      card_back = ''P'', card_topic = ''Oral English''\<rparr>,
     \<lparr>card_id = ''e7'', card_front = ''Choose the correct option: '' @ [CHR 0x27] @ ''He is looking forward to ____ you.'' @ [CHR 0x27] @ '' (see/seeing)'',
      card_back = ''Seeing ('' @ [CHR 0x27] @ ''Looking forward to'' @ [CHR 0x27] @ '' is followed by a gerund)'', card_topic = ''Grammar''\<rparr>,
     \<lparr>card_id = ''e8'', card_front = ''What is the antonym of '' @ [CHR 0x27] @ ''Arrogant'' @ [CHR 0x27] @ ''?'',
      card_back = ''Humble'', card_topic = ''Antonyms''\<rparr>,
     \<lparr>card_id = ''e9'', card_front = ''What does '' @ [CHR 0x27] @ ''A piece of cake'' @ [CHR 0x27] @ '' mean?'',
      card_back = ''Something very easy to do'', card_topic = ''Idioms''\<rparr>,
     \<lparr>card_id = ''e10'', card_front = ''In the sentence '' @ [CHR 0x27] @ ''JOHN stole the book'' @ [CHR 0x27] @ '', what is emphasized?'',
      card_back = ''It was John (not someone else) who stole it.'', card_topic = ''Emphasis''\<rparr>]\<rparr>"

definition deck_phy :: deck where
  "deck_phy = \<lparr>deck_id = ''phy'', deck_title = ''Physics'', deck_icon = ''bolt.fill'', deck_color = ''#FF9800'', deck_cards = [
     \<lparr>card_id = ''p1'', card_front = ''What is Newton'' @ [CHR 0x27] @ ''s First Law of Motion?'',
      card_back = ''A body remains at rest or uniform motion unless acted upon by an external force.'', card_topic = ''Motion''\<rparr>,
     \<lparr>card_id = ''p2'', card_front = ''What is Ohm'' @ [CHR 0x27] @ ''s Law formula?'',
      card_back = ''V = IR (Voltage = Current '' @ [CHR 0xC3] @ [CHR 0x97] @ '' Resistance)'', card_topic = ''Electricity''\<rparr>,
     \<lparr>card_id = ''p3'', card_front = ''What type of wave is a sound wave?'',
      card_back = ''Longitudinal Wave'', card_topic = ''Waves''\<rparr>,
     \<lparr>card_id = ''p4'', card_front = ''What type of lens is used to correct Myopia (Short-sightedness)?'',
      card_back = ''Concave Lens (Diverging Lens)'', card_topic = ''Optics''\<rparr>,
     \<lparr>card_id = ''p5'', card_front = ''What is the SI unit of Heat?'',
      card_back = ''Joule (J)'', card_topic = ''Heat''\<rparr>,
     \<lparr>card_id = ''p6'', card_front = ''Formula for Potential Energy?'',
      card_back = ''P.E. = mgh (mass '' @ [CHR 0xC3] @ [CHR 0x97] @ '' gravity '' @ [CHR 0xC3] @ [CHR 0x97] @ '' height)'', card_topic = ''Mechanics''\<rparr>,
     \<lparr>card_id = ''p7'', card_front = ''Which radiation has the highest penetrating power?'',
      card_back = ''Gamma rays'', card_topic = ''Radioactivity''\<rparr>,
     \<lparr>card_id = ''p8'', card_front = ''What is a p-n junction diode used for?'',
      card_back = ''Rectification (Converting AC to DC)'', card_topic = ''Electronics''\<rparr>,
     \<lparr>card_id = ''p9'', card_front = ''Formula for Gravitational Force between two masses?'',
      card_back = ''F = Gm'' @ [CHR 0xE2] @ [CHR 0x82] @ [CHR 0x81] @ ''m'' @ [CHR 0xE2] @ [CHR 0x82] @ [CHR 0x82] @ '' / r'' @ [CHR 0xC2] @ [CHR 0xB2], card_topic = ''Fields''\<rparr>,
     \<lparr>card_id = ''p10'', card_front = ''What phenomenon proves light is a transverse wave?'',
      card_back = ''Polarization'', card_topic = ''Waves''\<rparr>]\<rparr>"

definition deck_chem :: deck where
  "deck_chem = \<lparr>deck_id = ''chem'', deck_title = ''Chemistry'', deck_icon = ''flask.fill'', deck_color = ''#F44336'', deck_cards = [
     \<lparr>card_id = ''c1'', card_front = ''What are Isotopes?'',
      card_back = ''Atoms of the same element with same proton number but different mass number.'', card_topic = ''Atomic Structure''\<rparr>,
     \<lparr>card_id = ''c2'', card_front = ''What is the pH of a neutral solution at 25'' @ [CHR 0xC2] @ [CHR 0xB0] @ ''C?'',
      card_back = ''7'', card_topic = ''Acids/Bases''\<rparr>,
     \<lparr>card_id = ''c3'', card_front = ''General formula for Alkanes?'',
      card_back = ''CnH(2n+2)'', card_topic = ''Organic Chem''\<rparr>,
     \<lparr>card_id = ''c4'', card_front = ''State Boyle'' @ [CHR 0x27] @ ''s Law formula.'',
      card_back = ''P1V1 = P2V2 (at constant temperature)'', card_topic = ''Gas Laws''\<rparr>,
     \<lparr>card_id = ''c5'', card_front = ''Oxidation is the ____ of electrons.'',
      card_back = ''Loss (OIL RIG - Oxidation Is Loss)'', card_topic = ''Electrochem''\<rparr>,
     \<lparr>card_id = ''c6'', card_front = ''Which group are the Halogens?'',
      card_back = ''Group 7 (VII)'', card_topic = ''Periodic Table''\<rparr>,
     \<lparr>card_id = ''c7'', card_front = ''What is the functional group of Alkanols?'',
      card_back = ''-OH (Hydroxyl group)'', card_topic = ''Organic Chem''\<rparr>,
     \<lparr>card_id = ''c8'', card_front = ''Method to separate oil and water?'',
      card_back = ''Separating Funnel (Immiscible liquids)'', card_topic = ''Separation''\<rparr>,
     \<lparr>card_id = ''c9'', card_front = ''What type of bond exists in Sodium Chloride (NaCl)?'',
      card_back = ''Ionic Bond (Electrovalent)'', card_topic = ''Bonding''\<rparr>,
     \<lparr>card_id = ''c10'', card_front = ''What is Avogadro'' @ [CHR 0x27] @ ''s constant?'',
      card_back = ''6.02 x 10'' @ [CHR 0xC2] @ [CHR 0xB2] @ [CHR 0xC2] @ [CHR 0xB3], card_topic = ''Stoichiometry''\<rparr>]\<rparr>"

definition deck_bio :: deck where
  "deck_bio = \<lparr>deck_id = ''bio'', deck_title = ''Biology'', deck_icon = ''leaf.fill'', deck_color = ''#4DB6AC'', deck_cards = [
     \<lparr>card_id = ''b1'', card_front = ''Which organelle is the '' @ [CHR 0x27] @ ''Powerhouse'' @ [CHR 0x27] @ '' of the cell?'',
      card_back = ''Mitochondria'', card_topic = ''Cell Bio''\<rparr>,
     \<lparr>card_id = ''b2'', card_front = ''Who is the Father of Genetics?'',
      card_back = ''Gregor Mendel'', card_topic = ''Genetics''\<rparr>,
     \<lparr>card_id = ''b3'', card_front = ''Which blood cells fight infection?'',
      card_back = ''White Blood Cells (Leucocytes)'', card_topic = ''Circulatory''\<rparr>,
     \<lparr>card_id = ''b4'', card_front = ''What is Commensalism?'',
      card_back = ''Association where one benefits and the other is neither harmed nor benefited.'', card_topic = ''Ecology''\<rparr>,
     \<lparr>card_id = ''b5'', card_front = ''What is the excretory organ of insects?'',
      card_back = ''Malpighian Tubules'', card_topic = ''Excretion''\<rparr>,
     \<lparr>card_id = ''b6'', card_front = ''What pigment absorbs light energy in plants?'',
      card_back = ''Chlorophyll'', card_topic = ''Photosynthesis''\<rparr>,
     \<lparr>card_id = ''b7'', card_front = ''Which Kingdom do bacteria belong to?'',
      card_back = ''Monera'', card_topic = ''Classification''\<rparr>,
     \<lparr>card_id = ''b8'', card_front = ''Which bone is the longest in the human body?'',
      card_back = ''Femur (Thigh bone)'', card_topic = ''Skeletal''\<rparr>,
     \<lparr>card_id = ''b9'', card_front = ''Where does fertilization occur in humans?'',
      card_back = ''Fallopian Tube (Oviduct)'', card_topic = ''Reproduction''\<rparr>,
     \<lparr>card_id = ''b10'', card_front = ''Lack of Vitamin C causes which disease?'',
      card_back = ''Scurvy'', card_topic = ''Nutrition''\<rparr>]\<rparr>"

definition deck_eco :: deck where
  "deck_eco = \<lparr>deck_id = ''eco'', deck_title = ''Economics'', deck_icon = ''chart.pie.fill'', deck_color = ''#795548'', deck_cards = [
     \<lparr>card_id = ''ec1'', card_front = ''What is Opportunity Cost?'',
      card_back = ''The alternative forgone (the next best option sacrificed)'', card_topic = ''Basic Concepts''\<rparr>,
     \<lparr>card_id = ''ec2'', card_front = ''State the Law of Demand.'',
      card_back = ''Higher price, lower quantity demanded (ceteris paribus).'', card_topic = ''Demand''\<rparr>,
     \<lparr>card_id = ''ec3'', card_front = ''What are the factors of production?'',
      card_back = ''Land, Labor, Capital, Entrepreneur'', card_topic = ''Production''\<rparr>,
     \<lparr>card_id = ''ec4'', card_front = ''A market with a single seller is called?'',
      card_back = ''Monopoly'', card_topic = ''Market''\<rparr>,
     \<lparr>card_id = ''ec5'', card_front = ''What is Inflation?'',
      card_back = ''Persistent rise in the general price level.'', card_topic = ''Inflation''\<rparr>,
     \<lparr>card_id = ''ec6'', card_front = ''What is the primary function of money?'',
      card_back = ''Medium of exchange'', card_topic = ''Money''\<rparr>,
     \<lparr>card_id = ''ec7'', card_front = ''Formula for Population Density?'',
      card_back = ''Total Population / Total Land Area'', card_topic = ''Pop.''\<rparr>,
     \<lparr>card_id = ''ec8'', card_front = ''What is Diminishing Marginal Utility?'',
      card_back = ''Satisfaction decreases as more units are consumed.'', card_topic = ''Utility''\<rparr>,
     \<lparr>card_id = ''ec9'', card_front = ''Who bears the risk in a business?'',
      card_back = ''The Entrepreneur'', card_topic = ''Business''\<rparr>,
     \<lparr>card_id = ''ec10'', card_front = ''What is a '' @ [CHR 0x27] @ ''Bear'' @ [CHR 0x27] @ '' market?'',
      card_back = ''A market where prices are falling'', card_topic = ''Finance''\<rparr>]\<rparr>"

text \<open>\<open>flashcardsData\<close>, keyed by deck.\<close>

definition flashcards_data :: "(string \<times> deck) list" where
  "flashcards_data = [(''math'', deck_math), (''eng'', deck_eng), (''phy'', deck_phy),
                      (''chem'', deck_chem), (''bio'', deck_bio), (''eco'', deck_eco)]"

text \<open>\<open>flashcardsData[deckId]\<close>.\<close>

definition find_deck :: "string \<Rightarrow> deck option" where
  "find_deck k = map_of flashcards_data k"

subsection \<open>The subject grid\<close>

record category =
  cat_id :: string
  cat_title :: string
  cat_count :: int
  cat_color :: string
  cat_icon :: string
  cat_mastery :: rat

definition grid_stats :: "int \<times> int \<times> int" where
  "grid_stats = (12, 850, 5)"

definition categories :: "category list" where
  "categories =
    [\<lparr>cat_id = ''math'', cat_title = ''Mathematics'', cat_count = 120, cat_color = ''#4CAF50'', cat_icon = ''function'', cat_mastery = 75 / 100\<rparr>,
     \<lparr>cat_id = ''eng'', cat_title = ''English'', cat_count = 200, cat_color = ''#2196F3'', cat_icon = ''textformat'', cat_mastery = 6 / 10\<rparr>,
     \<lparr>cat_id = ''phy'', cat_title = ''Physics'', cat_count = 95, cat_color = ''#FF9800'', cat_icon = ''bolt.fill'', cat_mastery = 45 / 100\<rparr>,
     \<lparr>cat_id = ''chem'', cat_title = ''Chemistry'', cat_count = 110, cat_color = ''#F44336'', cat_icon = ''flask.fill'', cat_mastery = 3 / 10\<rparr>,
     \<lparr>cat_id = ''bio'', cat_title = ''Biology'', cat_count = 150, cat_color = ''#4DB6AC'', cat_icon = ''leaf.fill'', cat_mastery = 55 / 100\<rparr>,
     \<lparr>cat_id = ''eco'', cat_title = ''Economics'', cat_count = 80, cat_color = ''#795548'', cat_icon = ''chart.pie.fill'', cat_mastery = 2 / 10\<rparr>]"

text \<open>One tile of the grid: title, \<open>"{count} Cards"\<close>, and the mastery bar with its
  percentage \<open>Math.round(cat.mastery * 100)\<close>; pressing it opens
  \<open>/flashcards/{id}\<close>.\<close>

definition category_tile :: "category \<Rightarrow> string \<times> int \<times> int \<times> string" where
  "category_tile c = (cat_title c, cat_count c, js_round (cat_mastery c * 100), cat_id c)"

text \<open>The summary card of the grid: label, figure and unit of the learned cards,
  the mastered decks and the streak, in the order the card shows them.\<close>

definition grid_summary :: "int \<times> int \<times> int \<Rightarrow> (string \<times> string \<times> string) list" where
  "grid_summary s = (case s of (decks, cards, streak) \<Rightarrow>
     [(''Total Learned'', int_str cards, ''Cards''),
      (''Mastered'', int_str decks, ''Decks''),
      (''Streak'', int_str streak, ''Days'')])"

text \<open>Pressing a tile: \<open>router.push(`/flashcards/${cat.id}`)\<close>; the deck screen
  reads the segment back as its \<open>id\<close> parameter.\<close>

definition grid_press :: "category \<Rightarrow> route" where
  "grid_press c = Push (''/flashcards/'' @ cat_id c) []"

subsection \<open>The deck screen\<close>

record fc_state =
  fc_index :: int
  fc_flipped :: bool
  fc_pending :: "int list"

datatype fc_event = FcNext | FcPrev | FcFlip | FcSlideDone

definition fc_init :: fc_state where
  "fc_init = \<lparr>fc_index = 0, fc_flipped = False, fc_pending = []\<rparr>"

text \<open>The body of a slide callback: back to the front face, the captured target
  index.\<close>

definition fc_land :: "int \<Rightarrow> fc_state \<Rightarrow> fc_state" where
  "fc_land tgt st = st\<lparr>fc_flipped := False, fc_index := tgt\<rparr>"

text \<open>Starting a slide to \<open>tgt\<close>: the callback of the slide still running (if any)
  runs now, then the new slide is the one running.\<close>

definition fc_start_slide :: "int \<Rightarrow> fc_state \<Rightarrow> fc_state" where
  "fc_start_slide tgt st =
     (let st' = fold fc_land (fc_pending st) st in st'\<lparr>fc_pending := [tgt]\<rparr>)"

definition fc_step :: "int \<Rightarrow> fc_state \<Rightarrow> fc_event \<Rightarrow> fc_state" where
  "fc_step n st e =
     (case e of
        FcNext \<Rightarrow> if fc_index st < n - 1 then fc_start_slide (fc_index st + 1) st else st
      | FcPrev \<Rightarrow> if fc_index st > 0 then fc_start_slide (fc_index st - 1) st else st
      | FcFlip \<Rightarrow> st\<lparr>fc_flipped := \<not> fc_flipped st\<rparr>
      | FcSlideDone \<Rightarrow> (case fc_pending st of [] \<Rightarrow> st | t # ts \<Rightarrow> (fc_land t st)\<lparr>fc_pending := ts\<rparr>))"

text \<open>The buttons: Prev is disabled at the first card, Next at the last; a slide
  ends only while one runs.\<close>

definition fc_enabled :: "int \<Rightarrow> fc_state \<Rightarrow> fc_event \<Rightarrow> bool" where
  "fc_enabled n st e =
     (case e of FcNext \<Rightarrow> fc_index st \<noteq> n - 1 | FcPrev \<Rightarrow> fc_index st \<noteq> 0
              | FcFlip \<Rightarrow> True | FcSlideDone \<Rightarrow> fc_pending st \<noteq> [])"

inductive fc_reach :: "int \<Rightarrow> fc_state \<Rightarrow> bool" for n where
  fc_reach_init: "fc_reach n fc_init"
| fc_reach_step: "fc_reach n st \<Longrightarrow> fc_enabled n st e \<Longrightarrow> fc_reach n (fc_step n st e)"

text \<open>What the deck screen shows: the progress \<open>"{i+1} / {n}"\<close> and bar width
  \<open>(i+1)/n*100\<close> percent, the topic and the face of the current card.\<close>

definition fc_view :: "deck \<Rightarrow> fc_state \<Rightarrow> (int \<times> nat \<times> rat \<times> string \<times> string) option" where
  "fc_view d st =
     (let cs = deck_cards d; i = fc_index st
      in if 0 \<le> i \<and> nat i < length cs
         then Some (i + 1, length cs, of_int (i + 1) / of_nat (length cs) * 100, card_topic (cs ! nat i),
                    if fc_flipped st then card_back (cs ! nat i) else card_front (cs ! nat i))
         else None)"

text \<open>An unknown deck id (lines 36 to 42): the effect goes back and the screen
  renders nothing.\<close>

definition deck_screen :: "string \<Rightarrow> route option \<times> deck option" where
  "deck_screen i = (case find_deck i of None \<Rightarrow> (Some GoBack, None) | Some d \<Rightarrow> (None, Some d))"

text \<open>The flip (lines 98 to 116): the faces turn with \<open>flipAnim\<close>, the front by
  its value in degrees and the back by the value plus 180, and their opacities
  are \<open>flipAnim\<close> interpolated over \<open>[89, 90]\<close>, extended linearly beyond that
  range (the default extrapolation of \<open>interpolate\<close>) and drawn clamped to
  \<open>[0, 1]\<close>. The flip spring rests at 180 for the flipped card and at 0
  otherwise (line 48; the slide callbacks reset it to 0, lines 64 and 85).\<close>

definition interpolate :: "rat \<times> rat \<Rightarrow> rat \<times> rat \<Rightarrow> rat \<Rightarrow> rat" where
  "interpolate inp outp v =
     (case inp of (a, b) \<Rightarrow> case outp of (y0, y1) \<Rightarrow> y0 + (v - a) * (y1 - y0) / (b - a))"

definition clamp01 :: "rat \<Rightarrow> rat" where
  "clamp01 x = max 0 (min 1 x)"

definition face_opacity :: "rat \<Rightarrow> rat \<times> rat" where
  "face_opacity v = (clamp01 (interpolate (89, 90) (1, 0) v), clamp01 (interpolate (89, 90) (0, 1) v))"

definition face_rotation :: "rat \<Rightarrow> rat \<times> rat" where
  "face_rotation v = (interpolate (0, 180) (0, 180) v, interpolate (0, 180) (180, 360) v)"

definition flip_rest :: "fc_state \<Rightarrow> rat" where
  "flip_rest st = (if fc_flipped st then 180 else 0)"

subsection \<open>Well-formed decks, runs of the deck screen\<close>

text \<open>A deck entry is well formed when its key is its id, it has cards, its card
  ids are distinct and every card has both faces.\<close>

definition deck_ok :: "string \<times> deck \<Rightarrow> bool" where
  "deck_ok kd \<longleftrightarrow> deck_id (snd kd) = fst kd \<and> deck_cards (snd kd) \<noteq> []
     \<and> distinct (map card_id (deck_cards (snd kd)))
     \<and> list_all (\<lambda>c. card_front c \<noteq> [] \<and> card_back c \<noteq> []) (deck_cards (snd kd))"

definition fc_inv :: "int \<Rightarrow> fc_state \<Rightarrow> bool" where
  "fc_inv n st \<longleftrightarrow> 0 \<le> fc_index st \<and> fc_index st < n \<and> list_all (\<lambda>t. 0 \<le> t \<and> t < n) (fc_pending st)"

fun fc_run :: "int \<Rightarrow> fc_state \<Rightarrow> fc_event list \<Rightarrow> fc_state" where
  "fc_run n st [] = st"
| "fc_run n st (e # es) = fc_run n (fc_step n st e) es"

fun fc_run_ok :: "int \<Rightarrow> fc_state \<Rightarrow> fc_event list \<Rightarrow> bool" where
  "fc_run_ok n st [] = True"
| "fc_run_ok n st (e # es) = (fc_enabled n st e \<and> fc_run_ok n (fc_step n st e) es)"

text \<open>Open a deck, go to the second card, then press Next and at once Prev.\<close>

definition fc_quick_run :: "fc_event list" where
  "fc_quick_run = [FcNext, FcSlideDone, FcNext, FcPrev, FcSlideDone]"

subsection \<open>Lemmas\<close>

lemmas deck_defs = deck_math_def deck_eng_def deck_phy_def deck_chem_def deck_bio_def deck_eco_def

lemma category_counts_differ:
  "map cat_count categories = [120, 200, 95, 110, 150, 80]
   \<and> map (\<lambda>c. int (length (deck_cards (the (find_deck (cat_id c)))))) categories = [12, 10, 10, 10, 10, 10]"
  by (simp add: flashcards_data_def deck_defs find_deck_def categories_def)

lemma fold_fc_land_inv:
  "fc_inv n st \<Longrightarrow> list_all (\<lambda>t. 0 \<le> t \<and> t < n) ts \<Longrightarrow> fc_inv n (fold fc_land ts st)"
  by (induction ts arbitrary: st) (auto simp: fc_inv_def fc_land_def)

lemma fc_step_inv: "fc_inv n st \<Longrightarrow> fc_inv n (fc_step n st e)"
proof (cases e)
  case FcNext
  assume i: "fc_inv n st"
  then show ?thesis using FcNext fold_fc_land_inv [OF i, of "fc_pending st"]
    by (auto simp: fc_step_def fc_start_slide_def Let_def fc_inv_def)
next
  case FcPrev
  assume i: "fc_inv n st"
  then show ?thesis using FcPrev fold_fc_land_inv [OF i, of "fc_pending st"]
    by (auto simp: fc_step_def fc_start_slide_def Let_def fc_inv_def)
next
  case FcFlip
  then show "fc_inv n st \<Longrightarrow> ?thesis" by (simp add: fc_step_def fc_inv_def)
next
  case FcSlideDone
  then show "fc_inv n st \<Longrightarrow> ?thesis" by (auto simp: fc_step_def fc_inv_def fc_land_def split: list.splits)
qed

lemma fc_reach_run: "fc_reach n st \<Longrightarrow> fc_run_ok n st es \<Longrightarrow> fc_reach n (fc_run n st es)"
  by (induction es arbitrary: st) (auto intro: fc_reach_step)

lemma fc_quick_run_ok: "fc_run_ok 12 fc_init fc_quick_run"
  by (simp add: fc_quick_run_def fc_init_def fc_enabled_def fc_step_def fc_start_slide_def fc_land_def)

subsection \<open>Properties\<close>

text \<open>
  The deck data is well formed: each deck is stored under its own id, has at
  least one card (so \<open>deck.cards[0]\<close> exists when a deck opens), card ids are
  distinct across all decks, every card has a front and a back, and every tile of
  the subject grid opens an existing deck.
\<close>

theorem flashcards_well_formed:
  "list_all deck_ok flashcards_data
   \<and> distinct (map fst flashcards_data)
   \<and> distinct (concat (map (\<lambda>kd. map card_id (deck_cards (snd kd))) flashcards_data))
   \<and> list_all (\<lambda>c. find_deck (cat_id c) \<noteq> None) categories"
  by (simp add: flashcards_data_def deck_ok_def deck_defs find_deck_def categories_def)

text \<open>
  C10. Whatever the order in which the buttons are pressed and the slides end, the
  deck screen's card index stays within the deck, and so do the targets of the
  slides still running. The witness shows the cost of capturing the index: at the
  second card, Next and then Prev pressed before the slide ends leave the first
  card on screen.
\<close>

theorem fc_index_in_range:
  "fc_reach n st \<Longrightarrow> 0 < n \<Longrightarrow> 0 \<le> fc_index st \<and> fc_index st < n
     \<and> list_all (\<lambda>t. 0 \<le> t \<and> t < n) (fc_pending st)"
proof -
  assume r: "fc_reach n st" and n: "0 < n"
  from r have "fc_inv n st"
  proof (induction rule: fc_reach.induct)
    case fc_reach_init
    then show ?case using n by (simp add: fc_inv_def fc_init_def)
  next
    case (fc_reach_step st e)
    show ?case by (rule fc_step_inv [OF fc_reach_step.IH])
  qed
  then show ?thesis by (simp add: fc_inv_def)
qed

theorem fc_index_in_range_witness:
  "fc_index (fc_run 12 fc_init fc_quick_run) = 0 \<and> fc_index (fc_run 12 fc_init [FcNext, FcSlideDone]) = 1
   \<and> 0 \<le> fc_index (fc_run 12 fc_init fc_quick_run) \<and> fc_index (fc_run 12 fc_init fc_quick_run) < 12"
proof -
  have "0 \<le> fc_index (fc_run 12 fc_init fc_quick_run) \<and> fc_index (fc_run 12 fc_init fc_quick_run) < 12"
    using fc_index_in_range [OF fc_reach_run [OF fc_reach_init fc_quick_run_ok]] by simp
  then show ?thesis
    by (simp add: fc_quick_run_def fc_init_def fc_step_def fc_start_slide_def fc_land_def)
qed

lemma grid_press_opens_deck:
  "c \<in> set categories \<Longrightarrow>
     \<exists>i d. grid_press c = Push (''/flashcards/'' @ i) [] \<and> find_deck i = Some d
       \<and> deck_title d = cat_title c"
  by (auto simp: grid_press_def categories_def find_deck_def flashcards_data_def deck_defs)

text \<open>Whatever the angle, the two faces' opacities add up to 1: a face is
  fully drawn exactly when the angle is on its side of 89 to 90 degrees.\<close>

lemma face_opacity_sum: "fst (face_opacity v) + snd (face_opacity v) = 1"
  by (simp add: face_opacity_def interpolate_def clamp01_def)

lemma face_opacity_sides:
  "(v \<le> 89 \<longrightarrow> face_opacity v = (1, 0)) \<and> (90 \<le> v \<longrightarrow> face_opacity v = (0, 1))"
  by (simp add: face_opacity_def interpolate_def clamp01_def)

text \<open>At rest the face drawn is the one \<open>fc_view\<close> shows: the back for a flipped
  card, the front otherwise, each turned to face the viewer (0 or 360 degrees).\<close>

lemma flip_rest_face:
  "face_opacity (flip_rest st) = (if fc_flipped st then (0, 1) else (1, 0))
   \<and> face_rotation (flip_rest st) = (if fc_flipped st then (180, 360) else (0, 180))"
  by (simp add: flip_rest_def face_opacity_def face_rotation_def interpolate_def clamp01_def)

text \<open>Every tile of the grid opens a deck the deck screen finds: it never goes
  back on its own.\<close>

lemma grid_press_deck_screen:
  "c \<in> set categories \<Longrightarrow> grid_press c = Push (''/flashcards/'' @ i) [] \<Longrightarrow> fst (deck_screen i) = None"
  using grid_press_opens_deck [of c] by (auto simp: deck_screen_def)

end
