(* ===== verification/Results.thy ===== *)
theory Results
  imports Scoring
begin

text \<open>
  The results screen \<open>src/app/mode/exam-results.tsx\<close>: it reads the
  \<open>results\<close> parameter (the \<open>SubjectResult\<close> list that \<open>handleSubmit\<close> of
  \<open>past-study.tsx\<close> stringified, see \<open>Scoring.subject_results\<close>), renders the
  overall card, one card per subject and three buttons. The view is a record of
  the strings and colours the JSX shows; the buttons are the routes they push.
  The totals and \<open>getGrade\<close> are \<open>Scoring.total_score\<close>,
  \<open>Scoring.overall_percentage\<close> and \<open>Scoring.get_grade\<close>.
\<close>

text \<open>\<open>getGrade(p).grade\<close>.\<close>

fun grade_letter :: "grade \<Rightarrow> string" where
  "grade_letter GradeA = ''A''"
| "grade_letter GradeB = ''B''"
| "grade_letter GradeC = ''C''"
| "grade_letter GradeD = ''D''"
| "grade_letter GradeF = ''F''"

text \<open>\<open>results\<close>: \<open>params.results ? JSON.parse(String(params.results)) : []\<close>
  in a \<open>try\<close> whose \<open>catch\<close> gives \<open>[]\<close>.\<close>

definition results_of :: "subject_result list json_param \<Rightarrow> subject_result list" where
  "results_of p = parse_list_param p"

text \<open>One element of the \<open>results.map\<close> of the Subject Breakdown section
  (lines 77 to 112): name, grade badge and its colour, the Score and Percentage
  statistics and the width of the progress fill.\<close>

record result_card =
  rc_subject :: string
  rc_badge :: string
  rc_color :: string
  rc_score_text :: string
  rc_percent_text :: string
  rc_bar_width :: string

definition result_card_of :: "subject_result \<Rightarrow> result_card" where
  "result_card_of r =
     (let g = get_grade (sr_percentage r)
      in \<lparr>rc_subject = sr_subject r, rc_badge = grade_letter (fst g), rc_color = snd g,
          rc_score_text = nat_str (sr_score r) @ ''/'' @ int_str (sr_total r),
          rc_percent_text = int_str (sr_percentage r) @ ''%'',
          rc_bar_width = int_str (sr_percentage r) @ ''%''\<rparr>)"

text \<open>The three action buttons (lines 116 to 144) and the back button (line 46).\<close>

definition show_corrections :: "route_param option \<Rightarrow> route" where
  "show_corrections qd =
     Push ''/mode/exam-corrections'' (case qd of Some d \<Rightarrow> [(''questionsData'', d)] | None \<Rightarrow> [])"

definition results_actions :: "route_param option \<Rightarrow> (string \<times> route) list" where
  "results_actions qd =
     [(''Show Corrections'', show_corrections qd),
      (''Take Another Exam'', Push ''/mode/exam'' []),
      (''Back to Home'', Push ''/(tabs)'' [])]"

record results_view =
  rv_title :: string
  rv_overall :: string
  rv_grade :: string
  rv_color :: string
  rv_detail :: string
  rv_cards :: "result_card list"
  rv_actions :: "(string \<times> route) list"
  rv_back :: route

text \<open>\<open>ExamResultsScreen\<close> (lines 15 to 148) on its two parameters.\<close>

definition exam_results_screen :: "subject_result list json_param \<Rightarrow> route_param option \<Rightarrow> results_view" where
  "exam_results_screen p qd =
     (let rs = results_of p; pc = overall_percentage rs; g = get_grade pc
      in \<lparr>rv_title = ''Exam Results'',
          rv_overall = int_str pc @ ''%'',
          rv_grade = ''Grade '' @ grade_letter (fst g),
          rv_color = snd g,
          rv_detail = nat_str (total_score rs) @ '' / '' @ int_str (total_questions rs)
                      @ '' questions correct'',
          rv_cards = map result_card_of rs,
          rv_actions = results_actions qd,
          rv_back = GoBack\<rparr>)"

subsection \<open>Lemmas\<close>

text \<open>Without a parseable \<open>results\<close> parameter the screen still renders: an
  empty breakdown under 0 percent, grade F, and no questions.\<close>

lemma exam_results_screen_fallback:
  assumes "p = ParamAbsent \<or> p = ParamMalformed"
  shows "exam_results_screen p qd =
    \<lparr>rv_title = ''Exam Results'', rv_overall = ''0%'', rv_grade = ''Grade F'', rv_color = ''#D32F2F'',
     rv_detail = ''0 / 0 questions correct'', rv_cards = [], rv_actions = results_actions qd,
     rv_back = GoBack\<rparr>"
  using assms
  by (auto simp: exam_results_screen_def results_of_def parse_list_param_def overall_percentage_def
      percentage_def total_score_def total_questions_def get_grade_def int_str_def exam_simps)

lemma exam_results_cards:
  "map rc_subject (rv_cards (exam_results_screen (ParamJson rs) qd)) = map sr_subject rs
   \<and> map rc_badge (rv_cards (exam_results_screen (ParamJson rs) qd))
       = map (\<lambda>r. grade_letter (fst (get_grade (sr_percentage r)))) rs"
  by (simp add: exam_results_screen_def results_of_def parse_list_param_def result_card_of_def Let_def)

end
