(* ===== verification/Subjects.thy ===== *)
theory Subjects
  imports Timer Js_Values
begin

text \<open>
  Subject selection, \<open>src/components/screens/SubjectSelect.tsx\<close>, and its
  parent \<open>src/app/mode/study.tsx\<close>. The loading effect asks the question-bank
  service for the exam list, the years of the preferred exam and the subjects of
  the latest year; its outcome is a function of the three answers
  (\<open>ss_api\<close>), a rejected request carrying its message. The component state
  is a record; mounting, a change of the \<open>mode\<close> prop, the completion of a
  load and a press on a subject are the events of \<open>ss_step\<close>. Each run of the
  effect has a generation number: its cleanup (\<open>mounted = false\<close>) makes the
  completion of an older run change nothing. \<open>toLowerCase\<close> is modelled on
  ASCII letters.
\<close>

datatype ss_mode = StudyMode | ExamMode

text \<open>\<open>c.toLowerCase()\<close> and \<open>c.toUpperCase()\<close> on ASCII letters.\<close>

definition lower_char :: "char \<Rightarrow> char" where
  "lower_char c = (if (65::nat) \<le> of_char c \<and> of_char c \<le> (90::nat) then char_of (of_char c + (32::nat)) else c)"

definition upper_char :: "char \<Rightarrow> char" where
  "upper_char c = (if (97::nat) \<le> of_char c \<and> of_char c \<le> (122::nat) then char_of (of_char c - (32::nat)) else c)"

definition is_english :: "string \<Rightarrow> bool" where
  "is_english s \<longleftrightarrow> str_includes ''use of english'' (map lower_char s)"

text \<open>\<open>parseInt(s, 10)\<close>: leading blanks, an optional sign and the longest run
  of decimal digits; \<open>None\<close> is NaN (no digit).\<close>

definition js_parse_int :: "string \<Rightarrow> int option" where
  "js_parse_int s =
     (let t = dropWhile is_space s;
          neg = (t \<noteq> [] \<and> hd t = CHR ''-'');
          u = (if t \<noteq> [] \<and> (hd t = CHR ''-'' \<or> hd t = CHR ''+'') then tl t else t);
          ds = takeWhile is_digit u
      in if ds = [] then None
         else Some (if neg then - int (digits_val ds) else int (digits_val ds)))"

text \<open>\<open>typeof y === "string" ? parseInt(y, 10) : Number(y)\<close>, NaN as
  \<open>None\<close>. Every finite \<open>Number\<close> of the modelled fragment is an integer
  (\<open>Js_Values.js_to_number\<close>), so the floor below is exact.\<close>

definition year_value :: "jsval \<Rightarrow> int option" where
  "year_value y =
     (case y of JStr s \<Rightarrow> js_parse_int s
      | _ \<Rightarrow> (case js_to_number y of Finite r \<Rightarrow> Some (floor r) | _ \<Rightarrow> None))"

text \<open>\<open>latestYear\<close>: the largest numeric year printed, or else
  \<open>String(years[years.length - 1])\<close>, which is \<open>"undefined"\<close> for an empty list.\<close>

definition latest_year :: "jsval list \<Rightarrow> string" where
  "latest_year ys =
     (let ns = List.map_filter year_value ys
      in if ns \<noteq> [] then int_str (Max (set ns))
         else js_to_string (if ys = [] then JUndefined else last ys))"

text \<open>\<open>exams.includes("JAMB") ? "JAMB" : exams[0]\<close>.\<close>

definition preferred_exam :: "jsval list \<Rightarrow> jsval" where
  "preferred_exam exams =
     (if JStr ''JAMB'' \<in> set exams then JStr ''JAMB'' else case exams of [] \<Rightarrow> JUndefined | e # _ \<Rightarrow> e)"

text \<open>The sort of the subject list with the comparator that puts a
  ``use of english'' subject before any other and leaves the rest in order
  (\<open>Array.prototype.sort\<close> is stable).\<close>

definition english_first :: "string list \<Rightarrow> string list" where
  "english_first xs = sort_key (\<lambda>s. if is_english s then 0::nat else 1) xs"

text \<open>The subjects answer: an array of subject names, or a truthy value that is
  not an array (a falsy \<open>data\<close> is \<open>[]\<close> by \<open>|| []\<close>).\<close>

datatype subj_data = SubjList "string list" | SubjOther

record ss_api =
  api_exams :: "string + jsval list"
  api_years :: "jsval \<Rightarrow> string + jsval list"
  api_subjects :: "jsval \<Rightarrow> string \<Rightarrow> string + subj_data"

text \<open>The errors the \<open>try\<close> block can end in: the two \<open>throw new Error\<close>, the
  \<open>TypeError\<close> of \<open>subjList.find\<close> on a non-array, and a rejected request.\<close>

datatype ss_error = NoExams | NoYears | FindNotFunction | Rejected string

fun error_message :: "ss_error \<Rightarrow> string" where
  "error_message NoExams = ''No exams available''"
| "error_message NoYears = ''No years available''"
| "error_message FindNotFunction = ''subjList.find is not a function''"
| "error_message (Rejected m) = (if m = [] then ''Failed to load subjects'' else m)"

record ss_state =
  ss_mode :: ss_mode
  ss_selected :: "string list"
  ss_subjects :: "string list"
  ss_loading :: bool
  ss_error :: "string option"
  ss_gen :: nat
  ss_pending :: "nat list"

text \<open>\<open>new Set(prev)\<close> with \<open>add\<close> and \<open>delete\<close>; a set is its elements in
  insertion order, which \<open>Array.from\<close> returns.\<close>

definition set_add :: "'a \<Rightarrow> 'a list \<Rightarrow> 'a list" where
  "set_add x xs = (if x \<in> set xs then xs else xs @ [x])"

text \<open>The body of \<open>load\<close> after its awaits, for a run that is still mounted:
  the three requests in order, the two guards, the sort, \<open>setSubjects\<close>, the
  selection of the first English subject in exam mode, the \<open>catch\<close> that sets
  the message and the \<open>finally\<close> that clears \<open>loading\<close> (lines 36 to 87).\<close>

definition load_body :: "ss_mode \<Rightarrow> ss_api \<Rightarrow> ss_state \<Rightarrow> ss_state" where
  "load_body m api st =
     (let fail = (\<lambda>e. st\<lparr>ss_error := Some (error_message e)\<rparr>)
      in case api_exams api of
           Inl msg \<Rightarrow> fail (Rejected msg)
         | Inr exams \<Rightarrow>
             (let pe = preferred_exam exams
              in if \<not> truthy pe then fail NoExams
                 else case api_years api pe of
                   Inl msg \<Rightarrow> fail (Rejected msg)
                 | Inr ys \<Rightarrow>
                     (let ly = latest_year ys
                      in if ly = [] then fail NoYears
                         else case api_subjects api pe ly of
                           Inl msg \<Rightarrow> fail (Rejected msg)
                         | Inr (SubjList xs) \<Rightarrow>
                             (let sl = english_first xs
                              in case (m, find is_english sl) of
                                   (ExamMode, Some e) \<Rightarrow>
                                     st\<lparr>ss_subjects := sl, ss_selected := set_add e (ss_selected st)\<rparr>
                                 | _ \<Rightarrow> st\<lparr>ss_subjects := sl\<rparr>)
                         | Inr SubjOther \<Rightarrow>
                             (if m = ExamMode
                              then st\<lparr>ss_subjects := [], ss_error := Some (error_message FindNotFunction)\<rparr>
                              else st\<lparr>ss_subjects := []\<rparr>))))
     \<lparr>ss_loading := False\<rparr>"

text \<open>\<open>toggleSubject\<close> (lines 96 to 107): in exam mode an English subject is
  never removed (nor added); otherwise the press flips membership.\<close>

definition toggle_subject :: "string \<Rightarrow> ss_state \<Rightarrow> ss_state" where
  "toggle_subject sub st =
     (if ss_mode st = ExamMode \<and> is_english sub then st
      else st\<lparr>ss_selected := (if sub \<in> set (ss_selected st) then removeAll sub (ss_selected st)
                                else ss_selected st @ [sub])\<rparr>)"

text \<open>A run of the effect on \<open>[mode]\<close>: the cleanup of the previous run, then
  \<open>setLoading(true)\<close>, \<open>setError(null)\<close> and a new request chain.\<close>

definition start_load :: "ss_mode \<Rightarrow> ss_state \<Rightarrow> ss_state" where
  "start_load m st =
     st\<lparr>ss_mode := m, ss_loading := True, ss_error := None, ss_gen := Suc (ss_gen st),
        ss_pending := ss_pending st @ [Suc (ss_gen st)]\<rparr>"

datatype ss_event = SsMode ss_mode | SsDone nat ss_api | SsToggle string

text \<open>The completion of run \<open>g\<close>: only the current run is still mounted.\<close>

fun ss_step :: "ss_state \<Rightarrow> ss_event \<Rightarrow> ss_state" where
  "ss_step st (SsMode m) = (if m = ss_mode st then st else start_load m st)"
| "ss_step st (SsDone g api) =
     (if g \<notin> set (ss_pending st) then st
      else let st' = st\<lparr>ss_pending := removeAll g (ss_pending st)\<rparr>
           in if g = ss_gen st then load_body (ss_mode st) api st' else st')"
| "ss_step st (SsToggle sub) = toggle_subject sub st"

text \<open>A subject can be pressed only when its brick is rendered.\<close>

fun ss_enabled :: "ss_state \<Rightarrow> ss_event \<Rightarrow> bool" where
  "ss_enabled st (SsToggle sub) = (sub \<in> set (ss_subjects st))"
| "ss_enabled st _ = True"

text \<open>The first render and the effect run on mount.\<close>

definition ss_init :: "ss_mode \<Rightarrow> ss_state" where
  "ss_init m = start_load m \<lparr>ss_mode = m, ss_selected = [], ss_subjects = [], ss_loading = False,
                             ss_error = None, ss_gen = 0, ss_pending = []\<rparr>"

inductive ss_reach :: "ss_mode \<Rightarrow> ss_state \<Rightarrow> bool" where
  ss_reach_init: "ss_reach m (ss_init m)"
| ss_reach_step: "ss_reach m st \<Longrightarrow> ss_enabled st e \<Longrightarrow> ss_reach m (ss_step st e)"

text \<open>The rendered list (lines 109 to 168): the loader, the error text when not
  loading, and one brick per subject with its initial, its check mark and the
  exam-mode note under the English subject.\<close>

record ss_brick =
  br_label :: string
  br_letter :: string
  br_title :: string
  br_checked :: bool
  br_note :: "string option"

definition ss_brick_of :: "ss_state \<Rightarrow> string \<Rightarrow> ss_brick" where
  "ss_brick_of st sub =
     \<lparr>br_label = ''Select '' @ sub, br_letter = take 1 (map upper_char sub), br_title = sub,
      br_checked = (sub \<in> set (ss_selected st)),
      br_note = (if ss_mode st = ExamMode \<and> is_english sub
                 then Some ''English languange is compulsory according to JAMB'' else None)\<rparr>"

record ss_view =
  sv_loader :: bool
  sv_error :: "string option"
  sv_bricks :: "ss_brick list"

definition ss_render :: "ss_state \<Rightarrow> ss_view" where
  "ss_render st =
     \<lparr>sv_loader = ss_loading st,
      sv_error = (if ss_loading st then None else ss_error st),
      sv_bricks = map (ss_brick_of st) (ss_subjects st)\<rparr>"

text \<open>\<open>StudyModePage\<close> of \<open>study.tsx\<close>: it renders the component in study
  mode and keeps the notified selection; the proceed button is disabled on an
  empty selection and otherwise opens the options screen.\<close>

definition study_proceed :: "string list \<Rightarrow> route option" where
  "study_proceed sel =
     (if sel = [] then None
      else Some (Push ''/mode/past-options''
                   [(''subjects'', PJson (JArr (map JStr sel))), (''mode'', PStr ''study'')]))"

text \<open>The invariant of the component: the selection is a set, each request
  chain is pending once and numbered at most the current generation, and the
  loader is shown exactly while the current chain is pending.\<close>

definition ss_inv :: "ss_state \<Rightarrow> bool" where
  "ss_inv st \<longleftrightarrow> distinct (ss_selected st) \<and> distinct (ss_pending st)
     \<and> (\<forall>g \<in> set (ss_pending st). g \<le> ss_gen st)
     \<and> (ss_loading st \<longleftrightarrow> ss_gen st \<in> set (ss_pending st))"

subsection \<open>Lemmas\<close>

lemma insort_key_front:
  "\<forall>y \<in> set ys. f x \<le> f y \<Longrightarrow> insort_key f x ys = x # ys"
  by (cases ys) auto

lemma insort_key_after:
  "\<forall>y \<in> set E. f y < f x \<Longrightarrow> insort_key f x (E @ N) = E @ insort_key f x N"
  by (induction E) auto

lemma english_first_filter:
  "english_first xs = filter is_english xs @ filter (\<lambda>s. \<not> is_english s) xs"
proof (induction xs)
  case Nil
  then show ?case by (simp add: english_first_def)
next
  case (Cons x xs)
  have "english_first (x # xs) = insort_key (\<lambda>s. if is_english s then 0::nat else 1) x (english_first xs)"
    by (simp add: english_first_def)
  then show ?case
    using Cons.IH by (cases "is_english x") (auto simp: insort_key_after insort_key_front)
qed

lemma latest_year_empty:
  "latest_year ys = [] \<longleftrightarrow> List.map_filter year_value ys = [] \<and> ys \<noteq> [] \<and> js_to_string (last ys) = []"
  by (auto simp: latest_year_def Let_def int_str_def)

lemma set_add_distinct: "distinct xs \<Longrightarrow> distinct (set_add x xs)"
  by (simp add: set_add_def)

lemma load_body_frame:
  "ss_mode (load_body m api st) = ss_mode st \<and> ss_gen (load_body m api st) = ss_gen st
   \<and> ss_pending (load_body m api st) = ss_pending st \<and> \<not> ss_loading (load_body m api st)"
  by (auto simp: load_body_def Let_def split: sum.splits subj_data.splits option.splits ss_mode.splits prod.splits)

lemma load_body_selected:
  "ss_selected (load_body m api st) = ss_selected st
   \<or> (\<exists>e. ss_selected (load_body m api st) = set_add e (ss_selected st))"
  by (auto simp: load_body_def Let_def split: sum.splits subj_data.splits option.splits ss_mode.splits prod.splits)

lemma set_add_mono: "x \<in> set xs \<Longrightarrow> x \<in> set (set_add e xs)"
  by (simp add: set_add_def)

lemma ss_step_inv: "ss_inv st \<Longrightarrow> ss_inv (ss_step st e)"
proof (cases e)
  case (SsMode m)
  then show "ss_inv st \<Longrightarrow> ss_inv (ss_step st e)"
    by (auto simp: ss_inv_def start_load_def)
next
  case (SsDone g api)
  have sel: "distinct (ss_selected st) \<Longrightarrow> distinct (ss_selected (load_body (ss_mode st) api (st\<lparr>ss_pending := removeAll g (ss_pending st)\<rparr>)))"
    using load_body_selected [of "ss_mode st" api "st\<lparr>ss_pending := removeAll g (ss_pending st)\<rparr>"]
    by (auto simp: set_add_distinct)
  show "ss_inv st \<Longrightarrow> ss_inv (ss_step st e)"
    using SsDone sel load_body_frame [of "ss_mode st" api "st\<lparr>ss_pending := removeAll g (ss_pending st)\<rparr>"]
    by (auto simp: ss_inv_def distinct_removeAll Let_def)
next
  case (SsToggle sub)
  then show "ss_inv st \<Longrightarrow> ss_inv (ss_step st e)"
    by (auto simp: ss_inv_def toggle_subject_def distinct_removeAll)
qed

lemma ss_reach_inv: "ss_reach m st \<Longrightarrow> ss_inv st"
proof (induction rule: ss_reach.induct)
  case (ss_reach_init m)
  then show ?case by (simp add: ss_inv_def ss_init_def start_load_def)
next
  case (ss_reach_step m st e)
  from ss_reach_step.IH show ?case by (rule ss_step_inv)
qed

lemma exam_english_kept:
  assumes "ss_mode st = ExamMode" and "is_english sub" and "sub \<in> set (ss_selected st)"
  shows "sub \<in> set (ss_selected (ss_step st e))"
proof (cases e)
  case (SsDone g api)
  then show ?thesis
    using assms load_body_selected [of ExamMode api "st\<lparr>ss_pending := removeAll g (ss_pending st)\<rparr>"]
    by (auto simp: set_add_mono Let_def)
qed (use assms in \<open>auto simp: start_load_def toggle_subject_def\<close>)

text \<open>
  The sort of the subject list with the English-first comparator is the
  stable partition: the ``use of english'' subjects in their service order, then
  the others in their service order.
\<close>

theorem english_first_partition:
  "english_first xs = filter is_english xs @ filter (\<lambda>s. \<not> is_english s) xs"
  by (rule english_first_filter)

text \<open>
  C11. The guard \<open>if (!latestYear)\<close> does not catch an empty year list:
  \<open>String(years[-1])\<close> is \<open>"undefined"\<close>, so the screen asks for the subjects
  of the year \<open>"undefined"\<close> and shows whatever comes back, with no error.
\<close>

theorem empty_years_requests_undefined:
  assumes "api_exams api = Inr exams" and "truthy (preferred_exam exams)"
      and "api_years api (preferred_exam exams) = Inr []"
      and "api_subjects api (preferred_exam exams) ''undefined'' = Inr (SubjList xs)"
  shows "ss_subjects (load_body m api st) = english_first xs \<and> ss_error (load_body m api st) = ss_error st"
  using assms by (auto simp: load_body_def latest_year_def Let_def split: option.splits ss_mode.splits)

theorem empty_years_requests_undefined_witness:
  "ss_subjects (load_body StudyMode
      \<lparr>api_exams = Inr [JStr ''JAMB''], api_years = (\<lambda>_. Inr []),
       api_subjects = (\<lambda>_ y. Inr (SubjList [''Maths'', y, ''Use of English'']))\<rparr>
      (ss_init StudyMode)) = [''Use of English'', ''Maths'', ''undefined'']"
proof -
  have "ss_subjects (load_body StudyMode
      \<lparr>api_exams = Inr [JStr ''JAMB''], api_years = (\<lambda>_. Inr []),
       api_subjects = (\<lambda>_ y. Inr (SubjList [''Maths'', y, ''Use of English'']))\<rparr>
      (ss_init StudyMode)) = english_first [''Maths'', ''undefined'', ''Use of English'']"
    using empty_years_requests_undefined [of "\<lparr>api_exams = Inr [JStr ''JAMB''], api_years = (\<lambda>_. Inr []),
       api_subjects = (\<lambda>_ y. Inr (SubjList [''Maths'', y, ''Use of English'']))\<rparr>" "[JStr ''JAMB'']"
       "[''Maths'', ''undefined'', ''Use of English'']" StudyMode "ss_init StudyMode"]
    by (simp add: preferred_exam_def)
  also have "english_first [''Maths'', ''undefined'', ''Use of English''] = [''Use of English'', ''Maths'', ''undefined'']"
    by code_simp
  finally show ?thesis .
qed

text \<open>
  C12. In every reachable state of the component the selection has no duplicate
  and the loader is shown exactly while the latest request chain is pending: the
  completion of a chain started for an earlier mode never hides the loader of the
  current one.
\<close>

theorem subject_loader_invariant:
  assumes "ss_reach m st"
  shows "distinct (ss_selected st) \<and> (ss_loading st \<longleftrightarrow> ss_gen st \<in> set (ss_pending st))"
  using ss_reach_inv [OF assms] by (simp add: ss_inv_def)

theorem subject_loader_invariant_witness:
  "ss_reach StudyMode (ss_step (ss_init StudyMode) (SsMode ExamMode))
   \<and> ss_loading (ss_step (ss_step (ss_init StudyMode) (SsMode ExamMode)) (SsDone 1 \<lparr>api_exams = Inl [], api_years = (\<lambda>_. Inl []), api_subjects = (\<lambda>_ _. Inl [])\<rparr>))"
proof -
  have r: "ss_reach StudyMode (ss_step (ss_init StudyMode) (SsMode ExamMode))"
    by (rule ss_reach_step [OF ss_reach_init]) simp
  have r2: "ss_reach StudyMode (ss_step (ss_step (ss_init StudyMode) (SsMode ExamMode)) (SsDone 1 \<lparr>api_exams = Inl [], api_years = (\<lambda>_. Inl []), api_subjects = (\<lambda>_ _. Inl [])\<rparr>))"
    by (rule ss_reach_step [OF r]) simp
  have "ss_gen (ss_step (ss_step (ss_init StudyMode) (SsMode ExamMode)) (SsDone 1 \<lparr>api_exams = Inl [], api_years = (\<lambda>_. Inl []), api_subjects = (\<lambda>_ _. Inl [])\<rparr>))
        \<in> set (ss_pending (ss_step (ss_step (ss_init StudyMode) (SsMode ExamMode)) (SsDone 1 \<lparr>api_exams = Inl [], api_years = (\<lambda>_. Inl []), api_subjects = (\<lambda>_ _. Inl [])\<rparr>)))"
    by (simp add: ss_init_def start_load_def)
  with subject_loader_invariant [OF r2] r show ?thesis by blast
qed

end
