(* ===== verification/Bookmarks.thy ===== *)
theory Bookmarks
  imports Session Corrections
begin

text \<open>
  Bookmarks and the reveal toggles of the question cards. The store of saved
  questions is the context \<open>SavedQuestionsContext\<close>, which is not part of
  \<open>src/\<close>: it is modelled by its contract (\<open>isSaved\<close> looks an id up,
  \<open>saveQuestion\<close> appends an entry, \<open>removeQuestion\<close> drops the entries with an
  id). The code that uses it is modelled from the sources: the bookmark icon of
  the exam card of \<open>src/components/screens/PastStudy.tsx\<close> (lines 301 to 377),
  the study list of the same file (lines 379 to 450) with its View Answer and View
  Correction toggles, and the screen \<open>src/app/mode/saved-questions.tsx\<close>. The
  toggles keep a \<open>Record<number, boolean>\<close> keyed by the position of a card in its
  list; a key present with value true is an element of a set of positions here.
\<close>

subsection \<open>The saved-questions store\<close>

record saved_question =
  sq_id :: string
  sq_question :: question
  sq_subject :: string
  sq_year :: string
  sq_saved_at :: int

definition is_saved :: "string \<Rightarrow> saved_question list \<Rightarrow> bool" where
  "is_saved qid l \<longleftrightarrow> list_ex (\<lambda>x. sq_id x = qid) l"

definition save_question ::
  "question \<Rightarrow> string \<Rightarrow> string \<Rightarrow> string \<Rightarrow> int \<Rightarrow> saved_question list \<Rightarrow> saved_question list" where
  "save_question q subj yr qid t l =
     l @ [\<lparr>sq_id = qid, sq_question = q, sq_subject = subj, sq_year = yr, sq_saved_at = t\<rparr>]"

definition remove_question :: "string \<Rightarrow> saved_question list \<Rightarrow> saved_question list" where
  "remove_question qid l = filter (\<lambda>x. sq_id x \<noteq> qid) l"

subsection \<open>The exam card of PastStudy\<close>

text \<open>\<open>`${activeSubject}-${activeOpts?.year}-${(page - 1) * 10 + currentQuestionIndex}`\<close>:
  the id names a position of the session, not a question.\<close>

definition bookmark_id :: "session \<Rightarrow> string" where
  "bookmark_id s =
     active_subject s @ ''-'' @ (case active_opts s of Some x \<Rightarrow> so_year x | None \<Rightarrow> ''undefined'')
     @ ''-'' @ int_str ((s_page s - 1) * 10 + s_qidx s)"

text \<open>\<open>activeOpts?.year || "Unknown Year"\<close>.\<close>

definition bookmark_year :: "session \<Rightarrow> string" where
  "bookmark_year s =
     (case active_opts s of Some x \<Rightarrow> if so_year x \<noteq> [] then so_year x else ''Unknown Year''
      | None \<Rightarrow> ''Unknown Year'')"

text \<open>The \<open>onPress\<close> of the bookmark (lines 324 to 337) at time \<open>t\<close>.\<close>

definition bookmark_press :: "int \<Rightarrow> session \<Rightarrow> saved_question list \<Rightarrow> saved_question list" where
  "bookmark_press t s l =
     (let qid = bookmark_id s
      in if is_saved qid l then remove_question qid l
         else save_question (s_displayed s ! nat (s_qidx s)) (active_subject s) (bookmark_year s) qid t l)"

text \<open>One option row: its label, its text and whether it is the selected one.\<close>

record option_row =
  or_label :: "16 word"
  or_text :: string
  or_selected :: bool

record exam_card =
  ec_instruction :: "jsval option"
  ec_heading :: "string option"
  ec_bookmark :: string
  ec_bookmark_color :: string
  ec_question :: "jsval option"
  ec_options :: "option_row list"

text \<open>The exam-mode card (lines 301 to 377): shown when the index is inside the
  displayed page; the instruction and the question block only when truthy.\<close>

definition exam_card_of :: "session \<Rightarrow> saved_question list \<Rightarrow> exam_card option" where
  "exam_card_of s l =
     (if 0 < length (s_displayed s) \<and> 0 \<le> s_qidx s \<and> nat (s_qidx s) < length (s_displayed s)
      then (let q = s_displayed s ! nat (s_qidx s); saved = is_saved (bookmark_id s) l
            in Some \<lparr>ec_instruction = (if truthy (q_instruction q) then Some (q_instruction q) else None),
                     ec_heading = (if truthy (q_question q)
                                   then Some (''Question '' @ int_str ((s_page s - 1) * 10 + s_qidx s + 1))
                                   else None),
                     ec_bookmark = (if saved then ''bookmark'' else ''bookmark-o''),
                     ec_bookmark_color = (if saved then ''#EF6C00'' else ''#666''),
                     ec_question = (if truthy (q_question q) then Some (q_question q) else None),
                     ec_options = map (\<lambda>(i, x). \<lparr>or_label = option_label i, or_text = x,
                                                  or_selected = (map_of (s_selected s) (nat (s_qidx s)) = Some x)\<rparr>)
                                      (enumerate 0 (q_options q))\<rparr>)
      else None)"

subsection \<open>The study list of PastStudy\<close>

text \<open>\<open>{ ...prev, [idx]: !prev[idx] }\<close> on the set of positions whose flag is true.\<close>

definition toggle_flag :: "nat \<Rightarrow> nat set \<Rightarrow> nat set" where
  "toggle_flag i a = (if i \<in> a then a - {i} else insert i a)"

record study_card =
  sc_instruction :: "jsval option"
  sc_heading :: "string option"
  sc_question :: "jsval option"
  sc_options :: "(16 word \<times> string) list"
  sc_answer :: "jsval option"
  sc_correction :: "jsval option"

text \<open>One card of \<open>questions.map((q, idx) => ...)\<close> (lines 379 to 450): the
  answer box when \<open>showAnswer[idx] && q.answer\<close>, the correction box when
  \<open>showCorrection[idx] && q.correction\<close>; the value is what follows
  \<open>Answer: \<close> in the box.\<close>

definition study_card_of :: "int \<Rightarrow> nat set \<Rightarrow> nat set \<Rightarrow> nat \<times> question \<Rightarrow> study_card" where
  "study_card_of pg a c iq =
     (let i = fst iq; q = snd iq
      in \<lparr>sc_instruction = (if truthy (q_instruction q) then Some (q_instruction q) else None),
          sc_heading = (if truthy (q_question q) then Some (''Question '' @ int_str ((pg - 1) * 10 + int i + 1))
                        else None),
          sc_question = (if truthy (q_question q) then Some (q_question q) else None),
          sc_options = map (\<lambda>(j, x). (option_label j, x)) (enumerate 0 (q_options q)),
          sc_answer = (if i \<in> a \<and> truthy (q_answer q) then Some (q_answer q) else None),
          sc_correction = (if i \<in> c \<and> truthy (q_correction q) then Some (q_correction q) else None)\<rparr>)"

definition study_cards :: "session \<Rightarrow> nat set \<Rightarrow> nat set \<Rightarrow> study_card list" where
  "study_cards s a c = map (study_card_of (s_page s) a c) (enumerate 0 (s_questions s))"

text \<open>The session with the two toggle records of \<open>PastStudy\<close> (lines 40 to 42,
  197 to 202). The only reset is the effect on \<open>currentIdx\<close> (lines 53 to 58):
  both records are emptied when a step changes the open subject; a change of
  page keeps them.\<close>

record study_ui =
  su_session :: session
  su_answers :: "nat set"
  su_corrections :: "nat set"

datatype ui_event = UiSession sevent | UiToggleAnswer nat | UiToggleCorrection nat

fun ui_step :: "study_ui \<Rightarrow> ui_event \<Rightarrow> study_ui" where
  "ui_step u (UiSession e) =
     (let s' = session_step (su_session u) e
      in if s_idx s' = s_idx (su_session u) then u\<lparr>su_session := s'\<rparr>
         else \<lparr>su_session = s', su_answers = {}, su_corrections = {}\<rparr>)"
| "ui_step u (UiToggleAnswer i) = u\<lparr>su_answers := toggle_flag i (su_answers u)\<rparr>"
| "ui_step u (UiToggleCorrection i) = u\<lparr>su_corrections := toggle_flag i (su_corrections u)\<rparr>"

definition study_view :: "study_ui \<Rightarrow> study_card list" where
  "study_view u = study_cards (su_session u) (su_answers u) (su_corrections u)"

subsection \<open>The saved-questions screen\<close>

record saved_card =
  svc_subject :: string
  svc_year :: string
  svc_instruction :: "jsval option"
  svc_heading :: "string option"
  svc_question :: "jsval option"
  svc_options :: "(16 word \<times> string) list"
  svc_answer :: "jsval option"
  svc_correction :: "jsval option"
  svc_remove :: string
  svc_saved_at :: int

text \<open>One card of \<open>savedQuestions.map((item, idx) => ...)\<close> (lines 85 to 189): tags,
  the trash button (its id), instruction, \<open>Question {idx + 1}\<close>, the options,
  the two reveal boxes and the date of the footer (its formatting by
  \<open>toLocaleDateString\<close> is not modelled).\<close>

definition saved_card_of :: "nat set \<Rightarrow> nat set \<Rightarrow> nat \<times> saved_question \<Rightarrow> saved_card" where
  "saved_card_of a c ix =
     (let i = fst ix; x = snd ix; q = sq_question x
      in \<lparr>svc_subject = sq_subject x, svc_year = sq_year x,
          svc_instruction = (if truthy (q_instruction q) then Some (q_instruction q) else None),
          svc_heading = (if truthy (q_question q) then Some (''Question '' @ nat_str (i + 1)) else None),
          svc_question = (if truthy (q_question q) then Some (q_question q) else None),
          svc_options = map (\<lambda>(j, y). (option_label j, y)) (enumerate 0 (q_options q)),
          svc_answer = (if i \<in> a \<and> truthy (q_answer q) then Some (q_answer q) else None),
          svc_correction = (if i \<in> c \<and> truthy (q_correction q) then Some (q_correction q) else None),
          svc_remove = sq_id x, svc_saved_at = sq_saved_at x\<rparr>)"

record saved_view =
  svv_subtitle :: string
  svv_empty :: bool
  svv_cards :: "saved_card list"

text \<open>\<open>SavedQuestionsScreen\<close> (lines 11 to 196) on the store and the two toggle
  records.\<close>

definition saved_screen :: "saved_question list \<Rightarrow> nat set \<Rightarrow> nat set \<Rightarrow> saved_view" where
  "saved_screen l a c =
     \<lparr>svv_subtitle = nat_str (length l) @ '' '' @ (if length l = 1 then ''question'' else ''questions'') @ '' saved'',
      svv_empty = (l = []),
      svv_cards = map (saved_card_of a c) (enumerate 0 l)\<rparr>"

record sq_screen =
  sqs_store :: "saved_question list"
  sqs_answers :: "nat set"
  sqs_corrections :: "nat set"

text \<open>The presses of the screen: the two toggles (lines 45 to 51), and the trash
  button, whose alert either removes the question (lines 30 to 43) or is
  cancelled.\<close>

datatype sq_event = SqToggleAnswer nat | SqToggleCorrection nat | SqRemove string | SqCancel

fun sq_step :: "sq_screen \<Rightarrow> sq_event \<Rightarrow> sq_screen" where
  "sq_step u (SqToggleAnswer i) = u\<lparr>sqs_answers := toggle_flag i (sqs_answers u)\<rparr>"
| "sq_step u (SqToggleCorrection i) = u\<lparr>sqs_corrections := toggle_flag i (sqs_corrections u)\<rparr>"
| "sq_step u (SqRemove qid) = u\<lparr>sqs_store := remove_question qid (sqs_store u)\<rparr>"
| "sq_step u SqCancel = u"

definition sq_view :: "sq_screen \<Rightarrow> saved_view" where
  "sq_view u = saved_screen (sqs_store u) (sqs_answers u) (sqs_corrections u)"

subsection \<open>A study-mode run\<close>

text \<open>Biology in study mode on the fallback bank: page 1 loaded, the answer of its
  first card revealed, Next pressed and page 2 loaded.\<close>

definition study_start :: session where
  "study_start = init_session [trace_biology] False (sconst 0)"

definition study_revealed :: study_ui where
  "study_revealed = ui_step \<lparr>su_session = session_step study_start (EvFetched None), su_answers = {},
                             su_corrections = {}\<rparr> (UiToggleAnswer 0)"

definition study_paged :: study_ui where
  "study_paged = ui_step (ui_step study_revealed (UiSession EvNext)) (UiSession (EvFetched None))"


subsection \<open>Lemmas\<close>

lemma is_saved_save [simp]: "is_saved qid (save_question q subj yr qid t l)"
  by (simp add: is_saved_def save_question_def)

lemma remove_question_fresh: "\<not> is_saved qid l \<Longrightarrow> remove_question qid l = l"
  by (simp add: is_saved_def remove_question_def list_ex_iff filter_id_conv)

lemma remove_save_fresh:
  "\<not> is_saved qid l \<Longrightarrow> remove_question qid (save_question q subj yr qid t l) = l"
  by (simp add: save_question_def remove_question_def remove_question_fresh [unfolded remove_question_def])

text \<open>
  Pressing the bookmark of the exam card twice restores the saved list: the
  first press saves the question under the position's id, the second removes
  exactly that entry.
\<close>

theorem bookmark_roundtrip:
  assumes "\<not> is_saved (bookmark_id s) l"
  shows "bookmark_press t s (bookmark_press t' s l) = l"
  using assms by (simp add: bookmark_press_def Let_def remove_save_fresh)

theorem bookmark_roundtrip_witness:
  "\<not> is_saved (bookmark_id trace_loaded) [] \<and> bookmark_press 1 trace_loaded (bookmark_press 0 trace_loaded []) = []"
  using bookmark_roundtrip [of trace_loaded "[]" 1 0] by (simp add: is_saved_def)

lemma exam_card_bookmark:
  "exam_card_of s l = Some c \<Longrightarrow> ec_bookmark c = (if is_saved (bookmark_id s) l then ''bookmark'' else ''bookmark-o'')"
  by (auto simp: exam_card_of_def Let_def split: if_splits)

lemma bookmark_id_cong:
  "active_subject s' = active_subject s \<Longrightarrow> active_opts s' = active_opts s \<Longrightarrow> s_page s' = s_page s
   \<Longrightarrow> s_qidx s' = s_qidx s \<Longrightarrow> bookmark_id s' = bookmark_id s"
  by (simp add: bookmark_id_def)

lemma bookmark_follows_position:
  assumes "active_subject s' = active_subject s" and "active_opts s' = active_opts s"
      and "s_page s' = s_page s" and "s_qidx s' = s_qidx s"
      and "exam_card_of s' (bookmark_press t s l) = Some c" and "\<not> is_saved (bookmark_id s) l"
  shows "ec_bookmark c = ''bookmark''"
  using exam_card_bookmark [OF assms(5)] bookmark_id_cong [OF assms(1-4)] assms(6)
  by (simp add: bookmark_press_def)

lemma remove_question_middle:
  assumes "\<forall>x \<in> set xs. sq_id x \<noteq> sq_id a" and "\<forall>x \<in> set ys. sq_id x \<noteq> sq_id a"
  shows "remove_question (sq_id a) (xs @ a # ys) = xs @ ys"
  using assms by (simp add: remove_question_def filter_id_conv)

lemma saved_card_nth:
  "i < length l \<Longrightarrow> svv_cards (saved_screen l a c) ! i = saved_card_of a c (i, l ! i)"
  by (simp add: saved_screen_def nth_enumerate_eq)

text \<open>
  C13. The reveal flags of the saved-questions screen are keyed by the position of
  a card: when the user has revealed the answer of one saved question and removes
  it, the answer of the next saved question, never revealed, is shown in its place.
\<close>

theorem saved_reveal_shifts:
  assumes "\<forall>x \<in> set xs. sq_id x \<noteq> sq_id a" and "sq_id b \<noteq> sq_id a" and "\<forall>x \<in> set ys. sq_id x \<noteq> sq_id a"
      and "length xs \<in> ans" and "Suc (length xs) \<notin> ans" and "truthy (q_answer (sq_question b))"
  shows "svc_answer (svv_cards (sq_view \<lparr>sqs_store = xs @ a # b # ys, sqs_answers = ans, sqs_corrections = cs\<rparr>)
            ! Suc (length xs)) = None
    \<and> svc_remove (svv_cards (sq_view (sq_step \<lparr>sqs_store = xs @ a # b # ys, sqs_answers = ans, sqs_corrections = cs\<rparr>
            (SqRemove (sq_id a)))) ! length xs) = sq_id b
    \<and> svc_answer (svv_cards (sq_view (sq_step \<lparr>sqs_store = xs @ a # b # ys, sqs_answers = ans, sqs_corrections = cs\<rparr>
            (SqRemove (sq_id a)))) ! length xs) = Some (q_answer (sq_question b))"
proof -
  have r: "remove_question (sq_id a) (xs @ a # b # ys) = xs @ b # ys"
    using remove_question_middle [of xs a "b # ys"] assms(1-3) by simp
  have n1: "(xs @ a # b # ys) ! Suc (length xs) = b" by (simp add: nth_append)
  have n2: "(xs @ b # ys) ! length xs = b" by simp
  show ?thesis
    using assms(4-6) saved_card_nth [of "Suc (length xs)" "xs @ a # b # ys" ans cs]
          saved_card_nth [of "length xs" "xs @ b # ys" ans cs] n1 n2 r
    by (simp add: sq_view_def saved_card_of_def Let_def)
qed

theorem saved_reveal_shifts_witness:
  "svc_answer (svv_cards (sq_view (sq_step \<lparr>sqs_store = [\<lparr>sq_id = ''a'', sq_question = sample_item 0, sq_subject = ''Biology'',
        sq_year = ''2024'', sq_saved_at = 0\<rparr>, \<lparr>sq_id = ''b'', sq_question = sample_item 1, sq_subject = ''Biology'',
        sq_year = ''2024'', sq_saved_at = 1\<rparr>], sqs_answers = {0}, sqs_corrections = {}\<rparr>
      (SqRemove ''a''))) ! 0) = Some (q_answer (sample_item 1))"
proof -
  have "truthy (q_answer (sample_item 1))"
    by (simp add: sample_item_def length_sample_all sample_all_def sample_base_def sample_banks_def sample_q_def)
  then show ?thesis
    using saved_reveal_shifts [where xs = "[]" and ys = "[]" and ans = "{0}" and cs = "{}"
      and a = "\<lparr>sq_id = ''a'', sq_question = sample_item 0, sq_subject = ''Biology'', sq_year = ''2024'', sq_saved_at = 0\<rparr>"
      and b = "\<lparr>sq_id = ''b'', sq_question = sample_item 1, sq_subject = ''Biology'', sq_year = ''2024'', sq_saved_at = 1\<rparr>"]
    by simp
qed

lemma ui_step_session [simp]: "su_session (ui_step u (UiSession e)) = session_step (su_session u) e"
  by (simp add: Let_def)

lemma study_loaded_fields:
  "s_page (session_step study_start (EvFetched None)) = 1
   \<and> s_questions (session_step study_start (EvFetched None)) = map sample_item [0..<10]
   \<and> s_total (session_step study_start (EvFetched None)) = 5
   \<and> s_fetching (session_step study_start (EvFetched None)) = False"
  by (simp add: study_start_def trace_eval)

lemma study_paged_fields:
  "s_page (su_session study_paged) = 2 \<and> s_questions (su_session study_paged) = map sample_item [10..<20]
   \<and> su_answers study_paged = {0} \<and> su_corrections study_paged = {}"
  apply (simp add: study_paged_def study_revealed_def toggle_flag_def Let_def)
  apply (simp add: study_start_def trace_eval handle_next_def study_next_def sample_page_2)
  done

lemma study_view_nth:
  "i < length (s_questions (su_session u)) \<Longrightarrow>
   study_view u ! i = study_card_of (s_page (su_session u)) (su_answers u) (su_corrections u) (i, s_questions (su_session u) ! i)"
  by (simp add: study_view_def study_cards_def nth_enumerate_eq)

lemma sample_item_10: "truthy (q_answer (sample_item 10)) \<and> truthy (q_question (sample_item 10))"
  by (simp add: sample_item_def length_sample_all sample_all_def sample_base_def sample_banks_def sample_q_def)

lemma study_paged_reach: "reachable (su_session study_paged)"
proof -
  have r0: "reachable study_start" unfolding study_start_def
    by (rule reachable.start) simp_all
  have r1: "reachable (session_step study_start (EvFetched None))"
    by (rule reachable.step [OF r0]) (simp add: en_fetched study_start_def init_session_def)
  have r2: "reachable (su_session (ui_step study_revealed (UiSession EvNext)))"
    using reachable.step [OF r1 en_next] by (simp only: ui_step_session) (simp add: study_revealed_def)
  show ?thesis unfolding study_paged_def ui_step_session
    using reachable.step [OF r2, of "EvFetched None"]
    by (simp add: en_fetched study_revealed_def study_start_def trace_eval handle_next_def study_next_def)
qed

text \<open>
  The View Answer flags of the study list are keyed by the position on the
  page and not reset when the page changes: after revealing the answer of question 1 and moving to
  page 2, question 11 shows its answer though it was never revealed.
\<close>

theorem study_reveal_carries_over:
  "reachable (su_session study_paged) \<and> s_page (su_session study_revealed) = 1
   \<and> s_page (su_session study_paged) = 2 \<and> su_answers study_paged = {0}
   \<and> sc_heading (study_view study_paged ! 0) = Some ''Question 11''
   \<and> sc_answer (study_view study_paged ! 0) = Some (q_answer (sample_item 10))"
proof -
  have v: "study_view study_paged ! 0 = study_card_of 2 {0} {} (0, sample_item 10)"
    using study_view_nth [of 0 study_paged] study_paged_fields by simp
  show ?thesis
    using study_paged_reach study_paged_fields study_loaded_fields sample_item_10 v
    by (simp add: study_revealed_def study_card_of_def int_str_def exam_simps Let_def nat_str.simps)
qed

end
