(* ===== verification/Instructions.thy ===== *)
theory Instructions
  imports Timer Js_Values
begin

text \<open>
  The exam instructions screen \<open>src/app/mode/exam-instructions.tsx\<close>, between
  the options screen and the exam: the timer switch, the duration picker (a modal
  over \<open>TIME_OPTIONS\<close>, \<open>Timer.time_options\<close>) and the Start CBT Test button,
  whose route carries \<open>timerEnabled\<close> and \<open>duration\<close> to the timer of
  \<open>past-study.tsx\<close> (\<open>Timer.timer_init\<close>). A transparent modal takes every touch,
  so the switch and the duration row can only be pressed while it is closed.
\<close>

definition instructions :: "string list" where
  "instructions =
     [''Study questions without a time limit.'',
      ''Attempt questions and check the correct answers as you study.'',
      ''Take notes and share with friends for better success.'']"

record ei_state =
  ei_timer :: bool
  ei_time :: string
  ei_modal :: bool

definition ei_init :: ei_state where
  "ei_init = \<lparr>ei_timer = False, ei_time = default_time, ei_modal = False\<rparr>"

datatype ei_event = EiSwitch bool | EiOpen | EiPick string | EiCancel

fun ei_step :: "ei_state \<Rightarrow> ei_event \<Rightarrow> ei_state" where
  "ei_step st (EiSwitch b) = st\<lparr>ei_timer := b\<rparr>"
| "ei_step st EiOpen = st\<lparr>ei_modal := True\<rparr>"
| "ei_step st (EiPick t) = st\<lparr>ei_time := t, ei_modal := False\<rparr>"
| "ei_step st EiCancel = st\<lparr>ei_modal := False\<rparr>"

text \<open>What can be pressed: the switch and, when the timer is on, the duration
  row while the modal is closed; an item of the list or Cancel while it is open.\<close>

fun ei_enabled :: "ei_state \<Rightarrow> ei_event \<Rightarrow> bool" where
  "ei_enabled st (EiSwitch b) = (\<not> ei_modal st)"
| "ei_enabled st EiOpen = (\<not> ei_modal st \<and> ei_timer st)"
| "ei_enabled st (EiPick t) = (ei_modal st \<and> t \<in> set time_options)"
| "ei_enabled st EiCancel = ei_modal st"

inductive ei_reach :: "ei_state \<Rightarrow> bool" where
  ei_reach_init: "ei_reach ei_init"
| ei_reach_step: "ei_reach st \<Longrightarrow> ei_enabled st e \<Longrightarrow> ei_reach (ei_step st e)"

text \<open>\<open>handleStart\<close> (lines 42 to 52) with the screen's \<open>options\<close> parameter,
  passed on as it came, and its \<open>mode\<close>; \<open>String(timerEnabled)\<close>.\<close>

definition ei_start :: "route_param option \<Rightarrow> string option \<Rightarrow> ei_state \<Rightarrow> route" where
  "ei_start os md st =
     Push ''/mode/past-study''
       ((case os of Some x \<Rightarrow> [(''options'', x)] | None \<Rightarrow> [])
        @ (case md of Some x \<Rightarrow> [(''mode'', PStr x)] | None \<Rightarrow> [])
        @ [(''timerEnabled'', PStr (if ei_timer st then ''true'' else ''false'')),
           (''duration'', PStr (ei_time st))])"

record ei_view =
  eiv_items :: "(string \<times> string) list"
  eiv_switch :: bool
  eiv_thumb :: string
  eiv_duration :: "string option"
  eiv_modal_items :: "string list option"

text \<open>The render (lines 54 to 145): numbered instructions, the switch and its
  thumb colour, the duration row when the timer is on, the list of the modal.\<close>

definition ei_render :: "ei_state \<Rightarrow> ei_view" where
  "ei_render st =
     \<lparr>eiv_items = map (\<lambda>(i, x). (nat_str (i + 1) @ ''.'', x)) (enumerate 0 instructions),
      eiv_switch = ei_timer st,
      eiv_thumb = (if ei_timer st then ''#2E7D32'' else ''#f4f3f4''),
      eiv_duration = (if ei_timer st then Some (''Duration: '' @ ei_time st) else None),
      eiv_modal_items = (if ei_modal st then Some time_options else None)\<rparr>"

text \<open>The duration shown is the default or an entry of the list.\<close>

definition ei_inv :: "ei_state \<Rightarrow> bool" where
  "ei_inv st \<longleftrightarrow> ei_time st = default_time \<or> ei_time st \<in> set time_options"

subsection \<open>Lemmas\<close>

lemma ei_reach_inv: "ei_reach st \<Longrightarrow> ei_inv st"
proof (induction rule: ei_reach.induct)
  case ei_reach_init
  then show ?case by (simp add: ei_inv_def ei_init_def)
next
  case (ei_reach_step st e)
  then show ?case by (cases e) (auto simp: ei_inv_def)
qed

lemma time_options_positive: "t \<in> set time_options \<Longrightarrow> 0 < parse_duration t"
proof -
  assume t: "t \<in> set time_options"
  have "\<forall>n \<in> set (map parse_duration time_options). 0 < n"
    by (simp only: time_options_parse) simp
  with t show ?thesis by simp
qed

lemma default_time_zero: "parse_duration default_time = 0"
  by code_simp

text \<open>
  C27. Starting the exam from any reachable state of the instructions screen gives
  the exam a running countdown exactly when the timer is on and a duration was
  picked from the list: with the timer on and the initial \<open>"30m"\<close> the exam
  starts with 0 seconds, which never counts down.
\<close>

theorem instructions_start_timer:
  assumes "ei_reach st" and "ei_start os md st = Push p ps"
      and "map_of ps ''timerEnabled'' = Some (PStr te)" and "map_of ps ''duration'' = Some (PStr d)"
  shows "(\<exists>n. timer_init True te d = Some n \<and> 0 < n) \<longleftrightarrow> ei_timer st \<and> ei_time st \<noteq> default_time"
proof -
  have ps: "te = (if ei_timer st then ''true'' else ''false'') \<and> d = ei_time st"
    using assms(2-4) by (auto simp: ei_start_def split: option.splits)
  have "ei_time st \<noteq> default_time \<Longrightarrow> 0 < parse_duration (ei_time st)"
    using ei_reach_inv [OF assms(1)] time_options_positive by (auto simp: ei_inv_def)
  moreover have "ei_time st \<noteq> []"
    using ei_reach_inv [OF assms(1)] by (auto simp: ei_inv_def default_time_def time_options_def)
  ultimately show ?thesis
    using ps default_time_zero by (auto simp: timer_init_def)
qed

theorem instructions_start_timer_witness:
  "timer_init True ''true'' ''1 hour'' = Some 3600"
proof -
  define st where "st = ei_step (ei_step (ei_step ei_init (EiSwitch True)) EiOpen) (EiPick ''1 hour'')"
  have r: "ei_reach st" unfolding st_def
    by (rule ei_reach_step, rule ei_reach_step, rule ei_reach_step [OF ei_reach_init])
       (simp_all add: ei_init_def time_options_def)
  have "(\<exists>n. timer_init True ''true'' ''1 hour'' = Some n \<and> 0 < n) \<longleftrightarrow> ei_timer st \<and> ei_time st \<noteq> default_time"
    by (rule instructions_start_timer [OF r, where os = None and md = None and p = "''/mode/past-study''"
          and ps = "[(''timerEnabled'', PStr ''true''), (''duration'', PStr ''1 hour'')]"])
       (simp_all add: ei_start_def st_def)
  then have "\<exists>n. timer_init True ''true'' ''1 hour'' = Some n \<and> 0 < n"
    by (simp add: st_def default_time_def)
  then show ?thesis by (auto simp: timer_init_def) code_simp
qed

end
