(* ===== verification/Study_Page.thy ===== *)
theory Study_Page
  imports Results Corrections Session
begin

text \<open>
  The page around the session, \<open>PastStudyPage\<close> of
  \<open>src/app/mode/past-study.tsx\<close>: its header (title, calculator and page
  selector buttons, the timer badge and the Submit button), the page-selector
  sheet, and \<open>handleSubmit\<close>, whose confirmation opens the results screen with
  the results and the corrections data as JSON parameters. The results screen
  forwards the corrections data to the corrections screen. Between the screens a
  value goes through \<open>JSON.stringify\<close> and \<open>JSON.parse\<close>, which \<open>json_rt\<close>
  models on the values of \<open>jsval\<close>: a property whose value is \<open>undefined\<close> is
  dropped, an \<open>undefined\<close> array element becomes \<open>null\<close>, and the properties come
  back in the order \<open>Object.entries\<close> gives (the keys of an object are assumed
  distinct).
\<close>

subsection \<open>JSON between screens\<close>

function json_rt :: "jsval \<Rightarrow> jsval" where
  "json_rt (JArr vs) = JArr (map (\<lambda>v. if v = JUndefined then JNull else json_rt v) vs)"
| "json_rt (JObj kvs) =
     JObj (map (\<lambda>kv. (fst kv, json_rt (snd kv))) (object_entries (filter (\<lambda>kv. snd kv \<noteq> JUndefined) kvs)))"
| "json_rt JUndefined = JUndefined"
| "json_rt JNull = JNull"
| "json_rt (JBool b) = JBool b"
| "json_rt (JNum n) = JNum n"
| "json_rt (JStr s) = JStr s"
  by pat_completeness auto
termination
proof (relation "measure size")
  fix kvs and kv :: "string \<times> jsval"
  assume "kv \<in> set (object_entries (filter (\<lambda>kv. snd kv \<noteq> JUndefined) kvs))"
  moreover have "set (object_entries (filter (\<lambda>kv. snd kv \<noteq> JUndefined) kvs))
      = set (filter (\<lambda>kv. snd kv \<noteq> JUndefined) kvs)"
    by (metis mset_object_entries set_mset_mset)
  ultimately have "kv \<in> set kvs" by simp
  then show "(snd kv, JObj kvs) \<in> measure size"
    by (induction kvs) (auto simp: size_prod_simp)
next
  fix vs and x :: jsval
  assume "x \<in> set vs"
  then have "size x \<le> size_list size vs" by (rule size_list_estimation') simp
  then show "(x, JArr vs) \<in> measure size" by simp
qed simp

text \<open>The object literal of a subject result in \<open>handleSubmit\<close> (lines 115 to 120)
  and the one of a corrections entry (lines 123 to 131): \<open>userAnswers[k]\<close> is
  \<open>undefined\<close> for a question without an answer.\<close>

definition sr_json :: "subject_result \<Rightarrow> jsval" where
  "sr_json r =
     JObj [(''subject'', JStr (sr_subject r)), (''score'', JNum (int (sr_score r))),
           (''total'', JNum (sr_total r)), (''percentage'', JNum (sr_percentage r))]"

definition ce_json :: "correction_entry \<Rightarrow> jsval" where
  "ce_json e =
     JObj [(''subject'', JStr (ce_subject e)), (''question'', ce_question e),
           (''options'', JArr (map JStr (ce_options e))), (''correctAnswer'', ce_correct e),
           (''userAnswer'', case ce_user e of Some a \<Rightarrow> JStr a | None \<Rightarrow> JUndefined),
           (''instruction'', ce_instruction e), (''correction'', ce_correction e)]"

text \<open>How the receiving screens read the parsed values: the fields they use, with
  the types the sources declare (\<open>SubjectResult\<close> of \<open>exam-results.tsx\<close>,
  \<open>QuestionWithAnswer\<close> of \<open>exam-corrections.tsx\<close>); \<open>None\<close> is a value
  outside that typing, whose coercions are not modelled.\<close>

definition js_str :: "jsval \<Rightarrow> string option" where
  "js_str v = (case v of JStr s \<Rightarrow> Some s | _ \<Rightarrow> None)"

definition js_int :: "jsval \<Rightarrow> int option" where
  "js_int v = (case v of JNum n \<Rightarrow> Some n | _ \<Rightarrow> None)"

definition sr_of_json :: "jsval \<Rightarrow> subject_result option" where
  "sr_of_json v =
     (case (js_str (get_field v ''subject''), js_int (get_field v ''score''),
            js_int (get_field v ''total''), js_int (get_field v ''percentage'')) of
        (Some s, Some sc, Some t, Some p) \<Rightarrow>
          if 0 \<le> sc then Some \<lparr>sr_subject = s, sr_score = nat sc, sr_total = t, sr_percentage = p\<rparr> else None
      | _ \<Rightarrow> None)"

definition ce_of_json :: "jsval \<Rightarrow> correction_entry option" where
  "ce_of_json v =
     (case (js_str (get_field v ''subject''), get_field v ''options'', get_field v ''userAnswer'') of
        (Some s, JArr os, u) \<Rightarrow>
          if list_all (\<lambda>x. js_str x \<noteq> None) os \<and> (u = JUndefined \<or> js_str u \<noteq> None)
          then Some \<lparr>ce_subject = s, ce_question = get_field v ''question'',
                     ce_options = map (\<lambda>x. the (js_str x)) os, ce_correct = get_field v ''correctAnswer'',
                     ce_user = js_str u, ce_instruction = get_field v ''instruction'',
                     ce_correction = get_field v ''correction''\<rparr>
          else None
      | _ \<Rightarrow> None)"

text \<open>The \<open>results\<close> parameter as \<open>exam-results.tsx\<close> reads it (lines 19 to 25),
  and \<open>questionsData\<close> as \<open>exam-corrections.tsx\<close> reads it (lines 22 to 28).\<close>

definition results_param :: "route_param option \<Rightarrow> subject_result list json_param option" where
  "results_param p =
     (case p of None \<Rightarrow> Some ParamAbsent
      | Some (PStr s) \<Rightarrow> if s = [] then Some ParamAbsent else Some ParamMalformed
      | Some (PJson v) \<Rightarrow>
          (case json_rt v of JArr vs \<Rightarrow> map_option ParamJson (those (map sr_of_json vs)) | _ \<Rightarrow> None))"

definition corrections_param :: "route_param option \<Rightarrow> correction_entry list option" where
  "corrections_param p =
     (case p of None \<Rightarrow> Some []
      | Some (PStr s) \<Rightarrow> Some []
      | Some (PJson v) \<Rightarrow> (case json_rt v of JArr vs \<Rightarrow> those (map ce_of_json vs) | _ \<Rightarrow> None))"

subsection \<open>Submitting\<close>

text \<open>The confirmed \<open>Submit\<close> of the alert of \<open>handleSubmit\<close> (lines 99 to 151):
  the results of every configured subject and the corrections data of the
  questions seen, from the page's \<open>selectedOptions\<close>, \<open>examQuestions\<close> and
  \<open>userAnswers\<close>.\<close>

definition submit_route :: "session \<Rightarrow> route" where
  "submit_route s =
     Push ''/mode/exam-results''
       [(''results'', PJson (JArr (map sr_json (subject_results (opts s) (s_exam_qs s) (s_answers s))))),
        (''questionsData'', PJson (JArr (map ce_json (questions_data (s_exam_qs s) (s_answers s)))))]"

definition route_arg :: "route \<Rightarrow> string \<Rightarrow> route_param option" where
  "route_arg r k = (case r of Push p ps \<Rightarrow> map_of ps k | GoBack \<Rightarrow> None)"

text \<open>The results screen opened by a route, and the corrections payload of the
  route its Show Corrections button pushes.\<close>

definition results_screen_of :: "route \<Rightarrow> results_view option" where
  "results_screen_of r =
     map_option (\<lambda>p. exam_results_screen p (route_arg r ''questionsData'')) (results_param (route_arg r ''results''))"

definition corrections_of :: "route \<Rightarrow> correction_entry list option" where
  "corrections_of r = corrections_param (route_arg (show_corrections (route_arg r ''questionsData'')) ''questionsData'')"

text \<open>The JSON round trip of the corrections data: each value field goes through
  \<open>json_rt\<close>.\<close>

definition ce_rt :: "correction_entry \<Rightarrow> correction_entry" where
  "ce_rt e = e\<lparr>ce_question := json_rt (ce_question e), ce_correct := json_rt (ce_correct e),
               ce_instruction := json_rt (ce_instruction e), ce_correction := json_rt (ce_correction e)\<rparr>"

subsection \<open>The header and the page selector\<close>

record page_header =
  ph_title :: string
  ph_calculator :: bool
  ph_timer :: "string option"
  ph_submit :: bool

text \<open>Lines 169 to 203: the calculator button and the exam controls only in exam
  mode, the badge while \<open>timeRemaining\<close> is not \<open>null\<close>.\<close>

definition page_header_of :: "string option \<Rightarrow> int option \<Rightarrow> page_header" where
  "page_header_of md tr =
     (let ex = (md = Some ''exam'')
      in \<lparr>ph_title = (if ex then ''Exam'' else ''Study''), ph_calculator = ex,
          ph_timer = (if ex then map_option (\<lambda>t. format_time (nat t)) tr else None),
          ph_submit = ex\<rparr>)"

text \<open>\<open>openSelector\<close> and \<open>closeSelector\<close> (lines 153 to 167): the sheet is
  shown at once on open; on close it is hidden when the closing animation reports
  \<open>finished\<close> (an animation stopped by another one reports false).\<close>

datatype sheet_event = SheetOpen | SheetClose | SheetCloseDone bool

fun sheet_step :: "bool \<Rightarrow> sheet_event \<Rightarrow> bool" where
  "sheet_step b SheetOpen = True"
| "sheet_step b SheetClose = b"
| "sheet_step b (SheetCloseDone fin) = (if fin then False else b)"

subsection \<open>Lemmas\<close>

lemma object_entries_plain:
  "list_all (\<lambda>kv. \<not> is_index_key (fst kv)) kvs \<Longrightarrow> object_entries kvs = kvs"
  by (simp add: object_entries_def list_all_iff filter_id_conv)

lemma json_rt_JStr_list [simp]: "json_rt (JArr (map JStr xs)) = JArr (map JStr xs)"
  by (induction xs) auto

lemma sr_json_rt: "json_rt (sr_json r) = sr_json r"
  by (simp add: sr_json_def object_entries_plain is_index_key_def is_digit_def)

lemma sr_of_sr_json: "sr_of_json (sr_json r) = Some r"
  by (simp add: sr_of_json_def sr_json_def js_str_def js_int_def)

lemma ce_json_rt:
  "ce_of_json (json_rt (ce_json e)) = Some (ce_rt e)"
  by (cases "ce_user e")
     (auto simp: ce_json_def ce_of_json_def ce_rt_def object_entries_plain is_index_key_def is_digit_def
        js_str_def list_all_iff comp_def)

lemma those_map_Some: "(\<forall>x \<in> set xs. f x = Some (g x)) \<Longrightarrow> those (map f xs) = Some (map g xs)"
  by (induction xs) auto

lemma those_map_Some_id: "(\<forall>x \<in> set xs. f x = Some x) \<Longrightarrow> those (map f xs) = Some xs"
  by (induction xs) auto

lemma sr_json_defined [simp]: "sr_json r \<noteq> JUndefined"
  by (simp add: sr_json_def)

lemma ce_json_defined [simp]: "ce_json e \<noteq> JUndefined"
  by (simp add: ce_json_def)

lemma json_rt_JArr_objs:
  "(\<forall>x \<in> set xs. f x \<noteq> JUndefined) \<Longrightarrow> json_rt (JArr (map f xs)) = JArr (map (\<lambda>x. json_rt (f x)) xs)"
  by simp

text \<open>Show Corrections on the results screen of a submission opens the
  corrections of the questions seen, through the JSON round trip.\<close>

lemma corrections_of_submit_route:
  "corrections_of (submit_route s) = Some (map ce_rt (questions_data (s_exam_qs s) (s_answers s)))"
  by (simp add: corrections_of_def corrections_param_def route_arg_def submit_route_def show_corrections_def
        ce_json_rt those_map_Some)

end
