(* ===== verification/Home.thy ===== *)
theory Home
  imports Shuffle Timer Js_Values
begin

text \<open>
  The home screen \<open>src/components/screens/HomeScreen.tsx\<close> without its
  animated values: the greeting (the first word of the user's name), the
  sub-greeting drawn with \<open>Math.random\<close> when the session is authenticated, the
  hero slide that advances when the slide-out animation of the 4-second interval
  finishes, the parallax value of the scroll handler, the six quick links and the
  mode modal. The interval and the animations are events of the step function;
  a draw of \<open>Math.random\<close> is a rational in \<open>[0, 1)\<close>.
\<close>

text \<open>\<open>fullName.trim().split(" ")[0] || "Guest"\<close> (\<open>Timer.js_trim\<close>).\<close>

definition first_name :: "string \<Rightarrow> string" where
  "first_name full = (let w = takeWhile (\<lambda>c. c \<noteq> CHR '' '') (js_trim full) in if w = [] then ''Guest'' else w)"

definition greeting_messages :: "string list" where
  "greeting_messages =
     [''Welcome back! Let'' @ [CHR 0x27] @ ''s keep the streak going.'',
      ''Great to see you again. Ready to smash your goals?'',
      ''You'' @ [CHR 0xE2] @ [CHR 0x80] @ [CHR 0x99] @ ''ve got this '' @ [CHR 0xE2] @ [CHR 0x80] @ [CHR 0x94] @ '' dive right in.'',
      ''New day, new wins. Let'' @ [CHR 0xE2] @ [CHR 0x80] @ [CHR 0x99] @ ''s study smart.'',
      ''Let'' @ [CHR 0xE2] @ [CHR 0x80] @ [CHR 0x99] @ ''s ace some questions today.'',
      ''Time to level up '' @ [CHR 0xE2] @ [CHR 0x80] @ [CHR 0x94] @ '' let'' @ [CHR 0xE2] @ [CHR 0x80] @ [CHR 0x99] @ ''s get started!'',
      ''Consistency is key '' @ [CHR 0xE2] @ [CHR 0x80] @ [CHR 0x94] @ '' let'' @ [CHR 0xE2] @ [CHR 0x80] @ [CHR 0x99] @ ''s make today count.'',
      ''Back at it! Let'' @ [CHR 0xE2] @ [CHR 0x80] @ [CHR 0x99] @ ''s crush your study goals.'',
      ''Every session counts. Let'' @ [CHR 0xE2] @ [CHR 0x80] @ [CHR 0x99] @ ''s do this!'',
      ''Focus mode: ON. You'' @ [CHR 0xE2] @ [CHR 0x80] @ [CHR 0x99] @ ''re unstoppable.'']"

text \<open>The effect on \<open>[state.status, messages]\<close> (lines 54 to 61).\<close>

definition sub_greeting :: "bool \<Rightarrow> rat \<Rightarrow> string" where
  "sub_greeting authenticated r =
     (if authenticated then greeting_messages ! rand_index r (length greeting_messages - 1)
      else ''Ready to learn and study today?'')"

record hero_slide =
  hs_title :: string
  hs_subtitle :: string
  hs_icon :: string

definition hero_slides :: "hero_slide list" where
  "hero_slides =
     [\<lparr>hs_title = ''JAMB CBT + WAEC Past Quetions'', hs_subtitle = ''Over 60,000 real questions at your fingertips.'',
       hs_icon = ''doc.text.fill''\<rparr>,
      \<lparr>hs_title = ''One Time Device Activation'',
       hs_subtitle = ''Valid for the life of your device. No monthly, quarterly or yearly payments'',
       hs_icon = ''checkmark.seal.fill''\<rparr>,
      \<lparr>hs_title = ''Study and Practice Anywhere'', hs_subtitle = ''Access questions, answers and explanations 100% Offline'',
       hs_icon = ''wifi.slash''\<rparr>]"

record quick_link =
  ql_bg :: string
  ql_icon :: string
  ql_title :: string
  ql_subtitle :: string
  ql_badge :: "string option"
  ql_badge_color :: string
  ql_route :: "string option"

definition quick_links :: "quick_link list" where
  "quick_links =
     [\<lparr>ql_bg = ''#E8F5E9'', ql_icon = ''doc.text.fill'', ql_title = ''Past'' @ [CHR 0x0A] @ ''Questions'', ql_subtitle = ''60k+ Questions'', ql_badge = Some ''Popular'', ql_badge_color = ''#2E7D32'', ql_route = None\<rparr>,
      \<lparr>ql_bg = ''#E3F2FD'', ql_icon = ''text.book.closed.fill'', ql_title = ''Summary'' @ [CHR 0x0A] @ ''Note'', ql_subtitle = ''Key points'', ql_badge = Some ''Free'', ql_badge_color = ''#1565C0'', ql_route = None\<rparr>,
      \<lparr>ql_bg = ''#FFF8E1'', ql_icon = ''book.fill'', ql_title = ''Jamb'' @ [CHR 0x0A] @ ''Syllabus'', ql_subtitle = ''Official Guide'', ql_badge = Some ''Updated'', ql_badge_color = ''#FF8F00'', ql_route = None\<rparr>,
      \<lparr>ql_bg = ''#F3E5F5'', ql_icon = ''rectangle.stack.fill'', ql_title = ''Flash'' @ [CHR 0x0A] @ ''Cards'', ql_subtitle = ''Quick Memorization'', ql_badge = Some ''New'', ql_badge_color = ''#7B1FA2'', ql_route = Some ''/flashcards''\<rparr>,
      \<lparr>ql_bg = ''#E0F7FA'', ql_icon = ''chart.bar.fill'', ql_title = ''My'' @ [CHR 0x0A] @ ''Performance'', ql_subtitle = ''Track Progress'', ql_badge = Some ''Stats'', ql_badge_color = ''#0097A7'', ql_route = Some ''/performance''\<rparr>,
      \<lparr>ql_bg = ''#FFEBEE'', ql_icon = ''checkmark.seal.fill'', ql_title = ''Activate'' @ [CHR 0x0A] @ ''App'', ql_subtitle = ''Full Access'', ql_badge = Some ''Premium'', ql_badge_color = ''#C62828'', ql_route = None\<rparr>]"

record home_state =
  hm_sub :: string
  hm_hero :: nat
  hm_parallax :: rat
  hm_modal :: bool

definition home_init :: home_state where
  "home_init = \<lparr>hm_sub = [], hm_hero = 0, hm_parallax = 0, hm_modal = False\<rparr>"

text \<open>The events: the greeting effect with the authentication status and a draw,
  the end of a slide-out animation (\<open>finished\<close> or stopped), a scroll offset, a
  press on a quick link, and the three buttons of the mode modal.\<close>

datatype home_event =
    HmAuth bool rat
  | HmSlideDone bool
  | HmScroll rat
  | HmPress nat
  | HmCancel
  | HmStudy
  | HmCBT

text \<open>A quick link (lines 604 to 612): its route if it has one, the mode modal for
  a title containing \<open>"Past"\<close>, nothing otherwise.\<close>

definition press_link :: "quick_link \<Rightarrow> home_state \<Rightarrow> home_state \<times> route option" where
  "press_link l st =
     (case ql_route l of Some r \<Rightarrow> (st, Some (Push r []))
      | None \<Rightarrow> (if str_includes ''Past'' (ql_title l) then (st\<lparr>hm_modal := True\<rparr>, None) else (st, None)))"

fun home_step :: "home_state \<Rightarrow> home_event \<Rightarrow> home_state \<times> route option" where
  "home_step st (HmAuth a r) = (st\<lparr>hm_sub := sub_greeting a r\<rparr>, None)"
| "home_step st (HmSlideDone fin) =
     (if fin then st\<lparr>hm_hero := (hm_hero st + 1) mod length hero_slides\<rparr> else st, None)"
| "home_step st (HmScroll y) = (st\<lparr>hm_parallax := max 0 (min (y / 60) 1)\<rparr>, None)"
| "home_step st (HmPress i) = press_link (quick_links ! i) st"
| "home_step st HmCancel = (st\<lparr>hm_modal := False\<rparr>, None)"
| "home_step st HmStudy = (st\<lparr>hm_modal := False\<rparr>, Some (Push ''/mode/study'' []))"
| "home_step st HmCBT = (st\<lparr>hm_modal := False\<rparr>, Some (Push ''/mode/exam'' []))"

text \<open>The modal takes every touch while it is open.\<close>

fun home_enabled :: "home_state \<Rightarrow> home_event \<Rightarrow> bool" where
  "home_enabled st (HmAuth a r) = (0 \<le> r \<and> r < 1)"
| "home_enabled st (HmSlideDone fin) = True"
| "home_enabled st (HmScroll y) = (\<not> hm_modal st)"
| "home_enabled st (HmPress i) = (\<not> hm_modal st \<and> i < length quick_links)"
| "home_enabled st HmCancel = hm_modal st"
| "home_enabled st HmStudy = hm_modal st"
| "home_enabled st HmCBT = hm_modal st"

inductive home_reach :: "home_state \<Rightarrow> bool" where
  home_reach_init: "home_reach home_init"
| home_reach_step: "home_reach st \<Longrightarrow> home_enabled st e \<Longrightarrow> home_reach (fst (home_step st e))"

record home_view =
  hv_greeting :: string
  hv_sub :: string
  hv_hero :: hero_slide
  hv_cards :: "(string \<times> string \<times> string option) list"

text \<open>The render (lines 340 to 686): the greeting, the current hero slide and
  the cards of the grid (title, subtitle, badge).\<close>

definition home_render :: "string \<Rightarrow> home_state \<Rightarrow> home_view" where
  "home_render full st =
     \<lparr>hv_greeting = ''Hello, '' @ first_name full, hv_sub = hm_sub st,
      hv_hero = hero_slides ! hm_hero st,
      hv_cards = map (\<lambda>l. (ql_title l, ql_subtitle l, ql_badge l)) quick_links\<rparr>"

text \<open>The mode sheet \<open>src/components/ui/ModeSelectModal.tsx\<close> as the home screen
  renders it (\<open>visible={showModeModal}\<close>, lines 673 to 684), for a window of
  height \<open>h\<close>: it slides to 0 when shown and to \<open>h\<close> when hidden; each of its two
  bricks (title, subtitle) raises its event; the backdrop and the back button
  raise \<open>HmCancel\<close>.\<close>

record mode_sheet_view =
  ms_visible :: bool
  ms_slide_target :: int
  ms_title :: string
  ms_bricks :: "(string \<times> string \<times> home_event) list"
  ms_cancel :: home_event

definition mode_sheet :: "int \<Rightarrow> home_state \<Rightarrow> mode_sheet_view" where
  "mode_sheet h st =
     \<lparr>ms_visible = hm_modal st,
      ms_slide_target = (if hm_modal st then 0 else h),
      ms_title = ''Select Mode'',
      ms_bricks = [(''STUDY MODE'', ''study older past questions'', HmStudy),
                   (''CBT/EXAM MODE'', ''Test yourself in real exam situation'', HmCBT)],
      ms_cancel = HmCancel\<rparr>"

text \<open>In every reachable state the hero index selects one of the three slides,
  so \<open>heroSlides[heroIndex]\<close> is never \<open>undefined\<close>, and the sub-greeting is one
  of the fixed texts.\<close>

definition home_inv :: "home_state \<Rightarrow> bool" where
  "home_inv st \<longleftrightarrow> hm_hero st < length hero_slides
     \<and> (hm_sub st = [] \<or> hm_sub st = ''Ready to learn and study today?'' \<or> hm_sub st \<in> set greeting_messages)
     \<and> 0 \<le> hm_parallax st \<and> hm_parallax st \<le> 1"

subsection \<open>Lemmas\<close>

lemma length_hero_slides [simp]: "length hero_slides = 3"
  by (simp add: hero_slides_def)

lemma length_greeting_messages [simp]: "length greeting_messages = 10"
  by (simp add: greeting_messages_def)

lemma length_quick_links [simp]: "length quick_links = 6"
  by (simp add: quick_links_def)

lemma rand_index_lt: "0 \<le> r \<Longrightarrow> r < 1 \<Longrightarrow> rand_index r i < Suc i"
proof -
  assume a: "0 \<le> r" "r < 1"
  have "r * of_nat (Suc i) < of_nat (Suc i)" using a by (simp add: mult_less_cancel_right2)
  then have "floor (r * of_nat (Suc i)) < int (Suc i)" by (simp add: floor_less_iff)
  then show ?thesis using a by (simp add: rand_index_def nat_less_iff)
qed

lemma press_link_inv: "home_inv st \<Longrightarrow> home_inv (fst (press_link l st))"
  by (simp add: press_link_def home_inv_def split: option.splits)

lemma home_step_inv: "home_inv st \<Longrightarrow> home_enabled st e \<Longrightarrow> home_inv (fst (home_step st e))"
proof (cases e)
  case (HmAuth a r)
  assume "home_inv st" "home_enabled st e"
  with HmAuth show ?thesis
    using rand_index_lt [of r 9]
    by (auto simp: home_inv_def sub_greeting_def)
next
  case (HmPress i)
  assume "home_inv st"
  with HmPress show ?thesis by (simp add: press_link_inv)
qed (auto simp: home_inv_def)

lemma home_reach_inv: "home_reach st \<Longrightarrow> home_inv st"
proof (induction rule: home_reach.induct)
  case home_reach_init
  then show ?case by (simp add: home_inv_def home_init_def)
next
  case (home_reach_step st e)
  then show ?case by (simp add: home_step_inv)
qed

text \<open>Every brick of the shown sheet can be pressed, closes the sheet and opens
  a screen; its cancel closes it and opens none.\<close>

lemma mode_sheet_bricks:
  assumes "ms_visible (mode_sheet h st)" "(t, sub, ev) \<in> set (ms_bricks (mode_sheet h st))"
  shows "home_enabled st ev \<and> \<not> hm_modal (fst (home_step st ev)) \<and> snd (home_step st ev) \<noteq> None"
  using assms by (auto simp: mode_sheet_def)

lemma mode_sheet_cancel:
  "ms_visible (mode_sheet h st) \<Longrightarrow>
     home_enabled st (ms_cancel (mode_sheet h st))
     \<and> fst (home_step st (ms_cancel (mode_sheet h st))) = st\<lparr>hm_modal := False\<rparr>
     \<and> snd (home_step st (ms_cancel (mode_sheet h st))) = None"
  by (simp add: mode_sheet_def)

end
