(* ===== verification/Account.thy ===== *)
theory Account
  imports Timer Js_Values
begin

text \<open>
  The account controls: the session banner \<open>src/components/auth/SessionStatus.tsx\<close>
  (the masked credential, the session timeout and last activity, and the logout
  dialog with its password and all-devices switch), and the menu
  \<open>src/components/screens/MenuBricks.tsx\<close> with its two dialogs,
  \<open>src/components/ui/LogoutModal.tsx\<close> and
  \<open>src/components/ui/DeleteAccountModal.tsx\<close>. The authentication context and
  the account API are not part of \<open>src/\<close>: their calls are events whose
  outcome (success, or a rejection carrying the \<open>error\<close> code of the error
  object) is chosen by the environment, as the sources see them. What the screen
  does besides its state, alerts and navigation, is a list of \<open>ui_effect\<close>s.
\<close>

datatype ui_effect = EAlert string string | EReplace string | ENav route

datatype call_result = CallOk | CallErr "string option"

subsection \<open>The session banner\<close>

text \<open>\<open>maskCredential\<close> (lines 20 to 33): \<open>const [local, domain] = email.split("@")\<close>
  reads the first two pieces; a missing second piece is \<open>undefined\<close>, which the
  template prints as \<open>"undefined"\<close>.\<close>

definition mask_user :: "string option \<Rightarrow> string" where
  "mask_user username =
     (case username of
        Some u \<Rightarrow> if u \<noteq> [] then take 3 u @ (if 3 < length u then ''***'' else []) else ''Guest''
      | None \<Rightarrow> ''Guest'')"

definition mask_credential :: "string option \<Rightarrow> string option \<Rightarrow> string" where
  "mask_credential email username =
     (case email of
        Some e \<Rightarrow> if e \<noteq> [] then
            (let ps = split_on CHR ''@'' e; loc = hd ps;
                 dom = (if 2 \<le> length ps then ps ! 1 else ''undefined'')
             in take 2 loc @ (if 2 < length loc then ''***'' else []) @ ''@'' @ dom)
          else mask_user username
      | None \<Rightarrow> mask_user username)"

text \<open>\<open>formatCountdown(ms)\<close> (lines 35 to 41); \<open>None\<close> is \<open>undefined\<close>.\<close>

definition format_countdown :: "int option \<Rightarrow> string" where
  "format_countdown ms =
     (case ms of
        Some t \<Rightarrow> if t \<le> 0 then ''Expired''
          else (let s = nat t div 1000; m = s div 60; r = s mod 60 in nat_str m @ '':'' @ pad2 (nat_str r))
      | None \<Rightarrow> ''Expired'')"

text \<open>\<open>lastActiveText(ts)\<close> (lines 43 to 52) at the time \<open>now\<close> of the render.\<close>

definition last_active_text :: "int option \<Rightarrow> int \<Rightarrow> string" where
  "last_active_text ts now =
     (case ts of
        Some t \<Rightarrow> if t = 0 then ''Unknown''
          else (let s = (now - t) div 1000
                in if s < 60 then int_str s @ ''s ago''
                   else let m = s div 60
                        in if m < 60 then int_str m @ ''m ago'' else int_str (m div 60) @ ''h ago'')
      | None \<Rightarrow> ''Unknown'')"

datatype auth_status = Authenticated | Expired | Unauthenticated

record auth_view =
  av_status :: auth_status
  av_email :: "string option"
  av_username :: "string option"
  av_expires_at :: "int option"
  av_last_active :: "int option"

text \<open>The banner's state: the confirmation dialog, its password and switch, the
  loading flag, and \<open>msRemaining\<close>, memoised on \<open>state.expiresAt\<close> (lines
  62 to 65): it is computed when the expiry changes, with the time of that render.\<close>

record banner_state =
  bn_confirm :: bool
  bn_password :: string
  bn_everywhere :: bool
  bn_loading :: bool
  bn_expires_seen :: "int option"
  bn_ms_remaining :: "int option"

text \<open>\<open>state.expiresAt ? state.expiresAt - Date.now() : undefined\<close>.\<close>

definition ms_remaining_of :: "int option \<Rightarrow> int \<Rightarrow> int option" where
  "ms_remaining_of ex now = (case ex of Some e \<Rightarrow> if e \<noteq> 0 then Some (e - now) else None | None \<Rightarrow> None)"

definition banner_init :: "auth_view \<Rightarrow> int \<Rightarrow> banner_state" where
  "banner_init a now =
     \<lparr>bn_confirm = False, bn_password = [], bn_everywhere = True, bn_loading = False,
      bn_expires_seen = av_expires_at a, bn_ms_remaining = ms_remaining_of (av_expires_at a) now\<rparr>"

text \<open>A render of the banner at time \<open>now\<close> with the context's state: the memo
  is recomputed only when \<open>expiresAt\<close> changed (and \<open>0\<close> counts as no expiry).\<close>

definition banner_rerender :: "auth_view \<Rightarrow> int \<Rightarrow> banner_state \<Rightarrow> banner_state" where
  "banner_rerender a now st =
     (if av_expires_at a = bn_expires_seen st then st
      else st\<lparr>bn_expires_seen := av_expires_at a,
              bn_ms_remaining := ms_remaining_of (av_expires_at a) now\<rparr>)"

record banner_view =
  bv_title :: string
  bv_color :: string
  bv_icon :: string
  bv_masked :: string
  bv_last_active :: string
  bv_timeout :: string
  bv_dialog :: bool

definition banner_render :: "auth_view \<Rightarrow> int \<Rightarrow> banner_state \<Rightarrow> banner_view" where
  "banner_render a now st =
     \<lparr>bv_title = (case av_status a of Authenticated \<Rightarrow> ''Authenticated'' | Expired \<Rightarrow> ''Session expired''
                 | Unauthenticated \<Rightarrow> ''Unauthenticated''),
      bv_color = (case av_status a of Authenticated \<Rightarrow> ''#2F6F3E'' | Expired \<Rightarrow> ''#B00020''
                 | Unauthenticated \<Rightarrow> ''#808080''),
      bv_icon = (case av_status a of Authenticated \<Rightarrow> ''checkmark.seal.fill''
                 | Expired \<Rightarrow> ''exclamationmark.triangle.fill'' | Unauthenticated \<Rightarrow> ''person.fill.xmark''),
      bv_masked = mask_credential (av_email a) (av_username a),
      bv_last_active = last_active_text (av_last_active a) now,
      bv_timeout = format_countdown (bn_ms_remaining st),
      bv_dialog = bn_confirm st\<rparr>"

text \<open>The logout call that \<open>onConfirmLogout\<close> makes: all devices, and the
  password unless it is empty.\<close>

record logout_call =
  lc_all_devices :: bool
  lc_password :: "string option"

datatype banner_event =
    BnOpen | BnType string | BnSwitch bool | BnCancel | BnConfirm | BnLogoutDone call_result

text \<open>\<open>onConfirmLogout\<close> (lines 73 to 91), split at its \<open>await\<close>: the press sets
  \<open>loading\<close> and issues the call; its settling resets the dialog on success,
  alerts, and in both cases replaces the route by the login screen.\<close>

fun banner_step :: "banner_state \<Rightarrow> banner_event \<Rightarrow> banner_state \<times> ui_effect list" where
  "banner_step st BnOpen = (st\<lparr>bn_confirm := True\<rparr>, [])"
| "banner_step st (BnType p) = (st\<lparr>bn_password := p\<rparr>, [])"
| "banner_step st (BnSwitch b) = (st\<lparr>bn_everywhere := b\<rparr>, [])"
| "banner_step st BnCancel = (st\<lparr>bn_confirm := False\<rparr>, [])"
| "banner_step st BnConfirm = (st\<lparr>bn_loading := True\<rparr>, [])"
| "banner_step st (BnLogoutDone CallOk) =
     (st\<lparr>bn_confirm := False, bn_password := [], bn_everywhere := True, bn_loading := False\<rparr>,
      [EAlert ''Logged out'' ''Your session was terminated.'', EReplace ''/auth/login''])"
| "banner_step st (BnLogoutDone (CallErr c)) =
     (st\<lparr>bn_loading := False\<rparr>,
      [EAlert ''Logout error'' (case c of Some m \<Rightarrow> if m \<noteq> [] then m else ''Unexpected error''
                                | None \<Rightarrow> ''Unexpected error''), EReplace ''/auth/login''])"

definition banner_call :: "banner_state \<Rightarrow> logout_call" where
  "banner_call st = \<lparr>lc_all_devices = bn_everywhere st,
                      lc_password = (if bn_password st = [] then None else Some (bn_password st))\<rparr>"

text \<open>The confirm button is disabled while loading; a call settles only while
  one is in flight.\<close>

fun banner_enabled :: "banner_state \<Rightarrow> banner_event \<Rightarrow> bool" where
  "banner_enabled st BnOpen = (\<not> bn_confirm st)"
| "banner_enabled st BnConfirm = (bn_confirm st \<and> \<not> bn_loading st)"
| "banner_enabled st (BnLogoutDone r) = bn_loading st"
| "banner_enabled st _ = bn_confirm st"

subsection \<open>The menu and its dialogs\<close>

record brick_item =
  bi_key :: string
  bi_title :: string
  bi_icon :: string
  bi_icon_color :: string
  bi_route :: "string option"

definition menu_items :: "brick_item list" where
  "menu_items =
     [\<lparr>bi_key = ''edit-profile'', bi_title = ''Edit Profile'', bi_icon = ''person.fill'',
       bi_icon_color = ''#2E7D32'', bi_route = Some ''/auth/edit-profile''\<rparr>,
      \<lparr>bi_key = ''change-password'', bi_title = ''Change Password'', bi_icon = ''lock.fill'',
       bi_icon_color = ''#1565C0'', bi_route = Some ''/auth/change-password''\<rparr>,
      \<lparr>bi_key = ''saved-questions'', bi_title = ''Saved Questions'', bi_icon = ''bookmark.fill'',
       bi_icon_color = ''#EF6C00'', bi_route = Some ''/mode/saved-questions''\<rparr>,
      \<lparr>bi_key = ''activate-app'', bi_title = ''Activate App'', bi_icon = ''bolt.fill'',
       bi_icon_color = ''#6A1B9A'', bi_route = None\<rparr>,
      \<lparr>bi_key = ''app-settings'', bi_title = ''App Settings'', bi_icon = ''gearshape.fill'',
       bi_icon_color = ''#00897B'', bi_route = Some ''/settings/app-settings''\<rparr>,
      \<lparr>bi_key = ''logout'', bi_title = ''Logout'', bi_icon = ''rectangle.portrait.and.arrow.right'',
       bi_icon_color = ''#D84315'', bi_route = None\<rparr>,
      \<lparr>bi_key = ''delete-account'', bi_title = ''Delete Account'', bi_icon = ''trash.fill'',
       bi_icon_color = ''#C62828'', bi_route = None\<rparr>]"

text \<open>The state of \<open>MenuBricks\<close> and of the password field of
  \<open>DeleteAccountModal\<close>, which stays mounted while hidden; \<open>mb_token\<close> is
  whether the context holds a token.\<close>

record menu_state =
  mb_logout_modal :: bool
  mb_delete_modal :: bool
  mb_logging_out :: bool
  mb_deleting :: bool
  mb_password :: string
  mb_token :: bool
  mb_replaced :: bool

definition menu_init :: "bool \<Rightarrow> menu_state" where
  "menu_init tok =
     \<lparr>mb_logout_modal = False, mb_delete_modal = False, mb_logging_out = False, mb_deleting = False,
      mb_password = [], mb_token = tok, mb_replaced = False\<rparr>"

datatype menu_event =
    MbPress string
  | MbLogoutConfirm | MbLogoutCancel | MbLogoutDone call_result
  | MbDelType string | MbDelConfirm | MbDelCancel
  | MbDelDone call_result call_result call_result

text \<open>\<open>handleItemPress\<close> (lines 128 to 136).\<close>

definition press_item :: "brick_item \<Rightarrow> menu_state \<Rightarrow> menu_state \<times> ui_effect list" where
  "press_item it st =
     (if bi_key it = ''logout'' then (st\<lparr>mb_logout_modal := True\<rparr>, [])
      else if bi_key it = ''delete-account'' then (st\<lparr>mb_delete_modal := True\<rparr>, [])
      else case bi_route it of Some r \<Rightarrow> (st, [ENav (Push r [])]) | None \<Rightarrow> (st, []))"

text \<open>The message of the \<open>catch\<close> of \<open>handleDeleteAccount\<close> (lines 112 to 117).\<close>

definition is_token_error :: "string option \<Rightarrow> bool" where
  "is_token_error c \<longleftrightarrow> c = Some ''INVALID_TOKEN'' \<or> c = Some ''UNAUTHORIZED''"

definition delete_error_message :: "string option \<Rightarrow> string" where
  "delete_error_message c =
     (if c = Some ''INVALID_CREDENTIALS'' then ''Incorrect password''
      else if is_token_error c then ''Session expired. Please login again.''
      else ''Failed to delete account'')"

text \<open>The \<open>catch\<close> branch of \<open>handleDeleteAccount\<close> for an error code: the
  alert, and for a token error the logout (outcome \<open>lo\<close>) and the login screen;
  a logout that throws there leaves the \<open>catch\<close> without navigating.\<close>

definition delete_catch :: "string option \<Rightarrow> call_result \<Rightarrow> ui_effect list" where
  "delete_catch c lo =
     EAlert ''Error'' (delete_error_message c)
     # (if is_token_error c then (if lo = CallOk then [EReplace ''/auth/login''] else []) else [])"

text \<open>The settling of \<open>handleDeleteAccount\<close> (lines 102 to 126) with the outcome
  \<open>dr\<close> of \<open>AuthApi.deleteAccount\<close> and the outcomes \<open>lo\<close> and \<open>lo2\<close> of
  the calls of \<open>logout\<close> that can follow (after a success; in the \<open>catch\<close>, for
  a token error, including one thrown by the first logout); the \<open>finally\<close>
  hides the dialog and does not clear its password.\<close>

definition delete_done ::
  "call_result \<Rightarrow> call_result \<Rightarrow> call_result \<Rightarrow> menu_state \<Rightarrow> menu_state \<times> ui_effect list" where
  "delete_done dr lo lo2 st =
     (let eff = (case dr of
                   CallOk \<Rightarrow> EAlert ''Account Deleted'' ''Your account has been permanently deleted.''
                             # (case lo of CallOk \<Rightarrow> [EReplace ''/auth/login''] | CallErr c \<Rightarrow> delete_catch c lo2)
                 | CallErr c \<Rightarrow> delete_catch c lo)
      in (st\<lparr>mb_deleting := False, mb_delete_modal := False,
             mb_replaced := (EReplace ''/auth/login'' \<in> set eff)\<rparr>, eff))"

fun menu_step :: "menu_state \<Rightarrow> menu_event \<Rightarrow> menu_state \<times> ui_effect list" where
  "menu_step st (MbPress k) =
     (case find (\<lambda>it. bi_key it = k) menu_items of Some it \<Rightarrow> press_item it st | None \<Rightarrow> (st, []))"
| "menu_step st MbLogoutConfirm = (st\<lparr>mb_logging_out := True\<rparr>, [])"
| "menu_step st MbLogoutCancel = (st\<lparr>mb_logout_modal := False\<rparr>, [])"
| "menu_step st (MbLogoutDone r) =
     (st\<lparr>mb_logging_out := False, mb_logout_modal := False, mb_replaced := (r = CallOk)\<rparr>,
      if r = CallOk then [EReplace ''/auth/login''] else [])"
| "menu_step st (MbDelType p) = (st\<lparr>mb_password := p\<rparr>, [])"
| "menu_step st MbDelConfirm =
     (if 8 \<le> length (mb_password st) \<and> mb_token st then (st\<lparr>mb_deleting := True\<rparr>, []) else (st, []))"
| "menu_step st MbDelCancel = (st\<lparr>mb_password := [], mb_delete_modal := False\<rparr>, [])"
| "menu_step st (MbDelDone dr lo lo2) = delete_done dr lo lo2 st"

text \<open>What can be pressed: a brick when no dialog is open; in the logout dialog
  No and Logout unless logging out (the backdrop cancels at any time); in the
  delete dialog the field, Cancel unless deleting, and Delete unless deleting or
  the password is shorter than 8; a call settles only while in flight.\<close>

fun menu_enabled_ev :: "menu_state \<Rightarrow> menu_event \<Rightarrow> bool" where
  "menu_enabled_ev st (MbPress k) = (\<not> mb_logout_modal st \<and> \<not> mb_delete_modal st)"
| "menu_enabled_ev st MbLogoutConfirm = (mb_logout_modal st \<and> \<not> mb_logging_out st)"
| "menu_enabled_ev st MbLogoutCancel = mb_logout_modal st"
| "menu_enabled_ev st (MbLogoutDone r) = mb_logging_out st"
| "menu_enabled_ev st (MbDelType p) = mb_delete_modal st"
| "menu_enabled_ev st MbDelConfirm = (mb_delete_modal st \<and> \<not> mb_deleting st \<and> 8 \<le> length (mb_password st))"
| "menu_enabled_ev st MbDelCancel = (mb_delete_modal st \<and> \<not> mb_deleting st)"
| "menu_enabled_ev st (MbDelDone dr lo lo2) = mb_deleting st"

text \<open>Once \<open>router.replace("/auth/login")\<close> has run, the menu is no longer on
  screen and no event reaches it.\<close>

definition menu_enabled :: "menu_state \<Rightarrow> menu_event \<Rightarrow> bool" where
  "menu_enabled st e \<longleftrightarrow> \<not> mb_replaced st \<and> menu_enabled_ev st e"

inductive menu_reach :: "menu_state \<Rightarrow> bool" where
  menu_reach_init: "menu_reach (menu_init tok)"
| menu_reach_step: "menu_reach st \<Longrightarrow> menu_enabled st e \<Longrightarrow> menu_reach (fst (menu_step st e))"

record delete_dialog_view =
  dd_visible :: bool
  dd_password :: string
  dd_valid :: bool
  dd_delete_enabled :: bool
  dd_spinner :: bool

text \<open>The delete dialog as rendered (lines 45 to 104 of \<open>DeleteAccountModal.tsx\<close>).\<close>

definition delete_dialog :: "menu_state \<Rightarrow> delete_dialog_view" where
  "delete_dialog st =
     \<lparr>dd_visible = mb_delete_modal st, dd_password = mb_password st,
      dd_valid = (8 \<le> length (mb_password st)),
      dd_delete_enabled = (\<not> mb_deleting st \<and> 8 \<le> length (mb_password st)),
      dd_spinner = mb_deleting st\<rparr>"

text \<open>The logout dialog as rendered (lines 42 to 91 of \<open>LogoutModal.tsx\<close>), for
  a window of height \<open>h\<close>: the sheet slides to 0 when shown and to \<open>h\<close> when
  hidden (lines 25 to 40); No and Yes are disabled while logging out, Yes then
  reading ``Logging out...''; the backdrop and the system back button
  (\<open>onRequestClose\<close>) call \<open>onCancel\<close> with no such guard.\<close>

record logout_dialog_view =
  ld_visible :: bool
  ld_slide_target :: int
  ld_buttons :: "(string \<times> bool) list"
  ld_backdrop_cancels :: bool

definition logout_dialog :: "int \<Rightarrow> menu_state \<Rightarrow> logout_dialog_view" where
  "logout_dialog h st =
     \<lparr>ld_visible = mb_logout_modal st,
      ld_slide_target = (if mb_logout_modal st then 0 else h),
      ld_buttons = [(''No'', \<not> mb_logging_out st),
                    (if mb_logging_out st then ''Logging out...'' else ''Yes'', \<not> mb_logging_out st)],
      ld_backdrop_cancels = True\<rparr>"

text \<open>The menu's invariant: a deletion is only in flight with a token, and at
  most one dialog is open.\<close>

definition menu_inv :: "menu_state \<Rightarrow> bool" where
  "menu_inv st \<longleftrightarrow> (mb_deleting st \<longrightarrow> mb_token st) \<and> \<not> (mb_logout_modal st \<and> mb_delete_modal st)"

subsection \<open>The route shells\<close>

text \<open>The route files of the menu tab \<open>src/app/(tabs)/menu.tsx\<close> and of
  \<open>src/app/auth/edit-profile.tsx\<close> only frame a screen component
  (\<open>MenuBricks\<close>, \<open>EditProfileScreen\<close>): a title, a line of text and, on the
  edit-profile page, a back button that calls \<open>router.back()\<close>.\<close>

record page_shell =
  ps_title :: string
  ps_text :: string
  ps_back :: "route option"

definition menu_page :: page_shell where
  "menu_page = \<lparr>ps_title = ''Menu'', ps_text = ''Manage your settings, account, and app preferences.'',
                ps_back = None\<rparr>"

definition edit_profile_page :: page_shell where
  "edit_profile_page = \<lparr>ps_title = ''Edit Profile'', ps_text = ''Update your account details below'',
                        ps_back = Some GoBack\<rparr>"

subsection \<open>Lemmas\<close>

lemma mask_no_at:
  assumes "CHR ''@'' \<notin> set e" and "e \<noteq> []"
  shows "mask_credential (Some e) u = take 2 e @ (if 2 < length e then ''***'' else []) @ ''@undefined''"
  using assms by (simp add: mask_credential_def split_on_no_sep)

text \<open>
  C37. When the account is deleted but the \<open>logout\<close> that follows throws an error
  that is not a token error, the \<open>catch\<close> of \<open>handleDeleteAccount\<close> reports
  ``Failed to delete account'' right after ``Account Deleted'', and the user stays
  on the menu.
\<close>

theorem delete_reported_as_failed:
  assumes "\<not> is_token_error c" and "c \<noteq> Some ''INVALID_CREDENTIALS''"
  shows "snd (delete_done CallOk (CallErr c) lo2 st)
     = [EAlert ''Account Deleted'' ''Your account has been permanently deleted.'',
        EAlert ''Error'' ''Failed to delete account'']"
  using assms by (simp add: delete_done_def delete_catch_def delete_error_message_def Let_def)

lemma menu_step_inv: "menu_inv st \<Longrightarrow> menu_enabled st e \<Longrightarrow> menu_inv (fst (menu_step st e))"
  by (cases e) (auto simp: menu_enabled_def menu_inv_def Let_def delete_done_def press_item_def split: option.splits)

lemma menu_reach_inv: "menu_reach st \<Longrightarrow> menu_inv st"
proof (induction rule: menu_reach.induct)
  case (menu_reach_init tok)
  then show ?case by (simp add: menu_inv_def menu_init_def)
next
  case (menu_reach_step st e)
  then show ?case by (simp add: menu_step_inv)
qed

lemma delete_done_fields:
  "mb_password (fst (delete_done dr lo lo2 st)) = mb_password st
   \<and> \<not> mb_delete_modal (fst (delete_done dr lo lo2 st)) \<and> \<not> mb_deleting (fst (delete_done dr lo lo2 st))
   \<and> mb_token (fst (delete_done dr lo lo2 st)) = mb_token st
   \<and> mb_logout_modal (fst (delete_done dr lo lo2 st)) = mb_logout_modal st"
  by (simp add: delete_done_def Let_def)

text \<open>
  C38. The password typed into the delete dialog survives the attempt: after a
  request that leaves the user on the menu (the deletion failed, or the
  logout after it threw without a token error), reopening the dialog is
  allowed and shows the same password with Delete enabled (only Cancel clears
  it).
\<close>

theorem delete_password_persists:
  assumes "menu_reach st" and "menu_enabled st MbDelConfirm" and "mb_token st"
      and "\<not> mb_replaced (fst (delete_done dr lo lo2 (st\<lparr>mb_deleting := True\<rparr>)))"
  shows "menu_enabled (fst (menu_step (fst (menu_step st MbDelConfirm)) (MbDelDone dr lo lo2))) (MbPress ''delete-account'')
    \<and> delete_dialog (fst (menu_step (fst (menu_step (fst (menu_step st MbDelConfirm)) (MbDelDone dr lo lo2)))
            (MbPress ''delete-account'')))
         = \<lparr>dd_visible = True, dd_password = mb_password st, dd_valid = True, dd_delete_enabled = True,
            dd_spinner = False\<rparr>"
  using assms(2-) delete_done_fields [of dr lo lo2 "st\<lparr>mb_deleting := True\<rparr>"] menu_reach_inv [OF assms(1)]
  by (simp add: menu_enabled_def menu_inv_def menu_items_def press_item_def delete_dialog_def)

lemma banner_rerender_same: "av_expires_at a = bn_expires_seen st \<Longrightarrow> banner_rerender a now st = st"
  by (simp add: banner_rerender_def)

text \<open>
  The session timeout of the banner is memoised on \<open>expiresAt\<close> alone, so it
  does not count down: a render at any later time shows the same text as long as
  the expiry is unchanged.
\<close>

theorem countdown_frozen:
  assumes "av_expires_at a = bn_expires_seen st"
  shows "bv_timeout (banner_render a now' (banner_rerender a now' st)) = bv_timeout (banner_render a now st)"
  using assms by (simp add: banner_rerender_same banner_render_def)

theorem delete_reported_as_failed_witness:
  "snd (delete_done CallOk (CallErr None) CallOk (menu_init True))
     = [EAlert ''Account Deleted'' ''Your account has been permanently deleted.'',
        EAlert ''Error'' ''Failed to delete account'']"
  using delete_reported_as_failed [of None] by (simp add: is_token_error_def)

theorem delete_password_persists_witness:
  "delete_dialog (fst (menu_step (fst (menu_step (fst (menu_step
      (fst (menu_step (fst (menu_step (menu_init True) (MbPress ''delete-account''))) (MbDelType ''secret123'')))
      MbDelConfirm)) (MbDelDone (CallErr (Some ''INVALID_CREDENTIALS'')) CallOk CallOk))) (MbPress ''delete-account'')))
   = \<lparr>dd_visible = True, dd_password = ''secret123'', dd_valid = True, dd_delete_enabled = True,
      dd_spinner = False\<rparr>"
proof -
  define st where "st = fst (menu_step (fst (menu_step (menu_init True) (MbPress ''delete-account''))) (MbDelType ''secret123''))"
  have st: "st = (menu_init True)\<lparr>mb_delete_modal := True, mb_password := ''secret123''\<rparr>"
    by (simp add: st_def menu_items_def press_item_def menu_init_def)
  have r1: "menu_reach (fst (menu_step (menu_init True) (MbPress ''delete-account'')))"
    by (rule menu_reach_step [OF menu_reach_init]) (simp add: menu_enabled_def menu_init_def)
  have r: "menu_reach st" unfolding st_def
    by (rule menu_reach_step [OF r1]) (simp add: menu_enabled_def menu_init_def menu_items_def press_item_def)
  have h: "menu_enabled st MbDelConfirm" "mb_token st"
      "\<not> mb_replaced (fst (delete_done (CallErr (Some ''INVALID_CREDENTIALS'')) CallOk CallOk (st\<lparr>mb_deleting := True\<rparr>)))"
    by (simp_all add: st menu_init_def menu_enabled_def delete_done_def delete_catch_def is_token_error_def Let_def)
  from delete_password_persists [OF r h] have
    "delete_dialog (fst (menu_step (fst (menu_step (fst (menu_step st MbDelConfirm))
       (MbDelDone (CallErr (Some ''INVALID_CREDENTIALS'')) CallOk CallOk))) (MbPress ''delete-account'')))
     = \<lparr>dd_visible = True, dd_password = mb_password st, dd_valid = True, dd_delete_enabled = True,
        dd_spinner = False\<rparr>" by blast
  moreover have "mb_password st = ''secret123''" by (simp add: st menu_init_def)
  ultimately show ?thesis unfolding st_def by simp
qed

theorem countdown_frozen_witness:
  "bv_timeout (banner_render \<lparr>av_status = Authenticated, av_email = None, av_username = None,
        av_expires_at = Some 600000, av_last_active = None\<rparr> 300000
      (banner_rerender \<lparr>av_status = Authenticated, av_email = None, av_username = None,
        av_expires_at = Some 600000, av_last_active = None\<rparr> 300000
        (banner_init \<lparr>av_status = Authenticated, av_email = None, av_username = None,
          av_expires_at = Some 600000, av_last_active = None\<rparr> 0)))
   = ''10:00''"
proof -
  define a where "a = \<lparr>av_status = Authenticated, av_email = None, av_username = None,
        av_expires_at = Some (600000::int), av_last_active = None\<rparr>"
  have "bv_timeout (banner_render a 300000 (banner_rerender a 300000 (banner_init a 0)))
        = bv_timeout (banner_render a 0 (banner_init a 0))"
    by (rule countdown_frozen) (simp add: a_def banner_init_def)
  also have "\<dots> = ''10:00''"
    by (simp add: a_def banner_render_def banner_init_def ms_remaining_of_def format_countdown_def
        pad2_def nat_str.simps)
  finally show ?thesis by (simp add: a_def)
qed

text \<open>While the logout is in flight both buttons of the dialog are disabled, but
  the backdrop still closes it; the dialog is gone, and the logout carries on:
  when it settles the user is sent to the login screen all the same.\<close>

lemma logout_cancel_does_not_cancel:
  assumes "\<not> mb_replaced st" "mb_logout_modal st" "mb_logging_out st"
  defines "st1 \<equiv> fst (menu_step st MbLogoutCancel)"
  shows "map snd (ld_buttons (logout_dialog h st)) = [False, False]
     \<and> menu_enabled st MbLogoutCancel
     \<and> \<not> ld_visible (logout_dialog h st1)
     \<and> menu_enabled st1 (MbLogoutDone CallOk)
     \<and> snd (menu_step st1 (MbLogoutDone CallOk)) = [EReplace ''/auth/login'']"
  using assms by (simp add: logout_dialog_def menu_enabled_def)

end
