(* ===== verification/Animation.thy ===== *)
theory Animation
  imports Complex_Main
begin

text \<open>
  The looping animations of \<open>src/components/ui/AnimatedLoader.tsx\<close> and of the
  home screen \<open>src/components/screens/HomeScreen.tsx\<close> (the shimmer, the badge
  pulse and the aurora, lines 129 to 198): an animated value driven by
  \<open>Animated.loop\<close> of an \<open>Animated.sequence\<close> of \<open>Animated.timing\<close>s, as a
  function of the time in milliseconds since the start. A timing moves the
  value from where it is to its target over its duration after its delay,
  along its easing; a sequence runs its timings one after the other; a loop
  resets the value to its starting value and runs the sequence again, delays
  included. The easings with no rational closed form (the default
  \<open>easeInOut\<close> and \<open>Easing.inOut(Easing.sin)\<close>) are a parameter \<open>E\<close>.
\<close>

datatype easing = EaseLinear | EaseQuadInOut | EaseOutQuad | EaseSinInOut | EaseDefault

text \<open>\<open>Easing.linear\<close>; \<open>Easing.inOut(Easing.quad)\<close>, the quadratic on each half,
  mirrored; \<open>Easing.out(Easing.quad)\<close>, the quadratic mirrored.\<close>

definition ease :: "(easing \<Rightarrow> rat \<Rightarrow> rat) \<Rightarrow> easing \<Rightarrow> rat \<Rightarrow> rat" where
  "ease E k x =
     (case k of
        EaseLinear \<Rightarrow> x
      | EaseQuadInOut \<Rightarrow> if x < 1 / 2 then 2 * x * x else 1 - 2 * (1 - x) * (1 - x)
      | EaseOutQuad \<Rightarrow> 1 - (1 - x) * (1 - x)
      | _ \<Rightarrow> E k x)"

record timing =
  tm_to :: rat
  tm_dur :: rat
  tm_delay :: rat
  tm_ease :: easing

definition timing_end :: "timing \<Rightarrow> rat" where
  "timing_end tm = tm_delay tm + tm_dur tm"

definition timing_val :: "(easing \<Rightarrow> rat \<Rightarrow> rat) \<Rightarrow> timing \<Rightarrow> rat \<Rightarrow> rat \<Rightarrow> rat" where
  "timing_val E tm v0 t =
     (if t < tm_delay tm then v0
      else if tm_dur tm = 0 then tm_to tm
      else v0 + (tm_to tm - v0) * ease E (tm_ease tm) (min 1 ((t - tm_delay tm) / tm_dur tm)))"

fun seq_val :: "(easing \<Rightarrow> rat \<Rightarrow> rat) \<Rightarrow> timing list \<Rightarrow> rat \<Rightarrow> rat \<Rightarrow> rat" where
  "seq_val E [] v0 t = v0"
| "seq_val E (tm # tms) v0 t =
     (if t < timing_end tm then timing_val E tm v0 t else seq_val E tms (tm_to tm) (t - timing_end tm))"

definition seq_dur :: "timing list \<Rightarrow> rat" where
  "seq_dur tms = sum_list (map timing_end tms)"

text \<open>The time within the current iteration of a loop of period \<open>p\<close>.\<close>

definition rat_mod :: "rat \<Rightarrow> rat \<Rightarrow> rat" where
  "rat_mod t p = t - of_int (floor (t / p)) * p"

definition loop_val :: "(easing \<Rightarrow> rat \<Rightarrow> rat) \<Rightarrow> timing list \<Rightarrow> rat \<Rightarrow> rat \<Rightarrow> rat" where
  "loop_val E tms v0 t = seq_val E tms v0 (rat_mod t (seq_dur tms))"

subsection \<open>The animations of the sources\<close>

text \<open>A dot of the \<open>dots\<close> loader (lines 20 to 31): up to 1 in 520 ms after its
  delay, back to 0 in 520 ms, looped; the three dots have delays 0, 160 and 320.\<close>

definition dot_seq :: "rat \<Rightarrow> timing list" where
  "dot_seq dl =
     [\<lparr>tm_to = 1, tm_dur = 520, tm_delay = dl, tm_ease = EaseDefault\<rparr>,
      \<lparr>tm_to = 0, tm_dur = 520, tm_delay = 0, tm_ease = EaseDefault\<rparr>]"

definition dot_val :: "(easing \<Rightarrow> rat \<Rightarrow> rat) \<Rightarrow> nat \<Rightarrow> rat \<Rightarrow> rat" where
  "dot_val E i t = loop_val E (dot_seq (160 * of_nat i)) 0 t"

text \<open>The dot's style (lines 50 to 57): opacity and scale interpolate the value
  from \<open>[0, 1]\<close> to \<open>[0.4, 1]\<close> and \<open>[0.7, 1.15]\<close>.\<close>

definition dot_style :: "rat \<Rightarrow> rat \<times> rat" where
  "dot_style v = (4 / 10 + v * (6 / 10), 7 / 10 + v * (45 / 100))"

text \<open>The spinner (lines 41 to 45 and 69): a linear turn in 900 ms, looped.\<close>

definition spinner_seq :: "timing list" where
  "spinner_seq = [\<lparr>tm_to = 1, tm_dur = 900, tm_delay = 0, tm_ease = EaseLinear\<rparr>]"

definition spinner_angle :: "rat \<Rightarrow> rat" where
  "spinner_angle t = 360 * loop_val (\<lambda>_ x. x) spinner_seq 0 t"

text \<open>The home screen's shimmer (2200 ms up and down, lines 129 to 145), badge
  pulse (1200 ms, lines 147 to 163) and the first aurora band (7000 ms across,
  then back at once, lines 165 to 182).\<close>

definition pulse_seq :: "rat \<Rightarrow> timing list" where
  "pulse_seq d =
     [\<lparr>tm_to = 1, tm_dur = d, tm_delay = 0, tm_ease = EaseQuadInOut\<rparr>,
      \<lparr>tm_to = 0, tm_dur = d, tm_delay = 0, tm_ease = EaseQuadInOut\<rparr>]"

definition shimmer_val :: "rat \<Rightarrow> rat" where
  "shimmer_val t = loop_val (\<lambda>_ x. x) (pulse_seq 2200) 0 t"

definition badge_val :: "rat \<Rightarrow> rat" where
  "badge_val t = loop_val (\<lambda>_ x. x) (pulse_seq 1200) 0 t"

definition aurora1_seq :: "timing list" where
  "aurora1_seq =
     [\<lparr>tm_to = 420, tm_dur = 7000, tm_delay = 0, tm_ease = EaseSinInOut\<rparr>,
      \<lparr>tm_to = -160, tm_dur = 0, tm_delay = 0, tm_ease = EaseLinear\<rparr>]"

definition aurora1_val :: "(easing \<Rightarrow> rat \<Rightarrow> rat) \<Rightarrow> rat \<Rightarrow> rat" where
  "aurora1_val E t = loop_val E aurora1_seq (-160) t"

text \<open>\<open>Animated.parallel\<close> inside a loop: an iteration lasts as long as its
  longest member, a member that has finished holds its last value until then,
  and every member is reset to its starting value for the next iteration.\<close>

definition par_period :: "timing list list \<Rightarrow> rat" where
  "par_period ss = fold max (map seq_dur ss) 0"

definition par_loop_val ::
  "(easing \<Rightarrow> rat \<Rightarrow> rat) \<Rightarrow> timing list list \<Rightarrow> rat list \<Rightarrow> nat \<Rightarrow> rat \<Rightarrow> rat" where
  "par_loop_val E ss v0s i t = seq_val E (ss ! i) (v0s ! i) (rat_mod t (par_period ss))"

text \<open>The second aurora band (lines 183 to 196): from 360 across to -160 in
  7000 ms, then back at once; both bands run in one looped \<open>parallel\<close> (lines
  165 to 198), band \<open>i\<close> of \<open>aurora_val\<close>.\<close>

definition aurora2_seq :: "timing list" where
  "aurora2_seq =
     [\<lparr>tm_to = -160, tm_dur = 7000, tm_delay = 0, tm_ease = EaseSinInOut\<rparr>,
      \<lparr>tm_to = 360, tm_dur = 0, tm_delay = 0, tm_ease = EaseLinear\<rparr>]"

definition aurora_val :: "(easing \<Rightarrow> rat \<Rightarrow> rat) \<Rightarrow> nat \<Rightarrow> rat \<Rightarrow> rat" where
  "aurora_val E i t = par_loop_val E [aurora1_seq, aurora2_seq] [-160, 360] i t"

subsection \<open>Lemmas\<close>

lemma rat_mod_bounds:
  assumes "0 < p"
  shows "0 \<le> rat_mod t p \<and> rat_mod t p < p"
  using floor_divide_lower [OF assms, of t] floor_divide_upper [OF assms, of t]
  by (simp add: rat_mod_def algebra_simps)

lemma rat_mod_shift:
  assumes "0 < p"
  shows "rat_mod (t + p) p = rat_mod t p"
proof -
  have "(t + p) / p = t / p + 1" using assms by (simp add: field_simps)
  then have "floor ((t + p) / p) = floor (t / p) + 1" by simp
  then show ?thesis by (simp add: rat_mod_def algebra_simps)
qed

lemma rat_mod_small: "0 \<le> t \<Longrightarrow> t < p \<Longrightarrow> rat_mod t p = t"
  by (simp add: rat_mod_def floor_eq_iff)

text \<open>A loop repeats itself with the period of its sequence, delays included.\<close>

lemma loop_val_periodic:
  "0 < seq_dur tms \<Longrightarrow> loop_val E tms v0 (t + seq_dur tms) = loop_val E tms v0 t"
  by (simp add: loop_val_def rat_mod_shift)

lemma dot_seq_dur: "seq_dur (dot_seq dl) = dl + 1040"
  by (simp add: seq_dur_def dot_seq_def timing_end_def)

lemma dot_val_at:
  "dot_val E i t = seq_val E (dot_seq (160 * of_nat i)) 0 (rat_mod t (160 * of_nat i + 1040))"
  by (simp add: dot_val_def loop_val_def dot_seq_dur)

text \<open>The dots are meant as a wave, each 160 ms behind the previous one. They
  are during the first cycle, but the delay is part of every iteration, so the
  periods are 1040, 1200 and 1360 ms and the dots drift apart: 1360 ms in, the
  second dot is not where the first one was 160 ms before.\<close>

lemma dots_wave_breaks:
  assumes "E EaseDefault 0 = 0" "0 < E EaseDefault (4 / 13)"
  shows "dot_val E 1 320 = dot_val E 0 160 \<and> dot_val E 1 1360 \<noteq> dot_val E 0 1200"
proof -
  have m: "rat_mod 160 1040 = 160" "rat_mod 320 1200 = 320" "rat_mod 1360 1200 = 160" "rat_mod 1200 1040 = 160"
    by (simp_all add: rat_mod_def floor_eq_iff)
  have v: "dot_val E 0 160 = E EaseDefault (4 / 13)" "dot_val E 1 320 = E EaseDefault (4 / 13)"
          "dot_val E 1 1360 = E EaseDefault 0" "dot_val E 0 1200 = E EaseDefault (4 / 13)"
    by (simp_all add: dot_val_at m dot_seq_def timing_end_def timing_val_def ease_def)
  show ?thesis unfolding v using assms by simp
qed

lemma spinner_angle_eq: "spinner_angle t = rat_mod t 900 * 2 / 5"
proof -
  have "0 \<le> rat_mod t 900 \<and> rat_mod t 900 < 900" by (rule rat_mod_bounds) simp
  then show ?thesis
    by (simp add: spinner_angle_def loop_val_def seq_dur_def spinner_seq_def timing_end_def timing_val_def ease_def)
qed


lemma convex_between:
  fixes a b e lo hi :: rat
  assumes "0 \<le> e" "e \<le> 1" "lo \<le> a" "a \<le> hi" "lo \<le> b" "b \<le> hi"
  shows "lo \<le> a + (b - a) * e \<and> a + (b - a) * e \<le> hi"
proof -
  have eq: "a + (b - a) * e = (1 - e) * a + e * b" by (simp add: algebra_simps)
  have "(1 - e) * lo \<le> (1 - e) * a" "e * lo \<le> e * b" "(1 - e) * a \<le> (1 - e) * hi" "e * b \<le> e * hi"
    using assms by (simp_all add: mult_left_mono)
  then have "(1 - e) * lo + e * lo \<le> (1 - e) * a + e * b" "(1 - e) * a + e * b \<le> (1 - e) * hi + e * hi"
    by (simp_all add: add_mono)
  then show ?thesis by (simp add: eq algebra_simps)
qed

lemma timing_val_between:
  assumes "\<forall>x. 0 \<le> x \<longrightarrow> x \<le> 1 \<longrightarrow> 0 \<le> ease E (tm_ease tm) x \<and> ease E (tm_ease tm) x \<le> 1"
    and "0 \<le> tm_dur tm" "lo \<le> v0" "v0 \<le> hi" "lo \<le> tm_to tm" "tm_to tm \<le> hi"
  shows "lo \<le> timing_val E tm v0 t \<and> timing_val E tm v0 t \<le> hi"
proof (cases "t < tm_delay tm \<or> tm_dur tm = 0")
  case True
  then show ?thesis using assms by (auto simp: timing_val_def)
next
  case False
  let ?x = "min 1 ((t - tm_delay tm) / tm_dur tm)"
  have "0 \<le> ?x" "?x \<le> 1" using False assms(2) by simp_all
  then have "0 \<le> ease E (tm_ease tm) ?x" "ease E (tm_ease tm) ?x \<le> 1" using assms(1) by blast+
  then show ?thesis
    using False convex_between [OF _ _ assms(3-6)] by (simp add: timing_val_def)
qed

lemma seq_val_between:
  assumes "\<forall>tm \<in> set tms. (\<forall>x. 0 \<le> x \<longrightarrow> x \<le> 1 \<longrightarrow> 0 \<le> ease E (tm_ease tm) x \<and> ease E (tm_ease tm) x \<le> 1)
             \<and> 0 \<le> tm_dur tm \<and> lo \<le> tm_to tm \<and> tm_to tm \<le> hi"
    and "lo \<le> v0" "v0 \<le> hi"
  shows "lo \<le> seq_val E tms v0 t \<and> seq_val E tms v0 t \<le> hi"
  using assms
proof (induction tms arbitrary: v0 t)
  case Nil
  then show ?case by simp
next
  case (Cons tm tms)
  then show ?case using timing_val_between [of E tm lo v0 hi t] by auto
qed


lemma ease_default [simp]: "ease E EaseDefault x = E EaseDefault x"
  by (simp add: ease_def)

text \<open>With an easing that stays within \<open>[0, 1]\<close>, a dot's opacity stays within
  \<open>[0.4, 1]\<close> and its scale within \<open>[0.7, 1.15]\<close>.\<close>

lemma dot_style_bounds:
  assumes "\<forall>x. 0 \<le> x \<longrightarrow> x \<le> 1 \<longrightarrow> 0 \<le> E EaseDefault x \<and> E EaseDefault x \<le> 1"
  shows "4 / 10 \<le> fst (dot_style (dot_val E i t)) \<and> fst (dot_style (dot_val E i t)) \<le> 1
       \<and> 7 / 10 \<le> snd (dot_style (dot_val E i t)) \<and> snd (dot_style (dot_val E i t)) \<le> 115 / 100"
proof -
  have "0 \<le> dot_val E i t \<and> dot_val E i t \<le> 1"
    unfolding dot_val_def loop_val_def
    by (rule seq_val_between) (use assms in \<open>auto simp: dot_seq_def\<close>)
  then show ?thesis by (simp add: dot_style_def)
qed

lemma ease_quad_bounds:
  assumes "0 \<le> x" "x \<le> 1"
  shows "0 \<le> ease E EaseQuadInOut x \<and> ease E EaseQuadInOut x \<le> 1"
proof (cases "x < 1 / 2")
  case True
  then have "x * x \<le> 1 / 2 * (1 / 2)" using assms by (intro mult_mono) simp_all
  moreover have "0 \<le> x * x" by simp
  moreover have "2 * x * x = 2 * (x * x)" by (simp add: mult.assoc)
  ultimately show ?thesis using True by (simp add: ease_def)
next
  case False
  define y where "y = (1 - x) * (1 - x)"
  have "y \<le> 1 / 2 * (1 / 2)" unfolding y_def using False assms by (intro mult_mono) simp_all
  moreover have "0 \<le> y" by (simp add: y_def)
  moreover have "ease E EaseQuadInOut x = 1 - 2 * y" using False by (simp add: ease_def y_def mult.assoc)
  ultimately show ?thesis by simp
qed

text \<open>The shimmer and the badge pulse stay within \<open>[0, 1]\<close>, which their
  interpolations expect.\<close>

lemma pulse_bounds:
  "0 \<le> d \<Longrightarrow> 0 \<le> loop_val E (pulse_seq d) 0 t \<and> loop_val E (pulse_seq d) 0 t \<le> 1"
  unfolding loop_val_def
  by (rule seq_val_between) (auto simp: pulse_seq_def ease_quad_bounds)

text \<open>The aurora band is back at -160 at the start of every 7-second period,
  after crossing to 420.\<close>

lemma aurora1_restarts:
  assumes "E EaseSinInOut 0 = 0"
  shows "aurora1_val E (of_nat k * 7000) = -160"
proof -
  have "rat_mod (of_nat k * 7000) 7000 = 0" by (simp add: rat_mod_def)
  then show ?thesis
    using assms by (simp add: aurora1_val_def loop_val_def seq_dur_def aurora1_seq_def timing_end_def
        timing_val_def ease_def)
qed

text \<open>The two bands have the same period, so the parallel loop moves each band
  as its own loop would; both are back at their starting values at the start
  of every period.\<close>

lemma aurora_period: "par_period [aurora1_seq, aurora2_seq] = 7000"
  by (simp add: par_period_def seq_dur_def aurora1_seq_def aurora2_seq_def timing_end_def)

lemma aurora_band1: "aurora_val E 0 t = aurora1_val E t"
proof -
  have "seq_dur aurora1_seq = 7000" by (simp add: seq_dur_def aurora1_seq_def timing_end_def)
  then show ?thesis by (simp add: aurora_val_def par_loop_val_def aurora1_val_def loop_val_def aurora_period)
qed

lemma aurora_restart:
  assumes "E EaseSinInOut 0 = 0"
  shows "aurora_val E 0 (of_nat k * 7000) = -160 \<and> aurora_val E 1 (of_nat k * 7000) = 360"
proof -
  have "rat_mod (of_nat k * 7000) 7000 = 0" by (simp add: rat_mod_def)
  then show ?thesis unfolding aurora_val_def par_loop_val_def aurora_period
    using assms by (simp add: aurora1_seq_def aurora2_seq_def timing_end_def timing_val_def ease_def)
qed

lemma ease_out_quad_bounds:
  assumes "0 \<le> x" "x \<le> 1"
  shows "0 \<le> ease E EaseOutQuad x \<and> ease E EaseOutQuad x \<le> 1"
proof -
  have "(1 - x) * (1 - x) \<le> 1 * 1" using assms by (intro mult_mono) simp_all
  moreover have "0 \<le> (1 - x) * (1 - x)" by simp
  ultimately show ?thesis by (simp add: ease_def)
qed

end
