(* ===== verification/Tab_Bar.thy ===== *)
theory Tab_Bar
  imports Js_Values Animation
begin

text \<open>
  The tab bar \<open>src/components/ui/GlassTabBar.tsx\<close>: the colours of the active
  and inactive tabs, the label and padding of each tab, the press handler, and
  the target of the sliding indicator computed from the measured layouts of the
  active tab (or from estimates when a layout has not been measured yet).
  Lengths are exact rationals. The timed animations (the indicator's size, the
  blob, a tab losing focus) are in the semantics of \<open>Animation\<close>; the springs
  (the indicator's position, a tab gaining focus) only by their targets.
\<close>

record tab_options =
  to_label :: "string option"
  to_title :: "string option"
  to_active_tint :: "string option"
  to_inactive_tint :: "string option"

record tab_route =
  tr_key :: string
  tr_name :: string
  tr_options :: tab_options

text \<open>Lines 11 and 12: the tints of the active route's options, with the theme's
  defaults.\<close>

definition active_color :: "bool \<Rightarrow> tab_options \<Rightarrow> string" where
  "active_color dark o1 =
     (case to_active_tint o1 of Some c \<Rightarrow> c | None \<Rightarrow> if dark then ''#7AE584'' else ''#2E7D32'')"

definition inactive_color :: "tab_options \<Rightarrow> string" where
  "inactive_color o1 = (case to_inactive_tint o1 of Some c \<Rightarrow> c | None \<Rightarrow> ''#8A8A9E'')"

record box =
  bx_x :: rat
  bx_y :: rat
  bx_w :: rat
  bx_h :: rat

text \<open>The indicator effect (lines 53 to 77): the centre of the active tab's
  content, from its measured item and content boxes when both exist and from the
  estimate of a 360-wide row otherwise, and a size clamped to \<open>[44, 64]\<close>;
  the result is (left, top, size).\<close>

definition indicator_target :: "nat \<Rightarrow> nat \<Rightarrow> box option \<Rightarrow> box option \<Rightarrow> rat \<times> rat \<times> rat" where
  "indicator_target cnt idx item content =
     (let iw = 360 / of_nat (max 1 cnt);
          fw = max 80 (min (iw - 20) 160);
          fh = 48;
          (cx, cy) = (case (item, content) of
                        (Some i, Some c) \<Rightarrow> (bx_x i + bx_x c + bx_w c / 2 + 6, bx_y i + bx_y c + bx_h c / 2)
                      | _ \<Rightarrow> (16 + of_nat idx * iw + iw / 2, 39));
          base = (case content of Some c \<Rightarrow> max (bx_h c) (min (bx_w c) 48) | None \<Rightarrow> max fh (min fw 48));
          sz = max 44 (min (base + 16) 64)
      in (cx - sz / 2, cy - sz / 2, sz))"

text \<open>\<open>onPress\<close> of a tab (lines 99 to 104): the \<open>tabPress\<close> event is emitted, and
  unless the tab is already focused or a listener prevented the default, the
  navigator goes to the route.\<close>

definition tab_press :: "nat \<Rightarrow> nat \<Rightarrow> bool \<Rightarrow> tab_route \<Rightarrow> string option" where
  "tab_press active i prevented r = (if i \<noteq> active \<and> \<not> prevented then Some (tr_name r) else None)"

record tab_view =
  tv_label :: string
  tv_color :: string
  tv_pad_h :: nat
  tv_pad_v :: nat
  tv_selected :: bool

text \<open>One tab of the row (lines 92 to 151): \<open>tabBarLabel ?? title ?? route.name\<close>
  (a label given as a render function is not modelled).\<close>

definition tab_view_of :: "bool \<Rightarrow> tab_options \<Rightarrow> nat \<Rightarrow> nat \<times> tab_route \<Rightarrow> tab_view" where
  "tab_view_of dark act active ir =
     (let i = fst ir; r = snd ir; o1 = tr_options r; focused = (active = i)
      in \<lparr>tv_label = (case to_label o1 of Some l \<Rightarrow> l
                      | None \<Rightarrow> (case to_title o1 of Some t \<Rightarrow> t | None \<Rightarrow> tr_name r)),
          tv_color = (if focused then active_color dark act else inactive_color act),
          tv_pad_h = (if focused then 22 else 16), tv_pad_v = (if focused then 14 else 8),
          tv_selected = focused\<rparr>)"

definition tab_bar :: "bool \<Rightarrow> tab_route list \<Rightarrow> nat \<Rightarrow> tab_view list" where
  "tab_bar dark rs active =
     map (tab_view_of dark (tr_options (rs ! active)) active) (enumerate 0 rs)"

text \<open>The routes the tab layout \<open>src/app/(tabs)/_layout.tsx\<close> gives the bar
  (lines 22 to 73): the screens \<open>index\<close>, \<open>novels\<close> and \<open>menu\<close> titled Home, Novels
  and Menu, with the active tint of the colour scheme and the inactive tint of
  the screen options; the route keys of the navigation state are taken to be
  the names.\<close>

definition tab_layout :: "bool \<Rightarrow> tab_route list" where
  "tab_layout dark =
     map (\<lambda>(n, t). \<lparr>tr_key = n, tr_name = n,
                     tr_options = \<lparr>to_label = None, to_title = Some t,
                                   to_active_tint = Some (if dark then ''#7AE584'' else ''#2E7D32''),
                                   to_inactive_tint = Some ''#8A8A9E''\<rparr>\<rparr>)
       [(''index'', ''Home''), (''novels'', ''Novels''), (''menu'', ''Menu'')]"

text \<open>The indicator's size after an index change (lines 72 to 75): up to 110
  percent of the target in 140 ms, then to the target in 220 ms, from wherever
  the previous change left it. A run is the list of the targets of successive
  changes with the time each ran before the next one.\<close>

definition size_seq :: "rat \<Rightarrow> timing list" where
  "size_seq sz =
     [\<lparr>tm_to = sz * 11 / 10, tm_dur = 140, tm_delay = 0, tm_ease = EaseOutQuad\<rparr>,
      \<lparr>tm_to = sz, tm_dur = 220, tm_delay = 0, tm_ease = EaseQuadInOut\<rparr>]"

fun size_run :: "(easing \<Rightarrow> rat \<Rightarrow> rat) \<Rightarrow> rat \<Rightarrow> (rat \<times> rat) list \<Rightarrow> rat" where
  "size_run E v [] = v"
| "size_run E v ((sz, dt) # rest) = size_run E (seq_val E (size_seq sz) v dt) rest"

text \<open>The blob inside the indicator (lines 31 to 39 and 87): 1800 ms each way
  along \<open>Easing.inOut(Easing.sin)\<close>, looped, drawn as a shift of \<open>[-18, 18]\<close>.\<close>

definition blob_seq :: "timing list" where
  "blob_seq =
     [\<lparr>tm_to = 1, tm_dur = 1800, tm_delay = 0, tm_ease = EaseSinInOut\<rparr>,
      \<lparr>tm_to = 0, tm_dur = 1800, tm_delay = 0, tm_ease = EaseSinInOut\<rparr>]"

definition blob_offset :: "(easing \<Rightarrow> rat \<Rightarrow> rat) \<Rightarrow> rat \<Rightarrow> rat" where
  "blob_offset E t = -18 + 36 * loop_val E blob_seq 0 t"

text \<open>A tab's focus value (lines 23 to 29 and 41 to 51) goes to 1 for the
  focused tab and to 0 for the others; its content is drawn with the scale,
  the vertical shift and the opacity interpolated from it (lines 111 to 113
  and 137).\<close>

definition focus_targets :: "nat \<Rightarrow> nat \<Rightarrow> rat list" where
  "focus_targets n idx = map (\<lambda>i. if i = idx then 1 else 0) [0..<n]"

definition focus_style :: "rat \<Rightarrow> rat \<times> rat \<times> rat" where
  "focus_style v = (9 / 10 + v * (15 / 100), 6 - 6 * v, 6 / 10 + v * (4 / 10))"

subsection \<open>Lemmas\<close>

text \<open>
  The indicator is always between 44 and 64 wide and centred on the point it
  aims at, whatever has been measured.
\<close>

lemma indicator_target_bounds:
  "44 \<le> snd (snd (indicator_target cnt idx item content))
   \<and> snd (snd (indicator_target cnt idx item content)) \<le> 64"
  by (simp add: indicator_target_def Let_def split_def split: option.splits prod.splits)

lemma tab_press_focused: "tab_press i i p r = None"
  by (simp add: tab_press_def)

lemma tab_bar_one_selected:
  "active < length rs \<Longrightarrow> filter tv_selected (tab_bar dark rs active) = [tab_bar dark rs active ! active]"
proof -
  assume a: "active < length rs"
  have "filter tv_selected (tab_bar dark rs active)
        = map (tab_view_of dark (tr_options (rs ! active)) active) (filter (\<lambda>ir. active = fst ir) (enumerate 0 rs))"
    by (simp add: tab_bar_def filter_map comp_def tab_view_of_def Let_def)
  also have "filter (\<lambda>ir. active = fst ir) (enumerate 0 rs) = [(active, rs ! active)]"
    using a by (induction rs rule: rev_induct) (auto simp: enumerate_append_eq nth_append filter_empty_conv in_set_enumerate_eq)
  finally show ?thesis using a by (simp add: tab_bar_def nth_enumerate_eq)
qed

text \<open>Under the tab layout the bar shows the three titles, the active one in
  the scheme's active tint and the others in the inactive tint: the tints the
  layout passes are the bar's own defaults, so the bar looks the same without
  them.\<close>

lemma tab_layout_bar:
  assumes "a < 3"
  shows "map tv_label (tab_bar dark (tab_layout dark) a) = [''Home'', ''Novels'', ''Menu'']
    \<and> map tv_color (tab_bar dark (tab_layout dark) a)
        = map (\<lambda>i. if i = a then (if dark then ''#7AE584'' else ''#2E7D32'') else ''#8A8A9E'') [0..<3]
    \<and> active_color dark (tr_options (tab_layout dark ! a)) = active_color dark ((tr_options (tab_layout dark ! a))\<lparr>to_active_tint := None\<rparr>)
    \<and> inactive_color (tr_options (tab_layout dark ! a)) = inactive_color ((tr_options (tab_layout dark ! a))\<lparr>to_inactive_tint := None\<rparr>)"
  using assms
  by (auto simp: tab_bar_def tab_layout_def tab_view_of_def active_color_def inactive_color_def
      less_Suc_eq numeral_3_eq_3 upt_rec)

text \<open>Whatever the order and timing of the index changes, with targets from
  \<open>indicator_target\<close> (between 44 and 64) the indicator's size stays between 44
  and 70.4 once it has started there (it starts at 56).\<close>

lemma size_seq_step:
  assumes "44 \<le> sz" "sz \<le> 64" "44 \<le> v" "v \<le> 352 / 5"
  shows "44 \<le> seq_val E (size_seq sz) v t \<and> seq_val E (size_seq sz) v t \<le> 352 / 5"
  by (rule seq_val_between)
     (use assms in \<open>auto simp: size_seq_def ease_out_quad_bounds ease_quad_bounds\<close>)

lemma size_run_bounds:
  assumes "\<forall>p \<in> set xs. 44 \<le> fst p \<and> fst p \<le> 64" "44 \<le> v" "v \<le> 352 / 5"
  shows "44 \<le> size_run E v xs \<and> size_run E v xs \<le> 352 / 5"
  using assms
proof (induction xs arbitrary: v)
  case Nil
  then show ?case by simp
next
  case (Cons p xs)
  obtain sz dt where p: "p = (sz, dt)" by fastforce
  have "44 \<le> seq_val E (size_seq sz) v dt \<and> seq_val E (size_seq sz) v dt \<le> 352 / 5"
    using Cons.prems p by (intro size_seq_step) auto
  then show ?case using Cons p by simp
qed

lemma indicator_size_bounded:
  assumes "44 \<le> v" "v \<le> 352 / 5"
  shows "44 \<le> size_run E v (map (\<lambda>(c, i, it, ct, dt). (snd (snd (indicator_target c i it ct)), dt)) chs)
       \<and> size_run E v (map (\<lambda>(c, i, it, ct, dt). (snd (snd (indicator_target c i it ct)), dt)) chs) \<le> 352 / 5"
  by (rule size_run_bounds) (use assms indicator_target_bounds in auto)

text \<open>The change settles on its target: 360 ms after it, the size is the
  target, whatever it was before.\<close>

lemma size_seq_settles:
  assumes "360 \<le> t"
  shows "seq_val E (size_seq sz) v t = sz"
  using assms by (simp add: size_seq_def timing_end_def)

lemma blob_offset_bounds:
  assumes "\<forall>x. 0 \<le> x \<longrightarrow> x \<le> 1 \<longrightarrow> 0 \<le> E EaseSinInOut x \<and> E EaseSinInOut x \<le> 1"
  shows "-18 \<le> blob_offset E t \<and> blob_offset E t \<le> 18"
proof -
  have "0 \<le> loop_val E blob_seq 0 t \<and> loop_val E blob_seq 0 t \<le> 1"
    unfolding loop_val_def
    by (rule seq_val_between) (use assms in \<open>auto simp: blob_seq_def ease_def\<close>)
  then show ?thesis by (simp add: blob_offset_def)
qed

text \<open>At rest the focused tab is drawn at scale 1.05, unshifted and opaque, the
  others at 0.9, 6 lower and at opacity 0.6.\<close>

lemma focus_style_rest:
  "map focus_style (focus_targets n idx)
     = map (\<lambda>i. if i = idx then (21 / 20, 0, 1) else (9 / 10, 6, 6 / 10)) [0..<n]"
  by (simp add: focus_targets_def focus_style_def)

end
