(* ===== verification/Calculator.thy ===== *)
theory Calculator
  imports Main
begin

text \<open>
  The calculator modal \<open>src/components/Calculator.tsx\<close>. Its \<open>=\<close> key passes
  the typed string to JavaScript's \<open>eval\<close>; the evaluator is a parameter
  \<open>ev\<close> of the model, giving the printed result (\<open>String(res)\<close>) or \<open>None\<close>
  when \<open>eval\<close> throws. Every other key is modelled as the code handles it.
\<close>

record calc_state =
  cs_input :: string
  cs_result :: string

definition calc_init :: calc_state where
  "calc_init = \<lparr>cs_input = [], cs_result = []\<rparr>"

text \<open>The keypad, row by row (lines 43 to 49).\<close>

definition calc_buttons :: "string list list" where
  "calc_buttons =
     [[''C'', ''DEL'', ''%'', ''/''], [''7'', ''8'', ''9'', ''*''], [''4'', ''5'', ''6'', ''-''],
      [''1'', ''2'', ''3'', ''+''], [''.'', ''0'', ''00'', ''='']]"

text \<open>\<open>handlePress\<close> (lines 22 to 41); \<open>prev.slice(0, -1)\<close> drops the last
  character, and leaves the empty string empty.\<close>

definition handle_press :: "(string \<Rightarrow> string option) \<Rightarrow> string \<Rightarrow> calc_state \<Rightarrow> calc_state" where
  "handle_press ev v st =
     (if v = ''='' then (case ev (cs_input st) of Some r \<Rightarrow> \<lparr>cs_input = r, cs_result = r\<rparr>
                         | None \<Rightarrow> st\<lparr>cs_result := ''Error''\<rparr>)
      else if v = ''C'' then \<lparr>cs_input = [], cs_result = []\<rparr>
      else if v = ''DEL'' then st\<lparr>cs_input := butlast (cs_input st)\<rparr>
      else st\<lparr>cs_input := cs_input st @ v\<rparr>)"

record calc_view =
  cv_display :: string
  cv_result :: "string option"

text \<open>The display (lines 66 to 71): the input or \<open>"0"\<close>, and the result when it is
  not empty and differs from the input.\<close>

definition calc_render :: "calc_state \<Rightarrow> calc_view" where
  "calc_render st =
     \<lparr>cv_display = (if cs_input st = [] then ''0'' else cs_input st),
      cv_result = (if cs_result st \<noteq> [] \<and> cs_result st \<noteq> cs_input st then Some (cs_result st) else None)\<rparr>"

subsection \<open>Lemmas\<close>

lemma press_del_undoes_key:
  "v \<in> set (concat calc_buttons) \<Longrightarrow> length v = 1 \<Longrightarrow> v \<notin> {''C'', ''='', ''DEL''} \<Longrightarrow>
   handle_press ev ''DEL'' (handle_press ev v st) = st"
  by (auto simp: handle_press_def length_Suc_conv)

lemma press_error_keeps_input:
  "ev (cs_input st) = None \<Longrightarrow>
   calc_render (handle_press ev ''='' st)
     = \<lparr>cv_display = (if cs_input st = [] then ''0'' else cs_input st),
        cv_result = (if cs_input st = ''Error'' then None else Some ''Error'')\<rparr>"
  by (simp add: handle_press_def calc_render_def)

text \<open>The key \<open>00\<close> types two characters while \<open>DEL\<close> removes one.\<close>

lemma press_00_del: "handle_press ev ''DEL'' (handle_press ev ''00'' st) = st\<lparr>cs_input := cs_input st @ ''0''\<rparr>"
  by (simp add: handle_press_def butlast_append)

end
