(* ===== verification/Auth_Forms.thy ===== *)
theory Auth_Forms
  imports Account
begin

text \<open>
  The authentication forms of \<open>src/app/auth/\<close> (login, sign-up, forgotten and
  reset password, change password), the profile form
  \<open>src/components/screens/EditProfileScreen.tsx\<close>, and the shared fields
  \<open>src/components/auth/PasswordField.tsx\<close> and
  \<open>src/components/auth/StrengthMeter.tsx\<close>. The validators of
  \<open>@/utils/validation\<close> are not part of \<open>src/\<close>: they are the parameter
  \<open>validators\<close>. Each form's submit handler is split at its \<open>await\<close>: the press
  sets \<open>loading\<close>, and the settling of the request, with the outcome the
  environment chooses, gives the alerts and the navigation. A rejection carries
  the \<open>error\<close> and \<open>message\<close> fields of the error object. Through one interface,
  \<open>form_ops\<close>, every form is also a request controller (\<open>form_step\<close>), whose
  invariant is proved once and discharged for the six forms.
\<close>

datatype pw_strength = Weak | Medium | Strong

record validators =
  v_is_email :: "string \<Rightarrow> bool"
  v_pw_valid :: "string \<Rightarrow> bool"
  v_strength :: "string \<Rightarrow> pw_strength"

datatype api_result = ApiOk | ApiErr "string option" "string option"

text \<open>\<open>err?.error || fallback\<close> and \<open>err?.error || err?.message || fallback\<close>.\<close>

definition err_text :: "string option \<Rightarrow> string \<Rightarrow> string" where
  "err_text c dflt = (case c of Some m \<Rightarrow> if m \<noteq> [] then m else dflt | None \<Rightarrow> dflt)"

definition err_text2 :: "string option \<Rightarrow> string option \<Rightarrow> string \<Rightarrow> string" where
  "err_text2 c m dflt = err_text c (err_text m dflt)"

subsection \<open>Fields\<close>

text \<open>\<open>StrengthMeter\<close>: colour, label and width of the bar.\<close>

definition strength_meter :: "pw_strength \<Rightarrow> string \<times> string \<times> string" where
  "strength_meter s =
     (case s of Weak \<Rightarrow> (''#d9534f'', ''Weak'', ''33%'') | Medium \<Rightarrow> (''#f0ad4e'', ''Medium'', ''66%'')
      | Strong \<Rightarrow> (''#5cb85c'', ''Strong'', ''100%''))"

text \<open>The \<open>valid\<close> and \<open>error\<close> props the forms give a field:
  \<open>valid={v ? ok : undefined}\<close> and \<open>error={v && !ok ? msg : undefined}\<close>.\<close>

definition field_feedback :: "string \<Rightarrow> bool \<Rightarrow> string \<Rightarrow> bool option \<times> string option" where
  "field_feedback v ok msg = (if v = [] then (None, None) else (Some ok, if ok then None else Some msg))"

record pw_field_view =
  pf_label :: string
  pf_secure :: bool
  pf_toggle :: string
  pf_border :: string
  pf_error :: "string option"

text \<open>\<open>PasswordField\<close> (lines 23 to 69) with its own \<open>visible\<close> and \<open>isFocused\<close>
  state: the border is the valid or invalid style, else the focused one.\<close>

definition pw_field :: "string \<Rightarrow> bool \<Rightarrow> bool \<Rightarrow> bool option \<Rightarrow> string option \<Rightarrow> pw_field_view" where
  "pw_field label visible focused valid err =
     \<lparr>pf_label = label, pf_secure = (\<not> visible), pf_toggle = (if visible then ''Hide'' else ''Show''),
      pf_border = (case valid of Some True \<Rightarrow> ''valid'' | Some False \<Rightarrow> ''invalid''
                   | None \<Rightarrow> if focused then ''focused'' else ''plain''),
      pf_error = (case err of Some e \<Rightarrow> if e \<noteq> [] then Some e else None | None \<Rightarrow> None)\<rparr>"

subsection \<open>Login\<close>

record login_form =
  lg_identifier :: string
  lg_password :: string
  lg_loading :: bool

definition login_can_submit :: "validators \<Rightarrow> login_form \<Rightarrow> bool" where
  "login_can_submit vs f \<longleftrightarrow> \<not> lg_loading f \<and> v_is_email vs (lg_identifier f) \<and> 8 \<le> length (lg_password f)"

text \<open>\<open>onSubmit\<close> of \<open>src/app/auth/login.tsx\<close> after \<open>AuthApi.login\<close> settles.\<close>

definition login_done :: "api_result \<Rightarrow> login_form \<Rightarrow> login_form \<times> ui_effect list" where
  "login_done r f =
     (f\<lparr>lg_loading := False\<rparr>,
      case r of ApiOk \<Rightarrow> [EAlert ''Success'' ''Logged in successfully'', EReplace ''/(tabs)'']
      | ApiErr c m \<Rightarrow> [EAlert ''Login failed'' (err_text2 c m ''Unexpected error occurred'')])"

definition login_feedback :: "validators \<Rightarrow> login_form \<Rightarrow> (bool option \<times> string option) \<times> (bool option \<times> string option)" where
  "login_feedback vs f =
     (field_feedback (lg_identifier f) (v_is_email vs (lg_identifier f)) ''Invalid email format'',
      field_feedback (lg_password f) (8 \<le> length (lg_password f)) ''Minimum 8 characters'')"

subsection \<open>Sign-up\<close>

record signup_form =
  su_first :: string
  su_last :: string
  su_email :: string
  su_password :: string
  su_confirm :: string
  su_loading :: bool

definition name_valid :: "string \<Rightarrow> bool" where
  "name_valid n \<longleftrightarrow> 2 \<le> length (js_trim n) \<and> length (js_trim n) \<le> 30"

definition signup_can_submit :: "validators \<Rightarrow> signup_form \<Rightarrow> bool" where
  "signup_can_submit vs f \<longleftrightarrow>
     \<not> su_loading f \<and> v_is_email vs (su_email f) \<and> v_pw_valid vs (su_password f)
     \<and> su_confirm f \<noteq> [] \<and> su_password f = su_confirm f \<and> name_valid (su_first f) \<and> name_valid (su_last f)"

text \<open>The body of \<open>AuthApi.signup\<close>: the fields as typed.\<close>

definition signup_payload :: "signup_form \<Rightarrow> (string \<times> string) list" where
  "signup_payload f =
     [(''firstName'', su_first f), (''lastName'', su_last f), (''email'', su_email f), (''password'', su_password f)]"

definition signup_done :: "api_result \<Rightarrow> signup_form \<Rightarrow> signup_form \<times> ui_effect list" where
  "signup_done r f =
     (f\<lparr>su_loading := False\<rparr>,
      case r of ApiOk \<Rightarrow> [EAlert ''Success'' ''Account created'', EReplace ''/(tabs)'']
      | ApiErr c m \<Rightarrow> [EAlert ''Signup failed'' (err_text c ''Unexpected error'')])"

subsection \<open>Forgotten and reset password\<close>

definition forgot_done :: "api_result \<Rightarrow> ui_effect list" where
  "forgot_done r =
     (case r of ApiOk \<Rightarrow> [EAlert ''Check your email'' ''If an account exists, a reset email was sent'',
                          ENav (Push ''/auth/login'' [])]
      | ApiErr c m \<Rightarrow> [EAlert ''Error'' (err_text c ''Unexpected error'')])"

record reset_form =
  rs_email :: string
  rs_token :: string
  rs_password :: string
  rs_confirm :: string
  rs_loading :: bool

text \<open>The initial fields from the link's parameters (\<open>params.email || ''\<close>).\<close>

definition reset_init :: "string option \<Rightarrow> string option \<Rightarrow> reset_form" where
  "reset_init e t =
     \<lparr>rs_email = (case e of Some x \<Rightarrow> x | None \<Rightarrow> []), rs_token = (case t of Some x \<Rightarrow> x | None \<Rightarrow> []),
      rs_password = [], rs_confirm = [], rs_loading = False\<rparr>"

definition reset_can_submit :: "validators \<Rightarrow> reset_form \<Rightarrow> bool" where
  "reset_can_submit vs f \<longleftrightarrow>
     \<not> rs_loading f \<and> v_pw_valid vs (rs_password f) \<and> rs_confirm f \<noteq> [] \<and> rs_confirm f = rs_password f"

text \<open>\<open>Token: {token ? token.slice(0, 6) + '...' : ''}\<close>.\<close>

definition token_preview :: "string \<Rightarrow> string" where
  "token_preview t = (if t = [] then [] else take 6 t @ ''...'')"

definition reset_done :: "api_result \<Rightarrow> ui_effect list" where
  "reset_done r =
     (case r of ApiOk \<Rightarrow> [EAlert ''Success'' ''Password updated'', ENav (Push ''/auth/login'' [])]
      | ApiErr c m \<Rightarrow> [EAlert ''Error'' (err_text c ''Unexpected error'')])"

subsection \<open>Change password\<close>

record change_form =
  cp_old :: string
  cp_next :: string
  cp_confirm :: string
  cp_loading :: bool

definition change_can_submit :: "validators \<Rightarrow> change_form \<Rightarrow> bool" where
  "change_can_submit vs f \<longleftrightarrow>
     cp_old f \<noteq> [] \<and> v_pw_valid vs (cp_next f) \<and> cp_confirm f \<noteq> [] \<and> cp_confirm f = cp_next f
     \<and> \<not> cp_loading f"

text \<open>The synchronous part of \<open>onSubmit\<close> (lines 44 to 62): nothing when it
  cannot submit, an alert without a token or when the new password equals the
  current one, otherwise \<open>loading\<close> and the request (\<open>True\<close>).\<close>

definition change_submit :: "validators \<Rightarrow> bool \<Rightarrow> change_form \<Rightarrow> (change_form \<times> ui_effect list) \<times> bool" where
  "change_submit vs tok f =
     (if \<not> change_can_submit vs f then ((f, []), False)
      else if \<not> tok then ((f, [EAlert ''Not authenticated'' ''Please login again.'']), False)
      else if cp_next f = cp_old f
        then ((f, [EAlert ''Invalid password'' ''New password must be different from current.'']), False)
      else ((f\<lparr>cp_loading := True\<rparr>, []), True))"

definition change_error_message :: "string option \<Rightarrow> string option \<Rightarrow> string" where
  "change_error_message c m =
     (if c = Some ''INVALID_CREDENTIALS'' then ''Current password is incorrect.''
      else if c = Some ''INVALID_INPUT'' then ''Invalid password input.''
      else if c = Some ''NOT_FOUND'' then ''Account not found.''
      else if c = Some ''UNAUTHORIZED'' then ''Session expired. Please login again.''
      else if c = Some ''INVALID_TOKEN'' then ''Invalid session. Please login again.''
      else ''Failed to update password: '' @ err_text2 c m ''Unknown error'')"

definition change_done :: "api_result \<Rightarrow> change_form \<Rightarrow> change_form \<times> ui_effect list" where
  "change_done r f =
     (f\<lparr>cp_loading := False\<rparr>,
      case r of ApiOk \<Rightarrow> [EAlert ''Success'' ''Password updated successfully.'', ENav GoBack]
      | ApiErr c m \<Rightarrow> [EAlert ''Error'' (change_error_message c m)])"

text \<open>The three fields as rendered (lines 118 to 151).\<close>

definition change_fields :: "validators \<Rightarrow> change_form \<Rightarrow> (bool option \<times> string option) list" where
  "change_fields vs f =
     [(Some (cp_old f \<noteq> []), None),
      (if cp_next f = [] then None else Some (v_pw_valid vs (cp_next f) \<and> cp_next f \<noteq> cp_old f),
       if cp_next f \<noteq> [] \<and> cp_next f = cp_old f then Some ''New password must be different from current'' else None),
      (if cp_confirm f = [] then None else Some (cp_confirm f \<noteq> [] \<and> cp_confirm f = cp_next f),
       if cp_confirm f \<noteq> [] \<and> \<not> (cp_confirm f = cp_next f) then Some ''Passwords do not match'' else None)]"

subsection \<open>The profile form\<close>

record profile_user =
  pu_name :: "string option"
  pu_first :: "string option"
  pu_last :: "string option"
  pu_email :: "string option"
  pu_phone :: "string option"

record profile_form =
  pr_first :: string
  pr_last :: string
  pr_email :: string
  pr_phone :: string
  pr_loading :: bool

text \<open>The initial fields (lines 12 to 20): the stored first and last names, or
  else the words of \<open>name\<close>.\<close>

definition profile_init :: "profile_user \<Rightarrow> profile_form" where
  "profile_init u =
     (let n = (case pu_name u of Some x \<Rightarrow> x | None \<Rightarrow> []); ps = split_on CHR '' '' n
      in \<lparr>pr_first = (case pu_first u of Some x \<Rightarrow> x | None \<Rightarrow> hd ps),
          pr_last = (case pu_last u of Some x \<Rightarrow> x | None \<Rightarrow> join_with '' '' (tl ps)),
          pr_email = (case pu_email u of Some x \<Rightarrow> x | None \<Rightarrow> []),
          pr_phone = (case pu_phone u of Some x \<Rightarrow> x | None \<Rightarrow> []),
          pr_loading = False\<rparr>)"

text \<open>The payload of \<open>onSave\<close> (lines 29 to 35): a field is sent when it is
  non-empty and differs from the stored value; the composed name likewise.\<close>

definition profile_payload :: "profile_user \<Rightarrow> profile_form \<Rightarrow> (string \<times> string) list" where
  "profile_payload u f =
     (let fld = (\<lambda>k v old. if v \<noteq> [] \<and> Some v \<noteq> old then [(k, v)] else []);
          nm = js_trim (js_trim (pr_first f) @ '' '' @ js_trim (pr_last f))
      in fld ''firstName'' (pr_first f) (pu_first u) @ fld ''lastName'' (pr_last f) (pu_last u)
         @ fld ''email'' (pr_email f) (pu_email u) @ fld ''phone'' (pr_phone f) (pu_phone u)
         @ fld ''name'' nm (pu_name u))"

definition profile_save :: "bool \<Rightarrow> profile_form \<Rightarrow> (profile_form \<times> ui_effect list) \<times> bool" where
  "profile_save tok f =
     (if \<not> tok then ((f, [EAlert ''Not logged in'' ''Please log in to update your profile'']), False)
      else ((f\<lparr>pr_loading := True\<rparr>, []), True))"

definition profile_done :: "api_result \<Rightarrow> profile_form \<Rightarrow> profile_form \<times> ui_effect list" where
  "profile_done r f =
     (f\<lparr>pr_loading := False\<rparr>,
      case r of ApiOk \<Rightarrow> [EAlert ''Profile updated'' ''Your changes have been saved.'']
      | ApiErr c m \<Rightarrow> [EAlert ''Update failed'' (err_text c ''Unexpected error'')])"

subsection \<open>The forms as request controllers\<close>

text \<open>The forgotten-password form (\<open>src/app/auth/forgot-password.tsx\<close>, lines 9
  to 12).\<close>

record forgot_form =
  fg_email :: string
  fg_loading :: bool

definition forgot_can_submit :: "validators \<Rightarrow> forgot_form \<Rightarrow> bool" where
  "forgot_can_submit vs f \<longleftrightarrow> \<not> fg_loading f \<and> v_is_email vs (fg_email f)"

text \<open>What every form of the app has in common: a \<open>loading\<close> flag, a submit
  button enabled or not, the synchronous part of its submit handler (the form,
  the effects, and whether the request was sent) and what happens when the
  request settles. A form and its request are then one controller: edits of the
  fields (which leave the flag alone), presses of the enabled button, and the
  settling of a request in flight.\<close>

record 'f form_ops =
  fo_loading :: "'f \<Rightarrow> bool"
  fo_enabled :: "'f \<Rightarrow> bool"
  fo_submit :: "'f \<Rightarrow> ('f \<times> ui_effect list) \<times> bool"
  fo_done :: "api_result \<Rightarrow> 'f \<Rightarrow> 'f \<times> ui_effect list"

record 'f form_ctl =
  ctl_form :: 'f
  ctl_pending :: nat

datatype 'f form_event = FormEdit "'f \<Rightarrow> 'f" | FormSubmit | FormSettle api_result

fun form_step :: "'f form_ops \<Rightarrow> 'f form_ctl \<Rightarrow> 'f form_event \<Rightarrow> 'f form_ctl \<times> ui_effect list" where
  "form_step ops c (FormEdit g) = (c\<lparr>ctl_form := g (ctl_form c)\<rparr>, [])"
| "form_step ops c FormSubmit =
     (case fo_submit ops (ctl_form c) of ((f', eff), sent) \<Rightarrow>
        (c\<lparr>ctl_form := f', ctl_pending := ctl_pending c + (if sent then 1 else 0)\<rparr>, eff))"
| "form_step ops c (FormSettle r) =
     (case fo_done ops r (ctl_form c) of (f', eff) \<Rightarrow> (c\<lparr>ctl_form := f', ctl_pending := ctl_pending c - 1\<rparr>, eff))"

fun form_enabled :: "'f form_ops \<Rightarrow> 'f form_ctl \<Rightarrow> 'f form_event \<Rightarrow> bool" where
  "form_enabled ops c (FormEdit g) = (fo_loading ops (g (ctl_form c)) = fo_loading ops (ctl_form c))"
| "form_enabled ops c FormSubmit = fo_enabled ops (ctl_form c)"
| "form_enabled ops c (FormSettle r) = (0 < ctl_pending c)"

inductive form_reach :: "'f form_ops \<Rightarrow> 'f \<Rightarrow> 'f form_ctl \<Rightarrow> bool" for ops f0 where
  form_reach_init: "\<not> fo_loading ops f0 \<Longrightarrow> form_reach ops f0 \<lparr>ctl_form = f0, ctl_pending = 0\<rparr>"
| form_reach_step: "form_reach ops f0 c \<Longrightarrow> form_enabled ops c e \<Longrightarrow> form_reach ops f0 (fst (form_step ops c e))"

text \<open>What a form must do for the controller to be sound: its button is disabled
  while loading, a submit that sends the request sets the flag and one that
  does not leaves it, and a settled request clears it (the \<open>finally\<close>).\<close>

definition form_ops_ok :: "'f form_ops \<Rightarrow> bool" where
  "form_ops_ok ops \<longleftrightarrow>
     (\<forall>f. fo_enabled ops f \<longrightarrow> \<not> fo_loading ops f)
     \<and> (\<forall>f. fo_loading ops (fst (fst (fo_submit ops f)))
             = (if snd (fo_submit ops f) then True else fo_loading ops f))
     \<and> (\<forall>r f. \<not> fo_loading ops (fst (fo_done ops r f)))"

definition form_inv :: "'f form_ops \<Rightarrow> 'f form_ctl \<Rightarrow> bool" where
  "form_inv ops c \<longleftrightarrow> ctl_pending c \<le> 1 \<and> (fo_loading ops (ctl_form c) \<longleftrightarrow> ctl_pending c = 1)"

text \<open>The submit button of a form (for sign-up, lines 114 to 138 of
  \<open>signup.tsx\<close>): whether it is disabled, and whether the spinner replaces
  its label (\<open>loading ? <ActivityIndicator/> : <Text>\<close>).\<close>

definition form_button :: "'f form_ops \<Rightarrow> 'f \<Rightarrow> bool \<times> bool" where
  "form_button ops f = (\<not> fo_enabled ops f, fo_loading ops f)"

text \<open>The six forms as controllers: the button's \<open>disabled\<close> of each screen, the
  synchronous part of its handler, and its settling.\<close>

definition login_ops :: "validators \<Rightarrow> login_form form_ops" where
  "login_ops vs = \<lparr>fo_loading = lg_loading, fo_enabled = login_can_submit vs,
     fo_submit = (\<lambda>f. ((f\<lparr>lg_loading := True\<rparr>, []), True)), fo_done = login_done\<rparr>"

definition signup_ops :: "validators \<Rightarrow> signup_form form_ops" where
  "signup_ops vs = \<lparr>fo_loading = su_loading, fo_enabled = signup_can_submit vs,
     fo_submit = (\<lambda>f. ((f\<lparr>su_loading := True\<rparr>, []), True)), fo_done = signup_done\<rparr>"

definition forgot_ops :: "validators \<Rightarrow> forgot_form form_ops" where
  "forgot_ops vs = \<lparr>fo_loading = fg_loading, fo_enabled = forgot_can_submit vs,
     fo_submit = (\<lambda>f. ((f\<lparr>fg_loading := True\<rparr>, []), True)),
     fo_done = (\<lambda>r f. (f\<lparr>fg_loading := False\<rparr>, forgot_done r))\<rparr>"

definition reset_ops :: "validators \<Rightarrow> reset_form form_ops" where
  "reset_ops vs = \<lparr>fo_loading = rs_loading, fo_enabled = reset_can_submit vs,
     fo_submit = (\<lambda>f. ((f\<lparr>rs_loading := True\<rparr>, []), True)),
     fo_done = (\<lambda>r f. (f\<lparr>rs_loading := False\<rparr>, reset_done r))\<rparr>"

definition change_ops :: "validators \<Rightarrow> bool \<Rightarrow> change_form form_ops" where
  "change_ops vs tok = \<lparr>fo_loading = cp_loading, fo_enabled = change_can_submit vs,
     fo_submit = change_submit vs tok, fo_done = change_done\<rparr>"

definition profile_ops :: "bool \<Rightarrow> profile_form form_ops" where
  "profile_ops tok = \<lparr>fo_loading = pr_loading, fo_enabled = (\<lambda>f. \<not> pr_loading f),
     fo_submit = profile_save tok, fo_done = profile_done\<rparr>"

text \<open>Validators that accept any address with an \<open>@\<close> and any password of 8
  characters, and a filled-in login form, to run the controllers on.\<close>

definition demo_validators :: validators where
  "demo_validators = \<lparr>v_is_email = (\<lambda>e. CHR ''@'' \<in> set e), v_pw_valid = (\<lambda>p. 8 \<le> length p),
     v_strength = (\<lambda>p. Weak)\<rparr>"

definition demo_login :: login_form where
  "demo_login = \<lparr>lg_identifier = ''ada@x.ng'', lg_password = ''secret-pw'', lg_loading = False\<rparr>"

subsection \<open>Lemmas\<close>

lemma profile_payload_keys:
  "map fst (profile_payload u f) = filter (\<lambda>k. k \<noteq> [])
     [if pr_first f \<noteq> [] \<and> Some (pr_first f) \<noteq> pu_first u then ''firstName'' else [],
      if pr_last f \<noteq> [] \<and> Some (pr_last f) \<noteq> pu_last u then ''lastName'' else [],
      if pr_email f \<noteq> [] \<and> Some (pr_email f) \<noteq> pu_email u then ''email'' else [],
      if pr_phone f \<noteq> [] \<and> Some (pr_phone f) \<noteq> pu_phone u then ''phone'' else [],
      let nm = js_trim (js_trim (pr_first f) @ '' '' @ js_trim (pr_last f))
      in if nm \<noteq> [] \<and> Some nm \<noteq> pu_name u then ''name'' else []]"
  by (simp add: profile_payload_def Let_def)

text \<open>
  C36. Clearing a field of the profile form never reaches the server: an empty
  phone number is left out of the payload, and the save still reports
  ``Your changes have been saved.''.
\<close>

theorem profile_clear_not_saved:
  assumes "pr_phone f = []"
  shows "''phone'' \<notin> set (map fst (profile_payload u f))
    \<and> snd (profile_done ApiOk f) = [EAlert ''Profile updated'' ''Your changes have been saved.'']"
  using assms by (auto simp: profile_payload_keys profile_done_def Let_def)

theorem profile_clear_not_saved_witness:
  "''phone'' \<notin> set (map fst (profile_payload \<lparr>pu_name = Some ''Ada Obi'', pu_first = None, pu_last = None,
        pu_email = Some ''ada@x.ng'', pu_phone = Some ''0801''\<rparr>
      (\<lparr>pr_first = ''Ada'', pr_last = ''Obi'', pr_email = ''ada@x.ng'', pr_phone = ''0801'', pr_loading = False\<rparr>\<lparr>pr_phone := []\<rparr>)))"
  using profile_clear_not_saved [of "\<lparr>pr_first = ''Ada'', pr_last = ''Obi'', pr_email = ''ada@x.ng'', pr_phone = ''0801'', pr_loading = False\<rparr>\<lparr>pr_phone := []\<rparr>"]
  by simp

lemma change_submit_request:
  "snd (change_submit vs tok f) \<longleftrightarrow> change_can_submit vs f \<and> tok \<and> cp_next f \<noteq> cp_old f"
  by (simp add: change_submit_def)

text \<open>A sound form never has two requests in flight, and shows its spinner
  exactly while one is.\<close>

text \<open>A sound form never shows its spinner on an enabled button, and in a
  reachable state the spinner is shown exactly while a request is pending.\<close>

lemma form_button_spinner_disabled:
  "form_ops_ok ops \<Longrightarrow> snd (form_button ops f) \<Longrightarrow> fst (form_button ops f)"
  by (auto simp: form_button_def form_ops_ok_def)

lemma form_step_inv:
  assumes "form_ops_ok ops" "form_inv ops c" "form_enabled ops c e"
  shows "form_inv ops (fst (form_step ops c e))"
proof (cases e)
  case (FormEdit g)
  then show ?thesis using assms by (simp add: form_inv_def)
next
  case FormSubmit
  obtain f' eff sent where sub: "fo_submit ops (ctl_form c) = ((f', eff), sent)" by (metis prod.exhaust)
  have "\<not> fo_loading ops (ctl_form c)" "fo_loading ops f' = (if sent then True else fo_loading ops (ctl_form c))"
    using assms FormSubmit sub unfolding form_ops_ok_def by (metis form_enabled.simps(2), metis fst_conv snd_conv)
  then show ?thesis using assms(2) FormSubmit sub by (auto simp: form_inv_def)
next
  case (FormSettle r)
  obtain f' eff where dn: "fo_done ops r (ctl_form c) = (f', eff)" by fastforce
  have "\<not> fo_loading ops f'" using assms(1) dn unfolding form_ops_ok_def by (metis fst_conv)
  then show ?thesis using assms(2,3) FormSettle dn by (auto simp: form_inv_def)
qed

lemma form_reach_inv:
  assumes "form_ops_ok ops" "form_reach ops f0 c"
  shows "form_inv ops c"
  using assms(2)
proof (induction rule: form_reach.induct)
  case form_reach_init
  then show ?case by (simp add: form_inv_def)
next
  case (form_reach_step c e)
  from assms(1) form_reach_step.IH form_reach_step.hyps(2) show ?case by (rule form_step_inv)
qed

lemma form_button_pending:
  "form_ops_ok ops \<Longrightarrow> form_reach ops f0 c \<Longrightarrow> snd (form_button ops (ctl_form c)) \<longleftrightarrow> ctl_pending c = 1"
  using form_reach_inv [of ops f0 c] by (simp add: form_button_def form_inv_def)

lemma forms_ok:
  "form_ops_ok (login_ops vs) \<and> form_ops_ok (signup_ops vs) \<and> form_ops_ok (forgot_ops vs)
   \<and> form_ops_ok (reset_ops vs) \<and> form_ops_ok (change_ops vs tok) \<and> form_ops_ok (profile_ops tok)"
  by (simp add: form_ops_ok_def login_ops_def signup_ops_def forgot_ops_def reset_ops_def change_ops_def
      profile_ops_def login_can_submit_def signup_can_submit_def forgot_can_submit_def reset_can_submit_def
      change_can_submit_def change_submit_def profile_save_def login_done_def signup_done_def change_done_def
      profile_done_def)

text \<open>
  C34. Whatever the order of edits, presses and replies, no form of the app
  (login, sign-up, forgotten, reset and changed password, profile) ever has two
  requests in flight, and each shows its spinner (and disables its button)
  exactly while its one request is pending.
\<close>

theorem forms_one_request_in_flight:
  "(form_reach (login_ops vs) f1 c1 \<longrightarrow> form_inv (login_ops vs) c1)
   \<and> (form_reach (signup_ops vs) f2 c2 \<longrightarrow> form_inv (signup_ops vs) c2)
   \<and> (form_reach (forgot_ops vs) f3 c3 \<longrightarrow> form_inv (forgot_ops vs) c3)
   \<and> (form_reach (reset_ops vs) f4 c4 \<longrightarrow> form_inv (reset_ops vs) c4)
   \<and> (form_reach (change_ops vs tok) f5 c5 \<longrightarrow> form_inv (change_ops vs tok) c5)
   \<and> (form_reach (profile_ops tok) f6 c6 \<longrightarrow> form_inv (profile_ops tok) c6)"
  by (intro conjI impI; erule form_reach_inv [rotated]; use forms_ok in blast)

theorem forms_one_request_in_flight_witness:
  "ctl_pending (fst (form_step (login_ops demo_validators) \<lparr>ctl_form = demo_login, ctl_pending = 0\<rparr> FormSubmit)) = 1
   \<and> lg_loading (ctl_form (fst (form_step (login_ops demo_validators) \<lparr>ctl_form = demo_login, ctl_pending = 0\<rparr> FormSubmit)))
   \<and> form_inv (signup_ops demo_validators) \<lparr>ctl_form = \<lparr>su_first = [], su_last = [], su_email = [], su_password = [],
        su_confirm = [], su_loading = False\<rparr>, ctl_pending = 0\<rparr>
   \<and> form_inv (forgot_ops demo_validators) \<lparr>ctl_form = \<lparr>fg_email = [], fg_loading = False\<rparr>, ctl_pending = 0\<rparr>
   \<and> form_inv (reset_ops demo_validators) \<lparr>ctl_form = reset_init None None, ctl_pending = 0\<rparr>
   \<and> form_inv (change_ops demo_validators True) \<lparr>ctl_form = \<lparr>cp_old = [], cp_next = [], cp_confirm = [],
        cp_loading = False\<rparr>, ctl_pending = 0\<rparr>
   \<and> form_inv (profile_ops True) \<lparr>ctl_form = profile_init \<lparr>pu_name = None, pu_first = None, pu_last = None,
        pu_email = None, pu_phone = None\<rparr>, ctl_pending = 0\<rparr>"
proof -
  let ?c0 = "\<lparr>ctl_form = demo_login, ctl_pending = 0\<rparr>"
  have r0: "form_reach (login_ops demo_validators) demo_login ?c0"
    by (rule form_reach_init) (simp add: login_ops_def demo_login_def)
  have r1: "form_reach (login_ops demo_validators) demo_login (fst (form_step (login_ops demo_validators) ?c0 FormSubmit))"
    by (rule form_reach_step [OF r0])
       (simp add: login_ops_def login_can_submit_def demo_login_def demo_validators_def)
  have i: "form_inv (login_ops demo_validators) (fst (form_step (login_ops demo_validators) ?c0 FormSubmit))"
    using forms_one_request_in_flight r1 by blast
  have s: "lg_loading (ctl_form (fst (form_step (login_ops demo_validators) ?c0 FormSubmit)))"
    by (simp add: login_ops_def)
  have rest: "form_reach (signup_ops demo_validators) \<lparr>su_first = [], su_last = [], su_email = [], su_password = [],
        su_confirm = [], su_loading = False\<rparr> \<lparr>ctl_form = \<lparr>su_first = [], su_last = [], su_email = [], su_password = [],
        su_confirm = [], su_loading = False\<rparr>, ctl_pending = 0\<rparr>"
      "form_reach (forgot_ops demo_validators) \<lparr>fg_email = [], fg_loading = False\<rparr>
        \<lparr>ctl_form = \<lparr>fg_email = [], fg_loading = False\<rparr>, ctl_pending = 0\<rparr>"
      "form_reach (reset_ops demo_validators) (reset_init None None) \<lparr>ctl_form = reset_init None None, ctl_pending = 0\<rparr>"
      "form_reach (change_ops demo_validators True) \<lparr>cp_old = [], cp_next = [], cp_confirm = [], cp_loading = False\<rparr>
        \<lparr>ctl_form = \<lparr>cp_old = [], cp_next = [], cp_confirm = [], cp_loading = False\<rparr>, ctl_pending = 0\<rparr>"
      "form_reach (profile_ops True) (profile_init \<lparr>pu_name = None, pu_first = None, pu_last = None,
        pu_email = None, pu_phone = None\<rparr>) \<lparr>ctl_form = profile_init \<lparr>pu_name = None, pu_first = None, pu_last = None,
        pu_email = None, pu_phone = None\<rparr>, ctl_pending = 0\<rparr>"
    by (rule form_reach_init,
        simp add: signup_ops_def forgot_ops_def reset_ops_def reset_init_def change_ops_def profile_ops_def
          profile_init_def)+
  have "form_inv (signup_ops demo_validators) \<lparr>ctl_form = \<lparr>su_first = [], su_last = [], su_email = [], su_password = [],
        su_confirm = [], su_loading = False\<rparr>, ctl_pending = 0\<rparr>"
    using forms_one_request_in_flight rest(1) by blast
  moreover have "form_inv (forgot_ops demo_validators) \<lparr>ctl_form = \<lparr>fg_email = [], fg_loading = False\<rparr>, ctl_pending = 0\<rparr>"
    using forms_one_request_in_flight rest(2) by blast
  moreover have "form_inv (reset_ops demo_validators) \<lparr>ctl_form = reset_init None None, ctl_pending = 0\<rparr>"
    using forms_one_request_in_flight rest(3) by blast
  moreover have "form_inv (change_ops demo_validators True) \<lparr>ctl_form = \<lparr>cp_old = [], cp_next = [], cp_confirm = [],
        cp_loading = False\<rparr>, ctl_pending = 0\<rparr>"
    using forms_one_request_in_flight rest(4) by blast
  moreover have "form_inv (profile_ops True) \<lparr>ctl_form = profile_init \<lparr>pu_name = None, pu_first = None, pu_last = None,
        pu_email = None, pu_phone = None\<rparr>, ctl_pending = 0\<rparr>"
    using forms_one_request_in_flight rest(5) by blast
  moreover have "ctl_pending (fst (form_step (login_ops demo_validators) ?c0 FormSubmit)) = 1"
    using i s by (simp add: form_inv_def login_ops_def)
  ultimately show ?thesis using s by blast
qed

end
