(* ===== verification/Performance.thy ===== *)
theory Performance
  imports Scoring Js_Values
begin

text \<open>
  The performance screen \<open>src/app/performance/index.tsx\<close>: its fixed statistics,
  recent activity and subject mastery (the screen computes nothing from the
  exam sessions), the texts and bar widths the render derives from them, and
  the header's back button. Progress values are exact rationals; \<open>Math.round\<close>
  is \<open>Scoring.js_round\<close>.
\<close>

record perf_stats =
  total_tests :: int
  avg_score :: int
  accuracy :: int
  study_time :: string

definition stats :: perf_stats where
  "stats = \<lparr>total_tests = 42, avg_score = 68, accuracy = 75, study_time = ''12h 30m''\<rparr>"

record activity =
  act_id :: nat
  act_subject :: string
  act_score :: int
  act_total :: int
  act_date :: string
  act_mode :: string

definition recent_activity :: "activity list" where
  "recent_activity =
    [\<lparr>act_id = 1, act_subject = ''Mathematics'', act_score = 80, act_total = 100,
      act_date = ''Today, 10:30 AM'', act_mode = ''Exam Mode''\<rparr>,
     \<lparr>act_id = 2, act_subject = ''Physics'', act_score = 45, act_total = 60,
      act_date = ''Yesterday'', act_mode = ''Study Mode''\<rparr>,
     \<lparr>act_id = 3, act_subject = ''English'', act_score = 92, act_total = 100,
      act_date = ''Jan 24'', act_mode = ''Exam Mode''\<rparr>]"

record subject_progress =
  sp_name :: string
  sp_progress :: rat
  sp_color :: string

definition perf_subjects :: "subject_progress list" where
  "perf_subjects =
    [\<lparr>sp_name = ''Mathematics'', sp_progress = 8 / 10, sp_color = ''#4CAF50''\<rparr>,
     \<lparr>sp_name = ''English'', sp_progress = 65 / 100, sp_color = ''#2196F3''\<rparr>,
     \<lparr>sp_name = ''Physics'', sp_progress = 45 / 100, sp_color = ''#FF9800''\<rparr>,
     \<lparr>sp_name = ''Chemistry'', sp_progress = 3 / 10, sp_color = ''#F44336''\<rparr>]"

text \<open>The summary card: the average score in the circle and the three figures
  of the grid, each with its label.\<close>

definition summary_card :: "perf_stats \<Rightarrow> string \<times> (string \<times> string) list" where
  "summary_card s =
     (int_str (avg_score s) @ ''%'',
      [(int_str (total_tests s), ''Tests Taken''),
       (int_str (accuracy s) @ ''%'', ''Accuracy''),
       (study_time s, ''Study Time'')])"

text \<open>A row of Subject Mastery: name, \<open>Math.round(progress * 100)%\<close>, the bar
  width \<open>progress * 100\<close> percent, the colour, and a divider below every row but
  the last (\<open>index < subjects.length - 1\<close>).\<close>

record subject_row =
  row_name :: string
  row_percent :: string
  row_width :: rat
  row_color :: string
  row_divider :: bool

definition subject_row :: "nat \<Rightarrow> nat \<Rightarrow> subject_progress \<Rightarrow> subject_row" where
  "subject_row n i sp =
     \<lparr>row_name = sp_name sp,
      row_percent = int_str (js_round (sp_progress sp * 100)) @ ''%'',
      row_width = sp_progress sp * 100,
      row_color = sp_color sp,
      row_divider = (int i < int n - 1)\<rparr>"

definition subject_rows :: "subject_progress list \<Rightarrow> subject_row list" where
  "subject_rows xs = map (\<lambda>(i, sp). subject_row (length xs) i sp) (enumerate 0 xs)"

text \<open>\<open>Math.round((score / total) * 100)\<close> as the text the card shows: a zero
  total gives \<open>NaN\<close> (for a zero score) or an infinity, which \<open>Math.round\<close>
  keeps.\<close>

definition score_percent_text :: "int \<Rightarrow> int \<Rightarrow> string" where
  "score_percent_text sc tot =
     (if tot = 0 then (if sc = 0 then ''NaN'' else if 0 < sc then ''Infinity'' else ''-Infinity'')
      else int_str (js_round (of_int sc / of_int tot * 100))) @ ''%''"

text \<open>An activity card: subject, \<open>"{mode} \<bullet> {date}"\<close> (the bullet is the UTF-8 bytes
  E2 80 A2), the percentage and \<open>"{score}/{total}"\<close>. The card is pressable but
  has no \<open>onPress\<close>.\<close>

definition activity_card :: "activity \<Rightarrow> string \<times> string \<times> string \<times> string" where
  "activity_card a =
     (act_subject a,
      act_mode a @ '' '' @ [CHR 0xE2, CHR 0x80, CHR 0xA2] @ '' '' @ act_date a,
      score_percent_text (act_score a) (act_total a),
      int_str (act_score a) @ ''/'' @ int_str (act_total a))"

record perf_view =
  pv_title :: string
  pv_summary :: "string \<times> (string \<times> string) list"
  pv_subjects :: "subject_row list"
  pv_activity :: "(string \<times> string \<times> string \<times> string) list"

definition perf_render :: perf_view where
  "perf_render =
     \<lparr>pv_title = ''My Performance'',
      pv_summary = summary_card stats,
      pv_subjects = subject_rows perf_subjects,
      pv_activity = map activity_card recent_activity\<rparr>"

text \<open>The only handler of the screen: the header's back button.\<close>

definition perf_back :: route where
  "perf_back = GoBack"

subsection \<open>Lemmas\<close>

lemma js_round_percent_bounds:
  assumes "0 \<le> p" "p \<le> 1"
  shows "0 \<le> js_round (p * 100) \<and> js_round (p * 100) \<le> 100"
proof -
  have "js_round 0 \<le> js_round (p * 100)" using assms by (intro js_round_mono) simp
  moreover have "js_round (p * 100) \<le> js_round 100" using assms by (intro js_round_mono) simp
  ultimately show ?thesis by simp
qed

lemma subject_rows_length [simp]: "length (subject_rows xs) = length xs"
  by (simp add: subject_rows_def)

lemma subject_rows_nth:
  "i < length xs \<Longrightarrow> subject_rows xs ! i = subject_row (length xs) i (xs ! i)"
  by (simp add: subject_rows_def nth_enumerate_eq)

text \<open>Exactly the rows above the last one carry a divider.\<close>

lemma subject_rows_dividers:
  "i < length xs \<Longrightarrow> row_divider (subject_rows xs ! i) = (i + 1 < length xs)"
  by (auto simp: subject_rows_nth subject_row_def)

lemma subject_rows_divider_flags:
  "map row_divider (subject_rows xs) = map (\<lambda>i. i + 1 < length xs) [0..<length xs]"
  by (rule nth_equalityI) (simp_all add: subject_rows_dividers)

lemma subject_rows_divider_count:
  "length (filter row_divider (subject_rows xs)) = length xs - 1"
proof -
  have upto: "filter (\<lambda>i. Suc i < n) [0..<n] = [0..<n - 1]" for n :: nat
    by (induction n) auto
  have "length (filter row_divider (subject_rows xs))
      = length (filter id (map row_divider (subject_rows xs)))"
    by (simp add: filter_map comp_def)
  also have "\<dots> = length (filter (\<lambda>i. i + 1 < length xs) [0..<length xs])"
    by (simp only: subject_rows_divider_flags) (simp add: filter_map comp_def)
  finally show ?thesis by (simp add: upto)
qed

text \<open>Every percentage of a card is an integer of \<open>[0, 100]\<close> when the score is
  within a positive total, and every mastery percentage when the progress is
  within \<open>[0, 1]\<close>.\<close>

lemma score_percent_text_bounds:
  assumes "0 \<le> sc" "sc \<le> tot" "0 < tot"
  shows "\<exists>k. score_percent_text sc tot = int_str k @ ''%'' \<and> 0 \<le> k \<and> k \<le> 100"
proof -
  have "0 \<le> of_int sc / (of_int tot :: rat)"
    using assms by (intro divide_nonneg_nonneg) simp_all
  moreover have "of_int sc / (of_int tot :: rat) \<le> 1"
    using assms by (simp add: divide_le_eq_1)
  then show ?thesis
    using assms js_round_percent_bounds [of "of_int sc / of_int tot"]
    by (auto simp: score_percent_text_def)
qed

lemma subject_row_percent_bounds:
  assumes "0 \<le> sp_progress sp" "sp_progress sp \<le> 1"
  shows "\<exists>k. row_percent (subject_row n i sp) = int_str k @ ''%'' \<and> 0 \<le> k \<and> k \<le> 100"
  using js_round_percent_bounds [OF assms] by (auto simp: subject_row_def)

text \<open>What the screen shows: the subject percentages 80, 65, 45 and 30 with a
  divider under the first three, and the activity percentages 80, 75 and 92.
  None of it comes from a session, and the figures disagree with each other:
  the average in the circle (68) is not the rounded mean of the activity
  cards (82).\<close>

lemma perf_render_texts:
  "map row_percent (pv_subjects perf_render) = [''80%'', ''65%'', ''45%'', ''30%'']
   \<and> map row_divider (pv_subjects perf_render) = [True, True, True, False]
   \<and> map (fst \<circ> snd \<circ> snd) (pv_activity perf_render) = [''80%'', ''75%'', ''92%'']
   \<and> fst (pv_summary perf_render) = ''68%''
   \<and> js_round ((80 + 75 + 92) / 3) = 82"
  by code_simp

end
