(* ===== verification/Welcome.thy ===== *)
theory Welcome
  imports Account
begin

text \<open>
  The welcome screen \<open>src/app/index.tsx\<close>: the authenticated test of its render,
  the redirect effect that waits for the navigation to be ready, and the three
  sign-up buttons and the login link. The authentication state is the part of
  the context the screen reads: its status, token and expiry; \<open>Date.now()\<close> is
  the time \<open>now\<close> of the render.
\<close>

record welcome_auth =
  wa_status :: auth_status
  wa_token :: "string option"
  wa_expires_at :: "int option"

text \<open>Line 22: \<open>!!state.expiresAt\<close> is false for a missing or zero expiry, which
  then counts as no expiry; \<open>!!state.token\<close> is false for a missing or empty
  token.\<close>

definition is_authenticated :: "welcome_auth \<Rightarrow> int \<Rightarrow> bool" where
  "is_authenticated a now =
     (wa_status a = Authenticated
      \<and> (case wa_expires_at a of Some e \<Rightarrow> if e \<noteq> 0 then now < e else True | None \<Rightarrow> True)
      \<and> (case wa_token a of Some t \<Rightarrow> t \<noteq> [] | None \<Rightarrow> False))"

text \<open>The effect of lines 24 to 29, run when the navigation key or the
  authenticated flag changes: nothing until the root navigation has a key, then
  \<open>router.replace("/(tabs)")\<close> for an authenticated user.\<close>

definition welcome_effect :: "string option \<Rightarrow> bool \<Rightarrow> ui_effect list" where
  "welcome_effect nav_key authd =
     (case nav_key of None \<Rightarrow> [] | Some k \<Rightarrow> if authd then [EReplace ''/(tabs)''] else [])"

text \<open>The effect's dependencies: it runs on the first render, and again on a
  render whose navigation key or authenticated flag differs from the previous
  render's.\<close>

record welcome_state =
  ws_nav_key :: "string option"
  ws_authd :: bool

definition welcome_mount :: "string option \<Rightarrow> welcome_auth \<Rightarrow> int \<Rightarrow> welcome_state \<times> ui_effect list" where
  "welcome_mount k a now =
     (let b = is_authenticated a now in (\<lparr>ws_nav_key = k, ws_authd = b\<rparr>, welcome_effect k b))"

definition welcome_rerender ::
  "welcome_state \<Rightarrow> string option \<Rightarrow> welcome_auth \<Rightarrow> int \<Rightarrow> welcome_state \<times> ui_effect list" where
  "welcome_rerender st k a now =
     (let b = is_authenticated a now
      in (\<lparr>ws_nav_key = k, ws_authd = b\<rparr>,
          if k = ws_nav_key st \<and> b = ws_authd st then [] else welcome_effect k b))"

text \<open>The buttons of lines 30 to 65 and the login link (lines 99 to 105), in the
  order they are shown: label, colour variant and the navigation of the press.\<close>

datatype variant = Green | Black

definition signup_buttons :: "(string \<times> string \<times> variant \<times> route) list" where
  "signup_buttons =
     [(''google'', ''Sign up with Google'', Green, Push ''/auth/signup'' [(''provider'', PStr ''google'')]),
      (''apple'', ''Sign up with Apple'', Black, Push ''/auth/signup'' [(''provider'', PStr ''apple'')]),
      (''email'', ''Sign up with Email'', Green, Push ''/auth/signup'' [])]"

definition login_link :: "string \<times> route" where
  "login_link = (''Already registered? Login'', Push ''/auth/login'' [])"

text \<open>Pressing the button with a key: its navigation, none for an unknown key.\<close>

definition welcome_press :: "string \<Rightarrow> route option" where
  "welcome_press k = map_option (\<lambda>(_, _, r). r) (map_of signup_buttons k)"

subsection \<open>Lemmas\<close>

text \<open>A zero expiry never expires: the session counts as authenticated at any
  time, as with no expiry at all.\<close>

lemma is_authenticated_zero_expiry:
  "is_authenticated (a\<lparr>wa_expires_at := Some 0\<rparr>) now = is_authenticated (a\<lparr>wa_expires_at := None\<rparr>) now"
  by (simp add: is_authenticated_def)

lemma is_authenticated_expired:
  "wa_expires_at a = Some e \<Longrightarrow> e \<noteq> 0 \<Longrightarrow> e \<le> now \<Longrightarrow> \<not> is_authenticated a now"
  by (simp add: is_authenticated_def)

text \<open>The redirect happens on a render exactly when the navigation is ready, the
  user is authenticated, and one of the two was not so on the previous render.\<close>

lemma welcome_rerender_redirects:
  "snd (welcome_rerender st k a now) \<noteq> []
   \<longleftrightarrow> k \<noteq> None \<and> is_authenticated a now \<and> (k \<noteq> ws_nav_key st \<or> \<not> ws_authd st)"
  by (auto simp: welcome_rerender_def welcome_effect_def Let_def split: option.splits)

text \<open>All three sign-up buttons open the same screen; they differ only in the
  \<open>provider\<close> parameter, which no screen of \<open>src/\<close> reads.\<close>

lemma signup_buttons_same_screen:
  "k \<in> {''google'', ''apple'', ''email''} \<Longrightarrow>
     \<exists>ps. welcome_press k = Some (Push ''/auth/signup'' ps)"
  by (auto simp: welcome_press_def signup_buttons_def)

end
