(* ===== verification/App_Shell.thy ===== *)
theory App_Shell
  imports Study_Page Welcome
begin

text \<open>
  The application shell: the root layout \<open>src/app/_layout.tsx\<close> renders one
  stack navigator inside \<open>src/components/navigation/NavigationErrorBoundary.tsx\<close>,
  so an error thrown while a screen renders replaces the whole navigator by the
  boundary's fallback. The navigator is unmounted while the fallback shows, and
  its navigation state goes with it; the fallback's only button, Retry, clears
  the flag, and the navigator mounts again on the app's initial route. The
  navigator is a stack of routes, the top one shown; the screens are given by a
  render function that returns the error a screen throws or its view
  (\<open>app_screen\<close> below puts together the results and the corrections screens of
  the exam).
\<close>

datatype 'v shell_view = Fallback | Shown 'v

record shell =
  sh_initial :: route
  sh_stack :: "route list"
  sh_has_error :: bool

datatype shell_event = ShNav route | ShRetry

text \<open>The navigator's answer to a navigation: \<open>router.push\<close> puts the route on
  top, \<open>router.back()\<close> pops unless the stack has one screen left.\<close>

fun stack_nav :: "route \<Rightarrow> route list \<Rightarrow> route list" where
  "stack_nav GoBack (r # r' # rs) = r' # rs"
| "stack_nav GoBack rs = rs"
| "stack_nav (Push p ps) rs = Push p ps # rs"

text \<open>A render of the shell: while \<open>hasError\<close> is unset the top screen renders,
  and an error it throws sets \<open>hasError\<close> (\<open>getDerivedStateFromError\<close>, lines 11
  to 13); the boundary then renders the fallback instead of its children (lines
  24 to 37), which unmounts the navigator and drops its stack.\<close>

definition shell_commit :: "(route \<Rightarrow> 'e + 'v) \<Rightarrow> shell \<Rightarrow> shell" where
  "shell_commit rend st =
     (if sh_has_error st then st
      else case sh_stack st of
             [] \<Rightarrow> st
           | r # _ \<Rightarrow> (case rend r of Inl _ \<Rightarrow> st\<lparr>sh_has_error := True, sh_stack := []\<rparr> | Inr _ \<Rightarrow> st))"

definition shell_view :: "(route \<Rightarrow> 'e + 'v) \<Rightarrow> shell \<Rightarrow> 'v shell_view option" where
  "shell_view rend st =
     (if sh_has_error st then Some Fallback
      else case sh_stack st of
             [] \<Rightarrow> None
           | r # _ \<Rightarrow> (case rend r of Inl _ \<Rightarrow> Some Fallback | Inr v \<Rightarrow> Some (Shown v)))"

text \<open>An event of the shell: a navigation of the shown screen, which needs the
  navigator on screen, or the fallback's Retry (\<open>handleReset\<close>, lines 20 to 22),
  which needs the fallback on screen: the children render again, and the
  navigator mounts with its initial route only.\<close>

fun shell_step :: "(route \<Rightarrow> 'e + 'v) \<Rightarrow> shell \<Rightarrow> shell_event \<Rightarrow> shell" where
  "shell_step rend st (ShNav r) =
     (if sh_has_error st then st else shell_commit rend (st\<lparr>sh_stack := stack_nav r (sh_stack st)\<rparr>))"
| "shell_step rend st ShRetry =
     (if sh_has_error st then shell_commit rend (st\<lparr>sh_has_error := False, sh_stack := [sh_initial st]\<rparr>) else st)"

definition shell_init :: "(route \<Rightarrow> 'e + 'v) \<Rightarrow> route \<Rightarrow> shell" where
  "shell_init rend r = shell_commit rend \<lparr>sh_initial = r, sh_stack = [r], sh_has_error = False\<rparr>"

text \<open>The safe-area edges of \<open>src/components/ui/ScreenContainer.tsx\<close> (lines 19 to
  28), which every screen of \<open>src/\<close> uses without passing \<open>edges\<close>.\<close>

datatype edge = EdgeTop | EdgeRight | EdgeBottom | EdgeLeft

definition container_edges :: "edge list option \<Rightarrow> edge list" where
  "container_edges e = (case e of None \<Rightarrow> [EdgeTop] | Some es \<Rightarrow> es)"

subsection \<open>The exam screens in the shell\<close>

text \<open>The screens of the exam the shell shows: the results screen of a route
  of \<open>/mode/exam-results\<close>, the corrections screen of a route of
  \<open>/mode/exam-corrections\<close> at its first position, and any other route (or a
  corrections payload that is not a list of entries) as a screen this
  function leaves unspecified.\<close>

datatype app_screen =
    ResultsScreen results_view
  | CorrectionsScreen corr_view
  | OtherScreen route

definition app_screen :: "route \<Rightarrow> corr_error + app_screen" where
  "app_screen r =
     (case r of
        Push p ps \<Rightarrow>
          if p = ''/mode/exam-results'' then
            (case results_screen_of r of Some v \<Rightarrow> Inr (ResultsScreen v) | None \<Rightarrow> Inr (OtherScreen r))
          else if p = ''/mode/exam-corrections'' then
            (case corrections_param (route_arg r ''questionsData'') of
               Some qs \<Rightarrow> map_sum id CorrectionsScreen (corr_render qs \<lparr>c_subj = 0, c_q = 0\<rparr>)
             | None \<Rightarrow> Inr (OtherScreen r))
          else Inr (OtherScreen r)
      | GoBack \<Rightarrow> Inr (OtherScreen r))"

text \<open>An exam whose one subject the service names \<open>"constructor"\<close>, with every
  request failing: the first page of the sample bank is loaded under that
  subject.\<close>

definition proto_loaded :: session where
  "proto_loaded =
     session_step (init_session [trace_biology\<lparr>so_subject := ''constructor''\<rparr>] True (sconst 0)) (EvFetched None)"

subsection \<open>Lemmas\<close>

lemma shell_commit_initial [simp]: "sh_initial (shell_commit rend st) = sh_initial st"
  by (simp add: shell_commit_def split: list.splits sum.splits)

lemma shell_step_initial [simp]: "sh_initial (shell_step rend st ev) = sh_initial st"
  by (cases ev) simp_all

text \<open>A render keeps the stack when the top screen renders, and drops it when
  the top screen throws.\<close>

lemma shell_commit_ok:
  "\<not> sh_has_error st \<Longrightarrow> sh_stack st = r # rs \<Longrightarrow> rend r = Inr v \<Longrightarrow> shell_commit rend st = st"
  by (simp add: shell_commit_def)

lemma shell_commit_throws:
  "\<not> sh_has_error st \<Longrightarrow> sh_stack st = r # rs \<Longrightarrow> rend r = Inl e
   \<Longrightarrow> shell_commit rend st = st\<lparr>sh_has_error := True, sh_stack := []\<rparr>"
  by (simp add: shell_commit_def)

text \<open>While the fallback shows, a navigation does nothing and Retry brings back
  the initial screen of the app, whatever the stack was.\<close>

lemma shell_retry:
  "sh_has_error st \<Longrightarrow> rend (sh_initial st) = Inr v
   \<Longrightarrow> shell_step rend st ShRetry = \<lparr>sh_initial = sh_initial st, sh_stack = [sh_initial st], sh_has_error = False\<rparr>"
  by (simp add: shell_commit_def)

lemma proto_loaded_first:
  "s_exam_qs proto_loaded \<noteq> [] \<and> ee_subject (hd (s_exam_qs proto_loaded)) = ''constructor''"
  by (simp add: proto_loaded_def trace_eval trace_biology_def replace_subject_entries_def
      page_entries_def upt_rec)

text \<open>The documented default is the top and bottom edges; the code's default
  is the top edge only, so no screen is kept clear of the home indicator.\<close>

lemma container_edges_default: "container_edges None = [EdgeTop] \<and> EdgeBottom \<notin> set (container_edges None)"
  by (simp add: container_edges_def)

end
