(* ===== verification/Settings.thy ===== *)
theory Settings
  imports Js_Values
begin

text \<open>
  The settings screen \<open>src/app/settings/app-settings.tsx\<close>: the three theme
  options, which of them is marked as chosen, the information line, and the
  back button. The theme context is not part of \<open>src/\<close>: its \<open>themeMode\<close> is
  the state of this model and \<open>setThemeMode\<close> sets it.
\<close>

datatype theme_mode = ThemeLight | ThemeDark | ThemeSystem

fun theme_value :: "theme_mode \<Rightarrow> string" where
  "theme_value ThemeLight = ''light''"
| "theme_value ThemeDark = ''dark''"
| "theme_value ThemeSystem = ''system''"

text \<open>\<open>themeOptions\<close> (lines 19 to 23): value, label and icon.\<close>

definition theme_options :: "(theme_mode \<times> string \<times> string) list" where
  "theme_options =
     [(ThemeLight, ''Light'', ''sunny''), (ThemeDark, ''Dark'', ''moon''),
      (ThemeSystem, ''System'', ''phone-portrait'')]"

text \<open>One option as rendered (lines 54 to 89): its label, whether it is marked
  as the chosen one (primary border of width 2, primary icon and label, the
  check mark), and the mode its press sets.\<close>

record theme_tile =
  tt_label :: string
  tt_icon :: string
  tt_chosen :: bool
  tt_border_width :: nat
  tt_sets :: theme_mode

definition theme_tile :: "theme_mode \<Rightarrow> theme_mode \<times> string \<times> string \<Rightarrow> theme_tile" where
  "theme_tile cur opt = (case opt of (v, l, ic) \<Rightarrow>
     \<lparr>tt_label = l, tt_icon = ic, tt_chosen = (cur = v),
      tt_border_width = (if cur = v then 2 else 1), tt_sets = v\<rparr>)"

text \<open>The information line (lines 97 to 100).\<close>

definition theme_info :: "theme_mode \<Rightarrow> string" where
  "theme_info m =
     (if m = ThemeSystem
      then ''The app will automatically switch between light and dark mode based on your device settings.''
      else ''The app is currently using '' @ theme_value m @ '' mode.'')"

record settings_view =
  sv_title :: string
  sv_tiles :: "theme_tile list"
  sv_info :: string

definition settings_render :: "theme_mode \<Rightarrow> settings_view" where
  "settings_render m =
     \<lparr>sv_title = ''App Settings'', sv_tiles = map (theme_tile m) theme_options, sv_info = theme_info m\<rparr>"

datatype settings_event = SetBack | SetTheme nat

text \<open>The presses: the back button, and the tile at a position, which sets its
  mode.\<close>

fun settings_step :: "theme_mode \<Rightarrow> settings_event \<Rightarrow> theme_mode \<times> route option" where
  "settings_step m SetBack = (m, Some GoBack)"
| "settings_step m (SetTheme i) =
     (if i < length theme_options then (fst (theme_options ! i), None) else (m, None))"

subsection \<open>Lemmas\<close>

text \<open>Whatever the mode, exactly one tile is marked as chosen, the one of that
  mode.\<close>

lemma settings_one_chosen:
  "map tt_sets (filter tt_chosen (sv_tiles (settings_render m))) = [m]"
  by (cases m) (simp_all add: settings_render_def theme_options_def theme_tile_def)

text \<open>Pressing a tile marks that tile, and only it, as chosen on the next
  render.\<close>

lemma settings_press_marks:
  assumes "i < length theme_options"
  shows "map tt_chosen (sv_tiles (settings_render (fst (settings_step m (SetTheme i)))))
           = map (\<lambda>j. j = i) [0..<length theme_options]"
  using assms
  by (auto simp: settings_render_def theme_options_def theme_tile_def less_Suc_eq nth_Cons'
      split: if_splits)

end
