(* ===== verification/Handoff.thy ===== *)
theory Handoff
  imports Study_Page Options Subjects Instructions
begin

text \<open>
  The hand-off of a study configuration between screens: the subjects chosen on
  \<open>src/app/mode/study.tsx\<close> go to the options screen
  \<open>src/app/mode/past-options.tsx\<close> as a JSON array; its \<open>handleStart\<close> sends the
  configured options, as JSON, to the instructions screen
  \<open>src/app/mode/exam-instructions.tsx\<close> in exam mode (which forwards them as it got
  them) or straight to the study page \<open>src/app/mode/past-study.tsx\<close>, which parses
  them and starts the session. The JSON round trip is \<open>Study_Page.json_rt\<close>.
\<close>

text \<open>\<open>JSON.stringify\<close> of a \<open>SubjectOption\<close>: its properties in the order the
  options screen creates them (a spread update keeps the order).\<close>

definition option_json :: "subject_option \<Rightarrow> jsval" where
  "option_json x =
     JObj [(''subject'', JStr (so_subject x)), (''year'', JStr (so_year x)), (''topic'', JStr (so_topic x)),
           (''count'', JNum (so_count x)), (''shuffle'', JBool (so_shuffle x)),
           (''shuffleOptions'', JBool (so_shuffle_options x))]"

definition js_bool :: "jsval \<Rightarrow> bool option" where
  "js_bool v = (case v of JBool b \<Rightarrow> Some b | _ \<Rightarrow> None)"

text \<open>An element of the parsed array read with the \<open>SubjectOption\<close> type the
  study page declares; \<open>None\<close> is a value outside that type. The code casts
  the parsed value (\<open>as SubjectOption[]\<close>, \<open>past-study.tsx\<close> lines 16 to 17)
  and checks nothing; the checked reading agrees with the cast on every value
  the options screen sends (\<open>option_of_option_json\<close>), which is all the
  properties use it for.\<close>

definition option_of_json :: "jsval \<Rightarrow> subject_option option" where
  "option_of_json v =
     (case (js_str (get_field v ''subject''), js_str (get_field v ''year''), js_str (get_field v ''topic''),
            js_int (get_field v ''count''), js_bool (get_field v ''shuffle''),
            js_bool (get_field v ''shuffleOptions'')) of
        (Some s, Some y, Some t, Some c, Some sh, Some sho) \<Rightarrow>
          Some \<lparr>so_subject = s, so_year = y, so_topic = t, so_count = c, so_shuffle = sh, so_shuffle_options = sho\<rparr>
      | _ \<Rightarrow> None)"

text \<open>A JSON array parameter as both screens read it (lines 12 to 19 of
  \<open>past-options.tsx\<close>, lines 14 to 21 of \<open>past-study.tsx\<close>): a missing or
  unparsable parameter, or one that is not an array, is the empty array.\<close>

definition json_list_param :: "route_param option \<Rightarrow> jsval list" where
  "json_list_param p =
     (case p of Some (PJson v) \<Rightarrow> (case json_rt v of JArr vs \<Rightarrow> vs | _ \<Rightarrow> []) | _ \<Rightarrow> [])"

text \<open>\<open>handleStart\<close> of the options screen (lines 21 to 39), with its \<open>mode\<close>
  parameter: \<open>String(params.mode)\<close> in exam mode, \<open>String(params.mode || "study")\<close>
  otherwise.\<close>

definition start_route :: "string option \<Rightarrow> subject_option list \<Rightarrow> route" where
  "start_route md os =
     (if md = Some ''exam'' then
        Push ''/mode/exam-instructions'' [(''options'', PJson (JArr (map option_json os))), (''mode'', PStr ''exam'')]
      else
        Push ''/mode/past-study''
          [(''options'', PJson (JArr (map option_json os))),
           (''mode'', PStr (case md of Some m \<Rightarrow> if m = [] then ''study'' else m | None \<Rightarrow> ''study''))])"

text \<open>The configuration the study page starts its session with: the parsed
  options (when all of them have the declared type) and exam mode when the
  \<open>mode\<close> parameter is \<open>"exam"\<close>.\<close>

definition study_page_config :: "route \<Rightarrow> (subject_option list \<times> bool) option" where
  "study_page_config r =
     map_option (\<lambda>os. (os, route_arg r ''mode'' = Some (PStr ''exam'')))
       (those (map option_of_json (json_list_param (route_arg r ''options''))))"

subsection \<open>The declared types of the JSON parameters\<close>

text \<open>The TypeScript types the receiving screens declare for the parsed values,
  and what it is for a JSON value to have one: a string, number or boolean of
  that kind, an array of elements of the type, an object with each listed
  property of its type, or an optional property (\<open>?\<close>) that is absent or of
  its type.\<close>

datatype jtype = TStr | TNum | TBool | TArr jtype | TObj "(string \<times> jtype) list" | TOpt jtype

fun has_jtype :: "jtype \<Rightarrow> jsval \<Rightarrow> bool" where
  "has_jtype TStr v = (case v of JStr _ \<Rightarrow> True | _ \<Rightarrow> False)"
| "has_jtype TNum v = (case v of JNum _ \<Rightarrow> True | _ \<Rightarrow> False)"
| "has_jtype TBool v = (case v of JBool _ \<Rightarrow> True | _ \<Rightarrow> False)"
| "has_jtype (TArr t) v = (case v of JArr vs \<Rightarrow> list_all (has_jtype t) vs | _ \<Rightarrow> False)"
| "has_jtype (TObj fs) v =
     ((case v of JObj _ \<Rightarrow> True | _ \<Rightarrow> False) \<and> list_all (\<lambda>kt. has_jtype (snd kt) (get_field v (fst kt))) fs)"
| "has_jtype (TOpt t) v = (v = JUndefined \<or> has_jtype t v)"

text \<open>\<open>SubjectOption\<close> (\<open>PastOptions.tsx\<close>, lines 18 to 25), \<open>SubjectResult\<close>
  (\<open>exam-results.tsx\<close>, lines 8 to 13) and \<open>QuestionWithAnswer\<close>
  (\<open>exam-corrections.tsx\<close>, lines 8 to 16).\<close>

definition option_type :: jtype where
  "option_type = TObj [(''subject'', TStr), (''year'', TStr), (''topic'', TStr), (''count'', TNum),
                       (''shuffle'', TBool), (''shuffleOptions'', TBool)]"

definition result_type :: jtype where
  "result_type = TObj [(''subject'', TStr), (''score'', TNum), (''total'', TNum), (''percentage'', TNum)]"

definition answer_type :: jtype where
  "answer_type = TObj [(''subject'', TStr), (''question'', TStr), (''options'', TArr TStr),
     (''correctAnswer'', TStr), (''userAnswer'', TOpt TStr), (''instruction'', TOpt TStr),
     (''correction'', TOpt TStr)]"

subsection \<open>Lemmas\<close>

lemma option_json_rt: "json_rt (option_json x) = option_json x"
  by (simp add: option_json_def object_entries_plain is_index_key_def is_digit_def)

lemma option_of_option_json: "option_of_json (option_json x) = Some x"
  by (simp add: option_of_json_def option_json_def js_str_def js_int_def js_bool_def)

lemma option_json_defined [simp]: "option_json x \<noteq> JUndefined"
  by (simp add: option_json_def)

lemma json_list_param_options:
  "json_list_param (Some (PJson (JArr (map option_json os)))) = map option_json os"
  by (simp add: json_list_param_def option_json_rt)

lemma start_route_target:
  "(\<exists>ps. start_route md os = Push (if handle_start md = ToExamInstructions then ''/mode/exam-instructions''
                                      else ''/mode/past-study'') ps)"
  by (simp add: start_route_def handle_start_def)

lemma route_arg_start_route:
  "route_arg (start_route md os) ''options'' = Some (PJson (JArr (map option_json os)))"
  by (simp add: start_route_def route_arg_def)

lemma those_option_json: "those (map (option_of_json \<circ> option_json) os) = Some os"
  by (induction os) (simp_all add: option_of_option_json)

lemma those_js_str: "those (map (js_str \<circ> JStr) xs) = Some xs"
  by (induction xs) (simp_all add: js_str_def)

text \<open>
  C19. What the user chooses reaches the session unchanged: the subjects picked
  on the study screen arrive on the options screen as the same strings, and the
  options configured there arrive on the study page as the same options, in
  study mode directly and in exam mode through the instructions screen, whatever
  its state, with exam mode on.
\<close>

theorem configuration_reaches_session:
  "(study_proceed sel = Some r \<longrightarrow> those (map js_str (json_list_param (route_arg r ''subjects''))) = Some sel)
   \<and> study_page_config (start_route (Some ''study'') os) = Some (os, False)
   \<and> study_page_config (ei_start (route_arg (start_route (Some ''exam'') os) ''options'') (Some ''exam'') st)
       = Some (os, True)"
proof (intro conjI impI)
  assume "study_proceed sel = Some r"
  then have "route_arg r ''subjects'' = Some (PJson (JArr (map JStr sel)))"
    by (auto simp: study_proceed_def route_arg_def split: if_splits)
  then show "those (map js_str (json_list_param (route_arg r ''subjects''))) = Some sel"
    by (simp add: json_list_param_def json_rt_JStr_list those_js_str del: json_rt.simps)
next
  show "study_page_config (start_route (Some ''study'') os) = Some (os, False)"
    by (simp add: study_page_config_def route_arg_start_route json_list_param_options those_option_json)
       (simp add: start_route_def route_arg_def)
next
  show "study_page_config (ei_start (route_arg (start_route (Some ''exam'') os) ''options'') (Some ''exam'') st)
       = Some (os, True)"
    unfolding route_arg_start_route
    by (simp add: study_page_config_def ei_start_def route_arg_def json_list_param_options those_option_json)
qed

theorem configuration_reaches_session_witness:
  "study_proceed [''Biology''] = Some (Push ''/mode/past-options''
       [(''subjects'', PJson (JArr [JStr ''Biology''])), (''mode'', PStr ''study'')])
   \<and> those (map js_str (json_list_param (route_arg (Push ''/mode/past-options''
       [(''subjects'', PJson (JArr [JStr ''Biology''])), (''mode'', PStr ''study'')]) ''subjects''))) = Some [''Biology'']
   \<and> study_page_config (ei_start (route_arg (start_route (Some ''exam'') [trace_biology]) ''options'') (Some ''exam'') ei_init)
       = Some ([trace_biology], True)"
proof -
  have p: "study_proceed [''Biology''] = Some (Push ''/mode/past-options''
       [(''subjects'', PJson (JArr [JStr ''Biology''])), (''mode'', PStr ''study'')])"
    by (simp add: study_proceed_def)
  show ?thesis
    using configuration_reaches_session [of "[''Biology'']" "Push ''/mode/past-options''
       [(''subjects'', PJson (JArr [JStr ''Biology''])), (''mode'', PStr ''study'')]" "[trace_biology]" ei_init] p
    by simp
qed

lemma option_of_json_typed: "option_of_json v \<noteq> None \<longleftrightarrow> has_jtype option_type v"
  by (cases v) (auto simp: option_of_json_def option_type_def js_str_def js_int_def js_bool_def
      split: jsval.splits option.splits)

lemma option_json_typed: "has_jtype option_type (option_json x)"
  by (simp add: option_type_def option_json_def)

lemma sr_json_typed: "has_jtype result_type (sr_json r)"
  by (simp add: result_type_def sr_json_def)

lemma ce_json_typed:
  "has_jtype answer_type (ce_json e) \<longleftrightarrow>
     has_jtype TStr (ce_question e) \<and> has_jtype TStr (ce_correct e)
     \<and> has_jtype (TOpt TStr) (ce_instruction e) \<and> has_jtype (TOpt TStr) (ce_correction e)"
  by (cases "ce_user e") (simp_all add: answer_type_def ce_json_def list_all_iff)

text \<open>
  The values the screens send each other as JSON have the types the
  receiving screens declare, except the corrections data: every configured
  option and every subject result is well typed, and the study page's reading
  of an option succeeds exactly on values of the \<open>SubjectOption\<close> type; but a
  corrections entry has the \<open>QuestionWithAnswer\<close> type only when its question,
  answer, instruction and correction are strings (or absent), which the service
  does not guarantee: a question whose answer is the number 2 reaches the
  corrections screen with a number as \<open>correctAnswer\<close>.
\<close>

theorem handoff_types:
  "has_jtype option_type (option_json x)
   \<and> has_jtype result_type (sr_json r)
   \<and> (option_of_json v \<noteq> None \<longleftrightarrow> has_jtype option_type v)
   \<and> (has_jtype answer_type (ce_json e) \<longleftrightarrow>
        has_jtype TStr (ce_question e) \<and> has_jtype TStr (ce_correct e)
        \<and> has_jtype (TOpt TStr) (ce_instruction e) \<and> has_jtype (TOpt TStr) (ce_correction e))
   \<and> \<not> has_jtype answer_type (ce_json (hd (questions_data
          [\<lparr>ee_subject = ''Maths'', ee_question = normalize_question
              (JObj [(''question'', JStr ''1 + 1 = ?''), (''options'', JArr [JNum 1, JNum 2]), (''answer'', JNum 2)]),
             ee_global = ''Maths-0''\<rparr>] Map.empty)))"
proof -
  have "\<not> has_jtype answer_type (ce_json (hd (questions_data
          [\<lparr>ee_subject = ''Maths'', ee_question = normalize_question
              (JObj [(''question'', JStr ''1 + 1 = ?''), (''options'', JArr [JNum 1, JNum 2]), (''answer'', JNum 2)]),
             ee_global = ''Maths-0''\<rparr>] Map.empty)))"
    by (simp add: ce_json_typed questions_data_def normalize_question_def js_or_def)
  then show ?thesis
    using option_json_typed [of x] sr_json_typed [of r] option_of_json_typed [of v] ce_json_typed [of e]
    by blast
qed

end
