(* ===== verification/Session_View.thy ===== *)
theory Session_View
  imports Session
begin

text \<open>
  The chrome of \<open>PastStudy\<close> (\<open>src/components/screens/PastStudy.tsx\<close>) around the
  question list, as a function of the session: the heading with the exam
  counter (lines 276 to 278), the row of subject tabs with the underline of
  the open one (lines 279 to 292), and the page label of study mode (lines 504
  to 508). The counter is the absolute ordinal of the shown question,
  \<open>(page - 1) * 10 + currentQuestionIndex + 1\<close>, over the configured count.
\<close>

text \<open>The heading \<open>{activeSubject} {mode === "exam" && activeOpts && `(...)`}\<close>:
  the subject, the JSX space between the two expressions, and the counter when
  the mode is exam and the subject has its options (\<open>false\<close> and \<open>undefined\<close>
  render nothing).\<close>

definition session_title :: "session \<Rightarrow> string" where
  "session_title s =
     active_subject s @ '' '' @
     (case active_opts s of
        Some x \<Rightarrow>
          if exam s then ''('' @ int_str ((s_page s - 1) * 10 + s_qidx s + 1) @ ''/'' @ int_str (so_count x) @ '')''
          else []
      | None \<Rightarrow> [])"

text \<open>The tabs, in the order of the options: the subject and whether the tab is
  underlined (\<open>i === currentIdx\<close>). A press is the event \<open>EvTab i\<close>.\<close>

definition subject_tabs :: "session \<Rightarrow> (string \<times> bool) list" where
  "subject_tabs s = map (\<lambda>(i, x). (so_subject x, i = s_idx s)) (enumerate 0 (opts s))"

text \<open>\<open>Page: {page}/{totalPages}\<close>, shown outside exam mode only.\<close>

definition page_label :: "session \<Rightarrow> string option" where
  "page_label s = (if exam s then None else Some (''Page: '' @ int_str (s_page s) @ ''/'' @ int_str (s_total s)))"

text \<open>The exam of \<open>Session.trace_loaded\<close> (Biology with a count of 20, the
  fallback bank of five pages) after the page selector's chip for page 3 of
  Biology.\<close>

definition trace_page3 :: session where "trace_page3 = session_step trace_loaded (EvSheet 0 3)"

subsection \<open>Lemmas\<close>

lemma filter_enumerate_fst:
  "filter (\<lambda>p. fst p = k) (enumerate n xs)
     = (if n \<le> k \<and> k < n + length xs then [(k, xs ! (k - n))] else [])"
proof (induction xs arbitrary: n)
  case Nil
  then show ?case by simp
next
  case (Cons x xs)
  show ?case
  proof (cases "k = n")
    case True
    have "filter (\<lambda>p. fst p = k) (enumerate (Suc n) xs) = []" using Cons.IH [of "Suc n"] True by simp
    then show ?thesis using True by simp
  next
    case False
    then show ?thesis by (auto simp: Cons.IH nth_Cons' Suc_le_eq)
  qed
qed

lemma active_opts_found:
  "s_idx s < length (opts s) \<Longrightarrow> \<exists>x. active_opts s = Some x"
  by (cases "active_opts s") (auto simp: active_opts_def active_subject_def find_None_iff dest: nth_mem)

lemma subject_tabs_active:
  assumes "s_idx s < length (opts s)"
  shows "filter snd (subject_tabs s) = [(active_subject s, True)]"
proof -
  have "filter snd (subject_tabs s)
      = map (\<lambda>(i, x). (so_subject x, i = s_idx s)) (filter (\<lambda>p. fst p = s_idx s) (enumerate 0 (opts s)))"
    by (simp add: subject_tabs_def filter_map comp_def case_prod_beta)
  then show ?thesis using assms by (simp add: filter_enumerate_fst active_subject_def)
qed

lemma find_distinct_nth:
  assumes "distinct (map f xs)" "i < length xs"
  shows "find (\<lambda>x. f x = f (xs ! i)) xs = Some (xs ! i)"
proof -
  have "\<forall>j<i. f (xs ! j) \<noteq> f (xs ! i)"
    using assms by (auto simp: distinct_conv_nth)
  then show ?thesis using assms(2) by (auto simp: find_Some_iff)
qed

lemma sheet_step_fields:
  "opts (session_step s (EvSheet i p)) = opts s \<and> exam (session_step s (EvSheet i p)) = exam s
   \<and> s_idx (session_step s (EvSheet i p)) = i \<and> s_page (session_step s (EvSheet i p)) = p"
  by simp

lemma tabs_one_underlined: "reachable s \<Longrightarrow> filter snd (subject_tabs s) = [(active_subject s, True)]"
  using reachable_inv subject_tabs_active by (simp add: session_inv_def)

lemma exam_title_of_inv:
  assumes "session_inv s" "exam s"
  shows "session_title s = active_subject s @ '' ('' @ int_str ((s_page s - 1) * 10 + s_qidx s + 1) @ ''/''
           @ int_str (sel_count_of s) @ '')''
    \<and> 1 \<le> (s_page s - 1) * 10 + s_qidx s + 1 \<and> (s_page s - 1) * 10 + s_qidx s + 1 \<le> 10 * s_page s"
proof -
  obtain x where x: "active_opts s = Some x"
    using active_opts_found assms(1) by (auto simp: session_inv_def)
  have "0 \<le> s_qidx s" "s_qidx s \<le> 9" "1 \<le> s_page s" using assms(1) by (simp_all add: session_inv_def)
  then show ?thesis using x assms(2) by (simp add: session_title_def sel_count_of_def)
qed

lemma study_title_of: "\<not> exam s \<Longrightarrow> session_title s = active_subject s @ '' '' \<and> page_label s \<noteq> None"
  by (simp add: session_title_def page_label_def split: option.splits)

text \<open>
  C22. Nothing bounds the exam heading's counter by the configured count: in
  every reachable exam session (with distinct subjects, as the subject
  selection makes them), whenever the page selector offers a page of a subject
  that starts past the subject's count, pressing its chip is allowed, and the
  heading then shows a counter above the count.
\<close>

theorem exam_heading_counter:
  assumes "reachable s" "exam s" "distinct (map so_subject (opts s))" "i < length (opts s)"
      and "1 \<le> p" "p \<le> sheet_pages s i" "so_count (opts s ! i) \<le> 10 * (p - 1)"
  shows "reachable (session_step s (EvSheet i p))
    \<and> (\<exists>c. session_title (session_step s (EvSheet i p))
             = so_subject (opts s ! i) @ '' ('' @ int_str c @ ''/'' @ int_str (so_count (opts s ! i)) @ '')''
           \<and> so_count (opts s ! i) < c)"
proof -
  define s' where "s' = session_step s (EvSheet i p)"
  have r: "reachable s'" unfolding s'_def
    using assms(1,4,5,6) by (intro reachable.step en_sheet)
  have f: "opts s' = opts s" "exam s'" "s_idx s' = i" "s_page s' = p"
    using assms(2) sheet_step_fields [of s i p] by (simp_all add: s'_def)
  have subj: "active_subject s' = so_subject (opts s ! i)" using f by (simp add: active_subject_def)
  have cnt: "sel_count_of s' = so_count (opts s ! i)"
    using f find_distinct_nth [OF assms(3,4)]
    by (simp add: sel_count_of_def active_opts_def active_subject_def)
  have inv: "session_inv s'" using reachable_inv [OF r] .
  have q: "0 \<le> s_qidx s'" using inv by (simp add: session_inv_def)
  have "so_count (opts s ! i) < (s_page s' - 1) * 10 + s_qidx s' + 1" using assms(7) f(4) q by simp
  then have "\<exists>c. session_title s' = so_subject (opts s ! i) @ '' ('' @ int_str c @ ''/''
                 @ int_str (so_count (opts s ! i)) @ '')'' \<and> so_count (opts s ! i) < c"
    using exam_title_of_inv [OF inv f(2)] subj cnt by auto
  then show ?thesis using r by (simp add: s'_def)
qed

theorem exam_heading_counter_witness:
  "reachable trace_page3
   \<and> (\<exists>c. session_title trace_page3 = ''Biology'' @ '' ('' @ int_str c @ ''/'' @ int_str 20 @ '')'' \<and> 20 < c)"
proof -
  have sp: "sheet_pages trace_loaded 0 = 5"
    using trace_loaded_fields by (simp add: sheet_pages_def trace_biology_def)
  show ?thesis
    using exam_heading_counter [of trace_loaded 0 3] trace_loaded_reach trace_loaded_fields sp
    by (simp add: trace_page3_def trace_biology_def trace_chemistry_def)
qed

end
