(* ===== verification/Spec2Isabelle.thy ===== *)
theory Spec2Isabelle
  imports Exam_Prelude Pagination Js_Values Questions Shuffle Navigation Scoring Timer Session Corrections Options Flashcards Results Subjects Bookmarks Instructions Study_Page Home Account Tab_Bar Calculator Auth_Forms Performance Welcome App_Shell Settings Animation Handoff Session_View
begin

text \<open>
  \<^bold>\<open>A verification development of jamb-cbt-mobile.\<close>
  The repository is an Expo / React Native application for practising past
  questions of the JAMB examination. Its logic is in the screens: a question
  bank fetched page by page from an external service (with a local fallback
  bank), a per-subject configuration screen, a study/exam session that pages,
  shuffles, records answers and counts down, a results screen, a corrections
  review, subject selection, bookmarks, and flashcards. The screens hand data to
  each other as router parameters, JSON strings built by \<open>JSON.stringify\<close>.

  \<^bold>\<open>How the code is modelled.\<close> Each screen's state is a record, its
  inputs (presses, settled requests, animation callbacks) a datatype of events,
  and its handlers one step function; where the code runs React effects after a
  handler, the step applies them in React's order until none fires (a
  \<^emph>\<open>settled\<close> state). Reachable states are an inductive predicate over the
  enabled events, and invariants are proved by rule induction. Errors and early
  returns are values (\<open>option\<close>, a sum with an error datatype). Everything is
  executable; concrete runs are evaluated by \<open>simp\<close> or \<open>code_simp\<close>.

  \<^bold>\<open>Theories, in import order.\<close>
  \<^item> \<open>Exam_Prelude\<close>: decimal printing and parsing (\<open>`${n}`\<close>, \<open>parseInt\<close> on
    digits), list and map lemmas shared by the components, the collection
    \<open>exam_simps\<close>.
  \<^item> \<open>Pagination\<close>: \<open>src/components/utils/pagination.js\<close> (\<open>clampPage\<close>,
    \<open>computeNextEnabled\<close>, \<open>computePrevEnabled\<close>) and the page-count formula of
    \<open>PastStudy.tsx\<close>; JavaScript numbers as \<open>js_number\<close> (a rational or a
    non-finite constructor).
  \<^item> \<open>Js_Values\<close>: the JSON values of the service (\<open>jsval\<close>), truthiness,
    \<open>||\<close>, \<open>??\<close>, \<open>String\<close>, \<open>Number\<close>, \<open>Object.entries\<close>/\<open>keys\<close>/\<open>values\<close>
    order, \<open>slice\<close>, the prototype member names, screen parameters and routes.
  \<^item> \<open>Questions\<close>: the question adapter and the loading effect of
    \<open>PastStudy.tsx\<close> (\<open>normalize_question\<close>, \<open>load_page\<close>) and the fallback bank
    \<open>src/components/data/sampleQuestions.ts\<close>.
  \<^item> \<open>Shuffle\<close>: \<open>shuffleArray\<close> (Fisher-Yates) and \<open>displayedQuestions\<close>, with
    \<open>Math.random\<close> a stream of draws in \<open>[0,1)\<close>.
  \<^item> \<open>Navigation\<close>: \<open>handleNext\<close>, \<open>handlePrev\<close> and the pager's disabled states
    with the parent callbacks of \<open>src/app/mode/past-study.tsx\<close>.
  \<^item> \<open>Scoring\<close>: \<open>handleSubmit\<close> (per-subject results, corrections data) and the
    summary of the results screen (totals, \<open>Math.round\<close>, \<open>getGrade\<close>).
  \<^item> \<open>Timer\<close>: the duration parser, the countdown effect and \<open>formatTime\<close> of
    \<open>past-study.tsx\<close>, \<open>TIME_OPTIONS\<close> of the instructions screen.
  \<^item> \<open>Session\<close>: the whole session of \<open>PastStudyPage\<close> and \<open>PastStudy\<close> as one
    state record and \<open>session_step\<close>, with the effects E1 to E6 of
    \<open>PastStudy.tsx\<close> (question-index reset, loading, original questions, the
    exam entries, the two notifications to the parent) and the invariant
    \<open>session_inv\<close>.
  \<^item> \<open>Corrections\<close>: \<open>src/app/mode/exam-corrections.tsx\<close>, its grouping by
    subject, its navigation refined to a cursor over one list (\<open>flat_of\<close>), and
    what a render shows.
  \<^item> \<open>Options\<close>: \<open>src/components/screens/PastOptions.tsx\<close> and
    \<open>src/app/mode/past-options.tsx\<close>, with its background requests split at
    their \<open>await\<close>s, the \<open>buildItems\<close> loop as a terminating \<open>function\<close>.
  \<^item> \<open>Flashcards\<close>: the decks of \<open>src/components/data/flashcardsData.ts\<close>, the
    grid of \<open>src/app/flashcards/index.tsx\<close> and the deck screen of
    \<open>src/app/flashcards/[id].tsx\<close> with its slide animations.
  \<^item> \<open>Results\<close>: the rendered results screen \<open>src/app/mode/exam-results.tsx\<close>.
  \<^item> \<open>Subjects\<close>: \<open>src/components/screens/SubjectSelect.tsx\<close> (the three
    service requests, their cleanup by generation, \<open>toggleSubject\<close>, the
    render) and \<open>src/app/mode/study.tsx\<close>.
  \<^item> \<open>Bookmarks\<close>: the bookmark of the exam card and the study list of
    \<open>PastStudy.tsx\<close>, and \<open>src/app/mode/saved-questions.tsx\<close>; the saved-questions
    store (a context outside \<open>src/\<close>) by its contract.
  \<^item> \<open>Instructions\<close>: \<open>src/app/mode/exam-instructions.tsx\<close>.
  \<^item> \<open>Home\<close>: \<open>src/components/screens/HomeScreen.tsx\<close> without its animated
    values: greeting, sub-greeting, hero rotation, quick links, mode modal.
  \<^item> \<open>Account\<close>: the session banner \<open>src/components/auth/SessionStatus.tsx\<close>
    and the menu \<open>src/components/screens/MenuBricks.tsx\<close> with its logout and
    delete-account dialogs; calls to the authentication context and the account
    API are events whose outcome the environment chooses; the route shells of
    \<open>src/app/(tabs)/menu.tsx\<close> and \<open>src/app/auth/edit-profile.tsx\<close>.
  \<^item> \<open>Tab_Bar\<close>: \<open>src/components/ui/GlassTabBar.tsx\<close> (colours, labels, the
    press handler and the indicator's target).
  \<^item> \<open>Calculator\<close>: \<open>src/components/Calculator.tsx\<close>, with \<open>eval\<close> a parameter.
  \<^item> \<open>Auth_Forms\<close>: the forms of \<open>src/app/auth/\<close> (login, sign-up, forgotten,
    reset and changed password) and \<open>src/components/screens/EditProfileScreen.tsx\<close>:
    their validity, submit buttons (disabled, spinner), submit handlers split at the API call,
    messages, and the password field and strength meter; the validators of
    \<open>@/utils/validation\<close> are a record of parameters; each form is an instance of
    one request controller (\<open>form_ops\<close>, \<open>form_step\<close>).
  \<^item> \<open>Performance\<close>: \<open>src/app/performance/index.tsx\<close>, its fixed statistics and
    the texts and bars derived from them.
  \<^item> \<open>Welcome\<close>: \<open>src/app/index.tsx\<close>, the authenticated test, the redirect
    effect with its dependencies, and the sign-up and login buttons.
  \<^item> \<open>App_Shell\<close>: the stack navigator of \<open>src/app/_layout.tsx\<close> inside
    \<open>NavigationErrorBoundary\<close> (push, back, the fallback, which unmounts the
    navigator and drops its stack, and Retry, which mounts it again on the
    app's initial route), with the exam
    results and corrections screens as the screens it renders.
  \<^item> \<open>Settings\<close>: \<open>src/app/settings/app-settings.tsx\<close>, the theme options with the
    context's \<open>themeMode\<close> as state.
  \<^item> \<open>Animation\<close>: a semantics of \<open>Animated.timing\<close>, \<open>sequence\<close>, \<open>parallel\<close>
    and \<open>loop\<close> over rational time, and the loops of
    \<open>src/components/ui/AnimatedLoader.tsx\<close> and of the home screen (shimmer,
    badge pulse, the two aurora bands) in it.
  \<^item> \<open>Handoff\<close>: the configuration passed from \<open>study.tsx\<close> to \<open>past-options.tsx\<close>,
    on to \<open>exam-instructions.tsx\<close> and \<open>past-study.tsx\<close>, as JSON parameters.
  \<^item> \<open>Session_View\<close>: the heading of \<open>PastStudy.tsx\<close> with its exam counter, the
    subject tabs and the study page label, as functions of the session.
  \<^item> \<open>Study_Page\<close>: the header, the page-selector sheet and \<open>handleSubmit\<close>'s route
    of \<open>past-study.tsx\<close>, and the JSON hand-off (\<open>json_rt\<close>, terminating by the
    size of the value) to the results and corrections screens.
  This theory holds the properties that span screens.

  \<^bold>\<open>What the lemmas show.\<close> Invariants of every screen that has a state
  machine (the session, the options screen, the deck screen, subject selection,
  the corrections review); the functional behaviour of the handlers on every
  branch, the errors included (a failed request, a prototype-named subject, an
  empty year list); a refinement of the corrections navigation by a cursor; the
  equivalence of \<open>shuffleArray\<close> with the permutations and of the corrections
  grouping with a reference grouping; termination of \<open>buildItems\<close> and
  \<open>json_rt\<close>; round trips (Next/Prev, \<open>formatTime\<close>, bookmarks, the JSON
  hand-off from submission to the results and the review, and of the
  configuration from subject selection to the session); one request in flight
  for every form; bounds of pages (\<open>clampPage\<close> over JavaScript numbers),
  percentages, the 16-bit option labels and the animated values. Several of
  them establish defects of the code, listed with the manifest: answers keyed
  by in-page index and by the open subject only, a stale display after a same-length fetch, a late
  count refresh filling the year menu, the flashcard slide glitch, the
  reveal flags keyed by position and kept across pages, an exam heading counter
  that the page selector carries past the configured count, the year \<open>"undefined"\<close>, the corrections crash,
  after which the root error boundary's Retry loses the submitted exam, a
  \<open>clampPage\<close> that returns a fractional page, a logout dialog that
  closes without cancelling, a profile field that cannot be cleared, and the
  loader's dots drifting apart.

  \<^bold>\<open>Approximations.\<close> Numbers of the service and the configuration are
  integers and \<open>Math.random\<close> and the percentages are exact rationals (no
  floating-point rounding); \<open>toLowerCase\<close>, \<open>toUpperCase\<close> and \<open>\s\<close> are ASCII;
  a string parameter that is not produced by \<open>JSON.stringify\<close> is read as
  unparsable; React effects are taken in their settled order and a slide
  animation's callback in start order; animation time is rational milliseconds,
  with the easings that have no rational form as parameters. A route
  parameter is read back by a checked conversion (\<open>option_of_json\<close>,
  \<open>sr_of_json\<close>, \<open>ce_of_json\<close>) where the code only casts the result of
  \<open>JSON.parse\<close>; on every value the senders build the two agree
  (\<open>option_of_option_json\<close> and the other round-trip lemmas). A non-finite
  page count from the service is taken as one page (\<open>js_page_int\<close>), where the
  code would keep \<open>NaN\<close>. A session starts with at least one subject
  (\<open>reachable.start\<close>): with none, \<open>activeSubject\<close> is \<open>undefined\<close> and
  the screen has no question to show, which the model leaves out. The
  remounted navigator after Retry starts on its initial route, and a screen
  left by \<open>router.replace\<close> (the menu after a logout) takes no further events.
  No bound or fuel is needed: every loop of
  the code is a structural recursion or a \<open>function\<close> with a measure
  (\<open>count_steps\<close>, \<open>json_rt\<close>).

  \<^bold>\<open>Not modelled.\<close> The springs of the home screen, the tab bar, the deck
  and the dialogs (their targets are modelled, not the motion: a spring follows
  a damped oscillation, which has no closed form over the rationals); the
  authentication and theme contexts and the validators, which are parameters or
  state of the screens that use them; JavaScript's \<open>eval\<close> behind the calculator's \<open>=\<close> key; layout
  styles (the container's colour comes from a hook outside \<open>src/\<close>, the tab
  layout options are constants); the Metro configuration (bundler settings,
  no behaviour of the app) and \<open>src/polyfill.js\<close> (\<open>toReversed\<close>, which no file
  of \<open>src/\<close> calls); the theme and context providers of the root layout; the question-bank service, the authentication API and the
  saved-questions store beyond their contracts.
\<close>

section \<open>Properties across screens\<close>

text \<open>
  C35. Submitting an exam opens the results screen on exactly the per-subject
  results computed from the session's answers, and its Show Corrections button
  opens the review on the corrections data of every question seen, in order, each
  value field having made the JSON round trip.
\<close>

theorem submit_reaches_results_and_corrections:
  "results_screen_of (submit_route s)
     = Some (exam_results_screen (ParamJson (subject_results (opts s) (s_exam_qs s) (s_answers s)))
                                 (route_arg (submit_route s) ''questionsData''))
   \<and> corrections_of (submit_route s) = Some (map ce_rt (questions_data (s_exam_qs s) (s_answers s)))"
proof -
  have r: "results_param (route_arg (submit_route s) ''results'')
           = Some (ParamJson (subject_results (opts s) (s_exam_qs s) (s_answers s)))"
    by (simp add: results_param_def route_arg_def submit_route_def sr_json_rt sr_of_sr_json
          those_map_Some_id)
  with corrections_of_submit_route show ?thesis by (simp add: results_screen_of_def)
qed

text \<open>
  C31. A subject named like a member of \<open>Object.prototype\<close> (for instance
  \<open>"constructor"\<close>, a name the question service chooses) loses the exam: after
  the exam is submitted, pressing Show Corrections on the results screen makes
  the corrections screen throw while it renders, the error boundary of the root
  layout replaces the navigator by its fallback and the navigation stack is
  dropped, so Retry brings back only the app's first screen, with the results
  screen gone.
\<close>

theorem corrections_crash_loses_exam:
  assumes "e \<in> set (s_exam_qs s)" "ee_subject e \<in> set proto_keys"
  shows "shell_view app_screen
           (fold (\<lambda>ev st. shell_step app_screen st ev)
              [ShNav (submit_route s), ShNav (show_corrections (route_arg (submit_route s) ''questionsData''))]
              (shell_init app_screen (Push ''/'' [])))
         = Some Fallback
    \<and> sh_stack (fold (\<lambda>ev st. shell_step app_screen st ev)
              [ShNav (submit_route s), ShNav (show_corrections (route_arg (submit_route s) ''questionsData''))]
              (shell_init app_screen (Push ''/'' []))) = []
    \<and> shell_step app_screen
          (fold (\<lambda>ev st. shell_step app_screen st ev)
              [ShNav (submit_route s), ShNav (show_corrections (route_arg (submit_route s) ''questionsData''))]
              (shell_init app_screen (Push ''/'' [])))
          ShRetry
        = shell_init app_screen (Push ''/'' [])"
proof -
  let ?c = "show_corrections (route_arg (submit_route s) ''questionsData'')"
  let ?h = "Push ''/'' []"
  have c: "corrections_param (route_arg ?c ''questionsData'') = Some (map ce_rt (questions_data (s_exam_qs s) (s_answers s)))"
    using corrections_of_submit_route [of s] by (simp add: corrections_of_def)
  have "\<exists>q \<in> set (map ce_rt (questions_data (s_exam_qs s) (s_answers s))). ce_subject q \<in> set proto_keys"
    using assms by (force simp: questions_data_def ce_rt_def)
  then have crash: "app_screen ?c = Inl TypeError_push_not_function"
    using c by (simp add: app_screen_def show_corrections_def corr_render_def group_by_subject_def)
  have results: "\<exists>v. app_screen (submit_route s) = Inr v"
    by (auto simp: app_screen_def submit_route_def split: option.splits)
  have home: "app_screen ?h = Inr (OtherScreen ?h)"
    by (simp add: app_screen_def)
  have s1: "shell_init app_screen ?h = \<lparr>sh_initial = ?h, sh_stack = [?h], sh_has_error = False\<rparr>"
    using home by (simp add: shell_init_def shell_commit_def)
  obtain ps where ps: "submit_route s = Push ''/mode/exam-results'' ps"
    by (simp add: submit_route_def)
  have s2: "shell_step app_screen (shell_init app_screen ?h) (ShNav (submit_route s))
      = \<lparr>sh_initial = ?h, sh_stack = [submit_route s, ?h], sh_has_error = False\<rparr>"
    using results s1 by (auto simp: ps shell_commit_def)
  have s3: "shell_step app_screen \<lparr>sh_initial = ?h, sh_stack = [submit_route s, ?h], sh_has_error = False\<rparr> (ShNav ?c)
      = \<lparr>sh_initial = ?h, sh_stack = [], sh_has_error = True\<rparr>"
    using crash by (simp add: shell_commit_def show_corrections_def)
  have s4: "shell_step app_screen \<lparr>sh_initial = ?h, sh_stack = [], sh_has_error = True\<rparr> ShRetry
      = shell_init app_screen ?h"
    using shell_retry [of "\<lparr>sh_initial = ?h, sh_stack = [], sh_has_error = True\<rparr>" app_screen] home s1 by simp
  show ?thesis using s2 s3 s4 by (simp add: shell_view_def)
qed

theorem corrections_crash_loses_exam_witness:
  "shell_view app_screen
     (fold (\<lambda>ev st. shell_step app_screen st ev)
        [ShNav (submit_route proto_loaded),
         ShNav (show_corrections (route_arg (submit_route proto_loaded) ''questionsData''))]
        (shell_init app_screen (Push ''/'' [])))
   = Some Fallback"
proof -
  have "hd (s_exam_qs proto_loaded) \<in> set (s_exam_qs proto_loaded)"
       "ee_subject (hd (s_exam_qs proto_loaded)) \<in> set proto_keys"
    using proto_loaded_first by (simp_all add: proto_keys_def)
  from corrections_crash_loses_exam [OF this] show ?thesis
    by simp
qed

end
